(* ===== verification/Prelude.thy ===== *)
theory Prelude
  imports Main "HOL-Library.Word" "HOL-Library.Char_ord" "HOL-Library.List_Lexorder"
begin

text \<open>
  The language layer of the development: Go's strings and byte slices, Go's
  (value, error) results and panics over a mutable context, and the few functions of
  Go's standard library that the modules call. Everything here is shared by the
  component theories; nothing here is specific to one module.
\<close>

section \<open>Collections of rules\<close>

named_theorems go_defs "unfolding rules of the context monad"
named_theorems go_elims "inversion rules for computations that return normally"

section \<open>Strings and byte slices\<close>

text \<open>
  A Go string and a Go byte slice are both sequences of bytes, and a HOL char is a byte:
  both are \<open>char list\<close>, and the conversions \<open>[]byte(s)\<close> and \<open>string(b)\<close> are the identity.
  The order on \<open>char list\<close> is the lexicographic byte order of \<open>bytes.Compare\<close>.
\<close>

type_synonym bytes = string
type_synonym u8 = "8 word"
type_synonym u16 = "16 word"
type_synonym u32 = "32 word"
type_synonym u64 = "64 word"

text \<open>\<open>strings.HasPrefix\<close>.\<close>

definition HasPrefix :: "string \<Rightarrow> string \<Rightarrow> bool" where
  "HasPrefix s p \<longleftrightarrow> take (length p) s = p"

text \<open>\<open>strings.SplitN(s, sep, 2)\<close> for a separator of one byte.\<close>

fun SplitN2 :: "char \<Rightarrow> string \<Rightarrow> string list" where
  "SplitN2 c [] = [[]]"
| "SplitN2 c (x # xs) =
     (if x = c then [[], xs]
      else (case SplitN2 c xs of [] \<Rightarrow> [[x]] | p # ps \<Rightarrow> (x # p) # ps))"

text \<open>\<open>strings.Contains\<close>.\<close>

fun Contains :: "string \<Rightarrow> string \<Rightarrow> bool" where
  "Contains [] sub = (sub = [])"
| "Contains (x # xs) sub = (HasPrefix (x # xs) sub \<or> Contains xs sub)"

text \<open>\<open>strings.ToLower\<close> on ASCII text (denominations and hex addresses are ASCII).\<close>

definition lower_char :: "char \<Rightarrow> char" where
  "lower_char c =
     (if 65 \<le> (of_char c :: nat) \<and> (of_char c :: nat) \<le> 90
      then char_of ((of_char c :: nat) + 32) else c)"

definition ToLower :: "string \<Rightarrow> string" where
  "ToLower s = map lower_char s"

lemma HasPrefix_append [simp]: "HasPrefix (p @ s) p"
  by (simp add: HasPrefix_def)

lemma HasPrefix_iff: "HasPrefix s p \<longleftrightarrow> (\<exists>t. s = p @ t)"
  unfolding HasPrefix_def by (metis append_eq_conv_conj append_take_drop_id)

lemma SplitN2_shape:
  "SplitN2 c s = (if c \<in> set s
     then [takeWhile (\<lambda>x. x \<noteq> c) s, tl (dropWhile (\<lambda>x. x \<noteq> c) s)] else [s])"
  by (induction s) auto

lemma SplitN2_append: "c \<notin> set p \<Longrightarrow> SplitN2 c (p @ c # s) = [p, s]"
  by (induction p) auto

lemma append_sep_inj:
  fixes c :: char
  assumes "c \<notin> set p" and "c \<notin> set q"
  shows "p @ c # s = q @ c # t \<longleftrightarrow> p = q \<and> s = t"
proof
  assume "p @ c # s = q @ c # t"
  then have "SplitN2 c (p @ c # s) = SplitN2 c (q @ c # t)" by simp
  with assms show "p = q \<and> s = t" by (simp add: SplitN2_append)
qed simp

lemma of_char_lower_char:
  "(of_char (lower_char c) :: nat) =
     (if 65 \<le> (of_char c :: nat) \<and> (of_char c :: nat) \<le> 90 then of_char c + 32 else of_char c)"
  by (simp add: lower_char_def)

lemma lower_char_idem [simp]: "lower_char (lower_char c) = lower_char c"
  unfolding lower_char_def [of "lower_char c"] of_char_lower_char by auto

lemma ToLower_idem [simp]: "ToLower (ToLower s) = ToLower s"
  by (simp add: ToLower_def)

section \<open>String sets\<close>

text \<open>The loop that collects a slice of strings into a \<open>map[string]struct{}\<close>.\<close>

fun createSet_loop :: "string list \<Rightarrow> string set \<Rightarrow> string set" where
  "createSet_loop [] s = s"
| "createSet_loop (str # rest) s =
     (if str \<in> s then createSet_loop rest s else createSet_loop rest (insert str s))"

lemma createSet_loop_eq: "createSet_loop xs s = set xs \<union> s"
  by (induction xs s rule: createSet_loop.induct) auto

section \<open>Results of Go calls\<close>

text \<open>
  The root cause of an error. \<open>errorsmod.Wrap(err, text)\<close> keeps the root cause, so the
  wrapping text is left out. \<open>Registered\<close> is an error a module registers with its codespace
  and code (\<open>errorsmod.Register\<close>); the named constructors are the sentinels of the SDK, bank
  and EVM modules that the code refers to; \<open>Errorf\<close> is an unregistered error of
  \<open>fmt.Errorf\<close> or \<open>errors.New\<close> and \<open>ExtErr\<close> any other error a dependency returns.
\<close>

datatype go_error =
    Registered string nat
  | ErrNotFound | ErrInvalidType | ErrUnauthorized | ErrInvalidCoins | ErrInvalidAddress
  | ErrorInvalidSigner | ErrOutOfGas | ErrLogic | ErrUnknownRequest | ErrInvalidRequest
  | ErrUnknownExtensionOptions | ErrInvalidPubKey | ErrUnknownAddress | ErrTxDecode
  | ErrInsufficientFee | ErrNoSignatures | ErrWrongSequence | ErrJSONMarshal
  | ErrSendDisabled | ErrVMExecution
  | Errorf string | ExtErr string

text \<open>A call returns a result, returns an error, or panics.\<close>

datatype 'a result = Ok 'a | Err go_error | Panic string

fun is_ok :: "'a result \<Rightarrow> bool" where
  "is_ok (Ok x) = True"
| "is_ok (Err e) = False"
| "is_ok (Panic p) = False"

lemma is_ok_iff: "is_ok r \<longleftrightarrow> (\<exists>x. r = Ok x)"
  by (cases r) auto

text \<open>Chaining of calls that only compute.\<close>

fun andThen :: "'a result \<Rightarrow> ('a \<Rightarrow> 'b result) \<Rightarrow> 'b result" where
  "andThen (Ok x) f = f x"
| "andThen (Err e) f = Err e"
| "andThen (Panic p) f = Panic p"

lemma andThen_Ok [simp]: "andThen r f = Ok y \<longleftrightarrow> (\<exists>x. r = Ok x \<and> f x = Ok y)"
  by (cases r) auto

text \<open>An error of a call that is reported as another error.\<close>

fun err_as :: "go_error \<Rightarrow> 'a result \<Rightarrow> 'a result" where
  "err_as e (Ok x) = Ok x"
| "err_as e (Err _) = Err e"
| "err_as e (Panic p) = Panic p"

lemma err_as_Ok [simp]: "err_as e r = Ok x \<longleftrightarrow> r = Ok x"
  by (cases r) auto

text \<open>\<open>bz[n:]\<close> panics when the slice is too short.\<close>

definition slice_from :: "nat \<Rightarrow> bytes \<Rightarrow> bytes result" where
  "slice_from n bz = (if length bz < n then Panic ''slice bounds out of range'' else Ok (drop n bz))"

text \<open>\<open>if !cond return err\<close> as a computation.\<close>

definition guard :: "bool \<Rightarrow> go_error \<Rightarrow> unit result" where
  "guard b e = (if b then Ok () else Err e)"

lemma guard_Ok [simp]: "guard b e = Ok u \<longleftrightarrow> b"
  by (simp add: guard_def)

lemma guard_True [simp]: "guard True e = Ok ()"
  by (simp add: guard_def)

lemma guard_False [simp]: "guard False e = Err e"
  by (simp add: guard_def)

section \<open>Computations over the context\<close>

text \<open>
  A keeper method mutates the context it is given and returns a value or an error. The
  mutations made before an error is returned are not undone by the method itself (the
  caller may discard the context), so an error result carries the state as well.
\<close>

type_synonym ('s, 'a) go = "'s \<Rightarrow> 'a result \<times> 's"

definition ret :: "'a \<Rightarrow> ('s, 'a) go" where
  [go_defs]: "ret x = (\<lambda>s. (Ok x, s))"

definition fail :: "go_error \<Rightarrow> ('s, 'a) go" where
  [go_defs]: "fail e = (\<lambda>s. (Err e, s))"

definition panic :: "string \<Rightarrow> ('s, 'a) go" where
  [go_defs]: "panic m = (\<lambda>s. (Panic m, s))"

definition gets :: "('s \<Rightarrow> 'a) \<Rightarrow> ('s, 'a) go" where
  [go_defs]: "gets f = (\<lambda>s. (Ok (f s), s))"

definition modify :: "('s \<Rightarrow> 's) \<Rightarrow> ('s, unit) go" where
  [go_defs]: "modify f = (\<lambda>s. (Ok (), f s))"

text \<open>A result computed without touching the context.\<close>

definition lift :: "'a result \<Rightarrow> ('s, 'a) go" where
  [go_defs]: "lift r = (\<lambda>s. (r, s))"

text \<open>A read of the context that may fail.\<close>

definition reads :: "('s \<Rightarrow> 'a result) \<Rightarrow> ('s, 'a) go" where
  [go_defs]: "reads f = (\<lambda>s. (f s, s))"

definition bind :: "('s, 'a) go \<Rightarrow> ('a \<Rightarrow> ('s, 'b) go) \<Rightarrow> ('s, 'b) go" where
  [go_defs]: "bind m f = (\<lambda>s. case m s of
     (Ok x, s') \<Rightarrow> f x s' | (Err e, s') \<Rightarrow> (Err e, s') | (Panic p, s') \<Rightarrow> (Panic p, s'))"

abbreviation seq :: "('s, unit) go \<Rightarrow> ('s, 'b) go \<Rightarrow> ('s, 'b) go" where
  "seq m n \<equiv> bind m (\<lambda>_. n)"

text \<open>\<open>if err != nil { return nil, e }\<close>: the call's own error is replaced by \<open>e\<close>.\<close>

definition wrap_as :: "go_error \<Rightarrow> ('s, 'a) go \<Rightarrow> ('s, 'a) go" where
  [go_defs]: "wrap_as e m = (\<lambda>s. case m s of
     (Ok x, s') \<Rightarrow> (Ok x, s') | (Err _, s') \<Rightarrow> (Err e, s') | (Panic p, s') \<Rightarrow> (Panic p, s'))"

text \<open>\<open>if err != nil { panic(..) }\<close>: an error of the call becomes a panic.\<close>

definition panic_on_err :: "string \<Rightarrow> ('s, 'a) go \<Rightarrow> ('s, 'a) go" where
  [go_defs]: "panic_on_err msg m = (\<lambda>s. case m s of
     (Ok x, s') \<Rightarrow> (Ok x, s') | (Err _, s') \<Rightarrow> (Panic msg, s') | (Panic p, s') \<Rightarrow> (Panic p, s'))"

text \<open>A loop over a slice whose body may return early with an error.\<close>

fun for_each :: "'a list \<Rightarrow> ('a \<Rightarrow> ('s, unit) go) \<Rightarrow> ('s, unit) go" where
  "for_each [] f = ret ()"
| "for_each (x # xs) f = bind (f x) (\<lambda>_. for_each xs f)"

text \<open>
  A transaction (and an IBC message) is executed on a branch of the state that is written
  back only when the call returns without error.
\<close>

definition atomically :: "('s, 'a) go \<Rightarrow> ('s, 'a) go" where
  "atomically m = (\<lambda>s. case m s of
     (Ok x, s') \<Rightarrow> (Ok x, s') | (Err e, _) \<Rightarrow> (Err e, s) | (Panic p, _) \<Rightarrow> (Panic p, s))"

subsection \<open>Inversion of normal returns\<close>

lemma bind_OkE [go_elims, elim!]:
  assumes "bind m f s = (Ok y, s')"
  obtains x s1 where "m s = (Ok x, s1)" and "f x s1 = (Ok y, s')"
  using assms by (auto simp: bind_def split: prod.splits result.splits)

lemma bind_OkI: "m s = (Ok x, s1) \<Longrightarrow> bind m f s = f x s1"
  by (simp add: bind_def)

lemma bind_Err: "m s = (Err e, s1) \<Longrightarrow> bind m f s = (Err e, s1)"
  by (simp add: bind_def)

lemma bind_Panic: "m s = (Panic p, s1) \<Longrightarrow> bind m f s = (Panic p, s1)"
  by (simp add: bind_def)

lemma ret_run [simp]: "ret x s = (Ok x, s)"
  by (simp add: ret_def)

lemma fail_run [simp]: "fail e s = (Err e, s)"
  by (simp add: fail_def)

lemma panic_run [simp]: "panic p s = (Panic p, s)"
  by (simp add: panic_def)

lemma gets_run [simp]: "gets f s = (Ok (f s), s)"
  by (simp add: gets_def)

lemma modify_run [simp]: "modify f s = (Ok (), f s)"
  by (simp add: modify_def)

lemma lift_run [simp]: "lift r s = (r, s)"
  by (simp add: lift_def)

lemma reads_run [simp]: "reads f s = (f s, s)"
  by (simp add: reads_def)

lemma wrap_as_Ok [simp]: "wrap_as e m s = (Ok x, s') \<longleftrightarrow> m s = (Ok x, s')"
  by (auto simp: wrap_as_def split: prod.splits result.splits)

lemma panic_on_err_Ok [simp]: "panic_on_err p m s = (Ok x, s') \<longleftrightarrow> m s = (Ok x, s')"
  by (auto simp: panic_on_err_def split: prod.splits result.splits)

lemma bind_gets: "bind (gets f) g c = g (f c) c"
  by (simp add: bind_def)

lemma bind_reads: "f c = Ok x \<Longrightarrow> bind (reads f) g c = g x c"
  by (simp add: bind_def)

lemma fst_bind: "fst (bind m f c) = andThen (fst (m c)) (\<lambda>x. fst (f x (snd (m c))))"
  by (auto simp: bind_def split: prod.splits result.splits)

lemma bind_ret [simp]: "bind (ret x) f = f x"
  by (auto simp: bind_def)

lemma bind_assoc: "bind (bind m f) g = bind m (\<lambda>x. bind (f x) g)"
  by (rule ext) (auto simp: bind_def split: prod.splits result.splits)

lemma atomically_Ok [simp]: "atomically m s = (Ok x, s') \<longleftrightarrow> m s = (Ok x, s')"
  by (auto simp: atomically_def split: prod.splits result.splits)

lemma atomically_not_Ok:
  "atomically m s = (r, s') \<Longrightarrow> \<not> is_ok r \<Longrightarrow> s' = s"
  by (auto simp: atomically_def split: prod.splits result.splits)

lemma for_each_Ok_inv:
  assumes "for_each xs f s = (Ok u, s')" and "P s"
    and step: "\<And>x s1 s2. x \<in> set xs \<Longrightarrow> P s1 \<Longrightarrow> f x s1 = (Ok (), s2) \<Longrightarrow> P s2"
  shows "P s'"
  using assms
proof (induction xs arbitrary: s)
  case (Cons x xs)
  from Cons.prems(1) obtain u1 s1 where "f x s = (Ok u1, s1)" and rest: "for_each xs f s1 = (Ok u, s')"
    by auto
  with Cons.prems(2,3) have "P s1" by auto
  with rest show ?case
    using Cons.prems(3) by (intro Cons.IH) auto
qed simp

end
