(* ===== verification/Store.thy ===== *)
theory Store
  imports Prelude
begin

text \<open>
  The state a module keeps: a key-value store of byte strings that is iterated in ascending
  key order, and a subspace of parameters. The locale \<open>kv_region\<close> is the contract a keeper
  relies on when it keeps typed entries under a prefix of its store: the entries behave as
  a finite map and do not disturb the entries of another prefix.
\<close>

section \<open>Key-value stores\<close>

text \<open>The entries of a store in ascending key order.\<close>

type_synonym kvstore = "(bytes \<times> bytes) list"

definition kv_get :: "kvstore \<Rightarrow> bytes \<Rightarrow> bytes option" where
  "kv_get s k = map_of s k"

definition kv_has :: "kvstore \<Rightarrow> bytes \<Rightarrow> bool" where
  "kv_has s k = (kv_get s k \<noteq> None)"

fun kv_set :: "bytes \<Rightarrow> bytes \<Rightarrow> kvstore \<Rightarrow> kvstore" where
  "kv_set k v [] = [(k, v)]"
| "kv_set k v ((k', v') # s) =
     (if k < k' then (k, v) # (k', v') # s
      else if k = k' then (k, v) # s
      else (k', v') # kv_set k v s)"

definition kv_delete :: "bytes \<Rightarrow> kvstore \<Rightarrow> kvstore" where
  "kv_delete k s = filter (\<lambda>(k', _). k' \<noteq> k) s"

text \<open>
  \<open>prefix.NewStore(store, p).Iterator(nil, nil)\<close>: the entries under the prefix, in key
  order, with the prefix taken off the keys.
\<close>

definition kv_prefix :: "bytes \<Rightarrow> kvstore \<Rightarrow> kvstore" where
  "kv_prefix p s = map (\<lambda>(k, v). (drop (length p) k, v)) (filter (\<lambda>(k, _). HasPrefix k p) s)"

text \<open>The representation invariant: keys ascend strictly.\<close>

definition kv_ok :: "kvstore \<Rightarrow> bool" where
  "kv_ok s = sorted_wrt (<) (map fst s)"

lemma kv_get_Nil [simp]: "kv_get [] k = None"
  by (simp add: kv_get_def)

lemma kv_get_set [simp]: "kv_get (kv_set k v s) k' = (if k' = k then Some v else kv_get s k')"
  by (induction k v s rule: kv_set.induct) (auto simp: kv_get_def)

lemma kv_get_delete [simp]: "kv_get (kv_delete k s) k' = (if k' = k then None else kv_get s k')"
  by (induction s) (auto simp: kv_get_def kv_delete_def)

lemma kv_set_keys: "fst ` set (kv_set k v s) = insert k (fst ` set s)"
  by (induction k v s rule: kv_set.induct) auto

lemma kv_ok_Nil [simp]: "kv_ok []"
  by (simp add: kv_ok_def)

lemma kv_ok_set [simp]: "kv_ok s \<Longrightarrow> kv_ok (kv_set k v s)"
proof (induction k v s rule: kv_set.induct)
  case (2 k v k' v' s)
  then show ?case
    using kv_set_keys [of k v s] by (fastforce simp: kv_ok_def)
qed (simp add: kv_ok_def)

lemma kv_ok_delete [simp]: "kv_ok s \<Longrightarrow> kv_ok (kv_delete k s)"
  unfolding kv_ok_def kv_delete_def sorted_wrt_map by (rule sorted_wrt_filter)

lemma kv_ok_distinct: "kv_ok s \<Longrightarrow> distinct (map fst s)"
  unfolding kv_ok_def by (simp add: strict_sorted_iff)

lemma kv_get_iff: "kv_ok s \<Longrightarrow> kv_get s k = Some v \<longleftrightarrow> (k, v) \<in> set s"
  by (simp add: kv_get_def kv_ok_distinct)

text \<open>Iteration visits exactly the entries under the prefix, each once, in key order.\<close>

lemma kv_prefix_set:
  assumes "kv_ok s"
  shows "(k, v) \<in> set (kv_prefix p s) \<longleftrightarrow> kv_get s (p @ k) = Some v"
proof -
  have "(k, v) \<in> set (kv_prefix p s) \<longleftrightarrow> (\<exists>x. (x, v) \<in> set s \<and> HasPrefix x p \<and> k = drop (length p) x)"
    by (auto simp: kv_prefix_def image_iff)
  also have "\<dots> \<longleftrightarrow> (p @ k, v) \<in> set s"
    by (auto simp: HasPrefix_iff)
  finally show ?thesis
    using assms by (simp add: kv_get_iff)
qed

lemma kv_prefix_keys: "map fst (kv_prefix p s) = map (drop (length p)) (filter (\<lambda>k. HasPrefix k p) (map fst s))"
  by (induction s) (auto simp: kv_prefix_def)

lemma less_append_iff [simp]: "p @ xs < p @ (ys :: string) \<longleftrightarrow> xs < ys"
  by (induction p) (auto simp: less_list_code)

lemma kv_ok_prefix: "kv_ok s \<Longrightarrow> kv_ok (kv_prefix p s)"
proof -
  assume "kv_ok s"
  then have "sorted_wrt (<) (filter (\<lambda>k. HasPrefix k p) (map fst s))"
    unfolding kv_ok_def by (rule sorted_wrt_filter)
  then have "sorted_wrt (\<lambda>x y. drop (length p) x < drop (length p) y) (filter (\<lambda>k. HasPrefix k p) (map fst s))"
    by (rule sorted_wrt_mono_rel [rotated]) (auto simp: HasPrefix_iff)
  then show ?thesis
    unfolding kv_ok_def kv_prefix_keys sorted_wrt_map by simp
qed

lemma kv_ext:
  assumes "kv_ok s" and "kv_ok t" and "\<And>k. kv_get s k = kv_get t k"
  shows "s = t"
proof -
  have "set s = set t"
    using assms by (auto simp flip: kv_get_iff)
  moreover have "sorted_wrt (\<lambda>x y. fst x < fst y) s" "sorted_wrt (\<lambda>x y. fst x < fst y) t"
    using assms(1,2) by (simp_all add: kv_ok_def sorted_wrt_map)
  ultimately show ?thesis
  proof (induction s arbitrary: t)
    case (Cons x s)
    then obtain y t' where t: "t = y # t'" by (cases t) auto
    have "x = y"
      using Cons.prems unfolding t by (metis insert_iff less_asym list.simps(15) sorted_wrt.simps(2))
    moreover have "x \<notin> set s" "y \<notin> set t'"
      using Cons.prems unfolding t by auto
    ultimately have "set s = set t'"
      using Cons.prems(1) unfolding t by auto
    with Cons.IH [of t'] Cons.prems \<open>x = y\<close> show ?case
      unfolding t by simp
  qed simp
qed

section \<open>Typed entries under a prefix\<close>

text \<open>
  A keeper that stores entries of type \<open>'v\<close> under keys of type \<open>'k\<close> supplies the prefix, an
  injective key encoding, and a value encoding with a decoder that undoes it on the values
  \<open>okv\<close> it stores.
\<close>

locale kv_region =
  fixes pfx :: bytes and enck :: "'k \<Rightarrow> bytes" and encv :: "'v \<Rightarrow> bytes" and decv :: "bytes \<Rightarrow> 'v option"
    and okv :: "'v \<Rightarrow> bool"
  assumes enck_inj: "inj enck"
    and decv_encv: "okv v \<Longrightarrow> decv (encv v) = Some v"
begin

definition lookup :: "kvstore \<Rightarrow> 'k \<Rightarrow> 'v option" where
  "lookup s k = Option.bind (kv_get s (pfx @ enck k)) decv"

definition update :: "'k \<Rightarrow> 'v \<Rightarrow> kvstore \<Rightarrow> kvstore" where
  "update k v s = kv_set (pfx @ enck k) (encv v) s"

definition remove :: "'k \<Rightarrow> kvstore \<Rightarrow> kvstore" where
  "remove k s = kv_delete (pfx @ enck k) s"

lemma lookup_update: "okv v \<Longrightarrow> lookup (update k v s) = (lookup s)(k \<mapsto> v)"
  by (rule ext) (auto simp: lookup_def update_def decv_encv inj_eq [OF enck_inj])

lemma lookup_remove: "lookup (remove k s) = (lookup s)(k := None)"
  by (rule ext) (auto simp: lookup_def remove_def inj_eq [OF enck_inj])

lemma lookup_frame:
  assumes "\<not> HasPrefix x pfx"
  shows "lookup (kv_set x v s) = lookup s" and "lookup (kv_delete x s) = lookup s"
  using assms by (auto simp: lookup_def fun_eq_iff)

end

section \<open>Parameter subspaces\<close>

text \<open>
  A parameter is stored as an \<open>interface{}\<close>: the constructors are the dynamic types the
  modules use, and a type assertion is a case distinction.
\<close>

datatype param = PBool bool | PStr string | PStrs "string list" | PU64 u64 | PInt int | POther string

type_synonym subspace = "string \<rightharpoonup> param"

text \<open>
  A parameter set pair: key, current value, validation function. \<open>SetParamSet\<close> validates
  every value before it writes it and panics when one is invalid.
\<close>

type_synonym param_pair = "string \<times> param \<times> (param \<Rightarrow> unit result)"

fun SetParamSet :: "param_pair list \<Rightarrow> subspace \<Rightarrow> unit result \<times> subspace" where
  "SetParamSet [] ss = (Ok (), ss)"
| "SetParamSet ((k, v, validate) # ps) ss =
     (case validate v of
        Ok _ \<Rightarrow> SetParamSet ps (ss(k \<mapsto> v))
      | Err _ \<Rightarrow> (Panic ''value from ParamSetPair is invalid'', ss)
      | Panic p \<Rightarrow> (Panic p, ss))"

lemma SetParamSet_Cons_Ok:
  "SetParamSet ((k, v, validate) # ps) ss = (Ok u, ss') \<longleftrightarrow>
     is_ok (validate v) \<and> SetParamSet ps (ss(k \<mapsto> v)) = (Ok u, ss')"
  by (cases "validate v") auto

end
