(* ===== verification/Proto.thy ===== *)
theory Proto
  imports Store
begin

unbundle bit_operations_syntax

text \<open>
  The generated protobuf code of the erc20 types: variable-length integers, length-delimited
  strings, skipping of unknown fields, and the TokenPair message. A message is kept in the
  store in this encoding, so the round trip proved here is what makes the store of token
  pairs a map.
\<close>

section \<open>Variable-length integers\<close>

lemma unat_shift_7: "unat (drop_bit 7 v :: u64) = unat v div 128"
  by (simp add: drop_bit_eq_div unat_div)

definition byte_of :: "nat \<Rightarrow> char" where
  "byte_of n = char_of n"

text \<open>\<open>v >= 1<<7\<close>: seven bits with the continuation bit, then the rest.\<close>

function encodeVarintErc20 :: "u64 \<Rightarrow> bytes" where
  "encodeVarintErc20 v =
     (if 128 \<le> v then byte_of (unat ((v AND 0x7F) OR 0x80)) # encodeVarintErc20 (drop_bit 7 v)
      else [byte_of (unat v)])"
  by auto
termination
proof (relation "measure unat")
  fix v :: u64 assume "128 \<le> v"
  then have "128 \<le> unat v" by (simp add: word_le_nat_alt)
  then show "(drop_bit 7 v, v) \<in> measure unat"
    by (simp add: unat_shift_7)
qed simp

declare encodeVarintErc20.simps [simp del]

text \<open>\<open>math/bits.Len64\<close>: the number of bits of the binary notation.\<close>

fun Len64 :: "nat \<Rightarrow> nat" where
  "Len64 n = (if n = 0 then 0 else Suc (Len64 (n div 2)))"

declare Len64.simps [simp del]

definition sovErc20 :: "u64 \<Rightarrow> nat" where
  "sovErc20 x = (Len64 (unat (x OR 1)) + 6) div 7"

definition ErrIntOverflowErc20 :: go_error where
  "ErrIntOverflowErc20 = Errorf ''proto: integer overflow''"

definition ErrInvalidLengthErc20 :: go_error where
  "ErrInvalidLengthErc20 = Errorf ''proto: negative length found during unmarshaling''"

definition ErrUnexpectedEndOfGroupErc20 :: go_error where
  "ErrUnexpectedEndOfGroupErc20 = Errorf ''proto: unexpected end of group''"

definition ErrUnexpectedEOF :: go_error where
  "ErrUnexpectedEOF = ExtErr ''unexpected EOF''"

text \<open>
  The decoding loop the generator emits for every integer it reads. It is emitted at the
  width of the variable it fills (\<open>uint64\<close>, \<open>int\<close>, \<open>int32\<close>), hence the polymorphic word; it
  starts at index \<open>i\<close> with \<open>shift = 0\<close> and gives the value and the next index.
\<close>

function decodeVarint :: "bytes \<Rightarrow> nat \<Rightarrow> nat \<Rightarrow> 'a::len word \<Rightarrow> ('a word \<times> nat) result" where
  "decodeVarint d i shift acc =
     (if 64 \<le> shift then Err ErrIntOverflowErc20
      else if length d \<le> i then Err ErrUnexpectedEOF
      else let b = (of_char (d ! i) :: nat);
               acc' = acc OR push_bit shift (of_nat (b mod 128))
           in if b < 128 then Ok (acc', Suc i) else decodeVarint d (Suc i) (shift + 7) acc')"
  by auto
termination
  by (relation "measure (\<lambda>(d, i, shift, acc). 64 - shift)") auto

declare decodeVarint.simps [simp del]

lemma decodeVarint_progress:
  "decodeVarint d i shift acc = Ok (v, j) \<Longrightarrow> i < j \<and> j \<le> length d"
proof (induction d i shift acc rule: decodeVarint.induct)
  case (1 d i shift acc)
  from 1(2) show ?case
    using 1(1) by (subst (asm) decodeVarint.simps) (fastforce simp: Let_def split: if_splits)
qed

lemma ucast_push_bit_or:
  "(ucast (acc OR push_bit n (of_nat b) :: 'a::len word) :: 'b::len word) =
     ucast acc OR push_bit n (of_nat b)" if "LENGTH('b) \<le> LENGTH('a)"
  using that by (intro bit_word_eqI) (auto simp: bit_simps bit_of_nat_iff)

text \<open>The loop at a smaller width computes the truncation of the loop at the larger width.\<close>

lemma decodeVarint_ucast:
  assumes "LENGTH('b::len) \<le> LENGTH('a::len)"
    and "decodeVarint d i shift (acc :: 'a word) = Ok (v, j)"
  shows "decodeVarint d i shift (ucast acc :: 'b word) = Ok (ucast v, j)"
  using assms(2)
proof (induction d i shift acc rule: decodeVarint.induct)
  case (1 d i shift acc)
  then show ?case
    by (subst (asm) (2) decodeVarint.simps, subst decodeVarint.simps)
      (auto simp: Let_def ucast_push_bit_or [OF assms(1)] split: if_splits)
qed

subsection \<open>Decoding undoes encoding\<close>

lemma and_127: "v AND 0x7F = (take_bit 7 v :: u64)"
  by (simp add: take_bit_eq_mask mask_numeral)

lemma unat_and_127: "unat (v AND 0x7F :: u64) = unat v mod 128"
  unfolding and_127 by (simp add: take_bit_eq_mod unat_mod)

lemma unat_byte_more: "unat ((v AND 0x7F) OR 0x80 :: u64) = unat v mod 128 + 128"
proof -
  have "take_bit 7 v AND push_bit 7 (1 :: u64) = 0"
    by (intro bit_word_eqI) (auto simp: bit_simps simp del: push_bit_of_1)
  then have "(v AND 0x7F) AND (0x80 :: u64) = 0"
    by (simp add: and_127)
  then have "(v AND 0x7F) OR 0x80 = (v AND 0x7F) + (0x80 :: u64)"
    by (simp add: disjunctive_add_eq_or)
  moreover have "unat (v AND 0x7F) + unat (0x80 :: u64) < 2 ^ 64"
    unfolding unat_and_127 by simp
  ultimately show ?thesis
    by (simp add: unat_word_ariths unat_and_127)
qed

lemma word_split_7: "take_bit 7 v OR push_bit 7 (drop_bit 7 v) = (v :: u64)"
  by (intro bit_word_eqI) (auto simp: bit_simps, metis le_add_diff_inverse not_le)

lemma push_split_7: "push_bit n (take_bit 7 v) OR push_bit (n + 7) (drop_bit 7 v) = push_bit n (v :: u64)"
proof -
  have "push_bit n (take_bit 7 v) OR push_bit (n + 7) (drop_bit 7 v) =
      push_bit n (take_bit 7 v OR push_bit 7 (drop_bit 7 v))"
    by (simp add: push_bit_or)
  then show ?thesis
    by (simp only: word_split_7)
qed

lemma of_nat_take_7: "of_nat (unat v mod 128) = (take_bit 7 v :: u64)"
  by (simp add: word_unat_eq_iff unat_mod take_bit_eq_mod unat_of_nat)

lemma decode_encode_at:
  assumes "n \<le> 63" and "unat v < 2 ^ (64 - n)" and "drop i d = encodeVarintErc20 v @ rest"
  shows "decodeVarint d i n acc = Ok (acc OR push_bit n v, i + length (encodeVarintErc20 v))"
  using assms
proof (induction v arbitrary: i n acc rule: encodeVarintErc20.induct)
  case (1 v)
  have i: "i < length d"
    using 1(4) by (subst (asm) encodeVarintErc20.simps) (auto simp: not_le split: if_splits intro: ccontr)
  have d: "d ! i = hd (encodeVarintErc20 v)"
    using 1(4) i by (metis append_is_Nil_conv hd_append2 hd_drop_conv_nth list.distinct(1) encodeVarintErc20.simps)
  show ?case
  proof (cases "128 \<le> v")
    case True
    then have big: "128 \<le> unat v" by (simp add: word_le_nat_alt)
    have "n + 7 \<le> 63"
    proof (rule ccontr)
      assume "\<not> n + 7 \<le> 63"
      then have "64 - n \<le> 7" by simp
      then have "(2 :: nat) ^ (64 - n) \<le> 2 ^ 7" by (rule power_increasing) simp
      with 1(3) big show False by simp
    qed
    moreover have "unat v div 128 < 2 ^ (64 - (n + 7))"
    proof -
      have "64 - n = 64 - (n + 7) + 7"
        using \<open>n + 7 \<le> 63\<close> by simp
      then have "(2 :: nat) ^ (64 - n) = 2 ^ (64 - (n + 7)) * 2 ^ 7"
        by (metis power_add)
      with 1(3) show ?thesis by (simp add: less_mult_imp_div_less)
    qed
    moreover have "drop (Suc i) d = encodeVarintErc20 (drop_bit 7 v) @ rest"
      using 1(4) True by (simp add: encodeVarintErc20.simps [of v] drop_Suc drop_tl)
    ultimately have "decodeVarint d (Suc i) (n + 7) (acc OR push_bit n (take_bit 7 v)) =
        Ok (acc OR push_bit n (take_bit 7 v) OR push_bit (n + 7) (drop_bit 7 v),
            Suc i + length (encodeVarintErc20 (drop_bit 7 v)))"
      using 1(1) [OF True, of "n + 7" "Suc i"] unat_shift_7 [of v] by (simp add: or.assoc)
    moreover have "(of_char (d ! i) :: nat) = unat v mod 128 + 128"
      unfolding d using True by (simp add: encodeVarintErc20.simps [of v] byte_of_def unat_byte_more)
    ultimately show ?thesis
      using True i 1(2)
      by (simp add: decodeVarint.simps [of d i] encodeVarintErc20.simps [of v] of_nat_take_7 or.assoc push_split_7)
  next
    case False
    then have small: "unat v < 128" by (simp add: word_le_nat_alt)
    then have "(of_char (d ! i) :: nat) = unat v"
      unfolding d using False by (simp add: encodeVarintErc20.simps [of v] byte_of_def)
    with small False i 1(2) show ?thesis
      by (simp add: decodeVarint.simps [of d i] encodeVarintErc20.simps [of v])
  qed
qed

subsection \<open>The size computed in advance is the size written\<close>

lemma Len64_shift: "2 ^ k \<le> n \<Longrightarrow> Len64 n = Len64 (n div 2 ^ Suc k) + Suc k"
proof (induction k arbitrary: n)
  case (Suc k)
  then have "2 ^ k \<le> n div 2" and "n \<noteq> 0"
    by (simp, cases "n = 0") simp_all
  then show ?case
    using Suc.IH [of "n div 2"] by (simp add: Len64.simps [of n] flip: div_mult2_eq)
qed (simp add: Len64.simps)

lemma Len64_le: "n < 2 ^ k \<Longrightarrow> Len64 n \<le> k"
proof (induction k arbitrary: n)
  case (Suc k)
  then have "n div 2 < 2 ^ k" by (simp add: less_mult_imp_div_less)
  then show ?case
    using Suc.IH [of "n div 2"] by (simp add: Len64.simps [of n])
qed (simp add: Len64.simps)

lemma sov_eq: "sovErc20 x = (Len64 (unat x div 2) + 7) div 7"
proof -
  have "drop_bit 1 (x OR 1) = drop_bit 1 x"
    by (intro bit_word_eqI) (auto simp: bit_simps bit_1_iff)
  moreover have "unat (drop_bit 1 w) = unat w div 2" for w :: u64
    by (simp add: drop_bit_eq_div unat_div)
  ultimately have "unat (x OR 1) div 2 = unat x div 2"
    by metis
  moreover have "x OR 1 \<noteq> 0"
    by (simp add: or_eq_0_iff)
  ultimately show ?thesis
    by (simp add: sovErc20_def Len64.simps [of "unat (x OR 1)"] unat_eq_zero)
qed

lemma length_encodeVarintErc20: "length (encodeVarintErc20 v) = sovErc20 v"
proof (induction v rule: encodeVarintErc20.induct)
  case (1 v)
  show ?case
  proof (cases "128 \<le> v")
    case True
    then have "2 ^ 6 \<le> unat v div 2" by (simp add: word_le_nat_alt)
    from Len64_shift [OF this] True 1 show ?thesis
      by (simp add: encodeVarintErc20.simps [of v] sov_eq unat_shift_7 flip: div_mult2_eq)
  next
    case False
    then have "unat v div 2 < 2 ^ 6" by (simp add: word_le_nat_alt)
    from Len64_le [OF this] False show ?thesis
      by (simp add: encodeVarintErc20.simps [of v] sov_eq)
  qed
qed

section \<open>Length-delimited fields\<close>

text \<open>
  Go's \<open>int\<close> has 64 bits: a length read from the wire is negative when its top bit is set,
  and \<open>iNdEx + intStringLen\<close>, a sum of two non-negative ints, is negative when it reaches
  \<open>2 ^ 63\<close>.
\<close>

definition decodeString :: "bytes \<Rightarrow> nat \<Rightarrow> (string \<times> nat) result" where
  "decodeString d i = andThen (decodeVarint d i 0 (0 :: u64)) (\<lambda>(stringLen, iNdEx).
     let intStringLen = sint stringLen in
     if intStringLen < 0 then Err ErrInvalidLengthErc20
     else let postIndex = iNdEx + nat intStringLen in
       if 2 ^ 63 \<le> postIndex then Err ErrInvalidLengthErc20
       else if length d < postIndex then Err ErrUnexpectedEOF
       else Ok (take (nat intStringLen) (drop iNdEx d), postIndex))"

definition encodeString :: "string \<Rightarrow> bytes" where
  "encodeString s = encodeVarintErc20 (of_nat (length s)) @ s"

lemma decodeString_progress: "decodeString d i = Ok (s, j) \<Longrightarrow> i < j"
  by (auto simp: decodeString_def Let_def dest: decodeVarint_progress split: if_splits)

lemma decodeVarint_encode:
  assumes "drop i d = encodeVarintErc20 v @ rest"
  shows "decodeVarint d i 0 0 = Ok (v, i + length (encodeVarintErc20 v))"
  using decode_encode_at [of 0 v i d rest 0] assms unsigned_less [of v] by simp

lemma decodeString_encode:
  assumes d: "drop i d = encodeString s @ rest" and "length d < 2 ^ 63"
  shows "decodeString d i = Ok (s, i + length (encodeString s))"
proof -
  let ?v = "of_nat (length s) :: u64"
  have len: "length d = i + length (encodeString s) + length rest"
  proof -
    have "encodeString s \<noteq> []"
      by (simp add: encodeString_def encodeVarintErc20.simps)
    with d have "i < length d"
      by (metis append_is_Nil_conv drop_all not_le)
    then show ?thesis
      using arg_cong [OF d, of length] by simp
  qed
  with assms have "length s < 2 ^ 63"
    by (simp add: encodeString_def)
  then have "sint ?v = int (length s)"
    by (simp add: signed_of_nat signed_take_bit_int_eq_self)
  moreover from d have "drop i d = encodeVarintErc20 ?v @ s @ rest"
    by (simp add: encodeString_def)
  moreover from this have "drop (i + length (encodeVarintErc20 ?v)) d = s @ rest"
    by (metis add.commute append_eq_conv_conj drop_drop)
  ultimately show ?thesis
    using len assms(2) by (simp add: decodeString_def decodeVarint_encode encodeString_def)
qed

section \<open>Unknown fields\<close>

text \<open>
  One turn of the loop of \<open>skipErc20\<close>: from index \<open>i\<close> and group depth \<open>depth\<close> the index and
  depth after the field at \<open>i\<close>.
\<close>

definition skipField :: "bytes \<Rightarrow> nat \<Rightarrow> nat \<Rightarrow> (nat \<times> nat) result" where
  "skipField d i depth = andThen (decodeVarint d i 0 (0 :: u64)) (\<lambda>(wire, j).
     let wireType = unat (wire AND 7) in
     if wireType = 0 then andThen (decodeVarint d j 0 (0 :: u64)) (\<lambda>(_, k). Ok (k, depth))
     else if wireType = 1 then Ok (j + 8, depth)
     else if wireType = 2 then andThen (decodeVarint d j 0 (0 :: u64)) (\<lambda>(len, k).
       if sint len < 0 then Err ErrInvalidLengthErc20 else Ok (k + nat (sint len), depth))
     else if wireType = 3 then Ok (j, Suc depth)
     else if wireType = 4 then
       (if depth = 0 then Err ErrUnexpectedEndOfGroupErc20 else Ok (j, depth - 1))
     else if wireType = 5 then Ok (j + 4, depth)
     else Err (Errorf ''proto: illegal wireType''))"

lemma skipField_progress: "skipField d i depth = Ok (k, dep) \<Longrightarrow> i < k"
  by (auto simp: skipField_def Let_def dest!: decodeVarint_progress split: if_splits)

function skipLoop :: "bytes \<Rightarrow> nat \<Rightarrow> nat \<Rightarrow> nat result" where
  "skipLoop d i depth =
     (if length d \<le> i then Err ErrUnexpectedEOF
      else case skipField d i depth of
        Err e \<Rightarrow> Err e
      | Panic p \<Rightarrow> Panic p
      | Ok (k, dep) \<Rightarrow>
          if 2 ^ 63 \<le> k then Err ErrInvalidLengthErc20
          else if dep = 0 then Ok k
          else skipLoop d k dep)"
  by auto
termination
  by (relation "measure (\<lambda>(d, i, depth). length d - i)") (auto dest!: skipField_progress)

declare skipLoop.simps [simp del]

definition skipErc20 :: "bytes \<Rightarrow> nat result" where
  "skipErc20 d = skipLoop d 0 0"

lemma skipLoop_progress: "skipLoop d i depth = Ok k \<Longrightarrow> i < k"
proof (induction d i depth rule: skipLoop.induct)
  case (1 d i depth)
  from 1(2) show ?case
    using 1(1) by (subst (asm) skipLoop.simps)
      (fastforce dest: skipField_progress split: if_splits result.splits prod.splits)
qed

section \<open>Token pairs\<close>

type_synonym Owner = u32

definition OWNER_UNSPECIFIED :: Owner where "OWNER_UNSPECIFIED = 0"
definition OWNER_MODULE :: Owner where "OWNER_MODULE = 1"
definition OWNER_EXTERNAL :: Owner where "OWNER_EXTERNAL = 2"

record TokenPair =
  Erc20Address :: string
  Denom :: string
  Enabled :: bool
  ContractOwner :: Owner

definition zeroTokenPair :: TokenPair where
  "zeroTokenPair = \<lparr>Erc20Address = [], Denom = [], Enabled = False, ContractOwner = 0\<rparr>"

text \<open>\<open>uint64(m.ContractOwner)\<close> of an \<open>int32\<close> extends the sign.\<close>

definition TokenPair_Size :: "TokenPair \<Rightarrow> nat" where
  "TokenPair_Size m =
     (let l = length (Erc20Address m) in if 0 < l then 1 + l + sovErc20 (of_nat l) else 0) +
     (let l = length (Denom m) in if 0 < l then 1 + l + sovErc20 (of_nat l) else 0) +
     (if Enabled m then 2 else 0) +
     (if ContractOwner m \<noteq> 0 then 1 + sovErc20 (scast (ContractOwner m)) else 0)"

text \<open>
  \<open>MarshalToSizedBuffer\<close> fills the buffer from its end to its start; the list is what it has
  written, the last field written first.
\<close>

definition TokenPair_MarshalToSizedBuffer :: "TokenPair \<Rightarrow> bytes" where
  "TokenPair_MarshalToSizedBuffer m =
     (let out = [];
          out = (if ContractOwner m \<noteq> 0
                 then byte_of 0x20 # encodeVarintErc20 (scast (ContractOwner m)) @ out else out);
          out = (if Enabled m then byte_of 0x18 # byte_of 1 # out else out);
          out = (if 0 < length (Denom m) then byte_of 0x12 # encodeString (Denom m) @ out else out);
          out = (if 0 < length (Erc20Address m)
                 then byte_of 0x0A # encodeString (Erc20Address m) @ out else out)
      in out)"

text \<open>
  \<open>Marshal\<close> allocates \<open>Size\<close> zero bytes, has them filled from the end and returns the first \<open>n\<close>
  bytes of the buffer, \<open>n\<close> the number of bytes written; writing before the start panics.
\<close>

definition TokenPair_Marshal :: "TokenPair \<Rightarrow> bytes result" where
  "TokenPair_Marshal m =
     (let size = TokenPair_Size m; out = TokenPair_MarshalToSizedBuffer m; n = length out in
      if size < n then Panic ''index out of range''
      else Ok (take n (replicate (size - n) (byte_of 0) @ out)))"

text \<open>One field of \<open>Unmarshal\<close>: the message and the index after the field at index \<open>i\<close>.\<close>

definition TokenPair_field :: "bytes \<Rightarrow> nat \<Rightarrow> TokenPair \<Rightarrow> (TokenPair \<times> nat) result" where
  "TokenPair_field d i m = andThen (decodeVarint d i 0 (0 :: u64)) (\<lambda>(wire, j).
     let fieldNum = sint (ucast (drop_bit 3 wire) :: u32); wireType = unat (wire AND 7) in
     if wireType = 4 then Err (Errorf ''proto: TokenPair: wiretype end group for non-group'')
     else if fieldNum \<le> 0 then Err (Errorf ''proto: TokenPair: illegal tag'')
     else if fieldNum = 1 then
       (if wireType \<noteq> 2 then Err (Errorf ''proto: wrong wireType for field Erc20Address'')
        else andThen (decodeString d j) (\<lambda>(str, k). Ok (m\<lparr>Erc20Address := str\<rparr>, k)))
     else if fieldNum = 2 then
       (if wireType \<noteq> 2 then Err (Errorf ''proto: wrong wireType for field Denom'')
        else andThen (decodeString d j) (\<lambda>(str, k). Ok (m\<lparr>Denom := str\<rparr>, k)))
     else if fieldNum = 3 then
       (if wireType \<noteq> 0 then Err (Errorf ''proto: wrong wireType for field Enabled'')
        else andThen (decodeVarint d j 0 (0 :: u64)) (\<lambda>(v, k). Ok (m\<lparr>Enabled := (v \<noteq> 0)\<rparr>, k)))
     else if fieldNum = 4 then
       (if wireType \<noteq> 0 then Err (Errorf ''proto: wrong wireType for field ContractOwner'')
        else andThen (decodeVarint d j 0 (0 :: u32)) (\<lambda>(v, k). Ok (m\<lparr>ContractOwner := v\<rparr>, k)))
     else andThen (skipErc20 (drop i d)) (\<lambda>skippy.
       if 2 ^ 63 \<le> i + skippy then Err ErrInvalidLengthErc20
       else if length d < i + skippy then Err ErrUnexpectedEOF
       else Ok (m, i + skippy)))"

lemma TokenPair_field_progress: "TokenPair_field d i m = Ok (m', j) \<Longrightarrow> i < j"
  unfolding TokenPair_field_def
  by (auto simp: Let_def skipErc20_def
      dest!: decodeVarint_progress decodeString_progress skipLoop_progress split: if_splits)

function TokenPair_loop :: "bytes \<Rightarrow> nat \<Rightarrow> TokenPair \<Rightarrow> TokenPair result" where
  "TokenPair_loop d i m =
     (if i < length d then
        (case TokenPair_field d i m of
           Err e \<Rightarrow> Err e | Panic p \<Rightarrow> Panic p | Ok (m', j) \<Rightarrow> TokenPair_loop d j m')
      else if length d < i then Err ErrUnexpectedEOF
      else Ok m)"
  by auto
termination
  by (relation "measure (\<lambda>(d, i, m). length d - i)") (auto dest!: TokenPair_field_progress)

declare TokenPair_loop.simps [simp del]

definition TokenPair_Unmarshal :: "bytes \<Rightarrow> TokenPair result" where
  "TokenPair_Unmarshal d = TokenPair_loop d 0 zeroTokenPair"

subsection \<open>Unmarshal undoes Marshal\<close>

text \<open>\<open>rest\<close> is what is left to read at index \<open>i\<close>.\<close>

definition left_at :: "bytes \<Rightarrow> nat \<Rightarrow> bytes \<Rightarrow> bool" where
  "left_at d i rest \<longleftrightarrow> i \<le> length d \<and> drop i d = rest"

lemma left_at_0: "left_at d 0 d"
  by (simp add: left_at_def)

lemma left_at_append: "left_at d i (xs @ rest) \<Longrightarrow> left_at d (i + length xs) rest"
  unfolding left_at_def
  by (metis add.commute append_eq_conv_conj drop_drop length_append length_drop le_add_diff_inverse2
      nat_add_left_cancel_le le_add1 add.left_commute)

lemma left_at_Cons: "left_at d i (x # rest) \<Longrightarrow> i < length d \<and> d ! i = x \<and> left_at d (Suc i) rest"
  unfolding left_at_def
  by (metis Cons_nth_drop_Suc Suc_leI drop_all list.distinct(1) list.inject not_le)

lemma decode_tag:
  assumes "left_at d i (byte_of t # rest)" and "t < 128"
  shows "decodeVarint d i 0 0 = Ok (of_nat t :: u64, Suc i)"
  using left_at_Cons [OF assms(1)] assms(2) by (simp add: decodeVarint.simps byte_of_def)

lemma loop_step:
  assumes "left_at d i (x # rest)" and "TokenPair_field d i m = Ok (m', j)"
  shows "TokenPair_loop d i m = TokenPair_loop d j m'"
  using left_at_Cons [OF assms(1)] assms(2) by (simp add: TokenPair_loop.simps)

lemma field_string:
  assumes "left_at d i (byte_of t # encodeString str @ rest)" and "length d < 2 ^ 63"
  shows "left_at d (Suc i + length (encodeString str)) rest"
    and "decodeString d (Suc i) = Ok (str, Suc i + length (encodeString str))"
proof -
  have at: "left_at d (Suc i) (encodeString str @ rest)"
    using left_at_Cons [OF assms(1)] by simp
  from left_at_append [OF this] show "left_at d (Suc i + length (encodeString str)) rest" .
  from at assms(2) show "decodeString d (Suc i) = Ok (str, Suc i + length (encodeString str))"
    by (intro decodeString_encode) (auto simp: left_at_def)
qed

lemma read_Erc20Address:
  assumes "left_at d i (byte_of 0x0A # encodeString str @ rest)" and "length d < 2 ^ 63"
  shows "\<exists>j. left_at d j rest \<and> TokenPair_loop d i m = TokenPair_loop d j (m\<lparr>Erc20Address := str\<rparr>)"
  using loop_step [OF assms(1)] decode_tag [OF assms(1)] field_string [OF assms]
  by (fastforce simp: TokenPair_field_def)

lemma read_Denom:
  assumes "left_at d i (byte_of 0x12 # encodeString str @ rest)" and "length d < 2 ^ 63"
  shows "\<exists>j. left_at d j rest \<and> TokenPair_loop d i m = TokenPair_loop d j (m\<lparr>Denom := str\<rparr>)"
  using loop_step [OF assms(1)] decode_tag [OF assms(1)] field_string [OF assms]
  by (fastforce simp: TokenPair_field_def)

lemma read_Enabled:
  assumes "left_at d i (byte_of 0x18 # byte_of 1 # rest)"
  shows "\<exists>j. left_at d j rest \<and> TokenPair_loop d i m = TokenPair_loop d j (m\<lparr>Enabled := True\<rparr>)"
proof -
  have at: "left_at d (Suc i) (byte_of 1 # rest)"
    using left_at_Cons [OF assms] by simp
  then show ?thesis
    using loop_step [OF assms] decode_tag [OF assms] decode_tag [OF at] left_at_Cons [OF at]
    by (fastforce simp: TokenPair_field_def)
qed

lemma ucast_scast: "(ucast (scast ow :: u64) :: u32) = ow"
  by (intro bit_word_eqI) (auto simp: bit_simps)

lemma read_ContractOwner:
  assumes "left_at d i (byte_of 0x20 # encodeVarintErc20 (scast ow) @ rest)"
  shows "\<exists>j. left_at d j rest \<and> TokenPair_loop d i m = TokenPair_loop d j (m\<lparr>ContractOwner := ow\<rparr>)"
proof -
  let ?v = "scast ow :: u64"
  have at: "left_at d (Suc i) (encodeVarintErc20 ?v @ rest)"
    using left_at_Cons [OF assms] by simp
  then have "decodeVarint d (Suc i) 0 (0 :: u64) = Ok (?v, Suc i + length (encodeVarintErc20 ?v))"
    by (intro decodeVarint_encode) (auto simp: left_at_def)
  from decodeVarint_ucast [OF _ this, where 'b = 32]
  have "decodeVarint d (Suc i) 0 (0 :: u32) = Ok (ow, Suc i + length (encodeVarintErc20 ?v))"
    by (simp add: ucast_scast)
  then show ?thesis
    using loop_step [OF assms] decode_tag [OF assms] left_at_append [OF at]
    by (fastforce simp: TokenPair_field_def)
qed

lemma loop_done: "left_at d i [] \<Longrightarrow> TokenPair_loop d i m = Ok m"
  by (simp add: TokenPair_loop.simps left_at_def)

lemma TokenPair_Size_exact: "length (TokenPair_MarshalToSizedBuffer m) = TokenPair_Size m"
  by (simp add: TokenPair_MarshalToSizedBuffer_def TokenPair_Size_def encodeString_def Let_def
      length_encodeVarintErc20)

lemma TokenPair_Marshal_eq: "TokenPair_Marshal m = Ok (TokenPair_MarshalToSizedBuffer m)"
  by (simp add: TokenPair_Marshal_def Let_def TokenPair_Size_exact)

text \<open>The buffer of a message fits in a Go slice.\<close>

definition pair_fits :: "TokenPair \<Rightarrow> bool" where
  "pair_fits m = (TokenPair_Size m < 2 ^ 63)"

lemma sov_le: "sovErc20 x \<le> 10"
proof -
  have "unat (x OR 1) < 2 ^ 64"
    using unsigned_less [of "x OR 1"] by simp
  from Len64_le [OF this] show ?thesis
    by (simp add: sovErc20_def)
qed

lemma pair_fits_small: "length (Erc20Address m) + length (Denom m) < 2 ^ 62 \<Longrightarrow> pair_fits m"
  using sov_le [of "of_nat (length (Erc20Address m))"] sov_le [of "of_nat (length (Denom m))"]
    sov_le [of "scast (ContractOwner m)"]
  by (simp add: pair_fits_def TokenPair_Size_def Let_def)

text \<open>A field with the default value is left out, and reading nothing leaves the default.\<close>

lemma read_Erc20Address_opt:
  assumes "left_at d i ((if 0 < length str then byte_of 0x0A # encodeString str else []) @ rest)"
    and "length d < 2 ^ 63" and "Erc20Address m = []"
  shows "\<exists>j. left_at d j rest \<and> TokenPair_loop d i m = TokenPair_loop d j (m\<lparr>Erc20Address := str\<rparr>)"
  using assms read_Erc20Address [of d i str rest m] by (cases str; cases m) auto

lemma read_Denom_opt:
  assumes "left_at d i ((if 0 < length str then byte_of 0x12 # encodeString str else []) @ rest)"
    and "length d < 2 ^ 63" and "Denom m = []"
  shows "\<exists>j. left_at d j rest \<and> TokenPair_loop d i m = TokenPair_loop d j (m\<lparr>Denom := str\<rparr>)"
  using assms read_Denom [of d i str rest m] by (cases str; cases m) auto

lemma read_Enabled_opt:
  assumes "left_at d i ((if b then [byte_of 0x18, byte_of 1] else []) @ rest)" and "\<not> Enabled m"
  shows "\<exists>j. left_at d j rest \<and> TokenPair_loop d i m = TokenPair_loop d j (m\<lparr>Enabled := b\<rparr>)"
  using assms read_Enabled [of d i rest m] by (cases b; cases m) auto

lemma read_ContractOwner_opt:
  assumes "left_at d i ((if ow \<noteq> 0 then byte_of 0x20 # encodeVarintErc20 (scast ow) else []) @ rest)"
    and "ContractOwner m = 0"
  shows "\<exists>j. left_at d j rest \<and> TokenPair_loop d i m = TokenPair_loop d j (m\<lparr>ContractOwner := ow\<rparr>)"
  using assms read_ContractOwner [of d i ow rest m] by (cases "ow = 0"; cases m) auto

lemma TokenPair_MarshalToSizedBuffer_eq:
  "TokenPair_MarshalToSizedBuffer m =
     (if 0 < length (Erc20Address m) then byte_of 0x0A # encodeString (Erc20Address m) else []) @
     (if 0 < length (Denom m) then byte_of 0x12 # encodeString (Denom m) else []) @
     (if Enabled m then [byte_of 0x18, byte_of 1] else []) @
     (if ContractOwner m \<noteq> 0 then byte_of 0x20 # encodeVarintErc20 (scast (ContractOwner m)) else []) @ []"
  by (simp add: TokenPair_MarshalToSizedBuffer_def Let_def)

lemma TokenPair_loop_reads:
  assumes "left_at d i
     ((if 0 < length (Erc20Address m) then byte_of 0x0A # encodeString (Erc20Address m) else []) @
      (if 0 < length (Denom m) then byte_of 0x12 # encodeString (Denom m) else []) @
      (if Enabled m then [byte_of 0x18, byte_of 1] else []) @
      (if ContractOwner m \<noteq> 0 then byte_of 0x20 # encodeVarintErc20 (scast (ContractOwner m)) else []) @ [])"
    and len: "length d < 2 ^ 63"
  shows "TokenPair_loop d i zeroTokenPair = Ok m"
proof -
  define m1 where "m1 = zeroTokenPair\<lparr>Erc20Address := Erc20Address m\<rparr>"
  define m2 where "m2 = m1\<lparr>Denom := Denom m\<rparr>"
  define m3 where "m3 = m2\<lparr>Enabled := Enabled m\<rparr>"
  note defs = m1_def m2_def m3_def zeroTokenPair_def
  have m: "m3\<lparr>ContractOwner := ContractOwner m\<rparr> = m"
    by (cases m) (simp add: defs)
  from read_Erc20Address_opt [OF assms, of zeroTokenPair]
  obtain i1 where 1: "left_at d i1
     ((if 0 < length (Denom m) then byte_of 0x12 # encodeString (Denom m) else []) @
      (if Enabled m then [byte_of 0x18, byte_of 1] else []) @
      (if ContractOwner m \<noteq> 0 then byte_of 0x20 # encodeVarintErc20 (scast (ContractOwner m)) else []) @ [])"
    "TokenPair_loop d i zeroTokenPair = TokenPair_loop d i1 m1"
    unfolding m1_def by (force simp: zeroTokenPair_def)
  from read_Denom_opt [OF 1(1) len, of m1]
  obtain i2 where 2: "left_at d i2
     ((if Enabled m then [byte_of 0x18, byte_of 1] else []) @
      (if ContractOwner m \<noteq> 0 then byte_of 0x20 # encodeVarintErc20 (scast (ContractOwner m)) else []) @ [])"
    "TokenPair_loop d i1 m1 = TokenPair_loop d i2 m2"
    unfolding m2_def by (force simp: m1_def zeroTokenPair_def)
  from read_Enabled_opt [OF 2(1), of m2]
  obtain i3 where 3: "left_at d i3
     ((if ContractOwner m \<noteq> 0 then byte_of 0x20 # encodeVarintErc20 (scast (ContractOwner m)) else []) @ [])"
    "TokenPair_loop d i2 m2 = TokenPair_loop d i3 m3"
    unfolding m3_def by (force simp: m2_def m1_def zeroTokenPair_def)
  have "ContractOwner m3 = 0"
    by (simp add: defs)
  from read_ContractOwner_opt [OF 3(1) this] m
  obtain i4 where "left_at d i4 []" "TokenPair_loop d i3 m3 = TokenPair_loop d i4 m"
    by auto
  with 1(2) 2(2) 3(2) show ?thesis
    by (simp add: loop_done)
qed

lemma TokenPair_Unmarshal_MarshalToSizedBuffer:
  assumes "pair_fits m"
  shows "TokenPair_Unmarshal (TokenPair_MarshalToSizedBuffer m) = Ok m"
proof -
  have "length (TokenPair_MarshalToSizedBuffer m) < 2 ^ 63"
    using assms unfolding TokenPair_Size_exact pair_fits_def .
  moreover have "left_at (TokenPair_MarshalToSizedBuffer m) 0 (TokenPair_MarshalToSizedBuffer m)"
    by (rule left_at_0)
  ultimately show ?thesis
    unfolding TokenPair_Unmarshal_def
    by (intro TokenPair_loop_reads) (simp_all only: TokenPair_MarshalToSizedBuffer_eq)
qed

section \<open>Properties\<close>

text \<open>
  C16: Encoding a token pair never panics, fills exactly the buffer whose size was computed in
  advance, and decoding the bytes gives the pair back, for every pair whose encoding fits in a
  Go slice.
\<close>

theorem TokenPair_roundtrip:
  assumes "pair_fits m"
  shows "\<exists>bz. TokenPair_Marshal m = Ok bz \<and> length bz = TokenPair_Size m \<and> TokenPair_Unmarshal bz = Ok m"
  using assms by (simp add: TokenPair_Marshal_eq TokenPair_Size_exact TokenPair_Unmarshal_MarshalToSizedBuffer)

definition c_pair :: TokenPair where
  "c_pair = \<lparr>Erc20Address = ''0xabc'', Denom = ''acoin'', Enabled = True, ContractOwner = OWNER_MODULE\<rparr>"

lemma pair_fits_c_pair: "pair_fits c_pair"
  by (rule pair_fits_small) (simp add: c_pair_def)

theorem TokenPair_roundtrip_witness:
  "pair_fits c_pair \<and>
   (\<exists>bz. TokenPair_Marshal c_pair = Ok bz \<and> length bz = TokenPair_Size c_pair \<and> TokenPair_Unmarshal bz = Ok c_pair)"
  using pair_fits_c_pair TokenPair_roundtrip [OF pair_fits_c_pair] by simp

end
