(* ===== verification/Chain.thy ===== *)
theory Chain
  imports Proto
begin

text \<open>
  What the modules share: addresses, coins, events, messages, the context that is threaded
  through every call, and the interfaces of the code the modules call but do not contain
  (SDK, Ethermint, go-ethereum, ibc-go). Those interfaces are records of functions, passed
  as an argument \<open>E\<close> or \<open>L\<close>; the context holds their state as an opaque component. What a
  property relies on of them is stated by the law predicates of the theory \<open>Laws\<close>.
\<close>

section \<open>Data\<close>

text \<open>An EVM address (\<open>common.Address\<close>); an SDK account address is a byte string.\<close>

datatype address = Addr (addr_bytes: bytes)

definition zero_address :: address where
  "zero_address = Addr (replicate 20 (char_of (0 :: nat)))"

record coin =
  coin_denom :: string
  coin_amount :: int

text \<open>\<open>banktypes.DenomUnit\<close> and \<open>banktypes.Metadata\<close>.\<close>

record denom_unit =
  du_Denom :: string
  du_Exponent :: u32
  du_Aliases :: "string list"

record metadata =
  md_Description :: string
  md_DenomUnits :: "denom_unit list"
  md_Base :: string
  md_Display :: string
  md_Name :: string
  md_Symbol :: string

text \<open>An event attribute holds the value that the source formats as a string.\<close>

datatype attr = AStr string | AInt int | ACoin coin | ACoins "coin list" | AAddr address

datatype event = Event string "(string \<times> attr) list"

section \<open>Messages and transactions\<close>

text \<open>\<open>ibctransfertypes.MsgTransfer\<close>; a height is a pair of revision number and height.\<close>

record transfer_msg =
  tr_SourcePort :: string
  tr_SourceChannel :: string
  tr_Token :: coin
  tr_Sender :: string
  tr_Receiver :: string
  tr_TimeoutHeight :: "u64 \<times> u64"
  tr_TimeoutTimestamp :: u64
  tr_Memo :: string

text \<open>An Ethereum transaction, as far as signature recovery looks at it.\<close>

record eth_tx =
  et_Type :: nat
  et_V :: int
  et_R :: int
  et_S :: int
  et_ChainId :: int
  et_Protected :: bool
  et_Payload :: bytes

text \<open>
  The messages the code distinguishes, and any other message by its type URL. A message
  packed in an \<open>Any\<close> is \<open>None\<close> when \<open>UnpackAny\<close> fails on it.
\<close>

datatype msg =
    MsgSend string string "coin list"
  | MsgMultiSend "(string \<times> coin list) list" "(string \<times> coin list) list"
  | MsgTransfer transfer_msg
  | MsgMicrotx string string coin
  | MsgLiquify string
  | MsgEthereumTx string eth_tx
  | MsgExec string "msg option list"
  | MsgGroupSubmitProposal "msg option list"
  | MsgCreateValidator int
  | MsgEditValidator "int option"
  | MsgConvertCoin coin string string
  | MsgConvertERC20 string int string string
  | MsgSendCoinToEVM coin string
  | MsgSendERC20ToCosmos string int string
  | MsgSendERC20ToCosmosAndIBCTransfer string int string string string string
  | MsgOther string

fun MsgTypeURL :: "msg \<Rightarrow> string" where
  "MsgTypeURL (MsgSend _ _ _) = ''/cosmos.bank.v1beta1.MsgSend''"
| "MsgTypeURL (MsgMultiSend _ _) = ''/cosmos.bank.v1beta1.MsgMultiSend''"
| "MsgTypeURL (MsgTransfer _) = ''/ibc.applications.transfer.v1.MsgTransfer''"
| "MsgTypeURL (MsgMicrotx _ _ _) = ''/althea.microtx.v1.MsgMicrotx''"
| "MsgTypeURL (MsgLiquify _) = ''/althea.microtx.v1.MsgLiquify''"
| "MsgTypeURL (MsgEthereumTx _ _) = ''/ethermint.evm.v1.MsgEthereumTx''"
| "MsgTypeURL (MsgExec _ _) = ''/cosmos.authz.v1beta1.MsgExec''"
| "MsgTypeURL (MsgGroupSubmitProposal _) = ''/cosmos.group.v1.MsgSubmitProposal''"
| "MsgTypeURL (MsgCreateValidator _) = ''/cosmos.staking.v1beta1.MsgCreateValidator''"
| "MsgTypeURL (MsgEditValidator _) = ''/cosmos.staking.v1beta1.MsgEditValidator''"
| "MsgTypeURL (MsgConvertCoin _ _ _) = ''/althea.erc20.v1.MsgConvertCoin''"
| "MsgTypeURL (MsgConvertERC20 _ _ _ _) = ''/althea.erc20.v1.MsgConvertERC20''"
| "MsgTypeURL (MsgSendCoinToEVM _ _) = ''/althea.erc20.v1.MsgSendCoinToEVM''"
| "MsgTypeURL (MsgSendERC20ToCosmos _ _ _) = ''/althea.erc20.v1.MsgSendERC20ToCosmos''"
| "MsgTypeURL (MsgSendERC20ToCosmosAndIBCTransfer _ _ _ _ _ _) =
     ''/althea.erc20.v1.MsgSendERC20ToCosmosAndIBCTransfer''"
| "MsgTypeURL (MsgOther url) = url"

text \<open>
  A transaction: its messages, the type URLs of its extension options, and its signers
  when it implements \<open>SignedTx\<close>.
\<close>

record tx =
  GetMsgs :: "msg list"
  GetExtensionOptions :: "string list"
  GetSigners :: "bytes list option"

section \<open>The context\<close>

text \<open>
  \<open>sdk.Context\<close>: the stores of the modules by store key, their parameter subspaces, the events
  emitted so far, the block header fields the code reads, and the state of everything
  outside this repository (bank, accounts, EVM, IBC, gas meter).
\<close>

record 'w ctx =
  kv :: "string \<Rightarrow> kvstore"
  prm :: "string \<Rightarrow> subspace"
  evs :: "event list"
  BlockHeight :: int
  BlockTime :: int
  IsCheckTx :: bool
  world :: 'w

definition EmitEvent :: "event \<Rightarrow> ('w ctx, unit) go" where
  "EmitEvent e = modify (\<lambda>c. c\<lparr>evs := evs c @ [e]\<rparr>)"

lemma EmitEvent_run [simp]: "EmitEvent e c = (Ok (), c\<lparr>evs := evs c @ [e]\<rparr>)"
  by (simp add: EmitEvent_def)

definition store_upd :: "string \<Rightarrow> (kvstore \<Rightarrow> kvstore) \<Rightarrow> 'w ctx \<Rightarrow> 'w ctx" where
  "store_upd m f c = c\<lparr>kv := (kv c)(m := f (kv c m))\<rparr>"

lemma store_upd_sel [simp]:
  "kv (store_upd m f c) = (kv c)(m := f (kv c m))"
  "prm (store_upd m f c) = prm c" "evs (store_upd m f c) = evs c" "world (store_upd m f c) = world c"
  "BlockTime (store_upd m f c) = BlockTime c" "BlockHeight (store_upd m f c) = BlockHeight c"
  by (simp_all add: store_upd_def)

type_synonym 'w ante_handler = "tx \<Rightarrow> bool \<Rightarrow> ('w ctx, unit) go"
type_synonym 'w ante_decorator = "tx \<Rightarrow> bool \<Rightarrow> 'w ante_handler \<Rightarrow> ('w ctx, unit) go"

text \<open>\<open>paramSpace.Set\<close>, \<open>Has\<close>, \<open>GetIfExists\<close> on the subspace of a module.\<close>

definition param_set :: "string \<Rightarrow> string \<Rightarrow> param \<Rightarrow> 'w ctx \<Rightarrow> 'w ctx" where
  "param_set m k v c = c\<lparr>prm := (prm c)(m := (prm c m)(k \<mapsto> v))\<rparr>"

lemma param_set_sel [simp]:
  "prm (param_set m k v c) = (prm c)(m := (prm c m)(k \<mapsto> v))"
  "kv (param_set m k v c) = kv c" "evs (param_set m k v c) = evs c" "world (param_set m k v c) = world c"
  "BlockTime (param_set m k v c) = BlockTime c" "BlockHeight (param_set m k v c) = BlockHeight c"
  by (simp_all add: param_set_def)

definition GetIfExists :: "string \<Rightarrow> string \<Rightarrow> (param \<Rightarrow> 'a result) \<Rightarrow> 'a \<Rightarrow> 'w ctx \<Rightarrow> 'a result" where
  "GetIfExists m k decode dflt c = (case prm c m k of None \<Rightarrow> Ok dflt | Some p \<Rightarrow> decode p)"

text \<open>Decoding a stored parameter into a variable of a type; a mismatch panics.\<close>

fun as_bool :: "param \<Rightarrow> bool result" where
  "as_bool (PBool b) = Ok b"
| "as_bool _ = Panic ''type mismatch''"

fun as_strs :: "param \<Rightarrow> string list result" where
  "as_strs (PStrs xs) = Ok xs"
| "as_strs _ = Panic ''type mismatch''"

fun as_u64 :: "param \<Rightarrow> u64 result" where
  "as_u64 (PU64 x) = Ok x"
| "as_u64 _ = Panic ''type mismatch''"

definition param_SetParamSet :: "string \<Rightarrow> param_pair list \<Rightarrow> ('w ctx, unit) go" where
  "param_SetParamSet m ps = (\<lambda>c. case SetParamSet ps (prm c m) of
     (r, ss) \<Rightarrow> (r, c\<lparr>prm := (prm c)(m := ss)\<rparr>))"

text \<open>A call into code outside the repository: it changes the outside state only.\<close>

definition ext :: "('w, 'a) go \<Rightarrow> ('w ctx, 'a) go" where
  "ext m = (\<lambda>c. case m (world c) of (r, w) \<Rightarrow> (r, c\<lparr>world := w\<rparr>))"

lemma ext_Ok: "ext m c = (Ok x, c') \<longleftrightarrow> (\<exists>w. m (world c) = (Ok x, w) \<and> c' = c\<lparr>world := w\<rparr>)"
  by (auto simp: ext_def split: prod.splits)

lemma ext_OkE [elim!]:
  assumes "ext m c = (Ok x, c')"
  obtains w where "m (world c) = (Ok x, w)" and "c' = c\<lparr>world := w\<rparr>"
  using assms by (auto simp: ext_Ok)

section \<open>Interfaces of external code\<close>

text \<open>Address and hash functions (SDK, go-ethereum, Ethermint, Tendermint).\<close>

record lib =
  AccAddressFromBech32 :: "string \<Rightarrow> bytes result"
  AccAddress_String :: "bytes \<Rightarrow> string"
  VerifyAddressFormat :: "bytes \<Rightarrow> unit result"
  IsHexAddress :: "string \<Rightarrow> bool"
  HexToAddress :: "string \<Rightarrow> address"
  Address_Hex :: "address \<Rightarrow> string"
  BytesToAddress :: "bytes \<Rightarrow> address"
  ValidateAddress :: "string \<Rightarrow> unit result"
  NewModuleAddress :: "string \<Rightarrow> bytes"
  tmhash_Sum :: "bytes \<Rightarrow> bytes"
  Keccak256Hash_Hex :: "bytes \<Rightarrow> string"
  CreateAddress :: "address \<Rightarrow> u64 \<Rightarrow> address"
  FromHex :: "string \<Rightarrow> bytes"

text \<open>
  Governance and IBC functions: proposal titles and descriptions, denominations and traces,
  identifiers, Bech32 text with any prefix, and the JSON of an ICS-20 packet.
\<close>

record packet_data =
  pd_Denom :: string
  pd_Amount :: string
  pd_Sender :: string
  pd_Receiver :: string

record ibclib =
  ValidateAbstract :: "string \<Rightarrow> string \<Rightarrow> unit result"
  ValidateIBCDenom :: "string \<Rightarrow> unit result"
  PortIdentifierValidator :: "string \<Rightarrow> unit result"
  ChannelIdentifierValidator :: "string \<Rightarrow> unit result"
  DecodeAndConvert :: "string \<Rightarrow> (string \<times> bytes) result"
  GetFromBech32 :: "string \<Rightarrow> string \<Rightarrow> bytes result"
  Bech32AccountAddrPrefix :: string
  UnmarshalPacketData :: "bytes \<Rightarrow> packet_data result"
  ReceiverChainIsSource :: "string \<Rightarrow> string \<Rightarrow> string \<Rightarrow> bool"
  GetDenomPrefix :: "string \<Rightarrow> string \<Rightarrow> string"
  DenomTrace_Path :: "string \<Rightarrow> string"
  DenomTrace_IBCDenom :: "string \<Rightarrow> string"
  NewIntFromString :: "string \<Rightarrow> int option"

text \<open>
  Numbers and coins of the SDK. A decimal (\<open>sdk.Dec\<close>) is represented by the integer it is
  scaled to. Methods that panic on overflow or on mismatched denominations give a result.
\<close>

record mathlib =
  NewDecFromInt :: "int \<Rightarrow> int"
  MulInt64 :: "int \<Rightarrow> int \<Rightarrow> int result"
  QuoInt64 :: "int \<Rightarrow> int \<Rightarrow> int result"
  TruncateInt :: "int \<Rightarrow> int"
  Int_Add :: "int \<Rightarrow> int \<Rightarrow> int result"
  Int_Sub :: "int \<Rightarrow> int \<Rightarrow> int result"
  NewIntFromBigInt :: "int \<Rightarrow> int result"
  ValidateDenom :: "string \<Rightarrow> unit result"
  NewCoin :: "string \<Rightarrow> int \<Rightarrow> coin result"
  NewCoins :: "coin list \<Rightarrow> coin list result"
  Coin_Validate :: "coin \<Rightarrow> unit result"
  Coin_Add :: "coin \<Rightarrow> coin \<Rightarrow> coin result"
  Coin_IsLT :: "coin \<Rightarrow> coin \<Rightarrow> bool result"
  Coin_IsEqual :: "coin \<Rightarrow> coin \<Rightarrow> bool result"
  Metadata_Validate :: "metadata \<Rightarrow> unit result"

text \<open>The bank keeper, over the outside state \<open>'w\<close>.\<close>

record 'w bank_keeper =
  SendCoins :: "bytes \<Rightarrow> bytes \<Rightarrow> coin list \<Rightarrow> ('w, unit) go"
  SendCoinsFromModuleToAccount :: "string \<Rightarrow> bytes \<Rightarrow> coin list \<Rightarrow> ('w, unit) go"
  SendCoinsFromAccountToModule :: "bytes \<Rightarrow> string \<Rightarrow> coin list \<Rightarrow> ('w, unit) go"
  MintCoins :: "string \<Rightarrow> coin list \<Rightarrow> ('w, unit) go"
  BurnCoins :: "string \<Rightarrow> coin list \<Rightarrow> ('w, unit) go"
  IsSendEnabledCoin :: "coin \<Rightarrow> 'w \<Rightarrow> bool"
  IsSendEnabledCoins :: "coin list \<Rightarrow> 'w \<Rightarrow> unit result"
  BlockedAddr :: "bytes \<Rightarrow> bool"
  GetDenomMetaData :: "string \<Rightarrow> 'w \<Rightarrow> metadata option"
  SetDenomMetaData :: "metadata \<Rightarrow> 'w \<Rightarrow> 'w"
  HasSupply :: "string \<Rightarrow> 'w \<Rightarrow> bool"
  GetBalance :: "bytes \<Rightarrow> string \<Rightarrow> 'w \<Rightarrow> coin"

text \<open>Accounts: the key type, number and sequence the code looks at.\<close>

datatype pubkey = PubKey (pk_type: string) (pk_bytes: bytes)

datatype account_kind = EthAccount | BaseAccount | ModuleAccount | OtherAccount

record account =
  acc_kind :: account_kind
  acc_address :: bytes
  acc_pubkey :: "pubkey option"
  acc_number :: u64
  acc_sequence :: u64

record 'w account_keeper =
  GetSequence :: "bytes \<Rightarrow> 'w \<Rightarrow> u64 result"
  GetAccount :: "bytes \<Rightarrow> 'w \<Rightarrow> account option"
  SetAccount :: "account \<Rightarrow> 'w \<Rightarrow> 'w"
  GetModuleAccount :: "string \<Rightarrow> ('w, bytes option) go"
  DeductFees :: "account option \<Rightarrow> coin list \<Rightarrow> ('w, unit) go"

text \<open>
  The EVM: values of the ABI, logs, the response of a message, and the keeper. A contract
  of the repository is named; its ABI and byte code are compiled Solidity.
\<close>

datatype abi_value = VAddr address | VUint int | VStr string | VBool bool | VBytes bytes
  | VList "abi_value list" | VUint8 u8 | VUint16 u16

datatype contract_name = ERC20MinterBurnerDecimals | LiquidInfrastructureNFT | CrocPolicy

record evm_log =
  log_Address :: address
  log_Topics :: "bytes list"
  log_Data :: bytes

record evm_response =
  evm_Ret :: bytes
  evm_Failed :: bool
  evm_Logs :: "evm_log list"
  evm_GasUsed :: u64

record evm_message =
  em_From :: address
  em_To :: "address option"
  em_Nonce :: u64
  em_Amount :: int
  em_GasLimit :: u64
  em_Data :: bytes
  em_IsFake :: bool

record 'w evm_keeper =
  GetAccountWithoutBalance :: "address \<Rightarrow> 'w \<Rightarrow> bool option"
  EstimateGas :: "address \<Rightarrow> address option \<Rightarrow> bytes \<Rightarrow> ('w, u64) go"
  ApplyMessage :: "evm_message \<Rightarrow> bool \<Rightarrow> ('w, evm_response) go"
  abi_Pack :: "contract_name \<Rightarrow> string \<Rightarrow> abi_value list \<Rightarrow> bytes result"
  abi_Unpack :: "contract_name \<Rightarrow> string \<Rightarrow> bytes \<Rightarrow> abi_value list result"
  abi_EventByID :: "contract_name \<Rightarrow> bytes \<Rightarrow> string result"
  abi_Arguments_Pack :: "string list \<Rightarrow> abi_value list \<Rightarrow> bytes result"
  contract_Bin :: "contract_name \<Rightarrow> bytes"
  DefaultGasCap :: u64
  GasMeter_Limit :: "'w \<Rightarrow> u64"
  GasMeter_Consumed :: "'w \<Rightarrow> u64"
  ConsumeGas :: "u64 \<Rightarrow> ('w, unit) go"

text \<open>Everything a keeper is constructed with.\<close>

record 'w env =
  libs :: lib
  math :: mathlib
  bank :: "'w bank_keeper"
  acct :: "'w account_keeper"
  evm :: "'w evm_keeper"
  ibc :: ibclib
  ibc_Transfer :: "transfer_msg \<Rightarrow> ('w, u64) go"

end
