(* ===== verification/Laws.thy ===== *)
theory Laws
  imports Chain
begin

text \<open>
  What the properties assume of the code outside the repository. Each predicate states documented
  behaviour of one dependency; the theory Concrete gives an instance that satisfies all of them.
\<close>

section \<open>Numbers and coins\<close>

text \<open>Division that truncates towards zero, as \<open>big.Int.Quo\<close>.\<close>

definition tquot :: "int \<Rightarrow> int \<Rightarrow> int" where
  "tquot a b = sgn a * sgn b * (\<bar>a\<bar> div \<bar>b\<bar>)"

text \<open>
  \<open>sdk.Dec\<close> scales by \<open>10 ^ 18\<close> and has at most 315 bits; \<open>sdk.Int\<close> has at most 256 bits; a coin has
  a valid denomination and a non-negative amount; coins of different denominations are not
  compared or added.
\<close>

definition dec_ok :: "mathlib \<Rightarrow> bool" where
  "dec_ok M \<longleftrightarrow>
     (\<forall>n. NewDecFromInt M n = n * 10 ^ 18) \<and>
     (\<forall>d k. \<bar>d * k\<bar> < 2 ^ 315 \<longrightarrow> MulInt64 M d k = Ok (d * k)) \<and>
     (\<forall>d k. k \<noteq> 0 \<longrightarrow> QuoInt64 M d k = Ok (tquot d k)) \<and>
     (\<forall>d. TruncateInt M d = tquot d (10 ^ 18)) \<and>
     (\<forall>a b. \<bar>a + b\<bar> < 2 ^ 256 \<longrightarrow> Int_Add M a b = Ok (a + b)) \<and>
     (\<forall>a b r. Int_Add M a b = Ok r \<longrightarrow> r = a + b)"

definition coin_ok :: "mathlib \<Rightarrow> bool" where
  "coin_ok M \<longleftrightarrow>
     (\<forall>d a. is_ok (ValidateDenom M d) \<and> 0 \<le> a \<longrightarrow> NewCoin M d a = Ok \<lparr>coin_denom = d, coin_amount = a\<rparr>) \<and>
     (\<forall>d a r. NewCoin M d a = Ok r \<longrightarrow> r = \<lparr>coin_denom = d, coin_amount = a\<rparr> \<and> 0 \<le> a) \<and>
     (\<forall>x. is_ok (ValidateDenom M (coin_denom x)) \<and> 0 < coin_amount x \<longrightarrow> NewCoins M [x] = Ok [x]) \<and>
     (\<forall>x xs. NewCoins M [x] = Ok xs \<and> 0 < coin_amount x \<longrightarrow> xs = [x]) \<and>
     (\<forall>x y r. Coin_Add M x y = Ok r \<longrightarrow>
        r = \<lparr>coin_denom = coin_denom x, coin_amount = coin_amount x + coin_amount y\<rparr>) \<and>
     (\<forall>x y. coin_denom x = coin_denom y \<longrightarrow> Coin_IsLT M x y = Ok (coin_amount x < coin_amount y)) \<and>
     (\<forall>x y. coin_denom x = coin_denom y \<longrightarrow> Coin_IsEqual M x y = Ok (coin_amount x = coin_amount y))"

section \<open>Addresses\<close>

text \<open>The text of an address reads back as the address.\<close>

definition addr_ok :: "lib \<Rightarrow> bool" where
  "addr_ok L \<longleftrightarrow>
     (\<forall>a. HexToAddress L (Address_Hex L a) = a) \<and>
     (\<forall>a. IsHexAddress L (Address_Hex L a)) \<and>
     (\<forall>a. CHR ''|'' \<notin> set (Address_Hex L a)) \<and>
     (\<forall>a. length (addr_bytes a) = 20 \<longrightarrow> length (Address_Hex L a) = 42)"

text \<open>The Bech32 text of an address of acceptable format reads back as the address.\<close>

definition bech32_ok :: "lib \<Rightarrow> bool" where
  "bech32_ok L \<longleftrightarrow>
     (\<forall>a u. VerifyAddressFormat L a = Ok u \<longrightarrow> AccAddressFromBech32 L (AccAddress_String L a) = Ok a)"

text \<open>
  A valid address is the text of 20 bytes in hexadecimal, a valid denomination has at most 128
  characters, and a hash is not empty.
\<close>

definition valid_ok :: "lib \<Rightarrow> mathlib \<Rightarrow> bool" where
  "valid_ok L M \<longleftrightarrow>
     (\<forall>s. is_ok (ValidateAddress L s) \<longrightarrow> s \<noteq> [] \<and> CHR ''|'' \<notin> set s \<and> length s \<le> 42) \<and>
     (\<forall>d. is_ok (ValidateDenom M d) \<longrightarrow> length d \<le> 128) \<and>
     (\<forall>b. b \<noteq> [] \<longrightarrow> tmhash_Sum L b \<noteq> [])"

section \<open>Bank and accounts\<close>

abbreviation bal :: "'w env \<Rightarrow> bytes \<Rightarrow> string \<Rightarrow> 'w \<Rightarrow> int" where
  "bal E a d w \<equiv> coin_amount (GetBalance (bank E) a d w)"

text \<open>All balances of \<open>w'\<close> are those of \<open>w\<close>, except that \<open>f\<close> is added in denomination \<open>d\<close>.\<close>

definition bal_change :: "'w env \<Rightarrow> 'w \<Rightarrow> 'w \<Rightarrow> string \<Rightarrow> (bytes \<Rightarrow> int) \<Rightarrow> bool" where
  "bal_change E w w' d f \<longleftrightarrow>
     (\<forall>a d'. bal E a d' w' = bal E a d' w + (if d' = d then f a else 0))"

definition pay :: "bytes \<Rightarrow> bytes \<Rightarrow> int \<Rightarrow> bytes \<Rightarrow> int" where
  "pay from to amt a = (if a = to then amt else 0) - (if a = from then amt else 0)"

abbreviation module_acc :: "'w env \<Rightarrow> string \<Rightarrow> bytes" where
  "module_acc E m \<equiv> NewModuleAddress (libs E) m"

definition bank_ok :: "'w env \<Rightarrow> bool" where
  "bank_ok E \<longleftrightarrow>
     (\<forall>a d w. coin_denom (GetBalance (bank E) a d w) = d) \<and>
     (\<forall>from to x w w' u. SendCoins (bank E) from to [x] w = (Ok u, w') \<longrightarrow>
        bal_change E w w' (coin_denom x) (pay from to (coin_amount x))) \<and>
     (\<forall>from m x w w' u. SendCoinsFromAccountToModule (bank E) from m [x] w = (Ok u, w') \<longrightarrow>
        bal_change E w w' (coin_denom x) (pay from (module_acc E m) (coin_amount x))) \<and>
     (\<forall>to m x w w' u. SendCoinsFromModuleToAccount (bank E) m to [x] w = (Ok u, w') \<longrightarrow>
        bal_change E w w' (coin_denom x) (pay (module_acc E m) to (coin_amount x))) \<and>
     (\<forall>m x w w' u. MintCoins (bank E) m [x] w = (Ok u, w') \<longrightarrow>
        bal_change E w w' (coin_denom x) (\<lambda>a. if a = module_acc E m then coin_amount x else 0)) \<and>
     (\<forall>m x w w' u. BurnCoins (bank E) m [x] w = (Ok u, w') \<longrightarrow>
        bal_change E w w' (coin_denom x) (\<lambda>a. if a = module_acc E m then - coin_amount x else 0))"

definition fees_ok :: "'w env \<Rightarrow> bool" where
  "fees_ok E \<longleftrightarrow>
     (\<forall>a w acc. GetAccount (acct E) a w = Some acc \<longrightarrow> acc_address acc = a) \<and>
     (\<forall>acc xs w w' u. DeductFees (acct E) acc xs w = (Ok u, w') \<longrightarrow> acc \<noteq> None) \<and>
     (\<forall>acc x w w' u. DeductFees (acct E) (Some acc) [x] w = (Ok u, w') \<longrightarrow>
        bal_change E w w' (coin_denom x) (pay (acc_address acc) (module_acc E ''fee_collector'') (coin_amount x)))"

section \<open>EVM\<close>

text \<open>
  A message that is not committed and a gas estimate leave the state as it is. A message
  changes no bank balance except in the EVM's own denomination. What an uncommitted message
  returns, the sequence numbers and the accounts of the EVM depend on no bank balance except
  that one.
\<close>

definition evm_query_ok :: "'w env \<Rightarrow> bool" where
  "evm_query_ok E \<longleftrightarrow>
     (\<forall>m w r w'. ApplyMessage (evm E) m False w = (r, w') \<longrightarrow> w' = w) \<and>
     (\<forall>a b d w r w'. EstimateGas (evm E) a b d w = (r, w') \<longrightarrow> w' = w)"

definition evm_frame_ok :: "'w env \<Rightarrow> string \<Rightarrow> bool" where
  "evm_frame_ok E evmDenom \<longleftrightarrow>
     (\<forall>m b w r w' a d. ApplyMessage (evm E) m b w = (r, w') \<and> d \<noteq> evmDenom \<longrightarrow> bal E a d w' = bal E a d w)"

text \<open>\<open>w\<close> and \<open>w'\<close> look the same to the EVM.\<close>

definition same_evm :: "'w env \<Rightarrow> 'w \<Rightarrow> 'w \<Rightarrow> bool" where
  "same_evm E w w' \<longleftrightarrow>
     (\<forall>m. fst (ApplyMessage (evm E) m False w') = fst (ApplyMessage (evm E) m False w)) \<and>
     (\<forall>a. GetSequence (acct E) a w' = GetSequence (acct E) a w)"

definition bank_evm_ok :: "'w env \<Rightarrow> string \<Rightarrow> bool" where
  "bank_evm_ok E evmDenom \<longleftrightarrow>
     (\<forall>from m x w w' u. SendCoinsFromAccountToModule (bank E) from m [x] w = (Ok u, w') \<and>
        coin_denom x \<noteq> evmDenom \<longrightarrow> same_evm E w w') \<and>
     (\<forall>to m x w w' u. SendCoinsFromModuleToAccount (bank E) m to [x] w = (Ok u, w') \<and>
        coin_denom x \<noteq> evmDenom \<longrightarrow> same_evm E w w') \<and>
     (\<forall>m x w w' u. MintCoins (bank E) m [x] w = (Ok u, w') \<and> coin_denom x \<noteq> evmDenom \<longrightarrow> same_evm E w w') \<and>
     (\<forall>m x w w' u. BurnCoins (bank E) m [x] w = (Ok u, w') \<and> coin_denom x \<noteq> evmDenom \<longrightarrow> same_evm E w w')"

text \<open>Paying fees in another denomination is invisible to the EVM.\<close>

definition fees_evm_ok :: "'w env \<Rightarrow> string \<Rightarrow> bool" where
  "fees_evm_ok E evmDenom \<longleftrightarrow>
     (\<forall>acc x w w' u. DeductFees (acct E) acc [x] w = (Ok u, w') \<and> coin_denom x \<noteq> evmDenom \<longrightarrow> same_evm E w w')"

lemma bal_change_0: "bal_change E w w' d f \<Longrightarrow> f = (\<lambda>_. 0) \<Longrightarrow> bal E a d' w' = bal E a d' w"
  by (simp add: bal_change_def)

lemma bal_change_trans:
  "bal_change E w w1 d f \<Longrightarrow> bal_change E w1 w2 d g \<Longrightarrow> bal_change E w w2 d (\<lambda>a. f a + g a)"
  by (simp add: bal_change_def)

lemma bal_changeD: "bal_change E w w' d f \<Longrightarrow> bal E a d w' = bal E a d w + f a"
  by (simp add: bal_change_def)

lemma bal_changeD_other: "bal_change E w w' d f \<Longrightarrow> d' \<noteq> d \<Longrightarrow> bal E a d' w' = bal E a d' w"
  by (simp add: bal_change_def)

lemma same_evm_refl [simp]: "same_evm E w w"
  by (simp add: same_evm_def)

lemma same_evm_trans: "same_evm E w w1 \<Longrightarrow> same_evm E w1 w2 \<Longrightarrow> same_evm E w w2"
  by (simp add: same_evm_def)

section \<open>The laws as rules\<close>

lemma fees_okD:
  "fees_ok E \<Longrightarrow> GetAccount (acct E) a w = Some acc \<Longrightarrow> acc_address acc = a"
  "fees_ok E \<Longrightarrow> DeductFees (acct E) None xs w \<noteq> (Ok u, w')"
  "fees_ok E \<Longrightarrow> DeductFees (acct E) (Some acc) [x] w = (Ok u, w') \<Longrightarrow>
     bal_change E w w' (coin_denom x) (pay (acc_address acc) (module_acc E ''fee_collector'') (coin_amount x))"
  unfolding fees_ok_def by blast+

lemma bank_okD:
  "bank_ok E \<Longrightarrow> coin_denom (GetBalance (bank E) a d w) = d"
  "bank_ok E \<Longrightarrow> SendCoins (bank E) from to [x] w = (Ok u, w') \<Longrightarrow>
     bal_change E w w' (coin_denom x) (pay from to (coin_amount x))"
  "bank_ok E \<Longrightarrow> SendCoinsFromAccountToModule (bank E) from m [x] w = (Ok u, w') \<Longrightarrow>
     bal_change E w w' (coin_denom x) (pay from (module_acc E m) (coin_amount x))"
  "bank_ok E \<Longrightarrow> SendCoinsFromModuleToAccount (bank E) m to [x] w = (Ok u, w') \<Longrightarrow>
     bal_change E w w' (coin_denom x) (pay (module_acc E m) to (coin_amount x))"
  "bank_ok E \<Longrightarrow> MintCoins (bank E) m [x] w = (Ok u, w') \<Longrightarrow>
     bal_change E w w' (coin_denom x) (\<lambda>a. if a = module_acc E m then coin_amount x else 0)"
  "bank_ok E \<Longrightarrow> BurnCoins (bank E) m [x] w = (Ok u, w') \<Longrightarrow>
     bal_change E w w' (coin_denom x) (\<lambda>a. if a = module_acc E m then - coin_amount x else 0)"
  unfolding bank_ok_def by meson+

lemma evm_query_okD:
  "evm_query_ok E \<Longrightarrow> ApplyMessage (evm E) m False w = (r, w') \<Longrightarrow> w' = w"
  "evm_query_ok E \<Longrightarrow> EstimateGas (evm E) a b d w = (g, w') \<Longrightarrow> w' = w"
  unfolding evm_query_ok_def by blast+

lemma evm_frame_okD:
  "evm_frame_ok E ed \<Longrightarrow> ApplyMessage (evm E) m b w = (r, w') \<Longrightarrow> d \<noteq> ed \<Longrightarrow> bal E a d w' = bal E a d w"
  unfolding evm_frame_ok_def by blast

lemma bank_evm_okD:
  "bank_evm_ok E ed \<Longrightarrow> SendCoinsFromAccountToModule (bank E) from m [x] w = (Ok u, w') \<Longrightarrow>
     coin_denom x \<noteq> ed \<Longrightarrow> same_evm E w w'"
  "bank_evm_ok E ed \<Longrightarrow> SendCoinsFromModuleToAccount (bank E) m to [x] w = (Ok u, w') \<Longrightarrow>
     coin_denom x \<noteq> ed \<Longrightarrow> same_evm E w w'"
  "bank_evm_ok E ed \<Longrightarrow> MintCoins (bank E) m [x] w = (Ok u, w') \<Longrightarrow> coin_denom x \<noteq> ed \<Longrightarrow> same_evm E w w'"
  "bank_evm_ok E ed \<Longrightarrow> BurnCoins (bank E) m [x] w = (Ok u, w') \<Longrightarrow> coin_denom x \<noteq> ed \<Longrightarrow> same_evm E w w'"
  unfolding bank_evm_ok_def by meson+

lemma fees_evm_okD:
  "fees_evm_ok E ed \<Longrightarrow> DeductFees (acct E) acc [x] w = (Ok u, w') \<Longrightarrow> coin_denom x \<noteq> ed \<Longrightarrow> same_evm E w w'"
  unfolding fees_evm_ok_def by meson

lemma bech32_okD:
  "bech32_ok L \<Longrightarrow> VerifyAddressFormat L a = Ok u \<Longrightarrow> AccAddressFromBech32 L (AccAddress_String L a) = Ok a"
  unfolding bech32_ok_def by blast

lemma coin_okD:
  "coin_ok M \<Longrightarrow> NewCoin M d a = Ok x \<Longrightarrow> x = \<lparr>coin_denom = d, coin_amount = a\<rparr> \<and> 0 \<le> a"
  "coin_ok M \<Longrightarrow> NewCoins M [y] = Ok xs \<Longrightarrow> 0 < coin_amount y \<Longrightarrow> xs = [y]"
  "coin_ok M \<Longrightarrow> Coin_Add M y z = Ok x \<Longrightarrow>
     x = \<lparr>coin_denom = coin_denom y, coin_amount = coin_amount y + coin_amount z\<rparr>"
  "coin_ok M \<Longrightarrow> coin_denom y = coin_denom z \<Longrightarrow> Coin_IsLT M y z = Ok (coin_amount y < coin_amount z)"
  "coin_ok M \<Longrightarrow> coin_denom y = coin_denom z \<Longrightarrow> Coin_IsEqual M y z = Ok (coin_amount y = coin_amount z)"
  "coin_ok M \<Longrightarrow> is_ok (ValidateDenom M d) \<Longrightarrow> 0 \<le> a \<Longrightarrow> NewCoin M d a = Ok \<lparr>coin_denom = d, coin_amount = a\<rparr>"
  unfolding coin_ok_def by meson+

lemma dec_okD:
  "dec_ok M \<Longrightarrow> Int_Add M a b = Ok r \<Longrightarrow> r = a + b"
  unfolding dec_ok_def by blast

lemma valid_okD:
  "valid_ok L M \<Longrightarrow> ValidateAddress L s = Ok u \<Longrightarrow> s \<noteq> [] \<and> CHR ''|'' \<notin> set s \<and> length s \<le> 42"
  "valid_ok L M \<Longrightarrow> ValidateDenom M d = Ok u \<Longrightarrow> length d \<le> 128"
  "valid_ok L M \<Longrightarrow> b \<noteq> [] \<Longrightarrow> tmhash_Sum L b \<noteq> []"
  unfolding valid_ok_def by (metis is_ok.simps(1))+

lemma addr_okD:
  "addr_ok L \<Longrightarrow> HexToAddress L (Address_Hex L a) = a"
  "addr_ok L \<Longrightarrow> IsHexAddress L (Address_Hex L a)"
  "addr_ok L \<Longrightarrow> CHR ''|'' \<notin> set (Address_Hex L a)"
  "addr_ok L \<Longrightarrow> length (addr_bytes a) = 20 \<Longrightarrow> length (Address_Hex L a) = 42"
  unfolding addr_ok_def by blast+

end
