(* ===== verification/Concrete.thy ===== *)
theory Concrete
  imports Laws
begin

text \<open>
  A concrete instance of the external interfaces: addresses are their own text, hashes are the
  identity, and the outside state is a ledger. It shows that the laws assumed of the external
  code can hold, and it is the instance on which the witnesses are evaluated.
\<close>

section \<open>Addresses and hashes\<close>

text \<open>Hexadecimal text of a byte string.\<close>

definition hex_digits :: string where
  "hex_digits = ''0123456789abcdef''"

definition hex_value :: "char \<Rightarrow> nat" where
  "hex_value x = length (takeWhile (\<lambda>y. y \<noteq> lower_char x) hex_digits)"

fun to_hex :: "bytes \<Rightarrow> string" where
  "to_hex [] = []"
| "to_hex (b # bs) = hex_digits ! (of_char b div 16) # hex_digits ! (of_char b mod 16) # to_hex bs"

fun from_hex :: "string \<Rightarrow> bytes" where
  "from_hex (x # y # s) = char_of (16 * hex_value x + hex_value y) # from_hex s"
| "from_hex _ = []"

lemma hex_value_digit: "n < 16 \<Longrightarrow> hex_value (hex_digits ! n) = n"
proof -
  have "\<forall>n \<in> set [0..<16]. hex_value (hex_digits ! n) = n"
    by code_simp
  then show "n < 16 \<Longrightarrow> ?thesis" by simp
qed

lemma of_char_less: "(of_char b :: nat) < 256"
  by (metis mod_less_divisor of_char_mod_256 zero_less_numeral)

lemma from_to_hex [simp]: "from_hex (to_hex bs) = bs"
  by (induction bs) (auto simp: hex_value_digit less_mult_imp_div_less [of _ 16 16] of_char_less)

lemma hex_digit_no_bar: "n < 16 \<Longrightarrow> CHR ''|'' \<noteq> hex_digits ! n"
proof -
  have "\<forall>n \<in> set [0..<16]. CHR ''|'' \<noteq> hex_digits ! n"
    by code_simp
  then show "n < 16 \<Longrightarrow> ?thesis" by simp
qed

lemma to_hex_no_bar: "CHR ''|'' \<notin> set (to_hex bs)"
  by (induction bs) (auto simp: hex_digit_no_bar less_mult_imp_div_less [of _ 16 16] of_char_less)

definition c_lib :: lib where
  "c_lib = \<lparr>
     AccAddressFromBech32 = (\<lambda>s. if s = [] then Err (Errorf ''empty address string is not allowed'') else Ok s),
     AccAddress_String = (\<lambda>b. b),
     VerifyAddressFormat = (\<lambda>b. if b = [] then Err (Errorf ''addresses cannot be empty'') else Ok ()),
     IsHexAddress = (\<lambda>s. HasPrefix s ''0x''),
     HexToAddress = (\<lambda>s. if HasPrefix s ''0x'' then Addr (from_hex (drop 2 s)) else Addr (from_hex s)),
     Address_Hex = (\<lambda>a. ''0x'' @ to_hex (addr_bytes a)),
     BytesToAddress = Addr,
     ValidateAddress = (\<lambda>s. if HasPrefix s ''0x'' \<and> CHR ''|'' \<notin> set s \<and> length s \<le> 42 then Ok ()
        else Err ErrInvalidAddress),
     NewModuleAddress = (\<lambda>n. ''module:'' @ n),
     tmhash_Sum = (\<lambda>b. b),
     Keccak256Hash_Hex = (\<lambda>b. b),
     CreateAddress = (\<lambda>a n. Addr (take 20 (addr_bytes a @ ''/contract'' @ replicate 20 (CHR ''0'')))),
     FromHex = (\<lambda>s. if HasPrefix s ''0x'' then from_hex (drop 2 s) else from_hex s)\<rparr>"

text \<open>The text of an address may have any prefix that ends in the digit one; a packet is its fields in lines.\<close>

definition c_ibc :: ibclib where
  "c_ibc = \<lparr>
     ValidateAbstract = (\<lambda>t d. if t = [] \<or> d = [] then Err (ExtErr ''invalid proposal content'') else Ok ()),
     ValidateIBCDenom = (\<lambda>d. if d = [] then Err (ExtErr ''denom cannot be empty'') else Ok ()),
     PortIdentifierValidator = (\<lambda>p. if p = [] then Err (ExtErr ''invalid identifier'') else Ok ()),
     ChannelIdentifierValidator = (\<lambda>p. if p = [] then Err (ExtErr ''invalid identifier'') else Ok ()),
     DecodeAndConvert = (\<lambda>s. if s = [] then Err (ExtErr ''decoding bech32 failed'') else Ok (''althea'', s)),
     GetFromBech32 = (\<lambda>s p. if HasPrefix s (p @ ''1'') then Ok (drop (length p + 1) s) else Err (ExtErr ''invalid prefix'')),
     Bech32AccountAddrPrefix = ''althea'',
     UnmarshalPacketData = (\<lambda>b. case SplitN2 (CHR '':'') b of
        [d, rest] \<Rightarrow> (case SplitN2 (CHR '':'') rest of
           [s, r] \<Rightarrow> Ok \<lparr>pd_Denom = d, pd_Amount = ''7'', pd_Sender = s, pd_Receiver = r\<rparr>
         | _ \<Rightarrow> Err (ExtErr ''invalid JSON''))
      | _ \<Rightarrow> Err (ExtErr ''invalid JSON'')),
     ReceiverChainIsSource = (\<lambda>p c d. HasPrefix d (p @ ''/'' @ c @ ''/'')),
     GetDenomPrefix = (\<lambda>p c. p @ ''/'' @ c @ ''/''),
     DenomTrace_Path = (\<lambda>d. if Contains d ''/'' then ''path'' else []),
     DenomTrace_IBCDenom = (\<lambda>d. if Contains d ''/'' then ''ibc/'' @ d else d),
     NewIntFromString = (\<lambda>s. Some 7)\<rparr>"

section \<open>A context over any outside state\<close>

definition c_ctx :: "'w \<Rightarrow> 'w ctx" where
  "c_ctx w = \<lparr>kv = (\<lambda>_. []), prm = (\<lambda>_. Map.empty), evs = [], BlockHeight = 1, BlockTime = 0,
     IsCheckTx = False, world = w\<rparr>"

lemma c_ctx_sel [simp]:
  "kv (c_ctx w) = (\<lambda>_. [])" "prm (c_ctx w) = (\<lambda>_. Map.empty)" "evs (c_ctx w) = []" "world (c_ctx w) = w"
  by (simp_all add: c_ctx_def)

definition c_tx :: "msg list \<Rightarrow> tx" where
  "c_tx ms = \<lparr>GetMsgs = ms, GetExtensionOptions = [], GetSigners = Some []\<rparr>"

lemma c_tx_sel [simp]: "GetMsgs (c_tx ms) = ms"
  by (simp add: c_tx_def)

section \<open>Numbers and coins\<close>

definition c_math :: mathlib where
  "c_math = \<lparr>
     NewDecFromInt = (\<lambda>n. n * 10 ^ 18),
     MulInt64 = (\<lambda>d k. Ok (d * k)),
     QuoInt64 = (\<lambda>d k. if k = 0 then Panic ''division by zero'' else Ok (tquot d k)),
     TruncateInt = (\<lambda>d. tquot d (10 ^ 18)),
     Int_Add = (\<lambda>a b. Ok (a + b)),
     Int_Sub = (\<lambda>a b. Ok (a - b)),
     NewIntFromBigInt = (\<lambda>n. Ok n),
     ValidateDenom = (\<lambda>d. if d = [] \<or> 128 < length d then Err (Errorf ''invalid denom'') else Ok ()),
     NewCoin = (\<lambda>d a. if d = [] \<or> 128 < length d \<or> a < 0 then Panic ''invalid coin'' else Ok \<lparr>coin_denom = d, coin_amount = a\<rparr>),
     NewCoins = (\<lambda>xs. Ok (filter (\<lambda>x. coin_amount x \<noteq> 0) xs)),
     Coin_Validate = (\<lambda>x. if coin_denom x = [] \<or> 128 < length (coin_denom x) \<or> coin_amount x < 0
        then Err (Errorf ''invalid coin'') else Ok ()),
     Coin_Add = (\<lambda>x y. if coin_denom x \<noteq> coin_denom y then Panic ''invalid coin denominations''
        else Ok \<lparr>coin_denom = coin_denom x, coin_amount = coin_amount x + coin_amount y\<rparr>),
     Coin_IsLT = (\<lambda>x y. if coin_denom x \<noteq> coin_denom y then Panic ''invalid coin denominations''
        else Ok (coin_amount x < coin_amount y)),
     Coin_IsEqual = (\<lambda>x y. if coin_denom x \<noteq> coin_denom y then Panic ''invalid coin denominations''
        else Ok (coin_amount x = coin_amount y)),
     Metadata_Validate = (\<lambda>m. Ok ())\<rparr>"

lemma c_dec_ok: "dec_ok c_math"
  by (simp add: dec_ok_def c_math_def)

lemma c_coin_ok: "coin_ok c_math"
  by (auto simp: coin_ok_def c_math_def split: if_splits)

lemma c_valid_ok: "valid_ok c_lib c_math"
  by (auto simp: valid_ok_def c_lib_def c_math_def HasPrefix_def)

lemma length_to_hex: "length (to_hex bs) = 2 * length bs"
  by (induction bs) auto

lemma c_addr_ok: "addr_ok c_lib"
  by (simp add: addr_ok_def c_lib_def HasPrefix_def to_hex_no_bar length_to_hex)

lemma c_bech32_ok: "bech32_ok c_lib"
  by (simp add: bech32_ok_def c_lib_def)

section \<open>A ledger\<close>

text \<open>Bank balances, token balances per contract, and denomination metadata.\<close>

record ledger =
  l_bal :: "bytes \<Rightarrow> string \<Rightarrow> int"
  l_tok :: "address \<Rightarrow> address \<Rightarrow> int"
  l_meta :: "string \<Rightarrow> metadata option"

definition l_add :: "bytes \<Rightarrow> string \<Rightarrow> int \<Rightarrow> ledger \<Rightarrow> ledger" where
  "l_add a d n w = w\<lparr>l_bal := (l_bal w)(a := (l_bal w a)(d := l_bal w a d + n))\<rparr>"

fun l_move :: "bytes \<Rightarrow> bytes \<Rightarrow> coin list \<Rightarrow> (ledger, unit) go" where
  "l_move f t [] w = (Ok (), w)"
| "l_move f t (x # xs) w =
     (if coin_amount x \<le> l_bal w f (coin_denom x)
      then l_move f t xs (l_add t (coin_denom x) (coin_amount x) (l_add f (coin_denom x) (- coin_amount x) w))
      else (Err (ExtErr ''insufficient funds''), w))"

fun l_mint :: "bytes \<Rightarrow> coin list \<Rightarrow> (ledger, unit) go" where
  "l_mint t [] w = (Ok (), w)"
| "l_mint t (x # xs) w = l_mint t xs (l_add t (coin_denom x) (coin_amount x) w)"

fun l_burn :: "bytes \<Rightarrow> coin list \<Rightarrow> (ledger, unit) go" where
  "l_burn f [] w = (Ok (), w)"
| "l_burn f (x # xs) w =
     (if coin_amount x \<le> l_bal w f (coin_denom x) then l_burn f xs (l_add f (coin_denom x) (- coin_amount x) w)
      else (Err (ExtErr ''insufficient funds''), w))"

definition c_bank :: "ledger bank_keeper" where
  "c_bank = \<lparr>
     SendCoins = l_move,
     SendCoinsFromModuleToAccount = (\<lambda>m t. l_move (NewModuleAddress c_lib m) t),
     SendCoinsFromAccountToModule = (\<lambda>f m. l_move f (NewModuleAddress c_lib m)),
     MintCoins = (\<lambda>m. l_mint (NewModuleAddress c_lib m)),
     BurnCoins = (\<lambda>m. l_burn (NewModuleAddress c_lib m)),
     IsSendEnabledCoin = (\<lambda>x w. True),
     IsSendEnabledCoins = (\<lambda>xs w. Ok ()),
     BlockedAddr = (\<lambda>a. False),
     GetDenomMetaData = (\<lambda>d w. l_meta w d),
     SetDenomMetaData = (\<lambda>m w. w\<lparr>l_meta := (l_meta w)(md_Base m \<mapsto> m)\<rparr>),
     HasSupply = (\<lambda>d w. True),
     GetBalance = (\<lambda>a d w. \<lparr>coin_denom = d, coin_amount = l_bal w a d\<rparr>)\<rparr>"

definition c_acct :: "ledger account_keeper" where
  "c_acct = \<lparr>
     GetSequence = (\<lambda>a w. Ok 0),
     GetAccount = (\<lambda>a w. Some \<lparr>acc_kind = BaseAccount, acc_address = a, acc_pubkey = Some (PubKey ''eth_secp256k1'' a),
        acc_number = 0, acc_sequence = 0\<rparr>),
     SetAccount = (\<lambda>acc w. w),
     GetModuleAccount = (\<lambda>m. ret (Some (NewModuleAddress c_lib m))),
     DeductFees = (\<lambda>acc xs. case acc of None \<Rightarrow> panic ''nil account''
        | Some a \<Rightarrow> l_move (acc_address a) (NewModuleAddress c_lib ''fee_collector'') xs)\<rparr>"

section \<open>Token contracts\<close>

text \<open>
  Calls are encoded as text: the method name and the arguments, separated by colons, numbers in
  unary. A committed call changes the token balances.
\<close>

fun c_enc :: "abi_value \<Rightarrow> bytes" where
  "c_enc (VAddr a) = addr_bytes a"
| "c_enc (VUint n) = replicate (nat n) (CHR ''1'')"
| "c_enc (VStr s) = s"
| "c_enc (VBool b) = (if b then ''T'' else ''F'')"
| "c_enc (VUint8 n) = replicate (unat n) (CHR ''1'')"
| "c_enc (VUint16 n) = replicate (unat n) (CHR ''1'')"
| "c_enc (VBytes b) = b"
| "c_enc (VList vs) = []"

definition c_pack :: "string \<Rightarrow> abi_value list \<Rightarrow> bytes" where
  "c_pack meth args = meth @ concat (map (\<lambda>v. CHR '':'' # c_enc v) args)"

definition c_unpack :: "string \<Rightarrow> bytes \<Rightarrow> abi_value list result" where
  "c_unpack meth bz =
     (if meth = ''balanceOf'' \<or> meth = ''Transfer'' then Ok [VUint (int (length bz))]
      else if meth = ''transfer'' then Ok [VBool (bz = ''T'')]
      else if meth = ''decimals'' then Ok [VUint8 (of_nat (length bz))]
      else if meth = ''getThresholds'' then Ok [VList [VAddr (Addr ''j'')], VList [VUint 40]]
      else Ok [VStr bz])"

definition t_add :: "address \<Rightarrow> address \<Rightarrow> int \<Rightarrow> ledger \<Rightarrow> ledger" where
  "t_add con a n w = w\<lparr>l_tok := (l_tok w)(con := (l_tok w con)(a := l_tok w con a + n))\<rparr>"

definition c_reply :: "bool \<Rightarrow> bytes \<Rightarrow> evm_response" where
  "c_reply failed ret_data = \<lparr>evm_Ret = ret_data, evm_Failed = failed, evm_Logs = [], evm_GasUsed = 0\<rparr>"

definition c_call :: "address \<Rightarrow> address \<Rightarrow> bytes \<Rightarrow> ledger \<Rightarrow> evm_response \<times> ledger" where
  "c_call from con dat w = (case SplitN2 (CHR '':'') dat of
     [meth, args] \<Rightarrow> (case SplitN2 (CHR '':'') args of
        [a, n] \<Rightarrow>
          if meth = ''mint'' then (c_reply False [], t_add con (Addr a) (int (length n)) w)
          else if meth = ''burnCoins'' then
            (if int (length n) \<le> l_tok w con (Addr a)
             then (c_reply False [], t_add con (Addr a) (- int (length n)) w) else (c_reply True [], w))
          else if meth = ''transfer'' then
            (if int (length n) \<le> l_tok w con from
             then (c_reply False ''T'', t_add con (Addr a) (int (length n)) (t_add con from (- int (length n)) w))
             else (c_reply True [], w))
          else (c_reply True [], w)
      | _ \<Rightarrow>
          if meth = ''balanceOf'' then (c_reply False (replicate (nat (l_tok w con (Addr args))) (CHR ''1'')), w)
          else if meth = ''burn'' \<and> int (length args) \<le> l_tok w con from
          then (c_reply False [], t_add con from (- int (length args)) w)
          else if meth = ''ownerOf'' then (c_reply False ''alice'', w)
          else (c_reply True [], w))
   | _ \<Rightarrow> if dat = ''Version'' then (c_reply False [CHR 0x01], w) else (c_reply False ''Tok'', w))"

definition c_apply :: "evm_message \<Rightarrow> bool \<Rightarrow> (ledger, evm_response) go" where
  "c_apply m commit w = (case em_To m of
     None \<Rightarrow> (Ok (c_reply False []), w)
   | Some con \<Rightarrow> (case c_call (em_From m) con (em_Data m) w of
       (res, w') \<Rightarrow> (Ok res, if commit then w' else w)))"

definition c_evm :: "ledger evm_keeper" where
  "c_evm = \<lparr>
     GetAccountWithoutBalance = (\<lambda>a w. Some True),
     EstimateGas = (\<lambda>a b d w. (Ok 21000, w)),
     ApplyMessage = c_apply,
     abi_Pack = (\<lambda>con meth args. Ok (c_pack meth args)),
     abi_Unpack = (\<lambda>con meth bz. c_unpack meth bz),
     abi_EventByID = (\<lambda>con h. if h = ''Transfer'' then Ok ''Transfer'' else Err (ExtErr ''no event with id'')),
     abi_Arguments_Pack = (\<lambda>ts vs. Ok (concat (map c_enc vs))),
     contract_Bin = (\<lambda>con. []),
     DefaultGasCap = 25000000,
     GasMeter_Limit = (\<lambda>w. 1000000),
     GasMeter_Consumed = (\<lambda>w. 0),
     ConsumeGas = (\<lambda>g w. (Ok (), w))\<rparr>"

definition c_env :: "ledger env" where
  "c_env = \<lparr>libs = c_lib, math = c_math, bank = c_bank, acct = c_acct, evm = c_evm, ibc = c_ibc,
     ibc_Transfer = (\<lambda>m w. (Ok 1, w))\<rparr>"

lemma c_env_sel [simp]:
  "libs c_env = c_lib" "math c_env = c_math" "bank c_env = c_bank" "acct c_env = c_acct" "evm c_env = c_evm"
  "ibc c_env = c_ibc"
  by (simp_all add: c_env_def)

section \<open>The instance satisfies the laws\<close>

lemma l_bal_add [simp]: "l_bal (l_add a d n w) b e = l_bal w b e + (if b = a \<and> e = d then n else 0)"
  by (simp add: l_add_def)

lemma l_tok_add [simp]: "l_tok (l_add a d n w) = l_tok w"
  by (simp add: l_add_def)

lemma l_bal_t_add [simp]: "l_bal (t_add con a n w) = l_bal w"
  by (simp add: t_add_def)

lemma c_bank_ok: "bank_ok c_env"
  by (auto simp: bank_ok_def c_bank_def bal_change_def pay_def split: if_splits)

lemma c_fees_ok: "fees_ok c_env"
  by (auto simp: fees_ok_def c_acct_def c_bank_def bal_change_def pay_def split: if_splits option.splits)

lemma c_evm_query_ok: "evm_query_ok c_env"
  by (auto simp: evm_query_ok_def c_evm_def c_apply_def split: option.splits prod.splits)

lemma l_bal_c_call: "c_call from con dat w = (res, w') \<Longrightarrow> l_bal w' = l_bal w"
  by (auto simp: c_call_def split: list.splits if_splits)

lemma c_evm_frame_ok: "evm_frame_ok c_env ed"
  by (auto simp: evm_frame_ok_def c_evm_def c_apply_def c_bank_def dest!: l_bal_c_call
      split: option.splits prod.splits if_splits)

lemma fst_c_call:
  assumes "l_tok w' = l_tok w"
  shows "fst (c_call from con dat w') = fst (c_call from con dat w)"
proof -
  have d: "fst (if b then x else y) = (if b then fst x else fst y)" for b and x y :: "evm_response \<times> ledger" by simp
  show ?thesis using assms by (simp add: c_call_def SplitN2_shape d)
qed

lemma c_same_evm: "l_tok w' = l_tok w \<Longrightarrow> same_evm c_env w w'"
proof -
  assume "l_tok w' = l_tok w"
  from fst_c_call [OF this] show ?thesis
    by (auto simp: same_evm_def c_evm_def c_acct_def c_apply_def split: option.splits prod.splits)
      (metis fst_conv)+
qed

lemma l_tok_move: "l_move f t xs w = (r, w') \<Longrightarrow> l_tok w' = l_tok w"
  by (induction f t xs w rule: l_move.induct) (auto split: if_splits)

lemma l_tok_mint: "l_mint t xs w = (r, w') \<Longrightarrow> l_tok w' = l_tok w"
  by (induction t xs w rule: l_mint.induct) auto

lemma l_tok_burn: "l_burn t xs w = (r, w') \<Longrightarrow> l_tok w' = l_tok w"
  by (induction t xs w rule: l_burn.induct) (auto split: if_splits)

lemma c_bank_evm_ok: "bank_evm_ok c_env ed"
  unfolding bank_evm_ok_def c_env_sel
  by (auto simp: c_bank_def intro!: c_same_evm dest: l_tok_move l_tok_mint l_tok_burn simp del: l_move.simps
      l_mint.simps l_burn.simps)

lemma c_fees_evm_ok: "fees_evm_ok c_env ed"
  unfolding fees_evm_ok_def c_env_sel
  by (auto simp: c_acct_def intro!: c_same_evm dest: l_tok_move simp del: l_move.simps split: option.splits)

section \<open>A state of the ledger\<close>

definition c_world :: ledger where
  "c_world = \<lparr>l_bal = (\<lambda>a d. if d = ''acoin'' \<and> a = ''alice'' then 1000 else 0), l_tok = (\<lambda>_ _. 0),
     l_meta = (\<lambda>_. None)\<rparr>"

end
