(* ===== verification/Erc20_Registry.thy ===== *)
theory Erc20_Registry
  imports Laws Concrete
begin

text \<open>
  The token pair registry of the erc20 module (\<open>x/erc20/types/token_pair.go\<close>,
  \<open>x/erc20/keeper/token_pairs.go\<close>, \<open>params.go\<close>, \<open>genesis.go\<close>): the pairs by id and the two indexes
  from contract address and from denomination to the id, all in one key-value store.
\<close>

section \<open>Errors and keys\<close>

definition ErrERC20Disabled :: go_error where "ErrERC20Disabled = Registered ''erc20'' 2"
definition ErrInternalTokenPair :: go_error where "ErrInternalTokenPair = Registered ''erc20'' 3"
definition ErrTokenPairNotFound :: go_error where "ErrTokenPairNotFound = Registered ''erc20'' 4"
definition ErrTokenPairAlreadyExists :: go_error where "ErrTokenPairAlreadyExists = Registered ''erc20'' 5"
definition ErrUndefinedOwner :: go_error where "ErrUndefinedOwner = Registered ''erc20'' 6"
definition ErrBalanceInvariance :: go_error where "ErrBalanceInvariance = Registered ''erc20'' 7"
definition ErrUnexpectedEvent :: go_error where "ErrUnexpectedEvent = Registered ''erc20'' 8"
definition ErrABIPack :: go_error where "ErrABIPack = Registered ''erc20'' 9"
definition ErrABIUnpack :: go_error where "ErrABIUnpack = Registered ''erc20'' 10"
definition ErrEVMDenom :: go_error where "ErrEVMDenom = Registered ''erc20'' 11"
definition ErrEVMCall :: go_error where "ErrEVMCall = Registered ''erc20'' 12"
definition ErrERC20TokenPairDisabled :: go_error where "ErrERC20TokenPairDisabled = Registered ''erc20'' 13"
definition ErrGasfreeTokenNotAllowed :: go_error where "ErrGasfreeTokenNotAllowed = Registered ''erc20'' 14"
definition ErrInsufficientAmount :: go_error where "ErrInsufficientAmount = Registered ''erc20'' 15"

definition KeyPrefixTokenPair :: bytes where "KeyPrefixTokenPair = [char_of (1 :: nat)]"
definition KeyPrefixTokenPairByERC20 :: bytes where "KeyPrefixTokenPairByERC20 = [char_of (2 :: nat)]"
definition KeyPrefixTokenPairByDenom :: bytes where "KeyPrefixTokenPairByDenom = [char_of (3 :: nat)]"

lemmas key_prefixes = KeyPrefixTokenPair_def KeyPrefixTokenPairByERC20_def KeyPrefixTokenPairByDenom_def

definition erc20_ModuleAddress :: "lib \<Rightarrow> address" where
  "erc20_ModuleAddress L = BytesToAddress L (NewModuleAddress L ''erc20'')"

section \<open>Token pairs\<close>

text \<open>\<open>NewTokenPair\<close> does not use its \<open>enabled\<close> argument.\<close>

definition NewTokenPair :: "lib \<Rightarrow> address \<Rightarrow> string \<Rightarrow> bool \<Rightarrow> Owner \<Rightarrow> TokenPair" where
  "NewTokenPair L erc20Address denom enabled contractOwner =
     \<lparr>Erc20Address = Address_Hex L erc20Address, Denom = denom, Enabled = True, ContractOwner = contractOwner\<rparr>"

definition GetID :: "lib \<Rightarrow> TokenPair \<Rightarrow> bytes" where
  "GetID L tp = tmhash_Sum L (Erc20Address tp @ ''|'' @ Denom tp)"

definition GetERC20Contract :: "lib \<Rightarrow> TokenPair \<Rightarrow> address" where
  "GetERC20Contract L tp = HexToAddress L (Erc20Address tp)"

definition TokenPair_Validate :: "lib \<Rightarrow> mathlib \<Rightarrow> TokenPair \<Rightarrow> unit result" where
  "TokenPair_Validate L M tp =
     andThen (ValidateDenom M (Denom tp)) (\<lambda>_. andThen (ValidateAddress L (Erc20Address tp)) (\<lambda>_. Ok ()))"

definition IsNativeCoin :: "TokenPair \<Rightarrow> bool" where
  "IsNativeCoin tp = (ContractOwner tp = OWNER_MODULE)"

definition IsNativeERC20 :: "TokenPair \<Rightarrow> bool" where
  "IsNativeERC20 tp = (ContractOwner tp = OWNER_EXTERNAL)"

section \<open>Store\<close>

text \<open>A slice that may be \<open>nil\<close> is an option.\<close>

definition GetERC20Map :: "address \<Rightarrow> 'w ctx \<Rightarrow> bytes option" where
  "GetERC20Map a c = kv_get (kv c ''erc20'') (KeyPrefixTokenPairByERC20 @ addr_bytes a)"

definition GetDenomMap :: "string \<Rightarrow> 'w ctx \<Rightarrow> bytes option" where
  "GetDenomMap d c = kv_get (kv c ''erc20'') (KeyPrefixTokenPairByDenom @ d)"

definition SetERC20Map :: "address \<Rightarrow> bytes \<Rightarrow> ('w ctx, unit) go" where
  "SetERC20Map a pid = modify (store_upd ''erc20'' (kv_set (KeyPrefixTokenPairByERC20 @ addr_bytes a) pid))"

definition SetDenomMap :: "string \<Rightarrow> bytes \<Rightarrow> ('w ctx, unit) go" where
  "SetDenomMap d pid = modify (store_upd ''erc20'' (kv_set (KeyPrefixTokenPairByDenom @ d) pid))"

definition deleteERC20Map :: "address \<Rightarrow> ('w ctx, unit) go" where
  "deleteERC20Map a = modify (store_upd ''erc20'' (kv_delete (KeyPrefixTokenPairByERC20 @ addr_bytes a)))"

definition deleteDenomMap :: "string \<Rightarrow> ('w ctx, unit) go" where
  "deleteDenomMap d = modify (store_upd ''erc20'' (kv_delete (KeyPrefixTokenPairByDenom @ d)))"

definition deleteTokenPair :: "bytes \<Rightarrow> ('w ctx, unit) go" where
  "deleteTokenPair pid = modify (store_upd ''erc20'' (kv_delete (KeyPrefixTokenPair @ pid)))"

definition GetTokenPairID :: "lib \<Rightarrow> string \<Rightarrow> 'w ctx \<Rightarrow> bytes option" where
  "GetTokenPairID L token c =
     (if IsHexAddress L token then GetERC20Map (HexToAddress L token) c else GetDenomMap token c)"

text \<open>\<open>MustUnmarshal\<close> panics on bytes that do not decode; the found flag is the option.\<close>

definition GetTokenPair :: "bytes option \<Rightarrow> 'w ctx \<Rightarrow> TokenPair option result" where
  "GetTokenPair pid c = (case pid of
     None \<Rightarrow> Ok None
   | Some k \<Rightarrow> (case kv_get (kv c ''erc20'') (KeyPrefixTokenPair @ k) of
       None \<Rightarrow> Ok None
     | Some bz \<Rightarrow> if length bz = 0 then Ok None
         else (case TokenPair_Unmarshal bz of
            Ok tp \<Rightarrow> Ok (Some tp) | Err e \<Rightarrow> Panic ''unmarshal'' | Panic p \<Rightarrow> Panic p)))"

definition SetTokenPair :: "lib \<Rightarrow> TokenPair \<Rightarrow> ('w ctx, unit) go" where
  "SetTokenPair L tp = (case TokenPair_Marshal tp of
     Ok bz \<Rightarrow> modify (store_upd ''erc20'' (kv_set (KeyPrefixTokenPair @ GetID L tp) bz))
   | Err e \<Rightarrow> panic ''marshal'' | Panic p \<Rightarrow> panic p)"

definition DeleteTokenPair :: "lib \<Rightarrow> TokenPair \<Rightarrow> ('w ctx, unit) go" where
  "DeleteTokenPair L tp =
     seq (deleteTokenPair (GetID L tp)) (seq (deleteERC20Map (GetERC20Contract L tp)) (deleteDenomMap (Denom tp)))"

fun unmarshal_all :: "(bytes \<times> bytes) list \<Rightarrow> TokenPair list result" where
  "unmarshal_all [] = Ok []"
| "unmarshal_all ((k, bz) # rest) = (case TokenPair_Unmarshal bz of
     Ok tp \<Rightarrow> andThen (unmarshal_all rest) (\<lambda>tps. Ok (tp # tps))
   | Err e \<Rightarrow> Panic ''unmarshal'' | Panic p \<Rightarrow> Panic p)"

definition GetTokenPairs :: "'w ctx \<Rightarrow> TokenPair list result" where
  "GetTokenPairs c = unmarshal_all (kv_prefix KeyPrefixTokenPair (kv c ''erc20''))"

definition IsTokenPairRegistered :: "bytes \<Rightarrow> 'w ctx \<Rightarrow> bool" where
  "IsTokenPairRegistered pid c = kv_has (kv c ''erc20'') (KeyPrefixTokenPair @ pid)"

definition IsERC20Registered :: "address \<Rightarrow> 'w ctx \<Rightarrow> bool" where
  "IsERC20Registered a c = kv_has (kv c ''erc20'') (KeyPrefixTokenPairByERC20 @ addr_bytes a)"

definition IsDenomRegistered :: "string \<Rightarrow> 'w ctx \<Rightarrow> bool" where
  "IsDenomRegistered d c = kv_has (kv c ''erc20'') (KeyPrefixTokenPairByDenom @ d)"

section \<open>Parameters and genesis\<close>

record erc20_params =
  EnableErc20 :: bool
  EnableEVMHook :: bool

definition ParamStoreKeyEnableErc20 :: string where "ParamStoreKeyEnableErc20 = ''EnableErc20''"
definition ParamStoreKeyEnableEVMHook :: string where "ParamStoreKeyEnableEVMHook = ''EnableEVMHook''"

definition erc20_NewParams :: "bool \<Rightarrow> bool \<Rightarrow> erc20_params" where
  "erc20_NewParams enableErc20 enableEVMHook = \<lparr>EnableErc20 = enableErc20, EnableEVMHook = enableEVMHook\<rparr>"

definition erc20_DefaultParams :: erc20_params where
  "erc20_DefaultParams = \<lparr>EnableErc20 = True, EnableEVMHook = True\<rparr>"

fun erc20_validateBool :: "param \<Rightarrow> unit result" where
  "erc20_validateBool (PBool b) = Ok ()"
| "erc20_validateBool _ = Err (Errorf ''invalid parameter type'')"

definition erc20_ParamSetPairs :: "erc20_params \<Rightarrow> param_pair list" where
  "erc20_ParamSetPairs p =
     [(ParamStoreKeyEnableErc20, PBool (EnableErc20 p), erc20_validateBool),
      (ParamStoreKeyEnableEVMHook, PBool (EnableEVMHook p), erc20_validateBool)]"

definition erc20_Params_Validate :: "erc20_params \<Rightarrow> unit result" where
  "erc20_Params_Validate p = Ok ()"

text \<open>\<open>GetParamSet\<close> panics when a key is not set.\<close>

definition erc20_GetParams :: "'w ctx \<Rightarrow> erc20_params result" where
  "erc20_GetParams c =
     (let get = (\<lambda>k. case prm c ''erc20'' k of None \<Rightarrow> Panic ''parameter not set'' | Some p \<Rightarrow> as_bool p) in
      andThen (get ParamStoreKeyEnableErc20) (\<lambda>a. andThen (get ParamStoreKeyEnableEVMHook) (\<lambda>b.
      Ok \<lparr>EnableErc20 = a, EnableEVMHook = b\<rparr>)))"

definition erc20_SetParams :: "erc20_params \<Rightarrow> ('w ctx, unit) go" where
  "erc20_SetParams p = param_SetParamSet ''erc20'' (erc20_ParamSetPairs p)"

record erc20_genesis =
  gen_Params :: erc20_params
  gen_TokenPairs :: "TokenPair list"

definition erc20_DefaultGenesisState :: erc20_genesis where
  "erc20_DefaultGenesisState = \<lparr>gen_Params = erc20_DefaultParams, gen_TokenPairs = []\<rparr>"

fun genesis_pairs_ok :: "lib \<Rightarrow> mathlib \<Rightarrow> string set \<Rightarrow> string set \<Rightarrow> TokenPair list \<Rightarrow> unit result" where
  "genesis_pairs_ok L M seenErc20 seenDenom [] = Ok ()"
| "genesis_pairs_ok L M seenErc20 seenDenom (b # bs) =
     (if Erc20Address b \<in> seenErc20 then Err (Errorf ''token ERC20 contract duplicated on genesis'')
      else if Denom b \<in> seenDenom then Err (Errorf ''coin denomination duplicated on genesis'')
      else andThen (TokenPair_Validate L M b) (\<lambda>_.
        genesis_pairs_ok L M (insert (Erc20Address b) seenErc20) (insert (Denom b) seenDenom) bs))"

definition erc20_Genesis_Validate :: "lib \<Rightarrow> mathlib \<Rightarrow> erc20_genesis \<Rightarrow> unit result" where
  "erc20_Genesis_Validate L M gs =
     andThen (genesis_pairs_ok L M {} {} (gen_TokenPairs gs)) (\<lambda>_. erc20_Params_Validate (gen_Params gs))"

definition erc20_InitGenesis :: "'w env \<Rightarrow> erc20_genesis \<Rightarrow> ('w ctx, unit) go" where
  "erc20_InitGenesis E data =
     seq (erc20_SetParams (gen_Params data))
     (bind (ext (GetModuleAccount (acct E) ''erc20'')) (\<lambda>acc.
      if acc = None then panic ''the erc20 module account has not been set''
      else for_each (gen_TokenPairs data) (\<lambda>pair.
        let pid = GetID (libs E) pair in
        seq (SetTokenPair (libs E) pair)
        (seq (SetDenomMap (Denom pair) pid) (SetERC20Map (GetERC20Contract (libs E) pair) pid)))))"

definition erc20_ExportGenesis :: "'w ctx \<Rightarrow> erc20_genesis result" where
  "erc20_ExportGenesis c =
     andThen (erc20_GetParams c) (\<lambda>p. andThen (GetTokenPairs c) (\<lambda>tps.
     Ok \<lparr>gen_Params = p, gen_TokenPairs = tps\<rparr>))"

section \<open>The store as three maps\<close>

definition decode_pair :: "bytes \<Rightarrow> TokenPair option" where
  "decode_pair bz = (if length bz = 0 then None
     else case TokenPair_Unmarshal bz of Ok tp \<Rightarrow> Some tp | Err e \<Rightarrow> None | Panic p \<Rightarrow> None)"

definition storable :: "TokenPair \<Rightarrow> bool" where
  "storable tp \<longleftrightarrow> pair_fits tp \<and> TokenPair_MarshalToSizedBuffer tp \<noteq> []"

interpretation pairs: kv_region KeyPrefixTokenPair "\<lambda>k. k" TokenPair_MarshalToSizedBuffer decode_pair storable
  by unfold_locales (auto simp: inj_on_def decode_pair_def storable_def TokenPair_Unmarshal_MarshalToSizedBuffer)

interpretation by_erc20: kv_region KeyPrefixTokenPairByERC20 addr_bytes "\<lambda>x. x" Some "\<lambda>_. True"
  by unfold_locales (auto simp: inj_on_def intro: address.expand)

interpretation by_denom: kv_region KeyPrefixTokenPairByDenom "\<lambda>d. d" "\<lambda>x. x" Some "\<lambda>_. True"
  by unfold_locales (auto simp: inj_on_def)

text \<open>The specification state: pairs by id, and the two indexes.\<close>

record registry =
  r_pairs :: "bytes \<rightharpoonup> TokenPair"
  r_erc20 :: "address \<rightharpoonup> bytes"
  r_denom :: "string \<rightharpoonup> bytes"

definition registry_of :: "kvstore \<Rightarrow> registry" where
  "registry_of s = \<lparr>r_pairs = pairs.lookup s, r_erc20 = by_erc20.lookup s, r_denom = by_denom.lookup s\<rparr>"

abbreviation reg :: "'w ctx \<Rightarrow> registry" where
  "reg c \<equiv> registry_of (kv c ''erc20'')"

text \<open>No entry of the pair region is corrupt, and the store representation is in order.\<close>

definition store_decodes :: "kvstore \<Rightarrow> bool" where
  "store_decodes s \<longleftrightarrow> kv_ok s \<and>
     (\<forall>k bz. kv_get s (KeyPrefixTokenPair @ k) = Some bz \<longrightarrow> decode_pair bz \<noteq> None)"

lemma prefixes_disjoint [simp]:
  "\<not> HasPrefix (KeyPrefixTokenPairByERC20 @ x) KeyPrefixTokenPair"
  "\<not> HasPrefix (KeyPrefixTokenPairByDenom @ x) KeyPrefixTokenPair"
  "\<not> HasPrefix (KeyPrefixTokenPair @ x) KeyPrefixTokenPairByERC20"
  "\<not> HasPrefix (KeyPrefixTokenPairByDenom @ x) KeyPrefixTokenPairByERC20"
  "\<not> HasPrefix (KeyPrefixTokenPair @ x) KeyPrefixTokenPairByDenom"
  "\<not> HasPrefix (KeyPrefixTokenPairByERC20 @ x) KeyPrefixTokenPairByDenom"
  by (simp_all add: key_prefixes HasPrefix_def)

lemmas regions_frame = pairs.lookup_frame by_erc20.lookup_frame by_denom.lookup_frame
lemmas regions_update = pairs.lookup_update [unfolded pairs.update_def]
  by_erc20.lookup_update [unfolded by_erc20.update_def, OF TrueI]
  by_denom.lookup_update [unfolded by_denom.update_def, OF TrueI]
lemmas regions_remove = pairs.lookup_remove [unfolded pairs.remove_def]
  by_erc20.lookup_remove [unfolded by_erc20.remove_def]
  by_denom.lookup_remove [unfolded by_denom.remove_def]

lemma registry_set:
  "storable tp \<Longrightarrow> registry_of (kv_set (KeyPrefixTokenPair @ k) (TokenPair_MarshalToSizedBuffer tp) s) =
     (registry_of s)\<lparr>r_pairs := (r_pairs (registry_of s))(k \<mapsto> tp)\<rparr>"
  "registry_of (kv_set (KeyPrefixTokenPairByERC20 @ addr_bytes a) pid s) =
     (registry_of s)\<lparr>r_erc20 := (r_erc20 (registry_of s))(a \<mapsto> pid)\<rparr>"
  "registry_of (kv_set (KeyPrefixTokenPairByDenom @ d) pid s) =
     (registry_of s)\<lparr>r_denom := (r_denom (registry_of s))(d \<mapsto> pid)\<rparr>"
  by (simp_all add: registry_of_def regions_update regions_frame)

lemma registry_delete:
  "registry_of (kv_delete (KeyPrefixTokenPair @ k) s) =
     (registry_of s)\<lparr>r_pairs := (r_pairs (registry_of s))(k := None)\<rparr>"
  "registry_of (kv_delete (KeyPrefixTokenPairByERC20 @ addr_bytes a) s) =
     (registry_of s)\<lparr>r_erc20 := (r_erc20 (registry_of s))(a := None)\<rparr>"
  "registry_of (kv_delete (KeyPrefixTokenPairByDenom @ d) s) =
     (registry_of s)\<lparr>r_denom := (r_denom (registry_of s))(d := None)\<rparr>"
  by (simp_all add: registry_of_def regions_remove regions_frame)

lemma store_decodes_set:
  "store_decodes s \<Longrightarrow> storable tp \<Longrightarrow> store_decodes (kv_set (KeyPrefixTokenPair @ k) (TokenPair_MarshalToSizedBuffer tp) s)"
  "store_decodes s \<Longrightarrow> store_decodes (kv_set (KeyPrefixTokenPairByERC20 @ x) v s)"
  "store_decodes s \<Longrightarrow> store_decodes (kv_set (KeyPrefixTokenPairByDenom @ x) v s)"
  by (auto simp: store_decodes_def pairs.decv_encv key_prefixes)

lemma store_decodes_delete: "store_decodes s \<Longrightarrow> store_decodes (kv_delete x s)"
  by (auto simp: store_decodes_def split: if_splits)

lemma GetTokenPair_reg:
  assumes "store_decodes (kv c ''erc20'')"
  shows "GetTokenPair (Some pid) c = Ok (r_pairs (reg c) pid)"
  using assms unfolding GetTokenPair_def registry_of_def pairs.lookup_def store_decodes_def
  by (fastforce simp: decode_pair_def split: option.splits result.splits if_splits)

lemma index_reg:
  "GetERC20Map a c = r_erc20 (reg c) a" "GetDenomMap d c = r_denom (reg c) d"
  "IsERC20Registered a c \<longleftrightarrow> r_erc20 (reg c) a \<noteq> None" "IsDenomRegistered d c \<longleftrightarrow> r_denom (reg c) d \<noteq> None"
  by (simp_all add: GetERC20Map_def GetDenomMap_def IsERC20Registered_def IsDenomRegistered_def kv_has_def
      registry_of_def by_erc20.lookup_def by_denom.lookup_def)

section \<open>The registry invariant\<close>

text \<open>
  A pair as the module stores it: it has a contract address without the separator of the id
  preimage, an id, and a size far below the limit of a slice.
\<close>

definition pair_wf :: "lib \<Rightarrow> TokenPair \<Rightarrow> bool" where
  "pair_wf L tp \<longleftrightarrow> Erc20Address tp \<noteq> [] \<and> CHR ''|'' \<notin> set (Erc20Address tp) \<and> GetID L tp \<noteq> [] \<and>
     length (Erc20Address tp) + length (Denom tp) < 2 ^ 62"

text \<open>
  The pairs and the two indexes agree: every pair is stored under its id and both of its names
  lead to it, and every index entry leads to a pair with that name.
\<close>

definition reg_inv :: "lib \<Rightarrow> registry \<Rightarrow> bool" where
  "reg_inv L r \<longleftrightarrow>
     (\<forall>pid tp. r_pairs r pid = Some tp \<longrightarrow> pid = GetID L tp \<and> pair_wf L tp \<and>
        r_erc20 r (GetERC20Contract L tp) = Some pid \<and> r_denom r (Denom tp) = Some pid) \<and>
     (\<forall>a pid. r_erc20 r a = Some pid \<longrightarrow> (\<exists>tp. r_pairs r pid = Some tp \<and> GetERC20Contract L tp = a)) \<and>
     (\<forall>d pid. r_denom r d = Some pid \<longrightarrow> (\<exists>tp. r_pairs r pid = Some tp \<and> Denom tp = d))"

definition reg_ok :: "lib \<Rightarrow> 'w ctx \<Rightarrow> bool" where
  "reg_ok L c \<longleftrightarrow> store_decodes (kv c ''erc20'') \<and> reg_inv L (reg c)"

lemma pair_wf_storable: "pair_wf L tp \<Longrightarrow> storable tp"
  by (auto simp: pair_wf_def storable_def pair_fits_small TokenPair_MarshalToSizedBuffer_eq)

lemma GetID_Enabled [simp]:
  "GetID L (tp\<lparr>Enabled := b\<rparr>) = GetID L tp" "GetERC20Contract L (tp\<lparr>Enabled := b\<rparr>) = GetERC20Contract L tp"
  "pair_wf L (tp\<lparr>Enabled := b\<rparr>) = pair_wf L tp"
  by (simp_all add: GetID_def GetERC20Contract_def pair_wf_def)

lemma reg_invD:
  assumes "reg_inv L r"
  shows "r_pairs r pid = Some tp \<Longrightarrow> pid = GetID L tp" "r_pairs r pid = Some tp \<Longrightarrow> pair_wf L tp"
    "r_pairs r pid = Some tp \<Longrightarrow> r_erc20 r (GetERC20Contract L tp) = Some pid"
    "r_pairs r pid = Some tp \<Longrightarrow> r_denom r (Denom tp) = Some pid"
    "r_erc20 r a = Some pid \<Longrightarrow> \<exists>tp. r_pairs r pid = Some tp \<and> GetERC20Contract L tp = a"
    "r_denom r d = Some pid \<Longrightarrow> \<exists>tp. r_pairs r pid = Some tp \<and> Denom tp = d"
  using assms unfolding reg_inv_def by meson+

text \<open>No two pairs share a contract or a denomination.\<close>

lemma reg_inv_unique:
  assumes "reg_inv L r" and "r_pairs r p1 = Some t1" and "r_pairs r p2 = Some t2"
    and "GetERC20Contract L t1 = GetERC20Contract L t2 \<or> Denom t1 = Denom t2"
  shows "p1 = p2" and "t1 = t2"
proof -
  from assms(4) show "p1 = p2"
  proof
    assume "GetERC20Contract L t1 = GetERC20Contract L t2"
    with reg_invD(3) [OF assms(1,2)] reg_invD(3) [OF assms(1,3)] show ?thesis by simp
  next
    assume "Denom t1 = Denom t2"
    with reg_invD(4) [OF assms(1,2)] reg_invD(4) [OF assms(1,3)] show ?thesis by simp
  qed
  with assms show "t1 = t2" by simp
qed

subsection \<open>The specification operations\<close>

definition reg_insert :: "lib \<Rightarrow> TokenPair \<Rightarrow> registry \<Rightarrow> registry" where
  "reg_insert L tp r = \<lparr>r_pairs = (r_pairs r)(GetID L tp \<mapsto> tp),
     r_erc20 = (r_erc20 r)(GetERC20Contract L tp \<mapsto> GetID L tp), r_denom = (r_denom r)(Denom tp \<mapsto> GetID L tp)\<rparr>"

definition reg_remove :: "lib \<Rightarrow> TokenPair \<Rightarrow> registry \<Rightarrow> registry" where
  "reg_remove L tp r = \<lparr>r_pairs = (r_pairs r)(GetID L tp := None),
     r_erc20 = (r_erc20 r)(GetERC20Contract L tp := None), r_denom = (r_denom r)(Denom tp := None)\<rparr>"

definition reg_replace :: "lib \<Rightarrow> TokenPair \<Rightarrow> registry \<Rightarrow> registry" where
  "reg_replace L tp r = r\<lparr>r_pairs := (r_pairs r)(GetID L tp \<mapsto> tp)\<rparr>"

text \<open>A pair none of whose names, nor its id, is in use.\<close>

definition reg_fresh :: "lib \<Rightarrow> TokenPair \<Rightarrow> registry \<Rightarrow> bool" where
  "reg_fresh L tp r \<longleftrightarrow> pair_wf L tp \<and> r_pairs r (GetID L tp) = None \<and>
     r_erc20 r (GetERC20Contract L tp) = None \<and> r_denom r (Denom tp) = None"

lemma reg_invI:
  assumes "\<And>pid tp. r_pairs r pid = Some tp \<Longrightarrow> pid = GetID L tp \<and> pair_wf L tp \<and>
        r_erc20 r (GetERC20Contract L tp) = Some pid \<and> r_denom r (Denom tp) = Some pid"
    and "\<And>a pid. r_erc20 r a = Some pid \<Longrightarrow> \<exists>tp. r_pairs r pid = Some tp \<and> GetERC20Contract L tp = a"
    and "\<And>d pid. r_denom r d = Some pid \<Longrightarrow> \<exists>tp. r_pairs r pid = Some tp \<and> Denom tp = d"
  shows "reg_inv L r"
  using assms unfolding reg_inv_def by blast

lemma reg_inv_insert:
  assumes inv: "reg_inv L r" and fresh: "reg_fresh L tp r"
  shows "reg_inv L (reg_insert L tp r)"
proof (rule reg_invI)
  fix pid t assume "r_pairs (reg_insert L tp r) pid = Some t"
  then consider "pid = GetID L tp" "t = tp" | "pid \<noteq> GetID L tp" "r_pairs r pid = Some t"
    by (auto simp: reg_insert_def split: if_splits)
  then show "pid = GetID L t \<and> pair_wf L t \<and> r_erc20 (reg_insert L tp r) (GetERC20Contract L t) = Some pid \<and>
      r_denom (reg_insert L tp r) (Denom t) = Some pid"
  proof cases
    case 1
    with fresh show ?thesis by (simp add: reg_insert_def reg_fresh_def)
  next
    case 2
    note D = reg_invD(1-4) [OF inv 2(2)]
    with fresh have "GetERC20Contract L t \<noteq> GetERC20Contract L tp" "Denom t \<noteq> Denom tp"
      by (auto simp: reg_fresh_def)
    with D show ?thesis by (simp add: reg_insert_def)
  qed
next
  fix a pid assume a: "r_erc20 (reg_insert L tp r) a = Some pid"
  show "\<exists>t. r_pairs (reg_insert L tp r) pid = Some t \<and> GetERC20Contract L t = a"
  proof (cases "a = GetERC20Contract L tp")
    case False
    with a have "r_erc20 r a = Some pid" by (simp add: reg_insert_def)
    from reg_invD(5) [OF inv this] fresh show ?thesis by (auto simp: reg_insert_def reg_fresh_def)
  qed (use a in \<open>simp add: reg_insert_def\<close>)
next
  fix d pid assume d: "r_denom (reg_insert L tp r) d = Some pid"
  show "\<exists>t. r_pairs (reg_insert L tp r) pid = Some t \<and> Denom t = d"
  proof (cases "d = Denom tp")
    case False
    with d have "r_denom r d = Some pid" by (simp add: reg_insert_def)
    from reg_invD(6) [OF inv this] fresh show ?thesis by (auto simp: reg_insert_def reg_fresh_def)
  qed (use d in \<open>simp add: reg_insert_def\<close>)
qed

lemma reg_inv_remove:
  assumes inv: "reg_inv L r" and tp: "r_pairs r (GetID L tp) = Some tp"
  shows "reg_inv L (reg_remove L tp r)"
proof (rule reg_invI)
  fix pid t assume "r_pairs (reg_remove L tp r) pid = Some t"
  then have t: "r_pairs r pid = Some t" "pid \<noteq> GetID L tp"
    by (auto simp: reg_remove_def split: if_splits)
  then have "GetERC20Contract L t \<noteq> GetERC20Contract L tp" "Denom t \<noteq> Denom tp"
    using reg_inv_unique(1) [OF inv t(1) tp] by auto
  with reg_invD(1-4) [OF inv t(1)]
  show "pid = GetID L t \<and> pair_wf L t \<and> r_erc20 (reg_remove L tp r) (GetERC20Contract L t) = Some pid \<and>
      r_denom (reg_remove L tp r) (Denom t) = Some pid"
    by (simp add: reg_remove_def)
next
  fix a pid assume a: "r_erc20 (reg_remove L tp r) a = Some pid"
  then have "r_erc20 r a = Some pid" "a \<noteq> GetERC20Contract L tp"
    by (auto simp: reg_remove_def split: if_splits)
  with reg_invD(5) [OF inv this(1)] tp show "\<exists>t. r_pairs (reg_remove L tp r) pid = Some t \<and> GetERC20Contract L t = a"
    by (auto simp: reg_remove_def)
next
  fix d pid assume d: "r_denom (reg_remove L tp r) d = Some pid"
  then have "r_denom r d = Some pid" "d \<noteq> Denom tp"
    by (auto simp: reg_remove_def split: if_splits)
  with reg_invD(6) [OF inv this(1)] tp show "\<exists>t. r_pairs (reg_remove L tp r) pid = Some t \<and> Denom t = d"
    by (auto simp: reg_remove_def)
qed

lemma reg_inv_replace:
  assumes inv: "reg_inv L r" and tp: "r_pairs r (GetID L tp) = Some tp"
  shows "reg_inv L (reg_replace L (tp\<lparr>Enabled := b\<rparr>) r)"
proof (rule reg_invI)
  let ?r = "reg_replace L (tp\<lparr>Enabled := b\<rparr>) r"
  have r: "r_erc20 ?r = r_erc20 r" "r_denom ?r = r_denom r" "r_pairs ?r = (r_pairs r)(GetID L tp \<mapsto> tp\<lparr>Enabled := b\<rparr>)"
    by (simp_all add: reg_replace_def)
  show "pid = GetID L t \<and> pair_wf L t \<and> r_erc20 ?r (GetERC20Contract L t) = Some pid \<and> r_denom ?r (Denom t) = Some pid"
    if "r_pairs ?r pid = Some t" for pid t
  proof (cases "pid = GetID L tp")
    case True
    with that have "t = tp\<lparr>Enabled := b\<rparr>" unfolding r by simp
    with True reg_invD(2-4) [OF inv tp] show ?thesis unfolding r by simp
  next
    case False
    with that have "r_pairs r pid = Some t" unfolding r by simp
    from reg_invD(1-4) [OF inv this] show ?thesis unfolding r by blast
  qed
  show "\<exists>t. r_pairs ?r pid = Some t \<and> GetERC20Contract L t = a" if "r_erc20 ?r a = Some pid" for a pid
  proof -
    from reg_invD(5) [OF inv that [unfolded r]] obtain t where t: "r_pairs r pid = Some t" "GetERC20Contract L t = a"
      by blast
    then show ?thesis
      using tp unfolding r by (cases "pid = GetID L tp") simp_all
  qed
  show "\<exists>t. r_pairs ?r pid = Some t \<and> Denom t = d" if "r_denom ?r d = Some pid" for d pid
  proof -
    from reg_invD(6) [OF inv that [unfolded r]] obtain t where t: "r_pairs r pid = Some t" "Denom t = d"
      by blast
    then show ?thesis
      using tp unfolding r by (cases "pid = GetID L tp") simp_all
  qed
qed

subsection \<open>The keeper implements the specification\<close>

text \<open>The three writes by which the module registers a pair.\<close>

definition put_pair :: "lib \<Rightarrow> TokenPair \<Rightarrow> ('w ctx, unit) go" where
  "put_pair L tp = seq (SetTokenPair L tp)
     (seq (SetDenomMap (Denom tp) (GetID L tp)) (SetERC20Map (GetERC20Contract L tp) (GetID L tp)))"

lemma SetTokenPair_run:
  "SetTokenPair L tp c = (Ok (), store_upd ''erc20''
     (kv_set (KeyPrefixTokenPair @ GetID L tp) (TokenPair_MarshalToSizedBuffer tp)) c)"
  by (simp add: SetTokenPair_def TokenPair_Marshal_eq)

lemma put_pair_run:
  "put_pair L tp c = (Ok (), store_upd ''erc20''
     (kv_set (KeyPrefixTokenPairByERC20 @ addr_bytes (GetERC20Contract L tp)) (GetID L tp) \<circ>
      kv_set (KeyPrefixTokenPairByDenom @ Denom tp) (GetID L tp) \<circ>
      kv_set (KeyPrefixTokenPair @ GetID L tp) (TokenPair_MarshalToSizedBuffer tp)) c)"
  by (simp add: put_pair_def SetTokenPair_run SetDenomMap_def SetERC20Map_def bind_def store_upd_def)

lemma DeleteTokenPair_run:
  "DeleteTokenPair L tp c = (Ok (), store_upd ''erc20''
     (kv_delete (KeyPrefixTokenPairByDenom @ Denom tp) \<circ>
      kv_delete (KeyPrefixTokenPairByERC20 @ addr_bytes (GetERC20Contract L tp)) \<circ>
      kv_delete (KeyPrefixTokenPair @ GetID L tp)) c)"
  by (simp add: DeleteTokenPair_def deleteTokenPair_def deleteERC20Map_def deleteDenomMap_def bind_def store_upd_def)

lemma reg_SetTokenPair: "storable tp \<Longrightarrow> reg (snd (SetTokenPair L tp c)) = reg_replace L tp (reg c)"
  by (simp add: SetTokenPair_run registry_set reg_replace_def)

lemma reg_put_pair: "storable tp \<Longrightarrow> reg (snd (put_pair L tp c)) = reg_insert L tp (reg c)"
  by (simp add: put_pair_run registry_set reg_insert_def)

lemma reg_DeleteTokenPair: "reg (snd (DeleteTokenPair L tp c)) = reg_remove L tp (reg c)"
  by (simp add: DeleteTokenPair_run registry_delete reg_remove_def)

lemma reg_ok_SetTokenPair:
  assumes "reg_ok L c" and "r_pairs (reg c) (GetID L tp) = Some tp"
  shows "reg_ok L (snd (SetTokenPair L (tp\<lparr>Enabled := b\<rparr>) c))"
proof -
  from assms have "pair_wf L (tp\<lparr>Enabled := b\<rparr>)"
    by (auto simp: reg_ok_def dest: reg_invD(2))
  then have st: "storable (tp\<lparr>Enabled := b\<rparr>)" by (rule pair_wf_storable)
  with assms show ?thesis
    by (simp add: reg_ok_def reg_SetTokenPair reg_inv_replace)
      (simp add: SetTokenPair_run store_decodes_set)
qed

lemma reg_ok_put_pair:
  assumes "reg_ok L c" and "reg_fresh L tp (reg c)"
  shows "reg_ok L (snd (put_pair L tp c))"
proof -
  from assms(2) have "storable tp" by (auto simp: reg_fresh_def intro: pair_wf_storable)
  with assms show ?thesis
    by (simp add: reg_ok_def reg_put_pair reg_inv_insert) (simp add: put_pair_run store_decodes_set)
qed

lemma reg_ok_DeleteTokenPair:
  assumes "reg_ok L c" and "r_pairs (reg c) (GetID L tp) = Some tp"
  shows "reg_ok L (snd (DeleteTokenPair L tp c))"
  using assms
  by (simp add: reg_ok_def reg_DeleteTokenPair reg_inv_remove) (simp add: DeleteTokenPair_run store_decodes_delete)

subsection \<open>Lookup by name\<close>

text \<open>A token string is a contract address in hexadecimal or a denomination.\<close>

definition names :: "lib \<Rightarrow> TokenPair \<Rightarrow> string \<Rightarrow> bool" where
  "names L tp token \<longleftrightarrow>
     (if IsHexAddress L token then HexToAddress L token = GetERC20Contract L tp else token = Denom tp)"

definition find_pair :: "lib \<Rightarrow> string \<Rightarrow> 'w ctx \<Rightarrow> TokenPair option" where
  "find_pair L token c = Option.bind (GetTokenPairID L token c) (r_pairs (reg c))"

lemma GetTokenPairID_reg:
  "GetTokenPairID L token c =
     (if IsHexAddress L token then r_erc20 (reg c) (HexToAddress L token) else r_denom (reg c) token)"
  by (simp add: GetTokenPairID_def index_reg)

lemma lookup_token:
  assumes "reg_ok L c"
  shows "GetTokenPair (GetTokenPairID L token c) c = Ok (find_pair L token c)"
  using assms by (cases "GetTokenPairID L token c")
    (auto simp: find_pair_def GetTokenPair_reg reg_ok_def, simp add: GetTokenPair_def)

lemma find_pair_iff:
  assumes "reg_ok L c"
  shows "find_pair L token c = Some tp \<longleftrightarrow> r_pairs (reg c) (GetID L tp) = Some tp \<and> names L tp token"
proof
  have inv: "reg_inv L (reg c)" using assms by (simp add: reg_ok_def)
  {
    assume "find_pair L token c = Some tp"
    then obtain pid where pid: "GetTokenPairID L token c = Some pid" "r_pairs (reg c) pid = Some tp"
      by (auto simp: find_pair_def bind_eq_Some_conv)
    from reg_invD(1) [OF inv pid(2)] have "pid = GetID L tp" .
    moreover have "names L tp token"
    proof (cases "IsHexAddress L token")
      case True
      with pid(1) have "r_erc20 (reg c) (HexToAddress L token) = Some pid" by (simp add: GetTokenPairID_reg)
      from reg_invD(5) [OF inv this] pid(2) True show ?thesis by (simp add: names_def)
    next
      case False
      with pid(1) have "r_denom (reg c) token = Some pid" by (simp add: GetTokenPairID_reg)
      from reg_invD(6) [OF inv this] pid(2) False show ?thesis by (simp add: names_def)
    qed
    ultimately show "r_pairs (reg c) (GetID L tp) = Some tp \<and> names L tp token"
      using pid(2) by simp
  next
    assume tp: "r_pairs (reg c) (GetID L tp) = Some tp \<and> names L tp token"
    then have "GetTokenPairID L token c = Some (GetID L tp)"
      using reg_invD(3,4) [OF inv conjunct1 [OF tp]] by (simp add: GetTokenPairID_reg names_def split: if_splits)
    with tp show "find_pair L token c = Some tp"
      by (simp add: find_pair_def)
  }
qed

section \<open>The registry as an interface\<close>

text \<open>
  What the clients of the registry (conversion, proposals, microtx, onboarding) rely on: lookup
  by name, and the effect of registering, removing and enabling a pair on every lookup.
\<close>

locale pair_registry =
  fixes inv :: "'s \<Rightarrow> bool" and find :: "string \<Rightarrow> 's \<Rightarrow> TokenPair option"
    and naming :: "TokenPair \<Rightarrow> string \<Rightarrow> bool" and vacant :: "TokenPair \<Rightarrow> 's \<Rightarrow> bool"
    and register :: "TokenPair \<Rightarrow> 's \<Rightarrow> 's" and unregister :: "TokenPair \<Rightarrow> 's \<Rightarrow> 's"
    and enable :: "TokenPair \<Rightarrow> bool \<Rightarrow> 's \<Rightarrow> 's"
  assumes inv_register: "inv s \<Longrightarrow> vacant tp s \<Longrightarrow> inv (register tp s)"
    and inv_unregister: "inv s \<Longrightarrow> find t s = Some tp \<Longrightarrow> inv (unregister tp s)"
    and inv_enable: "inv s \<Longrightarrow> find t s = Some tp \<Longrightarrow> inv (enable tp b s)"
    and find_register: "inv s \<Longrightarrow> vacant tp s \<Longrightarrow>
      find t (register tp s) = (if naming tp t then Some tp else find t s)"
    and find_unregister: "inv s \<Longrightarrow> find t0 s = Some tp \<Longrightarrow>
      find t (unregister tp s) = (if naming tp t then None else find t s)"
    and find_enable: "inv s \<Longrightarrow> find t0 s = Some tp \<Longrightarrow>
      find t (enable tp b s) = (if naming tp t then Some (tp\<lparr>Enabled := b\<rparr>) else find t s)"
    and find_naming: "inv s \<Longrightarrow> find t s = Some tp \<Longrightarrow> naming tp t' \<longleftrightarrow> find t' s = Some tp"
    and vacant_find: "inv s \<Longrightarrow> vacant tp s \<Longrightarrow> naming tp t \<Longrightarrow> find t s = None"
    and naming_Enabled: "naming (tp\<lparr>Enabled := b\<rparr>) t = naming tp t"
begin

lemma register_unregister:
  assumes "inv s" and "vacant tp s" and "naming tp t0"
  shows "find t (unregister tp (register tp s)) = find t s"
  using assms find_unregister [of "register tp s" t0 tp t] vacant_find [of s tp t]
  by (simp add: find_register inv_register)

lemma enable_twice:
  assumes "inv s" and "find t0 s = Some tp"
  shows "find t (enable (tp\<lparr>Enabled := b\<rparr>) b' (enable tp b s)) = find t (enable tp b' s)"
proof -
  have "naming tp t0" using find_naming [OF assms] assms(2) by simp
  then have "find t0 (enable tp b s) = Some (tp\<lparr>Enabled := b\<rparr>)"
    using find_enable [OF assms, of t0 b] by simp
  from find_enable [OF inv_enable [OF assms] this] show ?thesis
    using find_enable [OF assms] by (simp add: naming_Enabled)
qed

end

lemma names_vacant:
  assumes "reg_inv L r" and "r_pairs r pid = Some t" and "reg_fresh L tp r" and "names L tp token"
  shows "\<not> names L t token"
proof
  assume "names L t token"
  with assms(4) have "GetERC20Contract L t = GetERC20Contract L tp \<or> Denom t = Denom tp"
    by (simp add: names_def split: if_splits)
  with reg_invD(3,4) [OF assms(1,2)] assms(3) show False
    by (auto simp: reg_fresh_def)
qed

lemma find_pair_eqI:
  assumes "\<And>t. find_pair L token c = Some t \<longleftrightarrow> x = Some t"
  shows "find_pair L token c = x"
  using assms by (metis not_None_eq)

lemma find_put_pair:
  assumes ok: "reg_ok L c" and fresh: "reg_fresh L tp (reg c)"
  shows "find_pair L token (snd (put_pair L tp c)) = (if names L tp token then Some tp else find_pair L token c)"
proof (rule find_pair_eqI)
  fix t
  have inv: "reg_inv L (reg c)" using ok by (simp add: reg_ok_def)
  have st: "storable tp" using fresh by (auto simp: reg_fresh_def intro: pair_wf_storable)
  have "find_pair L token (snd (put_pair L tp c)) = Some t \<longleftrightarrow>
      (if GetID L t = GetID L tp then t = tp else r_pairs (reg c) (GetID L t) = Some t) \<and> names L t token"
    using find_pair_iff [OF reg_ok_put_pair [OF ok fresh]] by (auto simp: reg_put_pair [OF st] reg_insert_def)
  also have "\<dots> \<longleftrightarrow> (if names L tp token then Some tp else find_pair L token c) = Some t"
    using fresh names_vacant [OF inv _ fresh] find_pair_iff [OF ok, of token t] by (auto simp: reg_fresh_def)
  finally show "find_pair L token (snd (put_pair L tp c)) = Some t \<longleftrightarrow>
      (if names L tp token then Some tp else find_pair L token c) = Some t" .
qed

lemma names_registered:
  assumes "reg_inv L r" and "r_pairs r p1 = Some t1" and "r_pairs r p2 = Some t2"
    and "names L t1 token" and "names L t2 token"
  shows "t1 = t2"
proof (rule reg_inv_unique(2) [OF assms(1-3)])
  show "GetERC20Contract L t1 = GetERC20Contract L t2 \<or> Denom t1 = Denom t2"
    using assms(4,5) by (simp add: names_def split: if_splits)
qed

lemma find_DeleteTokenPair:
  assumes ok: "reg_ok L c" and tp: "r_pairs (reg c) (GetID L tp) = Some tp"
  shows "find_pair L token (snd (DeleteTokenPair L tp c)) = (if names L tp token then None else find_pair L token c)"
proof (rule find_pair_eqI)
  fix t
  have inv: "reg_inv L (reg c)" using ok by (simp add: reg_ok_def)
  have same: "t = tp" if "r_pairs (reg c) (GetID L t) = Some t" and "GetID L t = GetID L tp"
    using that tp by simp
  have uniq: "t = tp" if "r_pairs (reg c) (GetID L t) = Some t" and "names L t token" and "names L tp token"
    using names_registered [OF inv that(1) tp that(2,3)] .
  have "find_pair L token (snd (DeleteTokenPair L tp c)) = Some t \<longleftrightarrow>
      GetID L t \<noteq> GetID L tp \<and> r_pairs (reg c) (GetID L t) = Some t \<and> names L t token"
    using find_pair_iff [OF reg_ok_DeleteTokenPair [OF ok tp]] by (auto simp: reg_DeleteTokenPair reg_remove_def)
  also have "\<dots> \<longleftrightarrow> \<not> names L tp token \<and> find_pair L token c = Some t"
    unfolding find_pair_iff [OF ok] using same uniq by blast
  also have "\<dots> \<longleftrightarrow> (if names L tp token then None else find_pair L token c) = Some t"
    by simp
  finally show "find_pair L token (snd (DeleteTokenPair L tp c)) = Some t \<longleftrightarrow>
      (if names L tp token then None else find_pair L token c) = Some t" .
qed

lemma names_Enabled [simp]: "names L (tp\<lparr>Enabled := b\<rparr>) t = names L tp t"
  by (simp add: names_def)

lemma find_SetTokenPair:
  assumes ok: "reg_ok L c" and tp: "r_pairs (reg c) (GetID L tp) = Some tp"
  shows "find_pair L token (snd (SetTokenPair L (tp\<lparr>Enabled := b\<rparr>) c)) =
     (if names L tp token then Some (tp\<lparr>Enabled := b\<rparr>) else find_pair L token c)"
proof (rule find_pair_eqI)
  fix t
  have inv: "reg_inv L (reg c)" using ok by (simp add: reg_ok_def)
  have "pair_wf L (tp\<lparr>Enabled := b\<rparr>)" using reg_invD(2) [OF inv tp] by simp
  then have st: "storable (tp\<lparr>Enabled := b\<rparr>)" by (rule pair_wf_storable)
  have same: "t = tp" if "r_pairs (reg c) (GetID L t) = Some t" and "GetID L t = GetID L tp"
    using that tp by simp
  have uniq: "t = tp" if "r_pairs (reg c) (GetID L t) = Some t" and "names L t token" and "names L tp token"
    using names_registered [OF inv that(1) tp that(2,3)] .
  have "find_pair L token (snd (SetTokenPair L (tp\<lparr>Enabled := b\<rparr>) c)) = Some t \<longleftrightarrow>
      (if GetID L t = GetID L tp then t = tp\<lparr>Enabled := b\<rparr> else r_pairs (reg c) (GetID L t) = Some t) \<and> names L t token"
    using find_pair_iff [OF reg_ok_SetTokenPair [OF ok tp, of b]] by (auto simp: reg_SetTokenPair [OF st] reg_replace_def)
  also have "\<dots> \<longleftrightarrow> (if names L tp token then t = tp\<lparr>Enabled := b\<rparr> else find_pair L token c = Some t)"
  proof (cases "names L tp token")
    case True
    then show ?thesis using uniq by (cases "GetID L t = GetID L tp") auto
  next
    case False
    then show ?thesis using same unfolding find_pair_iff [OF ok] by (cases "GetID L t = GetID L tp") auto
  qed
  also have "\<dots> \<longleftrightarrow> (if names L tp token then Some (tp\<lparr>Enabled := b\<rparr>) else find_pair L token c) = Some t"
    by auto
  finally show "find_pair L token (snd (SetTokenPair L (tp\<lparr>Enabled := b\<rparr>) c)) = Some t \<longleftrightarrow>
      (if names L tp token then Some (tp\<lparr>Enabled := b\<rparr>) else find_pair L token c) = Some t" .
qed

interpretation erc20_registry: pair_registry "reg_ok L" "find_pair L" "names L" "\<lambda>tp c. reg_fresh L tp (reg c)"
  "\<lambda>tp c. snd (put_pair L tp c)" "\<lambda>tp c. snd (DeleteTokenPair L tp c)"
  "\<lambda>tp b c. snd (SetTokenPair L (tp\<lparr>Enabled := b\<rparr>) c)" for L
proof
  fix c :: "'w ctx" and tp t t' t0 b
  assume ok: "reg_ok L c"
  have inv: "reg_inv L (reg c)" using ok by (simp add: reg_ok_def)
  show "reg_fresh L tp (reg c) \<Longrightarrow> reg_ok L (snd (put_pair L tp c))"
    by (rule reg_ok_put_pair [OF ok])
  show "find_pair L t c = Some tp \<Longrightarrow> reg_ok L (snd (DeleteTokenPair L tp c))"
    using reg_ok_DeleteTokenPair [OF ok] find_pair_iff [OF ok] by blast
  show "find_pair L t c = Some tp \<Longrightarrow> reg_ok L (snd (SetTokenPair L (tp\<lparr>Enabled := b\<rparr>) c))"
    using reg_ok_SetTokenPair [OF ok] find_pair_iff [OF ok] by blast
  show "reg_fresh L tp (reg c) \<Longrightarrow> find_pair L t (snd (put_pair L tp c)) =
      (if names L tp t then Some tp else find_pair L t c)"
    by (rule find_put_pair [OF ok])
  show "find_pair L t0 c = Some tp \<Longrightarrow> find_pair L t (snd (DeleteTokenPair L tp c)) =
      (if names L tp t then None else find_pair L t c)"
    using find_DeleteTokenPair [OF ok] find_pair_iff [OF ok] by blast
  show "find_pair L t0 c = Some tp \<Longrightarrow> find_pair L t (snd (SetTokenPair L (tp\<lparr>Enabled := b\<rparr>) c)) =
      (if names L tp t then Some (tp\<lparr>Enabled := b\<rparr>) else find_pair L t c)"
    using find_SetTokenPair [OF ok] find_pair_iff [OF ok] by blast
  show "find_pair L t c = Some tp \<Longrightarrow> names L tp t' = (find_pair L t' c = Some tp)"
    using find_pair_iff [OF ok] by blast
  show "reg_fresh L tp (reg c) \<Longrightarrow> names L tp t \<Longrightarrow> find_pair L t c = None"
    using names_vacant [OF inv] find_pair_iff [OF ok] by (meson not_Some_eq)
qed simp

section \<open>Listing and genesis\<close>

lemma unmarshal_all_Ok:
  assumes "\<And>k bz. (k, bz) \<in> set l \<Longrightarrow> decode_pair bz \<noteq> None"
  shows "unmarshal_all l = Ok (map (\<lambda>(k, bz). the (decode_pair bz)) l)"
  using assms
proof (induction l)
  case (Cons x l)
  obtain k bz where x: "x = (k, bz)" by fastforce
  with Cons.prems [of k bz] have "TokenPair_Unmarshal bz = Ok (the (decode_pair bz))"
    by (auto simp: decode_pair_def split: if_splits result.splits)
  moreover have "unmarshal_all l = Ok (map (\<lambda>(k, bz). the (decode_pair bz)) l)"
    using Cons.IH Cons.prems by (meson list.set_intros(2))
  ultimately show ?case by (simp add: x)
qed simp

lemma pair_entry:
  assumes "store_decodes (kv c ''erc20'')"
  shows "(k, bz) \<in> set (kv_prefix KeyPrefixTokenPair (kv c ''erc20'')) \<Longrightarrow>
      \<exists>tp. decode_pair bz = Some tp \<and> r_pairs (reg c) k = Some tp"
    and "r_pairs (reg c) k = Some tp \<Longrightarrow>
      \<exists>bz. (k, bz) \<in> set (kv_prefix KeyPrefixTokenPair (kv c ''erc20'')) \<and> decode_pair bz = Some tp"
proof -
  have kv: "kv_ok (kv c ''erc20'')" using assms by (simp add: store_decodes_def)
  show "\<exists>tp. decode_pair bz = Some tp \<and> r_pairs (reg c) k = Some tp"
    if "(k, bz) \<in> set (kv_prefix KeyPrefixTokenPair (kv c ''erc20''))"
  proof -
    from that have get: "kv_get (kv c ''erc20'') (KeyPrefixTokenPair @ k) = Some bz"
      by (simp add: kv_prefix_set [OF kv])
    with assms obtain tp where "decode_pair bz = Some tp"
      unfolding store_decodes_def by (meson not_Some_eq)
    with get show ?thesis by (simp add: registry_of_def pairs.lookup_def)
  qed
  show "\<exists>bz. (k, bz) \<in> set (kv_prefix KeyPrefixTokenPair (kv c ''erc20'')) \<and> decode_pair bz = Some tp"
    if "r_pairs (reg c) k = Some tp"
    using that by (simp add: registry_of_def pairs.lookup_def kv_prefix_set [OF kv] bind_eq_Some_conv)
qed

lemma GetTokenPairs_reg:
  assumes ok: "reg_ok L c"
  obtains tps where "GetTokenPairs c = Ok tps" and "distinct tps"
    and "\<And>tp. tp \<in> set tps \<longleftrightarrow> r_pairs (reg c) (GetID L tp) = Some tp"
proof -
  let ?l = "kv_prefix KeyPrefixTokenPair (kv c ''erc20'')"
  let ?d = "\<lambda>(k :: bytes, bz). the (decode_pair bz)"
  have dec: "store_decodes (kv c ''erc20'')" and inv: "reg_inv L (reg c)" using ok by (simp_all add: reg_ok_def)
  have "decode_pair bz \<noteq> None" if "(k, bz) \<in> set ?l" for k bz
    using pair_entry(1) [OF dec that] by auto
  from unmarshal_all_Ok [OF this] have run: "GetTokenPairs c = Ok (map ?d ?l)"
    by (simp add: GetTokenPairs_def)
  have key: "r_pairs (reg c) k = Some (the (decode_pair bz)) \<and> GetID L (the (decode_pair bz)) = k"
    if "(k, bz) \<in> set ?l" for k bz
    using pair_entry(1) [OF dec that] reg_invD(1) [OF inv] by fastforce
  have "distinct (map fst ?l)"
    using dec by (intro kv_ok_distinct kv_ok_prefix) (simp add: store_decodes_def)
  moreover have "map fst ?l = map (GetID L) (map ?d ?l)"
    using key by (auto simp: fst_def)
  ultimately have "distinct (map ?d ?l)"
    by (metis distinct_map)
  moreover have "tp \<in> set (map ?d ?l) \<longleftrightarrow> r_pairs (reg c) (GetID L tp) = Some tp" for tp
  proof
    assume "tp \<in> set (map ?d ?l)"
    then obtain k bz where kb: "(k, bz) \<in> set ?l" and "tp = the (decode_pair bz)" by auto
    with key [OF kb] show "r_pairs (reg c) (GetID L tp) = Some tp" by simp
  next
    assume "r_pairs (reg c) (GetID L tp) = Some tp"
    from pair_entry(2) [OF dec this] show "tp \<in> set (map ?d ?l)" by force
  qed
  ultimately show ?thesis using run that by blast
qed

lemma for_each_put:
  assumes "reg_ok L c" and "\<And>tp. tp \<in> set xs \<Longrightarrow> reg_fresh L tp (reg c)"
    and "distinct (map (GetID L) xs)" and "distinct (map (GetERC20Contract L) xs)" and "distinct (map Denom xs)"
  shows "\<exists>c'. for_each xs (put_pair L) c = (Ok (), c') \<and> reg_ok L c' \<and> prm c' = prm c \<and>
     (\<forall>pid tp. r_pairs (reg c') pid = Some tp \<longleftrightarrow> r_pairs (reg c) pid = Some tp \<or> tp \<in> set xs \<and> pid = GetID L tp)"
  using assms
proof (induction xs arbitrary: c)
  case (Cons x xs)
  let ?c = "snd (put_pair L x c)"
  have fx: "reg_fresh L x (reg c)" using Cons.prems(2) by simp
  have st: "storable x" using fx by (auto simp: reg_fresh_def intro: pair_wf_storable)
  have ok: "reg_ok L ?c" using reg_ok_put_pair [OF Cons.prems(1) fx] .
  have r: "reg ?c = reg_insert L x (reg c)" by (rule reg_put_pair [OF st])
  have "reg_fresh L tp (reg ?c)" if "tp \<in> set xs" for tp
  proof -
    from that Cons.prems(3-5) have "GetID L tp \<noteq> GetID L x" "GetERC20Contract L tp \<noteq> GetERC20Contract L x" "Denom tp \<noteq> Denom x"
      by (auto simp: image_iff)
    with Cons.prems(2) [of tp] that show ?thesis
      unfolding r by (simp add: reg_fresh_def reg_insert_def)
  qed
  from Cons.IH [OF ok this] Cons.prems(3-5) obtain c' where c': "for_each xs (put_pair L) ?c = (Ok (), c')"
    "reg_ok L c'" "prm c' = prm ?c"
    "\<And>pid tp. r_pairs (reg c') pid = Some tp \<longleftrightarrow> r_pairs (reg ?c) pid = Some tp \<or> tp \<in> set xs \<and> pid = GetID L tp"
    by (auto simp del: split_paired_All)
  have run: "for_each (x # xs) (put_pair L) c = (Ok (), c')"
    using c'(1) by (simp add: put_pair_run bind_def)
  have "r_pairs (reg c) (GetID L x) = None" using fx by (simp add: reg_fresh_def)
  then have "r_pairs (reg ?c) pid = Some tp \<longleftrightarrow> r_pairs (reg c) pid = Some tp \<or> tp = x \<and> pid = GetID L x" for pid tp
    unfolding r by (auto simp: reg_insert_def)
  then have "r_pairs (reg c') pid = Some tp \<longleftrightarrow> r_pairs (reg c) pid = Some tp \<or> tp \<in> set (x # xs) \<and> pid = GetID L tp" for pid tp
    unfolding c'(4) by auto
  moreover have "prm c' = prm c" using c'(3) by (simp add: put_pair_run)
  ultimately show ?case using run c'(2) by blast
qed simp

lemma genesis_pairs_ok_Ok:
  assumes "genesis_pairs_ok L M A D xs = Ok ()"
  shows "\<forall>tp \<in> set xs. TokenPair_Validate L M tp = Ok () \<and> Erc20Address tp \<notin> A \<and> Denom tp \<notin> D"
    and "distinct (map Erc20Address xs)" and "distinct (map Denom xs)"
proof -
  have "(\<forall>tp \<in> set xs. TokenPair_Validate L M tp = Ok () \<and> Erc20Address tp \<notin> A \<and> Denom tp \<notin> D) \<and>
      distinct (map Erc20Address xs) \<and> distinct (map Denom xs)"
    using assms
  proof (induction xs arbitrary: A D)
    case (Cons x xs)
    then have "genesis_pairs_ok L M (insert (Erc20Address x) A) (insert (Denom x) D) xs = Ok ()"
      "Erc20Address x \<notin> A" "Denom x \<notin> D" "TokenPair_Validate L M x = Ok ()"
      by (auto split: if_splits)
    with Cons.IH [OF this(1)] show ?case by fastforce
  qed simp
  then show "\<forall>tp \<in> set xs. TokenPair_Validate L M tp = Ok () \<and> Erc20Address tp \<notin> A \<and> Denom tp \<notin> D"
    "distinct (map Erc20Address xs)" "distinct (map Denom xs)" by auto
qed

text \<open>The text that is hashed into the id of a pair.\<close>

definition id_text :: "TokenPair \<Rightarrow> string" where
  "id_text tp = Erc20Address tp @ ''|'' @ Denom tp"

lemma GetID_id_text: "GetID L tp = tmhash_Sum L (id_text tp)"
  by (simp add: GetID_def id_text_def)

lemma id_text_inj:
  assumes "CHR ''|'' \<notin> set (Erc20Address t1)" and "CHR ''|'' \<notin> set (Erc20Address t2)"
  shows "id_text t1 = id_text t2 \<longleftrightarrow> Erc20Address t1 = Erc20Address t2 \<and> Denom t1 = Denom t2"
  using append_sep_inj [OF assms, of "Denom t1" "Denom t2"] by (simp add: id_text_def)

lemma Validate_pair_wf:
  assumes "valid_ok L M" and "TokenPair_Validate L M tp = Ok ()"
  shows "pair_wf L tp"
proof -
  from assms(2) obtain u v where "ValidateDenom M (Denom tp) = Ok u" "ValidateAddress L (Erc20Address tp) = Ok v"
    by (auto simp: TokenPair_Validate_def)
  with valid_okD(1,2) [OF assms(1)] have "Erc20Address tp \<noteq> []" "CHR ''|'' \<notin> set (Erc20Address tp)"
    "length (Erc20Address tp) \<le> 42" "length (Denom tp) \<le> 128" by blast+
  moreover have "GetID L tp \<noteq> []"
    using valid_okD(3) [OF assms(1), of "id_text tp"] by (simp add: GetID_id_text id_text_def)
  ultimately show ?thesis by (simp add: pair_wf_def)
qed

lemma erc20_SetParams_run:
  "erc20_SetParams p c = (Ok (), c\<lparr>prm := (prm c)(''erc20'' :=
     (prm c ''erc20'')(ParamStoreKeyEnableErc20 \<mapsto> PBool (EnableErc20 p), ParamStoreKeyEnableEVMHook \<mapsto> PBool (EnableEVMHook p)))\<rparr>)"
  by (simp add: erc20_SetParams_def param_SetParamSet_def erc20_ParamSetPairs_def)

lemma erc20_GetParams_set:
  "prm c = (q)(''erc20'' := s(ParamStoreKeyEnableErc20 \<mapsto> PBool (EnableErc20 p), ParamStoreKeyEnableEVMHook \<mapsto> PBool (EnableEVMHook p))) \<Longrightarrow>
     erc20_GetParams c = Ok p"
  by (simp add: erc20_GetParams_def ParamStoreKeyEnableErc20_def ParamStoreKeyEnableEVMHook_def)

lemma erc20_InitGenesis_eq:
  "erc20_InitGenesis E g = seq (erc20_SetParams (gen_Params g))
     (bind (ext (GetModuleAccount (acct E) ''erc20'')) (\<lambda>acc.
      if acc = None then panic ''the erc20 module account has not been set''
      else for_each (gen_TokenPairs g) (put_pair (libs E))))"
  unfolding erc20_InitGenesis_def put_pair_def [abs_def] Let_def ..

lemma genesis_fresh:
  assumes "valid_ok L M" and "erc20_Genesis_Validate L M g = Ok ()" and "registry_of s = registry_of []"
  shows "tp \<in> set (gen_TokenPairs g) \<Longrightarrow> reg_fresh L tp (registry_of s)"
proof -
  assume "tp \<in> set (gen_TokenPairs g)"
  with assms(2) genesis_pairs_ok_Ok(1) [of L M "{}" "{}" "gen_TokenPairs g"] have "TokenPair_Validate L M tp = Ok ()"
    by (auto simp: erc20_Genesis_Validate_def)
  from Validate_pair_wf [OF assms(1) this] show ?thesis
    by (simp add: reg_fresh_def assms(3)) (simp add: registry_of_def pairs.lookup_def by_erc20.lookup_def by_denom.lookup_def)
qed

lemma genesis_ids_distinct:
  assumes "valid_ok L M" and "erc20_Genesis_Validate L M g = Ok ()"
    and "inj_on (tmhash_Sum L) (id_text ` set (gen_TokenPairs g))"
  shows "distinct (map (GetID L) (gen_TokenPairs g))"
proof -
  let ?xs = "gen_TokenPairs g"
  have v: "genesis_pairs_ok L M {} {} ?xs = Ok ()"
    using assms(2) by (auto simp: erc20_Genesis_Validate_def)
  have bar: "CHR ''|'' \<notin> set (Erc20Address tp)" if "tp \<in> set ?xs" for tp
    using that genesis_pairs_ok_Ok(1) [OF v] Validate_pair_wf [OF assms(1)] by (auto simp: pair_wf_def)
  have "distinct ?xs" using genesis_pairs_ok_Ok(3) [OF v] by (simp add: distinct_map)
  moreover have "inj_on (GetID L) (set ?xs)"
  proof (rule inj_onI)
    fix x y assume xy: "x \<in> set ?xs" "y \<in> set ?xs" "GetID L x = GetID L y"
    with assms(3) have "id_text x = id_text y" by (auto simp: GetID_id_text dest: inj_onD)
    with bar xy have "Denom x = Denom y" by (simp add: id_text_inj)
    with genesis_pairs_ok_Ok(3) [OF v] xy show "x = y" by (auto simp: distinct_map dest: inj_onD)
  qed
  ultimately show ?thesis by (simp add: distinct_map)
qed

section \<open>Properties\<close>

text \<open>
  In a registry whose invariant holds, looking up a token never panics and finds exactly the
  registered pair that the token names, by contract address or by denomination; at most one
  registered pair has a given name.
\<close>

theorem registry_lookup_exact:
  assumes "reg_ok L c"
  shows "(\<exists>x. GetTokenPair (GetTokenPairID L token c) c = Ok x) \<and>
     (\<forall>tp. GetTokenPair (GetTokenPairID L token c) c = Ok (Some tp) \<longleftrightarrow>
        GetTokenPair (Some (GetID L tp)) c = Ok (Some tp) \<and> names L tp token)"
  using assms lookup_token [OF assms, of token] find_pair_iff [OF assms, of token]
  by (simp add: GetTokenPair_reg reg_ok_def)

lemma reg_ok_empty: "kv c ''erc20'' = [] \<Longrightarrow> reg_ok L c"
  by (simp add: reg_ok_def store_decodes_def reg_inv_def registry_of_def pairs.lookup_def
      by_erc20.lookup_def by_denom.lookup_def)

definition c_tp :: TokenPair where
  "c_tp = \<lparr>Erc20Address = ''0x6a'', Denom = ''acoin'', Enabled = True, ContractOwner = OWNER_MODULE\<rparr>"

definition c_reg_ctx :: "'w \<Rightarrow> 'w ctx" where
  "c_reg_ctx w = snd (put_pair c_lib c_tp (c_ctx w))"

lemma fresh_c_tp: "reg_fresh c_lib c_tp (reg (c_ctx w))"
  by (simp add: reg_fresh_def pair_wf_def c_tp_def GetID_def c_lib_def registry_of_def pairs.lookup_def
      by_erc20.lookup_def by_denom.lookup_def)

lemma reg_ok_c_reg_ctx: "reg_ok c_lib (c_reg_ctx w)"
  unfolding c_reg_ctx_def by (rule reg_ok_put_pair [OF reg_ok_empty fresh_c_tp]) simp

lemma names_c_tp: "names c_lib c_tp ''acoin''"
  by (simp add: names_def c_lib_def HasPrefix_def c_tp_def)

lemma find_c_tp: "find_pair c_lib ''acoin'' (c_reg_ctx w) = Some c_tp"
  unfolding c_reg_ctx_def by (subst find_put_pair [OF reg_ok_empty fresh_c_tp]) (simp_all add: names_c_tp)

theorem registry_lookup_exact_witness:
  "reg_ok c_lib (c_reg_ctx ()) \<and>
   GetTokenPair (GetTokenPairID c_lib ''acoin'' (c_reg_ctx ())) (c_reg_ctx ()) = Ok (Some c_tp) \<and>
   GetTokenPair (Some (GetID c_lib c_tp)) (c_reg_ctx ()) = Ok (Some c_tp)"
  using reg_ok_c_reg_ctx [of "()"]
    registry_lookup_exact [OF reg_ok_c_reg_ctx, THEN conjunct2, THEN spec, of "''acoin''" "()" c_tp]
    lookup_token [OF reg_ok_c_reg_ctx, of "''acoin''" "()"] by (simp add: find_c_tp)

lemma erc20_genesis_imports:
  assumes valid: "valid_ok (libs E) (math E)" and val: "erc20_Genesis_Validate (libs E) (math E) g = Ok ()"
    and dist: "distinct (map (GetERC20Contract (libs E)) (gen_TokenPairs g))"
    and coll: "inj_on (tmhash_Sum (libs E)) (id_text ` set (gen_TokenPairs g))"
    and empty: "kv c ''erc20'' = []" and run: "erc20_InitGenesis E g c = (Ok (), c')"
  shows "reg_ok (libs E) c' \<and> (\<exists>tps. erc20_ExportGenesis c' = Ok \<lparr>gen_Params = gen_Params g, gen_TokenPairs = tps\<rparr> \<and>
     set tps = set (gen_TokenPairs g) \<and> length tps = length (gen_TokenPairs g))"
proof -
  let ?L = "libs E" and ?xs = "gen_TokenPairs g"
  from run obtain acc c1 where c1: "ext (GetModuleAccount (acct E) ''erc20'') (snd (erc20_SetParams (gen_Params g) c)) = (Ok acc, c1)"
    and loop: "for_each ?xs (put_pair ?L) c1 = (Ok (), c')"
    unfolding erc20_InitGenesis_eq by (auto simp: erc20_SetParams_run ext_Ok split: if_splits)
  from c1 have kv1: "kv c1 ''erc20'' = []" and prm1: "prm c1 = prm (snd (erc20_SetParams (gen_Params g) c))"
    using empty by (auto simp: erc20_SetParams_run)
  have ok1: "reg_ok ?L c1"
    by (rule reg_ok_empty [OF kv1])
  have denoms: "distinct (map Denom ?xs)"
    using val genesis_pairs_ok_Ok(3) by (fastforce simp: erc20_Genesis_Validate_def)
  have ids: "distinct (map (GetID ?L) ?xs)" by (rule genesis_ids_distinct [OF valid val coll])
  from for_each_put [OF ok1 _ ids dist denoms] genesis_fresh [OF valid val, of "kv c1 ''erc20''"] loop kv1
  have ok': "reg_ok ?L c'" and prm': "prm c' = prm c1"
    and reg': "\<And>pid tp. r_pairs (reg c') pid = Some tp \<longleftrightarrow> r_pairs (reg c1) pid = Some tp \<or> tp \<in> set ?xs \<and> pid = GetID ?L tp"
    by auto
  obtain tps where tps: "GetTokenPairs c' = Ok tps" "distinct tps"
    "\<And>tp. tp \<in> set tps \<longleftrightarrow> r_pairs (reg c') (GetID ?L tp) = Some tp"
    using GetTokenPairs_reg [OF ok'] by blast
  have "r_pairs (reg c1) pid = None" for pid
    by (simp add: kv1 registry_of_def pairs.lookup_def)
  then have "set tps = set ?xs"
    by (auto simp: tps(3) reg' simp del: not_None_eq)
  moreover from this have "length tps = length ?xs"
    using tps(2) ids by (metis distinct_card distinct_map)
  moreover have "erc20_GetParams c' = Ok (gen_Params g)"
    using prm' prm1 by (intro erc20_GetParams_set) (simp add: erc20_SetParams_run)
  ultimately show ?thesis
    using ok' tps(1) by (simp add: erc20_ExportGenesis_def)
qed


definition c_genesis :: erc20_genesis where
  "c_genesis = \<lparr>gen_Params = erc20_DefaultParams, gen_TokenPairs = [c_tp]\<rparr>"


text \<open>Two spellings of one contract address pass the genesis check.\<close>

lemma genesis_same_contract_twice:
  "\<exists>g. erc20_Genesis_Validate c_lib c_math g = Ok () \<and> \<not> distinct (map (GetERC20Contract c_lib) (gen_TokenPairs g))"
proof
  let ?g = "\<lparr>gen_Params = erc20_DefaultParams,
    gen_TokenPairs = [c_tp, c_tp\<lparr>Erc20Address := ''0x6A'', Denom := ''bcoin''\<rparr>]\<rparr>"
  have "hex_value (CHR ''A'') = hex_value (CHR ''a'')"
    by code_simp
  then show "erc20_Genesis_Validate c_lib c_math ?g = Ok () \<and> \<not> distinct (map (GetERC20Contract c_lib) (gen_TokenPairs ?g))"
    by (simp add: erc20_Genesis_Validate_def erc20_Params_Validate_def TokenPair_Validate_def c_tp_def c_math_def
        c_lib_def HasPrefix_def GetERC20Contract_def)
qed

end
