(* ===== verification/Erc20_EVM.thy ===== *)
theory Erc20_EVM
  imports Erc20_Registry
begin

text \<open>
  The erc20 module's access to the EVM (\<open>x/erc20/keeper/evm.go\<close>): calls with and without commit,
  token balances, token data, deployment of the module's own token contract, and the check for
  unexpected approvals.
\<close>

section \<open>Calls\<close>

text \<open>
  \<open>CallEVMWithData\<close>: estimates gas when the call is committed, then applies the message. The JSON
  encoding of the estimate's arguments (addresses and bytes) cannot fail.
\<close>

definition CallEVMWithData :: "'w env \<Rightarrow> address \<Rightarrow> address option \<Rightarrow> bytes \<Rightarrow> bool \<Rightarrow> ('w ctx, evm_response) go" where
  "CallEVMWithData E from contract data commit =
     bind (reads (\<lambda>c. GetSequence (acct E) (addr_bytes from) (world c))) (\<lambda>nonce.
     bind (if commit then ext (EstimateGas (evm E) from contract data) else ret (DefaultGasCap (evm E))) (\<lambda>gasCap.
     bind (ext (ApplyMessage (evm E) \<lparr>em_From = from, em_To = contract, em_Nonce = nonce, em_Amount = 0,
            em_GasLimit = gasCap, em_Data = data, em_IsFake = (\<not> commit)\<rparr> commit)) (\<lambda>res.
     if evm_Failed res then fail ErrVMExecution else ret res)))"

definition CallEVM :: "'w env \<Rightarrow> contract_name \<Rightarrow> address \<Rightarrow> address \<Rightarrow> bool \<Rightarrow> string \<Rightarrow> abi_value list \<Rightarrow> ('w ctx, evm_response) go" where
  "CallEVM E abi from contract commit meth args =
     bind (wrap_as ErrABIPack (lift (abi_Pack (evm E) abi meth args))) (\<lambda>data.
     CallEVMWithData E from (Some contract) data commit)"

text \<open>\<open>BalanceOf\<close> gives \<open>nil\<close> when the call or the decoding fails. A panic is not caught.\<close>

definition BalanceOf :: "'w env \<Rightarrow> address \<Rightarrow> address \<Rightarrow> ('w ctx, int option) go" where
  "BalanceOf E contract account = (\<lambda>c.
     case CallEVM E ERC20MinterBurnerDecimals (erc20_ModuleAddress (libs E)) contract False ''balanceOf'' [VAddr account] c of
       (Panic p, c') \<Rightarrow> (Panic p, c')
     | (Err e, c') \<Rightarrow> (Ok None, c')
     | (Ok res, c') \<Rightarrow>
         (case abi_Unpack (evm E) ERC20MinterBurnerDecimals ''balanceOf'' (evm_Ret res) of
            Ok (VUint n # _) \<Rightarrow> (Ok (Some n), c')
          | Ok _ \<Rightarrow> (Ok None, c')
          | Err e \<Rightarrow> (Ok None, c')
          | Panic p \<Rightarrow> (Panic p, c')))"

section \<open>Token data\<close>

record ERC20Data =
  erc20_Name :: string
  erc20_Symbol :: string
  erc20_Decimals :: u8

text \<open>\<open>UnpackIntoInterface\<close> into a response struct: the values must have the type of its field.\<close>

definition unpack_string :: "'w env \<Rightarrow> string \<Rightarrow> bytes \<Rightarrow> string result" where
  "unpack_string E meth bz = (case abi_Unpack (evm E) ERC20MinterBurnerDecimals meth bz of
     Ok [VStr s] \<Rightarrow> Ok s | Ok _ \<Rightarrow> Err (ExtErr ''abi: cannot unmarshal'') | Err e \<Rightarrow> Err e | Panic p \<Rightarrow> Panic p)"

definition unpack_uint8 :: "'w env \<Rightarrow> string \<Rightarrow> bytes \<Rightarrow> u8 result" where
  "unpack_uint8 E meth bz = (case abi_Unpack (evm E) ERC20MinterBurnerDecimals meth bz of
     Ok [VUint8 n] \<Rightarrow> Ok n | Ok _ \<Rightarrow> Err (ExtErr ''abi: cannot unmarshal'') | Err e \<Rightarrow> Err e | Panic p \<Rightarrow> Panic p)"

definition unpack_bool :: "'w env \<Rightarrow> string \<Rightarrow> bytes \<Rightarrow> bool result" where
  "unpack_bool E meth bz = (case abi_Unpack (evm E) ERC20MinterBurnerDecimals meth bz of
     Ok [VBool b] \<Rightarrow> Ok b | Ok _ \<Rightarrow> Err (ExtErr ''abi: cannot unmarshal'') | Err e \<Rightarrow> Err e | Panic p \<Rightarrow> Panic p)"

definition QueryERC20 :: "'w env \<Rightarrow> address \<Rightarrow> ('w ctx, ERC20Data) go" where
  "QueryERC20 E contract =
     (let modAddr = erc20_ModuleAddress (libs E) in
      bind (CallEVM E ERC20MinterBurnerDecimals modAddr contract False ''name'' []) (\<lambda>res1.
      bind (wrap_as ErrABIUnpack (lift (unpack_string E ''name'' (evm_Ret res1)))) (\<lambda>nam.
      bind (CallEVM E ERC20MinterBurnerDecimals modAddr contract False ''symbol'' []) (\<lambda>res2.
      bind (wrap_as ErrABIUnpack (lift (unpack_string E ''symbol'' (evm_Ret res2)))) (\<lambda>sym.
      bind (CallEVM E ERC20MinterBurnerDecimals modAddr contract False ''decimals'' []) (\<lambda>res3.
      bind (wrap_as ErrABIUnpack (lift (unpack_uint8 E ''decimals'' (evm_Ret res3)))) (\<lambda>dec.
      ret \<lparr>erc20_Name = nam, erc20_Symbol = sym, erc20_Decimals = dec\<rparr>)))))))"

section \<open>Deployment\<close>

text \<open>The decimals are the exponent of the last denomination unit, cut to 8 bits.\<close>

definition DeployERC20Contract :: "'w env \<Rightarrow> metadata \<Rightarrow> ('w ctx, address) go" where
  "DeployERC20Contract E coinMetadata =
     (let decimals = (if 0 < length (md_DenomUnits coinMetadata)
            then (ucast (du_Exponent (last (md_DenomUnits coinMetadata))) :: u8) else 0);
          modAddr = erc20_ModuleAddress (libs E) in
      bind (wrap_as ErrABIPack (lift (abi_Pack (evm E) ERC20MinterBurnerDecimals ''''
             [VStr (md_Name coinMetadata), VStr (md_Symbol coinMetadata), VUint8 decimals]))) (\<lambda>ctorArgs.
      let data = contract_Bin (evm E) ERC20MinterBurnerDecimals @ ctorArgs in
      bind (reads (\<lambda>c. GetSequence (acct E) (addr_bytes modAddr) (world c))) (\<lambda>nonce.
      let contractAddr = CreateAddress (libs E) modAddr nonce in
      bind (CallEVMWithData E modAddr None data True) (\<lambda>_. ret contractAddr))))"

section \<open>Approval events\<close>

text \<open>\<open>log.Topics[0]\<close> panics on a log without topics.\<close>

fun approval_loop :: "bytes \<Rightarrow> evm_log list \<Rightarrow> unit result" where
  "approval_loop sig [] = Ok ()"
| "approval_loop sig (l # ls) = (case log_Topics l of
     [] \<Rightarrow> Panic ''index out of range''
   | t # _ \<Rightarrow> if t = sig then Err ErrUnexpectedEvent else approval_loop sig ls)"

definition monitorApprovalEvent :: "'w env \<Rightarrow> evm_response \<Rightarrow> unit result" where
  "monitorApprovalEvent E res =
     approval_loop (Keccak256Hash_Hex (libs E) ''Approval(address,address,uint256)'') (evm_Logs res)"

section \<open>Lemmas\<close>

text \<open>What a call leaves alone: everything in the context but the outside state.\<close>

definition only_world :: "'w ctx \<Rightarrow> 'w ctx \<Rightarrow> bool" where
  "only_world c c' \<longleftrightarrow> c' = c\<lparr>world := world c'\<rparr>"

lemma only_world_refl [simp]: "only_world c c"
  by (simp add: only_world_def)

lemma only_world_trans: "only_world c c1 \<Longrightarrow> only_world c1 c2 \<Longrightarrow> only_world c c2"
  by (cases c; cases c1; cases c2) (simp add: only_world_def)

lemma only_world_upd [simp]: "only_world c (c\<lparr>world := w\<rparr>)"
  by (simp add: only_world_def)

lemma only_worldD:
  "only_world c c' \<Longrightarrow> kv c' = kv c" "only_world c c' \<Longrightarrow> prm c' = prm c" "only_world c c' \<Longrightarrow> evs c' = evs c"
  by (auto simp: only_world_def dest: arg_cong [of _ _ kv] arg_cong [of _ _ prm] arg_cong [of _ _ evs])

lemma CallEVMWithData_Ok:
  assumes "CallEVMWithData E from con dat commit c = (Ok res, c')"
  shows "only_world c c'"
    and "\<exists>m g w. (if commit then EstimateGas (evm E) from con dat (world c) = (Ok g, w) else w = world c) \<and>
       ApplyMessage (evm E) m commit w = (Ok res, world c') \<and> \<not> evm_Failed res \<and> em_From m = from \<and> em_To m = con \<and>
       em_Data m = dat"
  using assms by (cases commit; fastforce simp: CallEVMWithData_def split: if_splits)+

lemma CallEVM_Ok:
  assumes "CallEVM E abi from con commit meth args c = (Ok res, c')"
  shows "\<exists>dat. abi_Pack (evm E) abi meth args = Ok dat \<and>
     CallEVMWithData E from (Some con) dat commit c = (Ok res, c')"
  using assms by (auto simp: CallEVM_def)

lemma CallEVM_only_world: "CallEVM E abi from con commit meth args c = (Ok res, c') \<Longrightarrow> only_world c c'"
  using CallEVM_Ok CallEVMWithData_Ok(1) by blast

text \<open>Calls change no bank balance except in the EVM's denomination.\<close>

lemma CallEVMWithData_bal:
  assumes "evm_query_ok E" and "evm_frame_ok E ed" and "d \<noteq> ed"
    and "CallEVMWithData E from con dat commit c = (Ok res, c')"
  shows "bal E a d (world c') = bal E a d (world c)"
proof -
  from CallEVMWithData_Ok(2) [OF assms(4)] obtain m g w where
    est: "if commit then EstimateGas (evm E) from con dat (world c) = (Ok g, w) else w = world c" and
    app: "ApplyMessage (evm E) m commit w = (Ok res, world c')" by blast
  have "w = world c" using est evm_query_okD(2) [OF assms(1)] by (cases commit) auto
  with evm_frame_okD [OF assms(2) app assms(3)] show ?thesis by simp
qed

lemma CallEVM_bal:
  assumes "evm_query_ok E" and "evm_frame_ok E ed" and "d \<noteq> ed" and "CallEVM E abi from con commit meth args c = (Ok res, c')"
  shows "bal E a d (world c') = bal E a d (world c)"
  using CallEVM_Ok [OF assms(4)] CallEVMWithData_bal [OF assms(1-3)] by blast

subsection \<open>Token balances as an observation\<close>

text \<open>What \<open>BalanceOf\<close> reads of the outside state.\<close>

definition token_balance :: "'w env \<Rightarrow> address \<Rightarrow> address \<Rightarrow> 'w \<Rightarrow> int option result" where
  "token_balance E contract account w =
     (let from = erc20_ModuleAddress (libs E);
          call = andThen (abi_Pack (evm E) ERC20MinterBurnerDecimals ''balanceOf'' [VAddr account]) (\<lambda>data.
            andThen (GetSequence (acct E) (addr_bytes from) w) (\<lambda>nonce.
            andThen (fst (ApplyMessage (evm E) \<lparr>em_From = from, em_To = Some contract, em_Nonce = nonce, em_Amount = 0,
              em_GasLimit = DefaultGasCap (evm E), em_Data = data, em_IsFake = True\<rparr> False w)) (\<lambda>res.
            if evm_Failed res then Err ErrVMExecution else Ok res)))
      in case call of
           Panic p \<Rightarrow> Panic p
         | Err e \<Rightarrow> Ok None
         | Ok res \<Rightarrow> (case abi_Unpack (evm E) ERC20MinterBurnerDecimals ''balanceOf'' (evm_Ret res) of
              Ok (VUint n # _) \<Rightarrow> Ok (Some n) | Ok _ \<Rightarrow> Ok None | Err e \<Rightarrow> Ok None | Panic p \<Rightarrow> Panic p))"

lemma ext_ApplyMessage_query:
  assumes "evm_query_ok E"
  shows "ext (ApplyMessage (evm E) m False) c = (fst (ApplyMessage (evm E) m False (world c)), c)"
  using evm_query_okD(1) [OF assms] by (auto simp: ext_def split: prod.splits)

lemma BalanceOf_eq:
  assumes "evm_query_ok E"
  shows "BalanceOf E con a c = (token_balance E con a (world c), c)"
  by (auto simp: BalanceOf_def token_balance_def CallEVM_def CallEVMWithData_def bind_def wrap_as_def Let_def
      ext_ApplyMessage_query [OF assms] split: result.splits prod.splits list.splits abi_value.splits)

lemma token_balance_same_evm:
  "same_evm E w w' \<Longrightarrow> token_balance E con a w' = token_balance E con a w"
  by (simp add: token_balance_def same_evm_def)

end
