(* ===== verification/Common.thy ===== *)
theory Common
  imports Laws Concrete
begin

text \<open>
  The basis-point fee of \<open>x/common\<close>, charged by the microtx module and by the gas-free messages of
  the erc20 module.
\<close>

definition BasisPointDivisor :: u64 where "BasisPointDivisor = 10000"

text \<open>\<open>int64(basisPoints)\<close> reads the unsigned value as signed.\<close>

definition CalculateBasisPointFee :: "mathlib \<Rightarrow> int \<Rightarrow> u64 \<Rightarrow> int result" where
  "CalculateBasisPointFee M amount basisPoints =
     andThen (MulInt64 M (NewDecFromInt M amount) (sint basisPoints)) (\<lambda>d.
     andThen (QuoInt64 M d (sint BasisPointDivisor)) (\<lambda>q. Ok (TruncateInt M q)))"

definition DeductBasisPointFee :: "'w env \<Rightarrow> u64 \<Rightarrow> coin \<Rightarrow> bytes \<Rightarrow> ('w ctx, coin) go" where
  "DeductBasisPointFee E basisPoints coin subject =
     bind (lift (CalculateBasisPointFee (math E) (coin_amount coin) basisPoints)) (\<lambda>fee.
     bind (lift (NewCoin (math E) (coin_denom coin) fee)) (\<lambda>feeCoin.
     if fee \<noteq> 0 then
       bind (gets (\<lambda>c. GetBalance (bank E) subject (coin_denom feeCoin) (world c))) (\<lambda>balance.
       bind (lift (Coin_IsLT (math E) balance feeCoin)) (\<lambda>lt.
       if lt then fail ErrInsufficientFee
       else
         bind (gets (\<lambda>c. GetAccount (acct E) subject (world c))) (\<lambda>senderAcc.
         bind (lift (NewCoins (math E) [feeCoin])) (\<lambda>fees.
         seq (ext (DeductFees (acct E) senderAcc fees)) (ret feeCoin)))))
     else ret feeCoin))"

section \<open>Lemmas\<close>

text \<open>The fee of the specification: the amount times the basis points over ten thousand, rounded down.\<close>

definition bp_fee :: "int \<Rightarrow> u64 \<Rightarrow> int" where
  "bp_fee amount bp = amount * uint bp div 10000"

lemma tquot_nonneg: "0 \<le> a \<Longrightarrow> 0 < b \<Longrightarrow> tquot a b = a div b"
  by (cases "a = 0") (auto simp: tquot_def)

lemma sint_bp: "bp \<le> 10000 \<Longrightarrow> sint (bp :: u64) = uint bp"
proof -
  assume "bp \<le> 10000"
  then have "uint bp < 2 ^ 63" by (simp add: word_le_def)
  moreover have "- (2 ^ 63) \<le> uint bp"
    by (rule order.trans [of _ 0]) simp_all
  ultimately show ?thesis
    by (simp add: sint_uint signed_take_bit_int_eq_self)
qed

lemma uint_bp: "bp \<le> 10000 \<Longrightarrow> uint (bp :: u64) \<le> 10000"
  by (simp add: word_le_def)

lemma bp_fee_bounds:
  assumes "0 \<le> amount" and "bp \<le> 10000"
  shows "0 \<le> bp_fee amount bp" and "bp_fee amount bp \<le> amount"
    and "10000 * bp_fee amount bp \<le> amount * uint bp" and "amount * uint bp < 10000 * (bp_fee amount bp + 1)"
proof -
  have "amount * uint bp \<le> amount * 10000"
    using assms uint_bp by (intro mult_left_mono) auto
  then have "amount * uint bp div 10000 \<le> amount * 10000 div 10000"
    by (rule zdiv_mono1) simp
  then show "bp_fee amount bp \<le> amount"
    by (simp add: bp_fee_def)
  show "0 \<le> bp_fee amount bp"
    using assms by (simp add: bp_fee_def pos_imp_zdiv_nonneg_iff)
  show "10000 * bp_fee amount bp \<le> amount * uint bp" "amount * uint bp < 10000 * (bp_fee amount bp + 1)"
    by (simp_all add: bp_fee_def)
qed

lemma CalculateBasisPointFee_eq:
  assumes M: "dec_ok M" and "0 \<le> amount" and "amount < 2 ^ 240" and bp: "bp \<le> 10000"
  shows "CalculateBasisPointFee M amount bp = Ok (bp_fee amount bp)"
proof -
  let ?b = "uint bp"
  have b: "0 \<le> ?b" "?b \<le> 10000" using uint_bp [OF bp] by auto
  have "amount * 10 ^ 18 * ?b \<le> 2 ^ 240 * 10 ^ 18 * 10000"
    using assms(2,3) b by (intro mult_mono) auto
  also have "(2 :: int) ^ 240 * 10 ^ 18 * 10000 < 2 ^ 315" by simp
  finally have "\<bar>amount * 10 ^ 18 * ?b\<bar> < 2 ^ 315"
    using assms(2) b by simp
  then have "MulInt64 M (NewDecFromInt M amount) (sint bp) = Ok (amount * 10 ^ 18 * ?b)"
    using M unfolding dec_ok_def sint_bp [OF bp] by metis
  moreover have "QuoInt64 M (amount * 10 ^ 18 * ?b) 10000 = Ok (amount * 10 ^ 14 * ?b)"
    using M assms(2) b by (simp add: dec_ok_def tquot_nonneg)
  moreover have "TruncateInt M (amount * 10 ^ 14 * ?b) = bp_fee amount bp"
    using M assms(2) b by (simp add: dec_ok_def tquot_nonneg bp_fee_def)
  ultimately show ?thesis
    by (simp add: CalculateBasisPointFee_def BasisPointDivisor_def)
qed

lemma pay_0 [simp]: "pay from to 0 = (\<lambda>_. 0)"
  by (simp add: pay_def fun_eq_iff)

lemma bal_change_refl [simp]: "bal_change E w w d (\<lambda>_. 0)"
  by (simp add: bal_change_def)

abbreviation fee_collector :: "'w env \<Rightarrow> bytes" where
  "fee_collector E \<equiv> module_acc E ''fee_collector''"

text \<open>A successful deduction charges nothing, or the exact fee to the account of the payer.\<close>

lemma DeductBasisPointFee_run:
  assumes laws: "dec_ok (math E)" "coin_ok (math E)" "fees_ok E"
    and amt: "0 \<le> coin_amount x" "coin_amount x < 2 ^ 240" and bp: "bp \<le> 10000"
    and run: "DeductBasisPointFee E bp x subject c = (Ok f, c')"
  shows "f = \<lparr>coin_denom = coin_denom x, coin_amount = bp_fee (coin_amount x) bp\<rparr> \<and>
     (bp_fee (coin_amount x) bp = 0 \<and> c' = c \<or>
      (\<exists>a w. acc_address a = subject \<and> DeductFees (acct E) (Some a) [f] (world c) = (Ok (), w) \<and> c' = c\<lparr>world := w\<rparr>))"
proof -
  let ?fee = "bp_fee (coin_amount x) bp"
  let ?f = "\<lparr>coin_denom = coin_denom x, coin_amount = ?fee\<rparr>"
  have calc: "CalculateBasisPointFee (math E) (coin_amount x) bp = Ok ?fee"
    using laws(1) amt bp by (rule CalculateBasisPointFee_eq)
  have new: "NewCoin (math E) (coin_denom x) ?fee = Ok y \<Longrightarrow> y = ?f" for y
    using laws(2) unfolding coin_ok_def by blast
  show ?thesis
  proof (cases "?fee = 0")
    case True
    with run calc new show ?thesis
      by (auto simp: DeductBasisPointFee_def)
  next
    case False
    with bp_fee_bounds(1) [OF amt(1) bp] have "0 < ?fee" by simp
    with run calc new False obtain acc fees w where
      acc: "GetAccount (acct E) subject (world c) = acc" and fees: "NewCoins (math E) [?f] = Ok fees"
      and ded: "DeductFees (acct E) acc fees (world c) = (Ok (), w)" and "f = ?f" "c' = c\<lparr>world := w\<rparr>"
      by (fastforce simp: DeductBasisPointFee_def split: if_splits)
    moreover from fees \<open>0 < ?fee\<close> have "fees = [?f]"
      by (intro coin_okD(2) [OF laws(2)]) auto
    moreover from ded obtain a where "acc = Some a"
      using fees_okD(2) [OF laws(3)] by (cases acc) auto
    moreover from this acc have "acc_address a = subject"
      using fees_okD(1) [OF laws(3)] by blast
    ultimately show ?thesis by auto
  qed
qed

lemma DeductBasisPointFee_Ok:
  assumes laws: "dec_ok (math E)" "coin_ok (math E)" "fees_ok E"
    and amt: "0 \<le> coin_amount x" "coin_amount x < 2 ^ 240" and bp: "bp \<le> 10000"
    and run: "DeductBasisPointFee E bp x subject c = (Ok f, c')"
  shows "f = \<lparr>coin_denom = coin_denom x, coin_amount = bp_fee (coin_amount x) bp\<rparr>"
    and "bal_change E (world c) (world c') (coin_denom x) (pay subject (fee_collector E) (bp_fee (coin_amount x) bp))"
    and "c' = c\<lparr>world := world c'\<rparr>"
    and "fees_evm_ok E ed \<Longrightarrow> coin_denom x \<noteq> ed \<Longrightarrow> same_evm E (world c) (world c')"
proof -
  note r = DeductBasisPointFee_run [OF assms]
  then show f: "f = \<lparr>coin_denom = coin_denom x, coin_amount = bp_fee (coin_amount x) bp\<rparr>" and "c' = c\<lparr>world := world c'\<rparr>"
    by auto
  show "bal_change E (world c) (world c') (coin_denom x) (pay subject (fee_collector E) (bp_fee (coin_amount x) bp))"
    using r fees_okD(3) [OF laws(3), of _ f "world c"] by (auto simp: f)
  show "same_evm E (world c) (world c')" if "fees_evm_ok E ed" and "coin_denom x \<noteq> ed"
    using r fees_evm_okD [OF that(1), of _ f "world c"] that(2) by (auto simp: f)
qed

lemma DeductBasisPointFee_short:
  assumes laws: "dec_ok (math E)" "coin_ok (math E)" "bank_ok E"
    and amt: "0 \<le> coin_amount x" "coin_amount x < 2 ^ 240" and bp: "bp \<le> 10000"
    and valid: "is_ok (ValidateDenom (math E) (coin_denom x))"
    and short: "bal E subject (coin_denom x) (world c) < bp_fee (coin_amount x) bp"
    and pos: "bp_fee (coin_amount x) bp \<noteq> 0"
  shows "DeductBasisPointFee E bp x subject c = (Err ErrInsufficientFee, c)"
  using short pos
  by (simp add: DeductBasisPointFee_def CalculateBasisPointFee_eq [OF laws(1) amt bp]
      coin_okD(6) [OF laws(2) valid bp_fee_bounds(1) [OF amt(1) bp]] bind_def
      coin_okD(4) [OF laws(2)] bank_okD(1) [OF laws(3)])

section \<open>Properties\<close>

text \<open>
  C12: The basis-point fee is computed exactly. For an amount below \<open>2 ^ 240\<close> and at most ten
  thousand basis points the decimal arithmetic does not overflow and yields the amount times the
  basis points divided by ten thousand, rounded down; the fee is never negative and never more
  than the amount.
\<close>

theorem CalculateBasisPointFee_exact:
  assumes "dec_ok M" and "0 \<le> amount" and "amount < 2 ^ 240" and "bp \<le> 10000"
  shows "\<exists>fee. CalculateBasisPointFee M amount bp = Ok fee \<and>
     10000 * fee \<le> amount * uint bp \<and> amount * uint bp < 10000 * (fee + 1) \<and> 0 \<le> fee \<and> fee \<le> amount"
  using CalculateBasisPointFee_eq [OF assms] bp_fee_bounds [OF assms(2,4)] by auto

theorem CalculateBasisPointFee_exact_witness:
  "\<exists>fee. CalculateBasisPointFee c_math 12345 150 = Ok fee \<and>
     10000 * fee \<le> 12345 * uint (150 :: u64) \<and> 12345 * uint (150 :: u64) < 10000 * (fee + 1) \<and>
     0 \<le> fee \<and> fee \<le> 12345"
  by (rule CalculateBasisPointFee_exact [OF c_dec_ok]) (simp_all add: word_le_def)

text \<open>
  C11: When the deduction of a basis-point fee succeeds, exactly the computed fee has moved from the
  payer to the fee collector: every other balance in every denomination is unchanged, and so is
  everything else in the context. When the payer's balance is below a non-zero fee, the deduction
  fails and changes nothing.
\<close>

theorem DeductBasisPointFee_conserves:
  assumes "dec_ok (math E)" "coin_ok (math E)" "bank_ok E" "fees_ok E"
    and "0 \<le> coin_amount x" "coin_amount x < 2 ^ 240" and "bp \<le> 10000"
    and "is_ok (ValidateDenom (math E) (coin_denom x))"
  shows "(\<forall>f c'. DeductBasisPointFee E bp x subject c = (Ok f, c') \<longrightarrow>
       f = \<lparr>coin_denom = coin_denom x, coin_amount = bp_fee (coin_amount x) bp\<rparr> \<and>
       (\<forall>a d. bal E a d (world c') = bal E a d (world c) +
          (if d = coin_denom x then pay subject (fee_collector E) (bp_fee (coin_amount x) bp) a else 0)) \<and>
       c' = c\<lparr>world := world c'\<rparr>) \<and>
     (bal E subject (coin_denom x) (world c) < bp_fee (coin_amount x) bp \<and> bp_fee (coin_amount x) bp \<noteq> 0 \<longrightarrow>
       DeductBasisPointFee E bp x subject c = (Err ErrInsufficientFee, c))"
proof (intro conjI allI impI)
  fix f c' assume run: "DeductBasisPointFee E bp x subject c = (Ok f, c')"
  note r = DeductBasisPointFee_Ok [OF assms(1,2,4-7) run]
  show "f = \<lparr>coin_denom = coin_denom x, coin_amount = bp_fee (coin_amount x) bp\<rparr>"
    and "c' = c\<lparr>world := world c'\<rparr>" using r by auto
  show "bal E a d (world c') = bal E a d (world c) +
      (if d = coin_denom x then pay subject (fee_collector E) (bp_fee (coin_amount x) bp) a else 0)" for a d
    using r(2) by (simp add: bal_change_def)
next
  assume "bal E subject (coin_denom x) (world c) < bp_fee (coin_amount x) bp \<and> bp_fee (coin_amount x) bp \<noteq> 0"
  then show "DeductBasisPointFee E bp x subject c = (Err ErrInsufficientFee, c)"
    using assms by (intro DeductBasisPointFee_short) auto
qed

theorem DeductBasisPointFee_conserves_witness:
  "DeductBasisPointFee c_env 100 \<lparr>coin_denom = ''acoin'', coin_amount = 500\<rparr> ''bob'' (c_ctx c_world) =
     (Err ErrInsufficientFee, c_ctx c_world)"
proof -
  let ?x = "\<lparr>coin_denom = ''acoin'', coin_amount = 500 :: int\<rparr>"
  have "bal c_env ''bob'' (coin_denom ?x) (world (c_ctx c_world)) < bp_fee (coin_amount ?x) 100 \<and>
      bp_fee (coin_amount ?x) 100 \<noteq> 0"
    by (simp add: bp_fee_def c_bank_def c_world_def)
  moreover have "is_ok (ValidateDenom (math c_env) (coin_denom ?x))"
    by (simp add: c_math_def)
  moreover note DeductBasisPointFee_conserves [of c_env ?x 100 "''bob''" "c_ctx c_world"]
  ultimately show ?thesis
    using c_dec_ok c_coin_ok c_bank_ok c_fees_ok by (simp add: word_le_def)
qed

end
