(* ===== verification/AnteCore.thy ===== *)
theory AnteCore
  imports Chain
begin

text \<open>
  The contract of an ante decorator that acts as a guard: it runs a check of its own and, when
  the check returns normally, hands the transaction to the next handler; otherwise the next
  handler never runs. The decorators of the repository are interpretations of the locale
  \<open>ante_guard\<close>, and the ones that only read the context of \<open>ante_filter\<close>.
\<close>

section \<open>Chaining\<close>

text \<open>
  The SDK's \<open>ChainAnteDecorators\<close> is an argument of the handlers that use it; what they rely on
  is that a chain runs its first decorator with the rest of the chain as the next handler,
  and that the empty chain accepts.
\<close>

type_synonym 'w ante_chain = "'w ante_decorator list \<Rightarrow> 'w ante_handler"

definition chain_ok :: "'w ante_chain \<Rightarrow> bool" where
  "chain_ok chain \<longleftrightarrow>
     (\<forall>tx sim. chain [] tx sim = ret ()) \<and>
     (\<forall>d ds tx sim. chain (d # ds) tx sim = d tx sim (chain ds))"

primrec run_chain :: "'w ante_chain" where
  "run_chain [] = (\<lambda>tx sim. ret ())"
| "run_chain (d # ds) = (\<lambda>tx sim. d tx sim (run_chain ds))"

lemma chain_ok_run_chain: "chain_ok run_chain"
  by (simp add: chain_ok_def)

lemma chain_ok_eq: "chain_ok chain \<Longrightarrow> chain ds = run_chain ds"
proof (induction ds)
  case (Cons d ds)
  then have "chain (d # ds) tx sim = d tx sim (run_chain ds)" for tx sim
    by (simp add: chain_ok_def)
  then show ?case
    by (simp add: fun_eq_iff)
qed (auto simp: chain_ok_def fun_eq_iff)

section \<open>Guards\<close>

locale ante_guard =
  fixes dec :: "'w ante_decorator" and check :: "tx \<Rightarrow> bool \<Rightarrow> ('w ctx, unit) go"
  assumes dec_eq: "dec tx sim next = seq (check tx sim) (next tx sim)"
begin

lemma accepts_iff:
  "dec tx sim next c = (Ok u, c') \<longleftrightarrow>
     (\<exists>c1. check tx sim c = (Ok (), c1) \<and> next tx sim c1 = (Ok u, c'))"
  unfolding dec_eq by (auto simp: bind_def split: prod.splits result.splits)

lemma rejects:
  assumes "check tx sim c = (r, c1)" and "\<not> is_ok r"
  shows "\<exists>r'. dec tx sim next c = (r', c1) \<and> \<not> is_ok r'"
  using assms unfolding dec_eq by (cases r) (auto simp: bind_def)

lemma run_chain_Cons:
  "run_chain (dec # ds) tx sim c = (Ok u, c') \<longleftrightarrow>
     (\<exists>c1. check tx sim c = (Ok (), c1) \<and> run_chain ds tx sim c1 = (Ok u, c'))"
  by (simp add: accepts_iff)

end

text \<open>A guard whose check does not change the context.\<close>

locale ante_filter = ante_guard +
  assumes check_reads: "check tx sim c = (r, c') \<Longrightarrow> c' = c"
begin

lemma filter_accepts_iff:
  "dec tx sim next c = (Ok u, c') \<longleftrightarrow> is_ok (fst (check tx sim c)) \<and> next tx sim c = (Ok u, c')"
proof -
  obtain r c1 where r: "check tx sim c = (r, c1)" by fastforce
  with check_reads have "c1 = c" by simp
  then show ?thesis
    by (cases r) (auto simp: accepts_iff r)
qed

lemma filter_transparent: "check tx sim c = (Ok (), c) \<Longrightarrow> dec tx sim next c = next tx sim c"
  by (simp add: dec_eq bind_def)

lemma filter_reject_unchanged:
  assumes "\<not> is_ok (fst (check tx sim c))"
  shows "snd (dec tx sim next c) = c \<and> \<not> is_ok (fst (dec tx sim next c))"
proof -
  obtain r c1 where r: "check tx sim c = (r, c1)" by fastforce
  with check_reads have "c1 = c" by simp
  with r assms show ?thesis
    by (cases r) (auto simp: dec_eq bind_def)
qed

end

text \<open>Loops of reads do not change the context.\<close>

lemma for_each_reads:
  "for_each xs (\<lambda>x. reads (f x)) c = (r, c') \<Longrightarrow> c' = c"
  by (induction xs arbitrary: r) (auto simp: bind_def split: result.splits)

lemma for_each_unchanged:
  assumes "for_each xs f c = (r, c')" and "\<And>x r c'. x \<in> set xs \<Longrightarrow> f x c = (r, c') \<Longrightarrow> c' = c"
  shows "c' = c"
  using assms
proof (induction xs arbitrary: r c')
  case (Cons x xs)
  obtain r1 c1 where x: "f x c = (r1, c1)" by fastforce
  with Cons.prems(2) have "c1 = c" by (meson list.set_intros(1))
  with x Cons show ?case
    by (cases r1) (fastforce simp: bind_def)+
qed simp

lemma for_each_unchanged_Ok:
  assumes "\<And>x r c'. x \<in> set xs \<Longrightarrow> f x c = (r, c') \<Longrightarrow> c' = c"
  shows "for_each xs f c = (Ok (), c) \<longleftrightarrow> (\<forall>x \<in> set xs. f x c = (Ok (), c))"
  using assms
proof (induction xs)
  case (Cons x xs)
  obtain r1 c1 where x: "f x c = (r1, c1)" by fastforce
  with Cons.prems have "c1 = c" by (meson list.set_intros(1))
  with x Cons show ?case
    by (cases r1) (fastforce simp: bind_def)+
qed simp

section \<open>Messages inside an authorization\<close>

text \<open>The messages the decorators look at: those of the transaction, and those one level inside a MsgExec.\<close>

fun unwrap_exec :: "msg \<Rightarrow> msg option list" where
  "unwrap_exec (MsgExec g msgs) = msgs"
| "unwrap_exec m = [Some m]"

definition effective_msgs :: "tx \<Rightarrow> msg option list" where
  "effective_msgs tx = concat (map unwrap_exec (GetMsgs tx))"

end
