(* ===== verification/Gasfree.thy ===== *)
theory Gasfree
  imports AnteCore Concrete
begin

text \<open>
  The gasfree module (\<open>x/gasfree\<close>): the list of message types that are exempt from the usual gas
  fees, the parameters of the erc20 interoperability fee, genesis, and the ante decorator that
  skips another decorator for gas-free transactions.
\<close>

section \<open>Parameters\<close>

definition gasfree_ErrInvalidParams :: go_error where "gasfree_ErrInvalidParams = Registered ''gasfree'' 1"

definition GasFreeMessageTypesKey :: string where "GasFreeMessageTypesKey = ''gasFreeMessageTypes''"
definition GasFreeErc20InteropTokensKey :: string where
  "GasFreeErc20InteropTokensKey = ''gasFreeErc20InteropTokens''"
definition GasFreeErc20InteropFeeBasisPointsKey :: string where
  "GasFreeErc20InteropFeeBasisPointsKey = ''gasFreeErc20InteropFeeBasisPoints''"

lemmas gasfree_keys =
  GasFreeMessageTypesKey_def GasFreeErc20InteropTokensKey_def GasFreeErc20InteropFeeBasisPointsKey_def

record gasfree_params =
  GasFreeMessageTypes :: "string list"
  GasFreeErc20InteropTokens :: "string list"
  GasFreeErc20InteropFeeBasisPoints :: u64

definition gasfree_DefaultParams :: gasfree_params where
  "gasfree_DefaultParams = \<lparr>
     GasFreeMessageTypes = [''/althea.microtx.v1.MsgMicrotx'', ''/althea.erc20.v1.MsgSendCoinToEVM'',
       ''/althea.erc20.v1.MsgSendERC20ToCosmos'', ''/althea.erc20.v1.MsgSendERC20ToCosmosAndIBCTransfer''],
     GasFreeErc20InteropTokens = [], GasFreeErc20InteropFeeBasisPoints = 100\<rparr>"

fun ValidateGasFreeMessageTypes :: "param \<Rightarrow> unit result" where
  "ValidateGasFreeMessageTypes (PStrs _) = Ok ()"
| "ValidateGasFreeMessageTypes _ = Err (Errorf ''invalid gas free message types type'')"

fun interopTokens_loop :: "lib \<Rightarrow> mathlib \<Rightarrow> string list \<Rightarrow> unit result" where
  "interopTokens_loop L M [] = Ok ()"
| "interopTokens_loop L M (entry # rest) =
     (if entry = [] then Err (Errorf ''erc20 interop token cannot be empty string'')
      else if \<not> is_ok (ValidateDenom M entry) \<and> \<not> IsHexAddress L entry
      then Err (Errorf ''erc20 interop token must be a valid cosmos denom or erc20 address'')
      else interopTokens_loop L M rest)"

fun ValidateGasFreeErc20InteropTokens :: "lib \<Rightarrow> mathlib \<Rightarrow> param \<Rightarrow> unit result" where
  "ValidateGasFreeErc20InteropTokens L M (PStrs v) = interopTokens_loop L M v"
| "ValidateGasFreeErc20InteropTokens L M _ = Err (Errorf ''invalid gas free erc20 interop tokens type'')"

fun ValidateGasFreeErc20InteropFeeBasisPoints :: "param \<Rightarrow> unit result" where
  "ValidateGasFreeErc20InteropFeeBasisPoints (PU64 bp) =
     (if 10000 < bp then Err (Errorf ''erc20 interop fee basis points cannot be greater than 10000'') else Ok ())"
| "ValidateGasFreeErc20InteropFeeBasisPoints _ =
     Err (Errorf ''invalid gas free erc20 interop fee basis points type'')"

definition gasfree_ValidateBasic :: "gasfree_params option \<Rightarrow> unit result" where
  "gasfree_ValidateBasic s = (case s of
     None \<Rightarrow> Err gasfree_ErrInvalidParams
   | Some p \<Rightarrow> ValidateGasFreeMessageTypes (PStrs (GasFreeMessageTypes p)))"

definition gasfree_ParamSetPairs :: "lib \<Rightarrow> mathlib \<Rightarrow> gasfree_params \<Rightarrow> param_pair list" where
  "gasfree_ParamSetPairs L M p =
     [(GasFreeMessageTypesKey, PStrs (GasFreeMessageTypes p), ValidateGasFreeMessageTypes),
      (GasFreeErc20InteropTokensKey, PStrs (GasFreeErc20InteropTokens p), ValidateGasFreeErc20InteropTokens L M),
      (GasFreeErc20InteropFeeBasisPointsKey, PU64 (GasFreeErc20InteropFeeBasisPoints p),
        ValidateGasFreeErc20InteropFeeBasisPoints)]"

section \<open>Keeper\<close>

definition gasfree_GetParamsIfSet :: "'w ctx \<Rightarrow> gasfree_params result" where
  "gasfree_GetParamsIfSet c =
     (let get = (\<lambda>k. case prm c ''gasfree'' k of None \<Rightarrow> Err ErrNotFound | Some p \<Rightarrow> Ok p) in
      andThen (get GasFreeMessageTypesKey) (\<lambda>p1. andThen (as_strs p1) (\<lambda>ty.
      andThen (get GasFreeErc20InteropTokensKey) (\<lambda>p2. andThen (as_strs p2) (\<lambda>tk.
      andThen (get GasFreeErc20InteropFeeBasisPointsKey) (\<lambda>p3. andThen (as_u64 p3) (\<lambda>bp.
      Ok \<lparr>GasFreeMessageTypes = ty, GasFreeErc20InteropTokens = tk,
          GasFreeErc20InteropFeeBasisPoints = bp\<rparr>)))))))"

definition GetGasFreeMessageTypes :: "'w ctx \<Rightarrow> string list result" where
  "GetGasFreeMessageTypes c =
     GetIfExists ''gasfree'' GasFreeMessageTypesKey as_strs (GasFreeMessageTypes gasfree_DefaultParams) c"

definition SetGasFreeMessageTypes :: "string list \<Rightarrow> 'w ctx \<Rightarrow> 'w ctx" where
  "SetGasFreeMessageTypes xs c = param_set ''gasfree'' GasFreeMessageTypesKey (PStrs xs) c"

definition gasfree_createSet :: "string list \<Rightarrow> string set" where
  "gasfree_createSet strs = createSet_loop strs {}"

definition GetGasFreeMessageTypesSet :: "'w ctx \<Rightarrow> string set result" where
  "GetGasFreeMessageTypesSet c = andThen (GetGasFreeMessageTypes c) (\<lambda>xs. Ok (gasfree_createSet xs))"

definition inSet :: "string set \<Rightarrow> string \<Rightarrow> bool" where
  "inSet s k = (k \<in> s)"

definition IsGasFreeMsg :: "string set \<Rightarrow> msg \<Rightarrow> bool" where
  "IsGasFreeMsg types m = inSet types (MsgTypeURL m)"

fun gasFreeInner :: "string set \<Rightarrow> msg option list \<Rightarrow> bool result" where
  "gasFreeInner types [] = Ok True"
| "gasFreeInner types (None # ms) = Err ErrInvalidType"
| "gasFreeInner types (Some inner # ms) =
     (if IsGasFreeMsg types inner then gasFreeInner types ms else Ok False)"

fun gasFreeLoop :: "string set \<Rightarrow> msg list \<Rightarrow> bool result" where
  "gasFreeLoop types [] = Ok True"
| "gasFreeLoop types (MsgExec g inner # ms) =
     andThen (gasFreeInner types inner) (\<lambda>free. if free then gasFreeLoop types ms else Ok False)"
| "gasFreeLoop types (m # ms) = (if IsGasFreeMsg types m then gasFreeLoop types ms else Ok False)"

definition IsGasFreeTx :: "tx \<Rightarrow> 'w ctx \<Rightarrow> bool result" where
  "IsGasFreeTx tx c =
     (if length (GetMsgs tx) = 0 then Ok False
      else andThen (GetGasFreeMessageTypesSet c) (\<lambda>types. gasFreeLoop types (GetMsgs tx)))"

fun msgType_loop :: "string \<Rightarrow> string list \<Rightarrow> bool" where
  "msgType_loop msgType [] = False"
| "msgType_loop msgType (t # ts) = (if t = msgType then True else msgType_loop msgType ts)"

definition IsGasFreeMsgType :: "string \<Rightarrow> 'w ctx \<Rightarrow> bool result" where
  "IsGasFreeMsgType msgType c = andThen (GetGasFreeMessageTypes c) (\<lambda>ts. Ok (msgType_loop msgType ts))"

definition GetGasfreeErc20InteropFeeBasisPoints :: "'w ctx \<Rightarrow> u64 result" where
  "GetGasfreeErc20InteropFeeBasisPoints c =
     andThen (gasfree_GetParamsIfSet c) (\<lambda>p. Ok (GasFreeErc20InteropFeeBasisPoints p))"

definition SetGasfreeErc20InteropFeeBasisPoints :: "u64 \<Rightarrow> 'w ctx \<Rightarrow> 'w ctx" where
  "SetGasfreeErc20InteropFeeBasisPoints bp c = param_set ''gasfree'' GasFreeErc20InteropFeeBasisPointsKey (PU64 bp) c"

definition GetGasfreeErc20InteropTokens :: "'w ctx \<Rightarrow> string list result" where
  "GetGasfreeErc20InteropTokens c =
     andThen (gasfree_GetParamsIfSet c) (\<lambda>p. Ok (GasFreeErc20InteropTokens p))"

definition SetGasfreeErc20InteropTokens :: "string list \<Rightarrow> 'w ctx \<Rightarrow> 'w ctx" where
  "SetGasfreeErc20InteropTokens xs c = param_set ''gasfree'' GasFreeErc20InteropTokensKey (PStrs xs) c"

text \<open>The getters of a \<open>nil\<close> \<open>Params\<close> give the zero values.\<close>

definition gasfree_InitGenesis :: "gasfree_params option \<Rightarrow> ('w ctx, unit) go" where
  "gasfree_InitGenesis d =
     (let p = (case d of Some p \<Rightarrow> p | None \<Rightarrow> \<lparr>GasFreeMessageTypes = [], GasFreeErc20InteropTokens = [],
                 GasFreeErc20InteropFeeBasisPoints = 0\<rparr>) in
      seq (modify (SetGasFreeMessageTypes (GasFreeMessageTypes p)))
      (seq (modify (SetGasfreeErc20InteropTokens (GasFreeErc20InteropTokens p)))
           (modify (SetGasfreeErc20InteropFeeBasisPoints (GasFreeErc20InteropFeeBasisPoints p)))))"

definition gasfree_ExportGenesis :: "'w ctx \<Rightarrow> gasfree_params result" where
  "gasfree_ExportGenesis c = (case gasfree_GetParamsIfSet c of
     Ok p \<Rightarrow> Ok p | Err e \<Rightarrow> Panic ''params are not set'' | Panic p \<Rightarrow> Panic p)"

section \<open>Ante decorator\<close>

definition SelectiveBypass_AnteHandle :: "'w ante_decorator \<Rightarrow> 'w ante_decorator" where
  "SelectiveBypass_AnteHandle bypassable tx simulate next =
     bind (reads (IsGasFreeTx tx)) (\<lambda>gasFree.
       if \<not> gasFree then bypassable tx simulate next else next tx simulate)"

section \<open>Lemmas\<close>

lemma gasfree_createSet_eq [simp]: "gasfree_createSet xs = set xs"
  by (simp add: gasfree_createSet_def createSet_loop_eq)

lemma IsGasFreeMsg_iff [simp]: "IsGasFreeMsg types m \<longleftrightarrow> MsgTypeURL m \<in> types"
  by (simp add: IsGasFreeMsg_def inSet_def)

lemma msgType_loop_iff [simp]: "msgType_loop t ts \<longleftrightarrow> t \<in> set ts"
  by (induction t ts rule: msgType_loop.induct) auto

text \<open>A message of a gas-free type, unpacked.\<close>

definition gas_free_entry :: "string set \<Rightarrow> msg option \<Rightarrow> bool" where
  "gas_free_entry types mo = (case mo of None \<Rightarrow> False | Some m \<Rightarrow> MsgTypeURL m \<in> types)"

lemma gasFreeInner_True: "gasFreeInner types ms = Ok True \<longleftrightarrow> list_all (gas_free_entry types) ms"
  by (induction types ms rule: gasFreeInner.induct) (auto simp: gas_free_entry_def)

lemma gasFreeLoop_True:
  "gasFreeLoop types ms = Ok True \<longleftrightarrow> list_all (gas_free_entry types) (concat (map unwrap_exec ms))"
proof (induction types ms rule: gasFreeLoop.induct)
  case (2 types g inner ms)
  then show ?case
    by (auto simp: gasFreeInner_True split: if_splits)
qed (auto simp: gas_free_entry_def)

text \<open>The rule of the module: a transaction with messages, all of them of gas-free types.\<close>

definition gas_free_tx :: "string list \<Rightarrow> tx \<Rightarrow> bool" where
  "gas_free_tx types tx \<longleftrightarrow> GetMsgs tx \<noteq> [] \<and> list_all (gas_free_entry (set types)) (effective_msgs tx)"

lemma IsGasFreeTx_True:
  assumes "GetGasFreeMessageTypes c = Ok types"
  shows "IsGasFreeTx tx c = Ok True \<longleftrightarrow> gas_free_tx types tx"
  using assms by (simp add: IsGasFreeTx_def GetGasFreeMessageTypesSet_def gas_free_tx_def
      gasFreeLoop_True effective_msgs_def)

context ante_guard
begin

definition bypass_check :: "tx \<Rightarrow> bool \<Rightarrow> ('w ctx, unit) go" where
  "bypass_check tx sim = bind (reads (IsGasFreeTx tx)) (\<lambda>free. if free then ret () else check tx sim)"

lemma bypass_guard: "ante_guard (SelectiveBypass_AnteHandle dec) bypass_check"
proof
  show "SelectiveBypass_AnteHandle dec tx sim nxt = seq (bypass_check tx sim) (nxt tx sim)" for tx sim nxt
    by (rule ext) (auto simp: SelectiveBypass_AnteHandle_def bypass_check_def dec_eq bind_def
        split: result.splits)
qed

end

lemma gasfree_InitGenesis_run:
  "gasfree_InitGenesis (Some p) c = (Ok (), SetGasfreeErc20InteropFeeBasisPoints (GasFreeErc20InteropFeeBasisPoints p)
     (SetGasfreeErc20InteropTokens (GasFreeErc20InteropTokens p) (SetGasFreeMessageTypes (GasFreeMessageTypes p) c)))"
  by (simp add: gasfree_InitGenesis_def bind_def)

lemmas gasfree_setters =
  SetGasFreeMessageTypes_def SetGasfreeErc20InteropTokens_def SetGasfreeErc20InteropFeeBasisPoints_def

lemma gasfree_InitGenesis_GetParams:
  "gasfree_GetParamsIfSet (snd (gasfree_InitGenesis (Some p) c)) = Ok p"
  by (simp add: gasfree_InitGenesis_run gasfree_GetParamsIfSet_def gasfree_setters gasfree_keys)

text \<open>The genesis check accepts fee basis points that the parameter check refuses.\<close>

lemma gasfree_ValidateBasic_skips_fee:
  "gasfree_ValidateBasic (Some (gasfree_DefaultParams\<lparr>GasFreeErc20InteropFeeBasisPoints := 20000\<rparr>)) = Ok () \<and>
   \<not> is_ok (ValidateGasFreeErc20InteropFeeBasisPoints (PU64 20000))"
  by (simp add: gasfree_ValidateBasic_def)

section \<open>Properties\<close>

text \<open>
  C15: A transaction passes the selective bypass of a decorator in exactly two ways: it has messages
  and all of them, and all messages one level inside its MsgExecs, are of gas-free types, and the
  next handler accepts it; or it is not such a transaction and the bypassed decorator itself
  accepts it. So a transaction with a message that is not gas-free never escapes the fee decorators.
\<close>

theorem SelectiveBypass_exact:
  assumes "GetGasFreeMessageTypes c = Ok types"
  shows "SelectiveBypass_AnteHandle dec tx sim nxt c = (Ok u, c') \<longleftrightarrow>
     (if gas_free_tx types tx then nxt tx sim c = (Ok u, c')
      else IsGasFreeTx tx c = Ok False \<and> dec tx sim nxt c = (Ok u, c'))"
  using IsGasFreeTx_True [OF assms, of tx]
  by (cases "IsGasFreeTx tx c") (auto simp: SelectiveBypass_AnteHandle_def bind_def)

theorem SelectiveBypass_exact_witness:
  "GetGasFreeMessageTypes (c_ctx ()) = Ok (GasFreeMessageTypes gasfree_DefaultParams) \<and>
   SelectiveBypass_AnteHandle (\<lambda>_ _ _. fail ErrInsufficientFee)
     (c_tx [MsgMicrotx ''a'' ''b'' \<lparr>coin_denom = ''aalthea'', coin_amount = 1\<rparr>]) False (\<lambda>_ _. ret ()) (c_ctx ())
     = (Ok (), c_ctx ())"
proof -
  let ?tx = "c_tx [MsgMicrotx ''a'' ''b'' \<lparr>coin_denom = ''aalthea'', coin_amount = 1\<rparr>]"
  have g: "GetGasFreeMessageTypes (c_ctx ()) = Ok (GasFreeMessageTypes gasfree_DefaultParams)"
    by (simp add: GetGasFreeMessageTypes_def GetIfExists_def)
  have "gas_free_tx (GasFreeMessageTypes gasfree_DefaultParams) ?tx"
    by (simp add: gas_free_tx_def effective_msgs_def gas_free_entry_def gasfree_DefaultParams_def)
  with g SelectiveBypass_exact [OF g, of "\<lambda>_ _ _. fail ErrInsufficientFee" ?tx False "\<lambda>_ _. ret ()" "()" "c_ctx ()"]
  show ?thesis by simp
qed

text \<open>
  Exporting the gasfree genesis of a chain that was started from some genesis gives that
  genesis back, and never panics.
\<close>

theorem gasfree_genesis_roundtrip:
  "gasfree_ExportGenesis (snd (gasfree_InitGenesis (Some p) c)) = Ok p"
  by (simp add: gasfree_ExportGenesis_def gasfree_InitGenesis_GetParams)

end
