(* ===== verification/Erc20_Convert.thy ===== *)
theory Erc20_Convert
  imports Erc20_EVM Common Gasfree
begin

text \<open>
  Conversion between coins and tokens (\<open>x/erc20/keeper/mint.go\<close> and \<open>msg_server.go\<close>): the guard
  common to all conversions, the four conversion routines, the two message handlers, and the
  gas-free messages that convert, charge a fee and possibly start an IBC transfer.
\<close>

section \<open>The guard\<close>

definition MintingEnabled :: "'w env \<Rightarrow> bytes \<Rightarrow> bytes \<Rightarrow> string \<Rightarrow> 'w ctx \<Rightarrow> TokenPair result" where
  "MintingEnabled E sender receiver token c =
     andThen (erc20_GetParams c) (\<lambda>params.
     if \<not> EnableErc20 params then Err ErrERC20Disabled
     else let pid = GetTokenPairID (libs E) token c in
       if (case pid of None \<Rightarrow> True | Some k \<Rightarrow> length k = 0) then Err ErrTokenPairNotFound
       else andThen (GetTokenPair pid c) (\<lambda>found. case found of
           None \<Rightarrow> Err ErrTokenPairNotFound
         | Some pair \<Rightarrow>
             if \<not> Enabled pair then Err ErrERC20TokenPairDisabled
             else if BlockedAddr (bank E) receiver then Err ErrUnauthorized
             else if sender \<noteq> receiver \<and>
               \<not> IsSendEnabledCoin (bank E) \<lparr>coin_denom = Denom pair, coin_amount = 0\<rparr> (world c) then Err ErrSendDisabled
             else Ok pair))"

section \<open>Conversion of coins to tokens\<close>

text \<open>
  A token balance that could not be read is an error; the comparison of the balance after the
  conversion with the expected one is the balance invariant. A successful response is \<open>True\<close>
  and a \<open>nil\<close> response without error is \<open>False\<close>. Telemetry counters are left out.
\<close>

definition read_balance :: "'w env \<Rightarrow> address \<Rightarrow> address \<Rightarrow> ('w ctx, int) go" where
  "read_balance E contract account =
     bind (BalanceOf E contract account) (\<lambda>b. case b of None \<Rightarrow> fail ErrEVMCall | Some n \<Rightarrow> ret n)"

definition convertCoinNativeCoin ::
  "'w env \<Rightarrow> TokenPair \<Rightarrow> coin \<Rightarrow> string \<Rightarrow> string \<Rightarrow> address \<Rightarrow> bytes \<Rightarrow> ('w ctx, bool) go" where
  "convertCoinNativeCoin E pair mcoin msgReceiver msgSender receiver sender =
     (let coins = [mcoin]; contract = GetERC20Contract (libs E) pair in
      bind (read_balance E contract receiver) (\<lambda>balanceToken.
      seq (ext (SendCoinsFromAccountToModule (bank E) sender ''erc20'' coins))
      (bind (CallEVM E ERC20MinterBurnerDecimals (erc20_ModuleAddress (libs E)) contract True ''mint'' [VAddr receiver, VUint (coin_amount mcoin)]) (\<lambda>_.
      bind (read_balance E contract receiver) (\<lambda>balanceTokenAfter.
      if balanceTokenAfter \<noteq> balanceToken + coin_amount mcoin then fail ErrBalanceInvariance
      else seq (EmitEvent (Event ''convert_coin'' [(''sender'', AStr msgSender), (''receiver'', AStr msgReceiver),
                 (''amount'', AInt (coin_amount mcoin)), (''cosmos_coin'', AStr (coin_denom mcoin)),
                 (''erc20_token'', AStr (Erc20Address pair))]))
           (ret True))))))"

definition convertCoinNativeERC20 ::
  "'w env \<Rightarrow> TokenPair \<Rightarrow> coin \<Rightarrow> string \<Rightarrow> string \<Rightarrow> address \<Rightarrow> bytes \<Rightarrow> ('w ctx, bool) go" where
  "convertCoinNativeERC20 E pair mcoin msgReceiver msgSender receiver sender =
     (let coins = [mcoin]; contract = GetERC20Contract (libs E) pair in
      bind (read_balance E contract receiver) (\<lambda>balanceToken.
      seq (ext (SendCoinsFromAccountToModule (bank E) sender ''erc20'' coins))
      (bind (CallEVM E ERC20MinterBurnerDecimals (erc20_ModuleAddress (libs E)) contract True ''transfer'' [VAddr receiver, VUint (coin_amount mcoin)]) (\<lambda>res.
      bind (lift (unpack_bool E ''transfer'' (evm_Ret res))) (\<lambda>ok.
      if \<not> ok then fail ErrLogic
      else
        bind (read_balance E contract receiver) (\<lambda>balanceTokenAfter.
        if balanceTokenAfter \<noteq> balanceToken + coin_amount mcoin then fail ErrBalanceInvariance
        else
          seq (ext (BurnCoins (bank E) ''erc20'' coins))
          (seq (lift (monitorApprovalEvent E res))
          (seq (EmitEvent (Event ''convert_coin'' [(''sender'', AStr msgSender), (''receiver'', AStr msgReceiver),
                 (''amount'', AInt (coin_amount mcoin)), (''cosmos_coin'', AStr (coin_denom mcoin)),
                 (''erc20_token'', AStr (Erc20Address pair))]))
           (ret True)))))))))"

section \<open>Conversion of tokens to coins\<close>

definition convertERC20NativeCoin ::
  "'w env \<Rightarrow> TokenPair \<Rightarrow> string \<Rightarrow> int \<Rightarrow> string \<Rightarrow> string \<Rightarrow> bytes \<Rightarrow> address \<Rightarrow> ('w ctx, bool) go" where
  "convertERC20NativeCoin E pair msgContract amt msgReceiver msgSender receiver sender =
     (let coin0 = \<lparr>coin_denom = Denom pair, coin_amount = amt\<rparr>; contract = GetERC20Contract (libs E) pair in
      bind (gets (\<lambda>c. GetBalance (bank E) receiver (Denom pair) (world c))) (\<lambda>balanceCoin.
      bind (read_balance E contract sender) (\<lambda>balanceToken.
      bind (CallEVM E ERC20MinterBurnerDecimals (erc20_ModuleAddress (libs E)) contract True ''burnCoins'' [VAddr sender, VUint amt]) (\<lambda>_.
      seq (ext (SendCoinsFromModuleToAccount (bank E) ''erc20'' receiver [coin0]))
      (bind (gets (\<lambda>c. GetBalance (bank E) receiver (Denom pair) (world c))) (\<lambda>balanceCoinAfter.
      bind (lift (Coin_Add (math E) balanceCoin coin0)) (\<lambda>expCoin.
      bind (lift (Coin_IsEqual (math E) balanceCoinAfter expCoin)) (\<lambda>ok.
      if \<not> ok then fail ErrBalanceInvariance
      else
        bind (read_balance E contract sender) (\<lambda>balanceTokenAfter.
        if balanceTokenAfter \<noteq> balanceToken - amt then fail ErrBalanceInvariance
        else seq (EmitEvent (Event ''convert_erc20'' [(''sender'', AStr msgSender), (''receiver'', AStr msgReceiver),
                 (''amount'', AInt amt), (''cosmos_coin'', AStr (Denom pair)), (''erc20_token'', AStr msgContract)]))
             (ret True))))))))))"

definition convertERC20NativeToken ::
  "'w env \<Rightarrow> TokenPair \<Rightarrow> string \<Rightarrow> int \<Rightarrow> string \<Rightarrow> string \<Rightarrow> bytes \<Rightarrow> address \<Rightarrow> ('w ctx, bool) go" where
  "convertERC20NativeToken E pair msgContract amt msgReceiver msgSender receiver sender =
     (let coin0 = \<lparr>coin_denom = Denom pair, coin_amount = amt\<rparr>; contract = GetERC20Contract (libs E) pair;
          modAddr = erc20_ModuleAddress (libs E) in
      bind (gets (\<lambda>c. GetBalance (bank E) receiver (Denom pair) (world c))) (\<lambda>balanceCoin.
      bind (read_balance E contract modAddr) (\<lambda>balanceToken.
      bind (lift (abi_Pack (evm E) ERC20MinterBurnerDecimals ''transfer'' [VAddr modAddr, VUint amt])) (\<lambda>transferData.
      bind (CallEVMWithData E sender (Some contract) transferData True) (\<lambda>res.
      bind (lift (unpack_bool E ''transfer'' (evm_Ret res))) (\<lambda>ok.
      if \<not> ok then fail ErrLogic
      else
        bind (read_balance E contract modAddr) (\<lambda>balanceTokenAfter.
        if balanceTokenAfter \<noteq> balanceToken + amt then fail ErrBalanceInvariance
        else
          seq (ext (MintCoins (bank E) ''erc20'' [coin0]))
          (seq (ext (SendCoinsFromModuleToAccount (bank E) ''erc20'' receiver [coin0]))
          (bind (gets (\<lambda>c. GetBalance (bank E) receiver (Denom pair) (world c))) (\<lambda>balanceCoinAfter.
          bind (lift (Coin_Add (math E) balanceCoin coin0)) (\<lambda>expCoin.
          bind (lift (Coin_IsEqual (math E) balanceCoinAfter expCoin)) (\<lambda>eq.
          if \<not> eq then fail ErrBalanceInvariance
          else
            seq (lift (monitorApprovalEvent E res))
            (seq (EmitEvent (Event ''convert_erc20'' [(''sender'', AStr msgSender), (''receiver'', AStr msgReceiver),
                 (''amount'', AInt amt), (''cosmos_coin'', AStr (Denom pair)), (''erc20_token'', AStr msgContract)]))
             (ret True))))))))))))))"

section \<open>The message handlers\<close>

definition MustAccAddressFromBech32 :: "lib \<Rightarrow> string \<Rightarrow> bytes result" where
  "MustAccAddressFromBech32 L s = (case AccAddressFromBech32 L s of
     Ok a \<Rightarrow> Ok a | Err e \<Rightarrow> Panic ''invalid bech32 address'' | Panic p \<Rightarrow> Panic p)"

text \<open>\<open>acc == nil || !acc.IsContract()\<close>\<close>

definition is_selfdestructed :: "'w env \<Rightarrow> address \<Rightarrow> 'w ctx \<Rightarrow> bool" where
  "is_selfdestructed E a c = (GetAccountWithoutBalance (evm E) a (world c) \<noteq> Some True)"

definition ConvertCoin :: "'w env \<Rightarrow> coin \<Rightarrow> string \<Rightarrow> string \<Rightarrow> ('w ctx, bool) go" where
  "ConvertCoin E mcoin msgReceiver msgSender =
     (let receiver = HexToAddress (libs E) msgReceiver in
      bind (lift (MustAccAddressFromBech32 (libs E) msgSender)) (\<lambda>sender.
      bind (reads (MintingEnabled E sender (addr_bytes receiver) (coin_denom mcoin))) (\<lambda>pair.
      bind (gets (is_selfdestructed E (HexToAddress (libs E) (Erc20Address pair)))) (\<lambda>gone.
      if gone then seq (DeleteTokenPair (libs E) pair) (ret False)
      else if IsNativeCoin pair then convertCoinNativeCoin E pair mcoin msgReceiver msgSender receiver sender
      else if IsNativeERC20 pair then convertCoinNativeERC20 E pair mcoin msgReceiver msgSender receiver sender
      else fail ErrUndefinedOwner))))"

definition ConvertERC20 :: "'w env \<Rightarrow> string \<Rightarrow> int \<Rightarrow> string \<Rightarrow> string \<Rightarrow> ('w ctx, bool) go" where
  "ConvertERC20 E msgContract amt msgReceiver msgSender =
     bind (lift (MustAccAddressFromBech32 (libs E) msgReceiver)) (\<lambda>receiver.
     let sender = HexToAddress (libs E) msgSender in
     bind (reads (MintingEnabled E (addr_bytes sender) receiver msgContract)) (\<lambda>pair.
     bind (gets (is_selfdestructed E (HexToAddress (libs E) (Erc20Address pair)))) (\<lambda>gone.
     if gone then seq (DeleteTokenPair (libs E) pair) (ret False)
     else if IsNativeCoin pair then convertERC20NativeCoin E pair msgContract amt msgReceiver msgSender receiver sender
     else if IsNativeERC20 pair then convertERC20NativeToken E pair msgContract amt msgReceiver msgSender receiver sender
     else fail ErrUndefinedOwner)))"

section \<open>The gas-free messages\<close>

text \<open>\<open>strings.ToLower\<close> is applied to ASCII text.\<close>

fun interop_loop :: "string \<Rightarrow> string \<Rightarrow> string list \<Rightarrow> bool" where
  "interop_loop denom erc20 [] = False"
| "interop_loop denom erc20 (entry # rest) =
     (if ToLower entry = ToLower denom then True
      else if ToLower entry = ToLower erc20 then True
      else interop_loop denom erc20 rest)"

definition validateGasfreeInteropToken :: "'w env \<Rightarrow> string \<Rightarrow> 'w ctx \<Rightarrow> unit result" where
  "validateGasfreeInteropToken E token c =
     andThen (GetTokenPair (GetTokenPairID (libs E) token c) c) (\<lambda>found. case found of
       None \<Rightarrow> Err ErrTokenPairNotFound
     | Some pair \<Rightarrow> andThen (GetGasfreeErc20InteropTokens c) (\<lambda>list.
         if \<not> interop_loop (Denom pair) (Erc20Address pair) list then Err ErrGasfreeTokenNotAllowed else Ok ()))"

definition DeductGasfreeErc20Fee :: "'w env \<Rightarrow> bytes \<Rightarrow> coin \<Rightarrow> ('w ctx, coin) go" where
  "DeductGasfreeErc20Fee E sender sendAmount =
     bind (reads GetGasfreeErc20InteropFeeBasisPoints) (\<lambda>feeBasisPoints.
     bind (DeductBasisPointFee E feeBasisPoints sendAmount sender) (\<lambda>collectedFee.
     if coin_amount collectedFee = 0 \<and> 0 < feeBasisPoints then fail ErrInsufficientAmount else ret collectedFee))"

text \<open>The conversion of a slice to \<open>common.Address\<close> takes 20 bytes and panics when there are fewer.\<close>

definition slice_to_Address :: "bytes \<Rightarrow> address result" where
  "slice_to_Address bz = (if length bz < 20 then Panic ''cannot convert slice to array'' else Ok (Addr (take 20 bz)))"

definition SendCoinToEVM :: "'w env \<Rightarrow> coin \<Rightarrow> string \<Rightarrow> ('w ctx, unit) go" where
  "SendCoinToEVM E mcoin msgSender =
     seq (reads (validateGasfreeInteropToken E (coin_denom mcoin)))
     (bind (lift (MustAccAddressFromBech32 (libs E) msgSender)) (\<lambda>sender.
      bind (lift (slice_to_Address sender)) (\<lambda>receiver.
      bind (ConvertCoin E mcoin (Address_Hex (libs E) receiver) msgSender) (\<lambda>_.
      bind (DeductGasfreeErc20Fee E sender mcoin) (\<lambda>feesCollected.
      EmitEvent (Event ''send_coin_to_evm'' [(''sender'', AStr msgSender),
        (''receiver'', AStr (Address_Hex (libs E) receiver)), (''cosmos_coin'', AStr (coin_denom mcoin)),
        (''amount'', AInt (coin_amount mcoin)), (''fees_collected'', ACoin feesCollected)]))))))"

text \<open>What the two handlers for tokens have in common: the conversion of the amount and the fee.\<close>

definition convert_with_fee :: "'w env \<Rightarrow> string \<Rightarrow> int \<Rightarrow> string \<Rightarrow> ('w ctx, bytes) go" where
  "convert_with_fee E erc20 amt msgSender =
     seq (reads (validateGasfreeInteropToken E erc20))
     (let senderAcc = addr_bytes (HexToAddress (libs E) msgSender) in
      seq (lift (VerifyAddressFormat (libs E) senderAcc))
      (bind (reads GetGasfreeErc20InteropFeeBasisPoints) (\<lambda>feeBasisPoints.
       bind (lift (CalculateBasisPointFee (math E) amt feeBasisPoints)) (\<lambda>feeAmount.
       bind (lift (Int_Add (math E) amt feeAmount)) (\<lambda>totalAmount.
       bind (ConvertERC20 E erc20 totalAmount (AccAddress_String (libs E) senderAcc) msgSender) (\<lambda>_.
       ret senderAcc))))))"

text \<open>The fee of a converted token, from the account that received the coins.\<close>

definition fee_of_token :: "'w env \<Rightarrow> string \<Rightarrow> int \<Rightarrow> bytes \<Rightarrow> ('w ctx, coin) go" where
  "fee_of_token E erc20 amt senderAcc =
     bind (reads (\<lambda>c. GetTokenPair (GetTokenPairID (libs E) erc20 c) c)) (\<lambda>found. case found of
       None \<Rightarrow> fail ErrTokenPairNotFound
     | Some pair \<Rightarrow> bind (lift (NewCoin (math E) (Denom pair) amt)) (\<lambda>coin0. DeductGasfreeErc20Fee E senderAcc coin0))"

definition SendERC20ToCosmos :: "'w env \<Rightarrow> string \<Rightarrow> int \<Rightarrow> string \<Rightarrow> ('w ctx, unit) go" where
  "SendERC20ToCosmos E erc20 amt msgSender =
     bind (convert_with_fee E erc20 amt msgSender) (\<lambda>senderAcc.
     bind (fee_of_token E erc20 amt senderAcc) (\<lambda>feesCollected.
     EmitEvent (Event ''send_erc20_to_cosmos'' [(''sender'', AStr msgSender),
        (''receiver'', AStr (AccAddress_String (libs E) senderAcc)), (''erc20_token'', AStr erc20),
        (''amount'', AInt amt), (''fees_collected'', ACoin feesCollected)])))"

text \<open>The block time is in nanoseconds; the timeout is 30 days later.\<close>

definition initiateIBCTransfer ::
  "'w env \<Rightarrow> string \<Rightarrow> int \<Rightarrow> string \<Rightarrow> string \<Rightarrow> string \<Rightarrow> string \<Rightarrow> ('w ctx, u64) go" where
  "initiateIBCTransfer E erc20 amt msgSender port channel receiver =
     (let senderAcc = addr_bytes (HexToAddress (libs E) msgSender) in
      if port = [] \<or> channel = [] then fail ErrInvalidRequest
      else bind (reads (\<lambda>c. GetTokenPair (GetTokenPairID (libs E) erc20 c) c)) (\<lambda>found. case found of
          None \<Rightarrow> fail ErrTokenPairNotFound
        | Some pair \<Rightarrow> bind (lift (NewCoin (math E) (Denom pair) amt)) (\<lambda>coin0.
            if \<not> 0 < coin_amount coin0 then fail ErrInvalidCoins
            else bind (gets (\<lambda>c. word_of_int (BlockTime c + 30 * 24 * 3600 * 1000000000))) (\<lambda>timeout.
              ext (ibc_Transfer E \<lparr>tr_SourcePort = port, tr_SourceChannel = channel, tr_Token = coin0,
                tr_Sender = AccAddress_String (libs E) senderAcc, tr_Receiver = receiver,
                tr_TimeoutHeight = (0, 0), tr_TimeoutTimestamp = timeout,
                tr_Memo = ''Sent via MsgSendERC20ToCosmosAndIBCTransfer''\<rparr>)))))"

definition SendERC20ToCosmosAndIBCTransfer ::
  "'w env \<Rightarrow> string \<Rightarrow> int \<Rightarrow> string \<Rightarrow> string \<Rightarrow> string \<Rightarrow> string \<Rightarrow> ('w ctx, unit) go" where
  "SendERC20ToCosmosAndIBCTransfer E erc20 amt msgSender port channel receiver =
     bind (convert_with_fee E erc20 amt msgSender) (\<lambda>senderAcc.
     bind (initiateIBCTransfer E erc20 amt msgSender port channel receiver) (\<lambda>_.
     bind (fee_of_token E erc20 amt senderAcc) (\<lambda>feesCollected.
     EmitEvent (Event ''send_erc20_to_cosmos_and_ibc_transfer'' [(''sender'', AStr msgSender),
        (''erc20_token'', AStr erc20), (''amount'', AInt amt), (''port'', AStr port), (''channel'', AStr channel),
        (''receiver'', AStr receiver), (''fees_collected'', ACoin feesCollected)]))))"

section \<open>Lemmas\<close>

subsection \<open>The guard\<close>

text \<open>When conversion is allowed, over the registry.\<close>

lemma MintingEnabled_eq:
  assumes "reg_ok (libs E) c" and "erc20_GetParams c = Ok p"
  shows "MintingEnabled E sender receiver token c = Ok pair \<longleftrightarrow>
     EnableErc20 p \<and> find_pair (libs E) token c = Some pair \<and> Enabled pair \<and> \<not> BlockedAddr (bank E) receiver \<and>
     (sender = receiver \<or> IsSendEnabledCoin (bank E) \<lparr>coin_denom = Denom pair, coin_amount = 0\<rparr> (world c))"
proof -
  have "k \<noteq> []" if "GetTokenPairID (libs E) token c = Some k" and "r_pairs (reg c) k = Some tp" for k tp
    using that assms(1) reg_invD(1,2) [of "libs E" "reg c" k tp] by (auto simp: reg_ok_def pair_wf_def)
  then show ?thesis
    using lookup_token [OF assms(1), of token] assms(2)
    by (cases "GetTokenPairID (libs E) token c") (auto simp: MintingEnabled_def find_pair_def Let_def split: option.splits)
qed

subsection \<open>Balances through a conversion\<close>

text \<open>
  As \<open>bal_change\<close>, but says nothing of the EVM's own denomination, which gas payments and value
  transfers inside the EVM may move.
\<close>

definition bal_moves :: "'w env \<Rightarrow> string \<Rightarrow> 'w \<Rightarrow> 'w \<Rightarrow> string \<Rightarrow> (bytes \<Rightarrow> int) \<Rightarrow> bool" where
  "bal_moves E evmDenom w w' d f \<longleftrightarrow>
     (\<forall>a d'. d' \<noteq> evmDenom \<longrightarrow> bal E a d' w' = bal E a d' w + (if d' = d then f a else 0))"

lemma bal_moves_change: "bal_change E w w' d f \<Longrightarrow> bal_moves E ed w w' d f"
  by (simp add: bal_moves_def bal_change_def)

lemma bal_moves_trans:
  "bal_moves E ed w w1 d f \<Longrightarrow> bal_moves E ed w1 w2 d g \<Longrightarrow> h = (\<lambda>a. f a + g a) \<Longrightarrow> bal_moves E ed w w2 d h"
  by (simp add: bal_moves_def)

lemma bal_moves_D: "bal_moves E ed w w' d f \<Longrightarrow> d \<noteq> ed \<Longrightarrow> bal E a d w' = bal E a d w + f a"
  by (simp add: bal_moves_def)

lemma bal_moves_evm:
  assumes "evm_query_ok E" and "evm_frame_ok E ed"
  shows "CallEVM E abi from con b meth args c = (Ok res, c') \<Longrightarrow> bal_moves E ed (world c) (world c') d (\<lambda>_. 0)"
    and "CallEVMWithData E from conO dat b c = (Ok res, c') \<Longrightarrow> bal_moves E ed (world c) (world c') d (\<lambda>_. 0)"
  using CallEVM_bal [OF assms] CallEVMWithData_bal [OF assms] by (auto simp: bal_moves_def)

lemma read_balance_Ok:
  assumes "evm_query_ok E"
  shows "read_balance E con a c = (Ok n, c') \<longleftrightarrow> token_balance E con a (world c) = Ok (Some n) \<and> c' = c"
  by (auto simp: read_balance_def BalanceOf_eq [OF assms] bind_def split: result.splits option.splits)

text \<open>A token balance grows by an amount.\<close>

definition token_grows :: "'w env \<Rightarrow> address \<Rightarrow> address \<Rightarrow> int \<Rightarrow> 'w \<Rightarrow> 'w \<Rightarrow> bool" where
  "token_grows E con a n w w' \<longleftrightarrow>
     (\<exists>b. token_balance E con a w = Ok (Some b) \<and> token_balance E con a w' = Ok (Some (b + n)))"

lemma token_growsI:
  "token_balance E con a w = Ok (Some b) \<Longrightarrow> token_balance E con a w1 = Ok (Some (b + n)) \<Longrightarrow> same_evm E w1 w' \<Longrightarrow>
     token_grows E con a n w w'"
  by (auto simp: token_grows_def token_balance_same_evm)

lemma token_grows_same: "same_evm E w1 w2 \<Longrightarrow> token_grows E con a n w w2 = token_grows E con a n w w1"
  by (simp add: token_grows_def token_balance_same_evm)

text \<open>One event is appended and nothing else in the context changes but the outside state.\<close>

definition emits_one :: "'w ctx \<Rightarrow> 'w ctx \<Rightarrow> bool" where
  "emits_one c c' \<longleftrightarrow> (\<exists>e. c' = c\<lparr>world := world c', evs := evs c @ [e]\<rparr>)"

lemma emits_oneI: "only_world c c1 \<Longrightarrow> c' = c1\<lparr>evs := evs c1 @ [e]\<rparr> \<Longrightarrow> emits_one c c'"
  by (cases c; cases c1) (auto simp: emits_one_def only_world_def)

lemma convertCoinNativeCoin_Ok:
  assumes laws: "bank_ok E" "evm_query_ok E" "evm_frame_ok E ed"
    and run: "convertCoinNativeCoin E pair x mr ms receiver sender c = (Ok r, c')"
  shows "r \<and> token_grows E (GetERC20Contract (libs E) pair) receiver (coin_amount x) (world c) (world c') \<and>
     bal_moves E ed (world c) (world c') (coin_denom x) (pay sender (module_acc E ''erc20'') (coin_amount x)) \<and>
     emits_one c c'"
proof -
  let ?con = "GetERC20Contract (libs E) pair" and ?mod = "erc20_ModuleAddress (libs E)"
  from run obtain n w res c2 e where
    n: "token_balance E ?con receiver (world c) = Ok (Some n)" and
    send: "SendCoinsFromAccountToModule (bank E) sender ''erc20'' [x] (world c) = (Ok (), w)" and
    call: "CallEVM E ERC20MinterBurnerDecimals ?mod ?con True ''mint'' [VAddr receiver, VUint (coin_amount x)] (c\<lparr>world := w\<rparr>) = (Ok res, c2)" and
    n2: "token_balance E ?con receiver (world c2) = Ok (Some (n + coin_amount x))" and
    c': "c' = c2\<lparr>evs := evs c2 @ [e]\<rparr>" and r: "r"
    by (auto simp: convertCoinNativeCoin_def Let_def read_balance_Ok [OF laws(2)] split: if_splits)
  have wc': "world c' = world c2" using c' by simp
  have call_bal: "bal_moves E ed w (world c2) (coin_denom x) (\<lambda>_. 0)"
    using bal_moves_evm(1) [OF laws(2,3) call] by simp
  have "bal_moves E ed (world c) (world c') (coin_denom x) (pay sender (module_acc E ''erc20'') (coin_amount x))"
    unfolding wc' by (rule bal_moves_trans [OF bal_moves_change [OF bank_okD(3) [OF laws(1) send]] call_bal]) simp
  moreover have "only_world c c2"
    by (rule only_world_trans [OF only_world_upd CallEVM_only_world [OF call]])
  ultimately show ?thesis
    using r n n2 wc' by (auto intro: token_growsI emits_oneI [OF _ c'])
qed

lemma convertCoinNativeERC20_Ok:
  assumes laws: "bank_ok E" "evm_query_ok E" "evm_frame_ok E ed" "bank_evm_ok E ed" and denom: "coin_denom x \<noteq> ed"
    and run: "convertCoinNativeERC20 E pair x mr ms receiver sender c = (Ok r, c')"
  shows "r \<and> token_grows E (GetERC20Contract (libs E) pair) receiver (coin_amount x) (world c) (world c') \<and>
     bal_moves E ed (world c) (world c') (coin_denom x) (\<lambda>a. if a = sender then - coin_amount x else 0) \<and>
     emits_one c c'"
proof -
  let ?con = "GetERC20Contract (libs E) pair" and ?mod = "erc20_ModuleAddress (libs E)"
  from run obtain n w res c2 w3 e where
    n: "token_balance E ?con receiver (world c) = Ok (Some n)" and
    send: "SendCoinsFromAccountToModule (bank E) sender ''erc20'' [x] (world c) = (Ok (), w)" and
    call: "CallEVM E ERC20MinterBurnerDecimals ?mod ?con True ''transfer'' [VAddr receiver, VUint (coin_amount x)] (c\<lparr>world := w\<rparr>) = (Ok res, c2)" and
    n2: "token_balance E ?con receiver (world c2) = Ok (Some (n + coin_amount x))" and
    burn: "BurnCoins (bank E) ''erc20'' [x] (world c2) = (Ok (), w3)" and
    c': "c' = c2\<lparr>world := w3\<rparr>\<lparr>evs := evs c2 @ [e]\<rparr>" and r: "r"
    by (auto simp: convertCoinNativeERC20_def Let_def read_balance_Ok [OF laws(2)] split: if_splits)
  have wc': "world c' = w3" using c' by simp
  have call_bal: "bal_moves E ed w (world c2) (coin_denom x) (\<lambda>_. 0)"
    using bal_moves_evm(1) [OF laws(2,3) call] by simp
  note b1 = bal_moves_trans [OF bal_moves_change [OF bank_okD(3) [OF laws(1) send]] call_bal refl]
  have "bal_moves E ed (world c) (world c') (coin_denom x) (\<lambda>a. if a = sender then - coin_amount x else 0)"
    unfolding wc' by (rule bal_moves_trans [OF b1 bal_moves_change [OF bank_okD(6) [OF laws(1) burn]]])
      (simp add: pay_def fun_eq_iff)
  moreover have "only_world c (c2\<lparr>world := w3\<rparr>)"
    by (rule only_world_trans [OF only_world_trans [OF only_world_upd CallEVM_only_world [OF call]] only_world_upd])
  moreover have "emits_one c c'" by (rule emits_oneI [OF calculation(2)]) (simp add: c')
  moreover have "same_evm E (world c2) (world c')"
    unfolding wc' by (rule bank_evm_okD(4) [OF laws(4) burn denom])
  ultimately show ?thesis
    using r token_growsI [OF n n2] by simp
qed

lemma convertERC20NativeCoin_Ok:
  assumes laws: "bank_ok E" "evm_query_ok E" "evm_frame_ok E ed"
    and run: "convertERC20NativeCoin E pair con amt mr ms receiver sender c = (Ok r, c')"
  shows "r \<and> token_grows E (GetERC20Contract (libs E) pair) sender (- amt) (world c) (world c') \<and>
     bal_moves E ed (world c) (world c') (Denom pair) (pay (module_acc E ''erc20'') receiver amt) \<and> emits_one c c'"
proof -
  let ?con = "GetERC20Contract (libs E) pair" and ?mod = "erc20_ModuleAddress (libs E)"
    and ?x = "\<lparr>coin_denom = Denom pair, coin_amount = amt\<rparr>"
  from run obtain n res c1 w e where
    n: "token_balance E ?con sender (world c) = Ok (Some n)" and
    call: "CallEVM E ERC20MinterBurnerDecimals ?mod ?con True ''burnCoins'' [VAddr sender, VUint amt] c = (Ok res, c1)" and
    send: "SendCoinsFromModuleToAccount (bank E) ''erc20'' receiver [?x] (world c1) = (Ok (), w)" and
    n2: "token_balance E ?con sender w = Ok (Some (n - amt))" and
    c': "c' = c1\<lparr>world := w\<rparr>\<lparr>evs := evs c1 @ [e]\<rparr>" and r: "r"
    by (auto simp: convertERC20NativeCoin_def Let_def read_balance_Ok [OF laws(2)] split: if_splits)
  have wc': "world c' = w" using c' by simp
  have send_bal: "bal_moves E ed (world c1) w (Denom pair) (pay (module_acc E ''erc20'') receiver amt)"
    using bal_moves_change [OF bank_okD(4) [OF laws(1) send]] by simp
  have "bal_moves E ed (world c) (world c') (Denom pair) (pay (module_acc E ''erc20'') receiver amt)"
    unfolding wc' by (rule bal_moves_trans [OF bal_moves_evm(1) [OF laws(2,3) call] send_bal]) simp
  moreover have "only_world c (c1\<lparr>world := w\<rparr>)"
    by (rule only_world_trans [OF CallEVM_only_world [OF call] only_world_upd])
  moreover have "emits_one c c'" by (rule emits_oneI [OF calculation(2)]) (simp add: c')
  ultimately show ?thesis
    using r token_growsI [OF n, of w "- amt" w] n2 wc' by simp
qed

lemma convertERC20NativeToken_Ok:
  assumes laws: "bank_ok E" "evm_query_ok E" "evm_frame_ok E ed" "bank_evm_ok E ed" and denom: "Denom pair \<noteq> ed"
    and run: "convertERC20NativeToken E pair con amt mr ms receiver sender c = (Ok r, c')"
  shows "r \<and> token_grows E (GetERC20Contract (libs E) pair) (erc20_ModuleAddress (libs E)) amt (world c) (world c') \<and>
     bal_moves E ed (world c) (world c') (Denom pair) (\<lambda>a. if a = receiver then amt else 0) \<and> emits_one c c'"
proof -
  let ?con = "GetERC20Contract (libs E) pair" and ?mod = "erc20_ModuleAddress (libs E)"
    and ?x = "\<lparr>coin_denom = Denom pair, coin_amount = amt\<rparr>"
  from run obtain n dat res c1 w1 w2 e where
    n: "token_balance E ?con ?mod (world c) = Ok (Some n)" and
    call: "CallEVMWithData E sender (Some ?con) dat True c = (Ok res, c1)" and
    n2: "token_balance E ?con ?mod (world c1) = Ok (Some (n + amt))" and
    mint: "MintCoins (bank E) ''erc20'' [?x] (world c1) = (Ok (), w1)" and
    send: "SendCoinsFromModuleToAccount (bank E) ''erc20'' receiver [?x] w1 = (Ok (), w2)" and
    c': "c' = c1\<lparr>world := w2\<rparr>\<lparr>evs := evs c1 @ [e]\<rparr>" and r: "r"
    by (auto simp: convertERC20NativeToken_def Let_def read_balance_Ok [OF laws(2)] split: if_splits)
  have wc': "world c' = w2" using c' by simp
  have bank': "bal_moves E ed (world c1) w2 (Denom pair) (\<lambda>a. if a = receiver then amt else 0)"
    by (rule bal_moves_trans [OF bal_moves_change [OF bank_okD(5) [OF laws(1) mint, simplified]]
          bal_moves_change [OF bank_okD(4) [OF laws(1) send, simplified]]]) (simp add: pay_def fun_eq_iff)
  have "bal_moves E ed (world c) (world c') (Denom pair) (\<lambda>a. if a = receiver then amt else 0)"
    unfolding wc' by (rule bal_moves_trans [OF bal_moves_evm(2) [OF laws(2,3) call] bank']) simp
  moreover have "only_world c (c1\<lparr>world := w2\<rparr>)"
    by (rule only_world_trans [OF CallEVMWithData_Ok(1) [OF call] only_world_upd])
  moreover have "emits_one c c'" by (rule emits_oneI [OF calculation(2)]) (simp add: c')
  moreover have "same_evm E (world c1) (world c')"
    unfolding wc' using bank_evm_okD(3) [OF laws(4) mint] bank_evm_okD(2) [OF laws(4) send] denom
    by (auto intro: same_evm_trans)
  ultimately show ?thesis
    using r token_growsI [OF n n2] by simp
qed

subsection \<open>The handlers\<close>

text \<open>
  What a conversion of coins promises: the pair is registered and enabled, the sender loses the
  amount, to the module for a native coin and for good for a native token, and the receiver's token
  balance grows by it; or the contract is gone and the pair is removed.
\<close>

definition coin_converted ::
  "'w env \<Rightarrow> string \<Rightarrow> coin \<Rightarrow> address \<Rightarrow> bytes \<Rightarrow> TokenPair \<Rightarrow> bool \<Rightarrow> 'w ctx \<Rightarrow> 'w ctx \<Rightarrow> bool" where
  "coin_converted E ed x receiver sender pair done c c' \<longleftrightarrow>
     find_pair (libs E) (coin_denom x) c = Some pair \<and> Enabled pair \<and> \<not> BlockedAddr (bank E) (addr_bytes receiver) \<and>
     is_selfdestructed E (GetERC20Contract (libs E) pair) c = (\<not> done) \<and>
     (if done then
        token_grows E (GetERC20Contract (libs E) pair) receiver (coin_amount x) (world c) (world c') \<and>
        bal_moves E ed (world c) (world c') (coin_denom x)
          (if IsNativeCoin pair then pay sender (module_acc E ''erc20'') (coin_amount x)
           else (\<lambda>a. if a = sender then - coin_amount x else 0)) \<and> emits_one c c'
      else c' = snd (DeleteTokenPair (libs E) pair c))"

definition token_converted ::
  "'w env \<Rightarrow> string \<Rightarrow> string \<Rightarrow> int \<Rightarrow> bytes \<Rightarrow> address \<Rightarrow> TokenPair \<Rightarrow> bool \<Rightarrow> 'w ctx \<Rightarrow> 'w ctx \<Rightarrow> bool" where
  "token_converted E ed token amt receiver sender pair done c c' \<longleftrightarrow>
     find_pair (libs E) token c = Some pair \<and> Enabled pair \<and> \<not> BlockedAddr (bank E) receiver \<and>
     is_selfdestructed E (GetERC20Contract (libs E) pair) c = (\<not> done) \<and>
     (if done then
        (if IsNativeCoin pair
         then token_grows E (GetERC20Contract (libs E) pair) sender (- amt) (world c) (world c')
         else token_grows E (GetERC20Contract (libs E) pair) (erc20_ModuleAddress (libs E)) amt (world c) (world c')) \<and>
        bal_moves E ed (world c) (world c') (Denom pair)
          (if IsNativeCoin pair then pay (module_acc E ''erc20'') receiver amt
           else (\<lambda>a. if a = receiver then amt else 0)) \<and> emits_one c c'
      else c' = snd (DeleteTokenPair (libs E) pair c))"

lemma MustAccAddressFromBech32_Ok: "MustAccAddressFromBech32 L s = Ok a \<longleftrightarrow> AccAddressFromBech32 L s = Ok a"
  by (simp add: MustAccAddressFromBech32_def split: result.splits)

lemma MintingEnabled_Ok:
  assumes "reg_ok (libs E) c" and "MintingEnabled E sender receiver token c = Ok pair"
  shows "find_pair (libs E) token c = Some pair" "Enabled pair" "\<not> BlockedAddr (bank E) receiver"
proof -
  obtain p where "erc20_GetParams c = Ok p"
    using assms(2) by (cases "erc20_GetParams c") (auto simp: MintingEnabled_def)
  with assms show "find_pair (libs E) token c = Some pair" "Enabled pair" "\<not> BlockedAddr (bank E) receiver"
    using MintingEnabled_eq by blast+
qed

lemma DeleteTokenPair_snd: "DeleteTokenPair L tp c = (Ok (), snd (DeleteTokenPair L tp c))"
  by (simp add: DeleteTokenPair_run)

lemma ConvertCoin_Ok:
  assumes laws: "bank_ok E" "evm_query_ok E" "evm_frame_ok E ed" "bank_evm_ok E ed" and ok: "reg_ok (libs E) c"
    and denom: "coin_denom x \<noteq> ed" and run: "ConvertCoin E x mr ms c = (Ok r, c')"
  shows "\<exists>pair sender. AccAddressFromBech32 (libs E) ms = Ok sender \<and>
     coin_converted E ed x (HexToAddress (libs E) mr) sender pair r c c'"
proof -
  let ?r = "HexToAddress (libs E) mr"
  from run obtain sender pair where
    s: "AccAddressFromBech32 (libs E) ms = Ok sender" and m: "MintingEnabled E sender (addr_bytes ?r) (coin_denom x) c = Ok pair"
    and rest: "(if is_selfdestructed E (GetERC20Contract (libs E) pair) c
       then seq (DeleteTokenPair (libs E) pair) (ret False)
       else if IsNativeCoin pair then convertCoinNativeCoin E pair x mr ms ?r sender
       else if IsNativeERC20 pair then convertCoinNativeERC20 E pair x mr ms ?r sender
       else fail ErrUndefinedOwner) c = (Ok r, c')"
    by (auto simp: ConvertCoin_def Let_def MustAccAddressFromBech32_Ok GetERC20Contract_def)
  note g = MintingEnabled_Ok [OF ok m]
  have "coin_converted E ed x ?r sender pair r c c'"
    using g rest convertCoinNativeCoin_Ok [OF laws(1-3), of pair x mr ms ?r sender c r c']
      convertCoinNativeERC20_Ok [OF laws denom, of pair mr ms ?r sender c r c'] DeleteTokenPair_snd [of "libs E" pair c]
    unfolding coin_converted_def by (auto split: if_splits)
  with s show ?thesis by blast
qed

lemma ConvertERC20_Ok:
  assumes laws: "bank_ok E" "evm_query_ok E" "evm_frame_ok E ed" "bank_evm_ok E ed" and ok: "reg_ok (libs E) c"
    and denom: "\<And>pair. find_pair (libs E) token c = Some pair \<Longrightarrow> Denom pair \<noteq> ed"
    and run: "ConvertERC20 E token amt mr ms c = (Ok r, c')"
  shows "\<exists>pair receiver. AccAddressFromBech32 (libs E) mr = Ok receiver \<and>
     token_converted E ed token amt receiver (HexToAddress (libs E) ms) pair r c c'"
proof -
  let ?s = "HexToAddress (libs E) ms"
  from run obtain receiver pair where
    s: "AccAddressFromBech32 (libs E) mr = Ok receiver" and m: "MintingEnabled E (addr_bytes ?s) receiver token c = Ok pair"
    and rest: "(if is_selfdestructed E (GetERC20Contract (libs E) pair) c
       then seq (DeleteTokenPair (libs E) pair) (ret False)
       else if IsNativeCoin pair then convertERC20NativeCoin E pair token amt mr ms receiver ?s
       else if IsNativeERC20 pair then convertERC20NativeToken E pair token amt mr ms receiver ?s
       else fail ErrUndefinedOwner) c = (Ok r, c')"
    by (auto simp: ConvertERC20_def Let_def MustAccAddressFromBech32_Ok GetERC20Contract_def)
  note g = MintingEnabled_Ok [OF ok m]
  have "token_converted E ed token amt receiver ?s pair r c c'"
    using g rest convertERC20NativeCoin_Ok [OF laws(1-3), of pair token amt mr ms receiver ?s c r c']
      convertERC20NativeToken_Ok [OF laws denom [OF g(1)], of token amt mr ms receiver ?s c r c']
      DeleteTokenPair_snd [of "libs E" pair c]
    unfolding token_converted_def by (auto split: if_splits)
  with s show ?thesis by blast
qed

subsection \<open>The gas-free messages\<close>

lemma interop_loop_iff:
  "interop_loop d e xs \<longleftrightarrow> (\<exists>t \<in> set xs. ToLower t = ToLower d \<or> ToLower t = ToLower e)"
  by (induction d e xs rule: interop_loop.induct) auto

text \<open>The pair is on the gas-free interoperability list, under either of its names.\<close>

definition interop_listed :: "TokenPair \<Rightarrow> 'w ctx \<Rightarrow> bool" where
  "interop_listed pair c \<longleftrightarrow> (\<exists>tokens. GetGasfreeErc20InteropTokens c = Ok tokens \<and>
     (\<exists>t \<in> set tokens. ToLower t = ToLower (Denom pair) \<or> ToLower t = ToLower (Erc20Address pair)))"

lemma validateGasfreeInteropToken_iff:
  assumes "reg_ok (libs E) c"
  shows "validateGasfreeInteropToken E token c = Ok () \<longleftrightarrow>
     (\<exists>pair. find_pair (libs E) token c = Some pair \<and> interop_listed pair c)"
proof (cases "find_pair (libs E) token c")
  case None
  then show ?thesis by (simp add: validateGasfreeInteropToken_def lookup_token [OF assms])
next
  case (Some pair)
  then show ?thesis
    by (cases "GetGasfreeErc20InteropTokens c")
      (auto simp: validateGasfreeInteropToken_def lookup_token [OF assms] interop_listed_def interop_loop_iff)
qed

lemma emits_one_sel: "emits_one c c' \<Longrightarrow> kv c' = kv c" "emits_one c c' \<Longrightarrow> prm c' = prm c"
  by (auto simp: emits_one_def dest: arg_cong [of _ _ kv] arg_cong [of _ _ prm])

lemma DeductGasfreeErc20Fee_Ok:
  assumes laws: "dec_ok (math E)" "coin_ok (math E)" "fees_ok E"
    and amt: "0 \<le> coin_amount x" "coin_amount x < 2 ^ 240"
    and bp: "GetGasfreeErc20InteropFeeBasisPoints c = Ok bp" "bp \<le> 10000"
    and run: "DeductGasfreeErc20Fee E sender x c = (Ok f, c')"
  shows "f = \<lparr>coin_denom = coin_denom x, coin_amount = bp_fee (coin_amount x) bp\<rparr>"
    and "bal_change E (world c) (world c') (coin_denom x) (pay sender (fee_collector E) (bp_fee (coin_amount x) bp))"
    and "only_world c c'" and "bp_fee (coin_amount x) bp = 0 \<longleftrightarrow> bp = 0"
    and "fees_evm_ok E ed \<Longrightarrow> coin_denom x \<noteq> ed \<Longrightarrow> same_evm E (world c) (world c')"
proof -
  from run bp(1) have ded: "DeductBasisPointFee E bp x sender c = (Ok f, c')" and nz: "coin_amount f = 0 \<Longrightarrow> \<not> 0 < bp"
    by (auto simp: DeductGasfreeErc20Fee_def split: if_splits)
  note r = DeductBasisPointFee_Ok [OF laws amt bp(2) ded]
  show "f = \<lparr>coin_denom = coin_denom x, coin_amount = bp_fee (coin_amount x) bp\<rparr>" by (rule r(1))
  show "bal_change E (world c) (world c') (coin_denom x) (pay sender (fee_collector E) (bp_fee (coin_amount x) bp))"
    by (rule r(2))
  show "only_world c c'" using r(3) by (simp add: only_world_def)
  show "bp_fee (coin_amount x) bp = 0 \<longleftrightarrow> bp = 0"
    using nz r(1) by (auto simp: bp_fee_def word_gt_0)
  show "same_evm E (world c) (world c')" if "fees_evm_ok E ed" and "coin_denom x \<noteq> ed"
    using r(4) that .
qed

lemma fees_param_cong: "prm c' = prm c \<Longrightarrow>
   GetGasfreeErc20InteropFeeBasisPoints c' = GetGasfreeErc20InteropFeeBasisPoints c"
  by (simp add: GetGasfreeErc20InteropFeeBasisPoints_def gasfree_GetParamsIfSet_def)

lemma find_pair_cong: "kv c' ''erc20'' = kv c ''erc20'' \<Longrightarrow> find_pair L t c' = find_pair L t c"
  by (simp add: find_pair_def GetTokenPairID_reg)

lemma reg_ok_cong: "kv c' ''erc20'' = kv c ''erc20'' \<Longrightarrow> reg_ok L c' = reg_ok L c"
  by (simp add: reg_ok_def)

lemma token_converted_prm: "token_converted E ed token amt receiver sender pair r c c' \<Longrightarrow> prm c' = prm c"
  by (auto simp: token_converted_def DeleteTokenPair_run emits_one_sel split: if_splits)

lemma coin_converted_prm: "coin_converted E ed x receiver sender pair r c c' \<Longrightarrow> prm c' = prm c"
  by (auto simp: coin_converted_def DeleteTokenPair_run emits_one_sel split: if_splits)

text \<open>Conversion keeps the registry in order, and finds the pair afterwards unless it was removed.\<close>

lemma token_converted_reg:
  assumes ok: "reg_ok (libs E) c" and conv: "token_converted E ed token amt receiver sender pair r c c'"
  shows "reg_ok (libs E) c'" and "find_pair (libs E) token c' = (if r then Some pair else None)"
proof -
  have f: "find_pair (libs E) token c = Some pair" using conv by (simp add: token_converted_def)
  show "reg_ok (libs E) c'"
  proof (cases r)
    case True
    then have "kv c' = kv c" using conv by (auto simp: token_converted_def emits_one_sel)
    then show ?thesis using ok reg_ok_cong by metis
  next
    case False
    then show ?thesis using conv erc20_registry.inv_unregister [OF ok f] by (simp add: token_converted_def)
  qed
  show "find_pair (libs E) token c' = (if r then Some pair else None)"
  proof (cases r)
    case True
    then have "kv c' = kv c" using conv by (auto simp: token_converted_def emits_one_sel)
    then show ?thesis using f True find_pair_cong [of c' c "libs E" token] by simp
  next
    case False
    have "names (libs E) pair token" using f find_pair_iff [OF ok] by blast
    with False show ?thesis
      using conv erc20_registry.find_unregister [OF ok f, of token] by (simp add: token_converted_def)
  qed
qed

lemma convert_with_fee_Ok:
  assumes laws: "bank_ok E" "evm_query_ok E" "evm_frame_ok E ed" "bank_evm_ok E ed" and dec: "dec_ok (math E)"
    and ok: "reg_ok (libs E) c" and denom: "\<And>pair. find_pair (libs E) token c = Some pair \<Longrightarrow> Denom pair \<noteq> ed"
    and amt: "0 \<le> amt" "amt < 2 ^ 240" and bp: "GetGasfreeErc20InteropFeeBasisPoints c = Ok bp" "bp \<le> 10000"
    and run: "convert_with_fee E token amt ms c = (Ok acc, c')"
  shows "\<exists>pair r receiver. acc = addr_bytes (HexToAddress (libs E) ms) \<and> interop_listed pair c \<and>
     AccAddressFromBech32 (libs E) (AccAddress_String (libs E) acc) = Ok receiver \<and>
     token_converted E ed token (amt + bp_fee amt bp) receiver (HexToAddress (libs E) ms) pair r c c'"
proof -
  from run obtain bp' fee total r where
    v: "validateGasfreeInteropToken E token c = Ok ()" and
    bp': "GetGasfreeErc20InteropFeeBasisPoints c = Ok bp'" "CalculateBasisPointFee (math E) amt bp' = Ok fee" and
    t: "Int_Add (math E) amt fee = Ok total" and
    conv: "ConvertERC20 E token total (AccAddress_String (libs E) acc) ms c = (Ok r, c')" and
    acc: "addr_bytes (HexToAddress (libs E) ms) = acc"
    by (auto simp: convert_with_fee_def Let_def)
  have fee: "fee = bp_fee amt bp"
    using bp' bp(1) CalculateBasisPointFee_eq [OF dec amt bp(2)] by simp
  from dec_okD [OF dec t] fee have total: "total = amt + bp_fee amt bp" by simp
  from ConvertERC20_Ok [OF laws ok denom conv] obtain pair receiver where
    "AccAddressFromBech32 (libs E) (AccAddress_String (libs E) acc) = Ok receiver" and
    tc: "token_converted E ed token total receiver (HexToAddress (libs E) ms) pair r c c'" by blast
  moreover from v have "interop_listed pair c"
    using tc by (auto simp: validateGasfreeInteropToken_iff [OF ok] token_converted_def)
  ultimately show ?thesis using acc total by auto
qed

lemma fee_of_token_Ok:
  assumes laws: "dec_ok (math E)" "coin_ok (math E)" "fees_ok E" and ok: "reg_ok (libs E) c"
    and amt: "amt < 2 ^ 240" and bp: "GetGasfreeErc20InteropFeeBasisPoints c = Ok bp" "bp \<le> 10000"
    and run: "fee_of_token E token amt acc c = (Ok f, c')"
  shows "\<exists>pair. find_pair (libs E) token c = Some pair \<and>
     f = \<lparr>coin_denom = Denom pair, coin_amount = bp_fee amt bp\<rparr> \<and> only_world c c' \<and> (bp_fee amt bp = 0 \<longleftrightarrow> bp = 0) \<and>
     bal_change E (world c) (world c') (Denom pair) (pay acc (fee_collector E) (bp_fee amt bp)) \<and>
     (fees_evm_ok E ed \<and> Denom pair \<noteq> ed \<longrightarrow> same_evm E (world c) (world c'))"
proof -
  from run obtain pair x where p: "find_pair (libs E) token c = Some pair" and
    x: "NewCoin (math E) (Denom pair) amt = Ok x" and ded: "DeductGasfreeErc20Fee E acc x c = (Ok f, c')"
    by (auto simp: fee_of_token_def lookup_token [OF ok] split: option.splits)
  from coin_okD(1) [OF laws(2) x] have x': "x = \<lparr>coin_denom = Denom pair, coin_amount = amt\<rparr>" "0 \<le> amt" by auto
  show ?thesis
    using p DeductGasfreeErc20Fee_Ok [OF laws _ _ bp ded] amt unfolding x'(1) by (auto simp: x'(2))
qed

lemma SendCoinToEVM_Ok:
  assumes "bank_ok E" "evm_query_ok E" "evm_frame_ok E ed" "bank_evm_ok E ed" "dec_ok (math E)" "coin_ok (math E)"
      "fees_ok E" "addr_ok (libs E)"
    and ok: "reg_ok (libs E) c" and denom: "coin_denom x \<noteq> ed"
    and amt: "0 \<le> coin_amount x" "coin_amount x < 2 ^ 240"
    and bp: "GetGasfreeErc20InteropFeeBasisPoints c = Ok bp" "bp \<le> 10000"
    and run: "SendCoinToEVM E x ms c = (Ok (), c')"
  shows "\<exists>pair sender r c1. AccAddressFromBech32 (libs E) ms = Ok sender \<and> 20 \<le> length sender \<and> interop_listed pair c \<and>
     coin_converted E ed x (Addr (take 20 sender)) sender pair r c c1 \<and> kv c' = kv c1 \<and>
     bal_change E (world c1) (world c') (coin_denom x) (pay sender (fee_collector E) (bp_fee (coin_amount x) bp)) \<and>
     (bp_fee (coin_amount x) bp = 0 \<longleftrightarrow> bp = 0)"
proof -
  from run obtain sender r c1 f c2 where v: "validateGasfreeInteropToken E (coin_denom x) c = Ok ()"
    and s: "AccAddressFromBech32 (libs E) ms = Ok sender" "20 \<le> length sender"
    and conv: "ConvertCoin E x (Address_Hex (libs E) (Addr (take 20 sender))) ms c = (Ok r, c1)"
    and ded: "DeductGasfreeErc20Fee E sender x c1 = (Ok f, c2)" and c': "kv c' = kv c2" "world c' = world c2"
    by (auto simp: SendCoinToEVM_def MustAccAddressFromBech32_Ok slice_to_Address_def split: if_splits)
  from ConvertCoin_Ok [OF assms(1-4) ok denom conv] s(1) obtain pair where
    cc: "coin_converted E ed x (Addr (take 20 sender)) sender pair r c c1"
    by (auto simp: addr_okD(1) [OF assms(8)])
  have "GetGasfreeErc20InteropFeeBasisPoints c1 = Ok bp"
    using bp(1) fees_param_cong [OF coin_converted_prm [OF cc]] by simp
  note fee = DeductGasfreeErc20Fee_Ok [OF assms(5-7) amt this bp(2) ded]
  moreover have "kv c2 = kv c1" using only_worldD(1) [OF fee(3)] .
  moreover have "interop_listed pair c"
    using v cc by (auto simp: validateGasfreeInteropToken_iff [OF ok] coin_converted_def)
  ultimately show ?thesis using s cc c' by auto
qed

lemma SendERC20ToCosmos_Ok:
  assumes laws: "bank_ok E" "evm_query_ok E" "evm_frame_ok E ed" "bank_evm_ok E ed" "dec_ok (math E)" "coin_ok (math E)"
      "fees_ok E" "fees_evm_ok E ed" "bech32_ok (libs E)"
    and ok: "reg_ok (libs E) c" and denom: "\<And>pair. find_pair (libs E) token c = Some pair \<Longrightarrow> Denom pair \<noteq> ed"
    and amt: "0 \<le> amt" "amt < 2 ^ 240"
    and bp: "GetGasfreeErc20InteropFeeBasisPoints c = Ok bp" "bp \<le> 10000"
    and run: "SendERC20ToCosmos E token amt ms c = (Ok (), c')"
  shows "\<exists>pair. find_pair (libs E) token c = Some pair \<and> interop_listed pair c \<and> kv c' = kv c \<and>
     (let con = GetERC20Contract (libs E) pair; sender = HexToAddress (libs E) ms; fee = bp_fee amt bp in
      (if IsNativeCoin pair then token_grows E con sender (- (amt + fee)) (world c) (world c')
       else token_grows E con (erc20_ModuleAddress (libs E)) (amt + fee) (world c) (world c')) \<and>
      bal_moves E ed (world c) (world c') (Denom pair) (\<lambda>a.
        (if a = addr_bytes sender then amt else 0) + (if a = fee_collector E then fee else 0) -
        (if IsNativeCoin pair \<and> a = module_acc E ''erc20'' then amt + fee else 0)))"
proof -
  from run obtain acc c1 f c2 where
    conv: "convert_with_fee E token amt ms c = (Ok acc, c1)" and
    ded: "fee_of_token E token amt acc c1 = (Ok f, c2)" and c': "kv c' = kv c2" "world c' = world c2"
    by (auto simp: SendERC20ToCosmos_def)
  from convert_with_fee_Ok [OF laws(1-5) ok denom amt bp conv] obtain pair r receiver where
    acc: "acc = addr_bytes (HexToAddress (libs E) ms)" and listed: "interop_listed pair c" and
    rec: "AccAddressFromBech32 (libs E) (AccAddress_String (libs E) acc) = Ok receiver" and
    tc: "token_converted E ed token (amt + bp_fee amt bp) receiver (HexToAddress (libs E) ms) pair r c c1" by blast
  note reg1 = token_converted_reg [OF ok tc]
  have bp1: "GetGasfreeErc20InteropFeeBasisPoints c1 = Ok bp"
    using bp(1) fees_param_cong [OF token_converted_prm [OF tc]] by simp
  note fee = fee_of_token_Ok [OF laws(5-7) reg1(1) amt(2) bp1 bp(2) ded, where ed = ed]
  have verified: "VerifyAddressFormat (libs E) acc = Ok ()"
    using conv by (auto simp: convert_with_fee_def Let_def)
  have rec: "receiver = acc" using bech32_okD [OF laws(9) verified] rec by simp
  have r: r and pair: "find_pair (libs E) token c = Some pair" using fee reg1(2) tc
    by (auto simp: token_converted_def split: if_splits)
  have d: "Denom pair \<noteq> ed" by (rule denom [OF pair])
  have ded': "bal_change E (world c1) (world c') (Denom pair) (pay acc (fee_collector E) (bp_fee amt bp))"
    and same: "same_evm E (world c1) (world c')" and "only_world c1 c2"
    using fee reg1(2) r laws(8) d by (auto simp: c')
  then have kv: "kv c' = kv c"
    using only_worldD(1) [of c1 c2] r tc by (simp add: c' token_converted_def emits_one_sel)
  show ?thesis
    using pair listed kv r tc same bal_moves_trans [OF _ bal_moves_change [OF ded'], of ed "world c"]
    by (auto simp: token_converted_def Let_def rec acc token_grows_same pay_def fun_eq_iff split: if_splits)
qed

section \<open>Properties\<close>

text \<open>
  C9: Conversion is allowed exactly when the module is enabled, the token names a registered pair
  that is enabled, the receiver is not a blocked address, and the sender converts to itself or
  transfers of the coin are enabled.
\<close>

theorem MintingEnabled_exact:
  assumes "reg_ok (libs E) c" and "erc20_GetParams c = Ok p"
  shows "MintingEnabled E sender receiver token c = Ok pair \<longleftrightarrow>
     EnableErc20 p \<and> GetTokenPair (GetTokenPairID (libs E) token c) c = Ok (Some pair) \<and> Enabled pair \<and>
     \<not> BlockedAddr (bank E) receiver \<and>
     (sender = receiver \<or> IsSendEnabledCoin (bank E) \<lparr>coin_denom = Denom pair, coin_amount = 0\<rparr> (world c))"
  unfolding lookup_token [OF assms(1)] MintingEnabled_eq [OF assms] by simp





subsection \<open>A concrete conversion\<close>

definition c_conv_ctx :: "TokenPair \<Rightarrow> ledger \<Rightarrow> ledger ctx" where
  "c_conv_ctx tp w = (snd (put_pair c_lib tp (c_ctx w)))\<lparr>prm := (\<lambda>m. if m = ''erc20''
       then [ParamStoreKeyEnableErc20 \<mapsto> PBool True, ParamStoreKeyEnableEVMHook \<mapsto> PBool True]
       else if m = ''gasfree'' then [GasFreeMessageTypesKey \<mapsto> PStrs [], GasFreeErc20InteropTokensKey \<mapsto> PStrs [''ACOIN''],
         GasFreeErc20InteropFeeBasisPointsKey \<mapsto> PU64 1000] else Map.empty)\<rparr>"

lemma c_conv_ctx_sel [simp]: "kv (c_conv_ctx tp w) = kv (snd (put_pair c_lib tp (c_ctx w)))" "world (c_conv_ctx tp w) = w"
  by (simp_all add: c_conv_ctx_def put_pair_run)

lemma reg_ok_c_conv_ctx: "reg_ok c_lib (c_conv_ctx c_tp w)"
  using reg_ok_put_pair [OF reg_ok_empty fresh_c_tp, of w] reg_ok_cong [of "c_conv_ctx c_tp w" "snd (put_pair c_lib c_tp (c_ctx w))"]
  by simp

lemma find_c_conv_ctx: "find_pair c_lib ''acoin'' (c_conv_ctx c_tp w) = Some c_tp"
  using find_c_tp [of w] find_pair_cong [of "c_conv_ctx c_tp w" "c_reg_ctx w"] by (simp add: c_reg_ctx_def)

lemma c_GetParams: "erc20_GetParams (c_conv_ctx tp w) = Ok \<lparr>EnableErc20 = True, EnableEVMHook = True\<rparr>"
  by (simp add: erc20_GetParams_def ParamStoreKeyEnableErc20_def ParamStoreKeyEnableEVMHook_def c_conv_ctx_def)

lemma c_Minting:
  assumes "kv c ''erc20'' = kv (c_conv_ctx c_tp w) ''erc20''" and "prm c ''erc20'' = prm (c_conv_ctx c_tp w) ''erc20''"
  shows "MintingEnabled c_env sender receiver ''acoin'' c = Ok c_tp"
proof -
  have "erc20_GetParams c = Ok \<lparr>EnableErc20 = True, EnableEVMHook = True\<rparr>"
    using assms(2) c_GetParams [of c_tp w] by (simp add: erc20_GetParams_def)
  from MintingEnabled_eq [OF _ this, of c_env] show ?thesis
    using reg_ok_cong [OF assms(1), of c_lib] find_pair_cong [OF assms(1), of c_lib "''acoin''"]
    by (simp add: reg_ok_c_conv_ctx find_c_conv_ctx c_bank_def) (simp add: c_tp_def)
qed

lemma c_MintingEnabled: "MintingEnabled c_env sender receiver ''acoin'' (c_conv_ctx c_tp w) = Ok c_tp"
  by (rule c_Minting) simp_all

text \<open>Calls of the concrete token contract.\<close>

lemma c_pack_2: "c_pack meth [VAddr (Addr a), VUint n] = meth @ CHR '':'' # a @ CHR '':'' # replicate (nat n) (CHR ''1'')"
  by (simp add: c_pack_def)

lemma c_CallEVM:
  "CallEVM c_env abi from con True meth args c = (case c_call from con (c_pack meth args) (world c) of
     (res, w) \<Rightarrow> (if evm_Failed res then Err ErrVMExecution else Ok res, c\<lparr>world := w\<rparr>))"
  by (simp add: CallEVM_def CallEVMWithData_def bind_def c_evm_def c_acct_def ext_def c_apply_def wrap_as_def
      split: prod.splits)

lemma c_token_balance:
  assumes "CHR '':'' \<notin> set a" and "0 \<le> l_tok w con (Addr a)"
  shows "token_balance c_env con (Addr a) w = Ok (Some (l_tok w con (Addr a)))"
proof -
  have "SplitN2 (CHR '':'') (''balanceOf:'' @ a) = [''balanceOf'', a]"
    using SplitN2_append [of "CHR '':''" "''balanceOf''" a] by simp
  moreover have "SplitN2 (CHR '':'') a = [a]"
    using assms(1) by (simp add: SplitN2_shape)
  ultimately show ?thesis
    using assms(2) by (simp add: token_balance_def c_evm_def c_acct_def c_apply_def c_pack_def c_call_def c_unpack_def
        c_reply_def Let_def)
qed

lemma c_mint:
  assumes "CHR '':'' \<notin> set a" and "0 \<le> n"
  shows "CallEVM c_env abi from con True ''mint'' [VAddr (Addr a), VUint n] c =
     (Ok (c_reply False []), c\<lparr>world := t_add con (Addr a) n (world c)\<rparr>)"
  using assms SplitN2_append [of "CHR '':''" "''mint''"]
  by (simp add: c_CallEVM c_pack_2 c_call_def SplitN2_append c_reply_def)

lemma c_burnCoins:
  assumes "CHR '':'' \<notin> set a" and "0 \<le> n" and "n \<le> l_tok (world c) con (Addr a)"
  shows "CallEVM c_env abi from con True ''burnCoins'' [VAddr (Addr a), VUint n] c =
     (Ok (c_reply False []), c\<lparr>world := t_add con (Addr a) (- n) (world c)\<rparr>)"
  using assms SplitN2_append [of "CHR '':''" "''burnCoins''"]
  by (simp add: c_CallEVM c_pack_2 c_call_def SplitN2_append c_reply_def)

lemma c_addresses:
  "MustAccAddressFromBech32 c_lib ''alice'' = Ok ''alice''" "AccAddressFromBech32 c_lib ''alice'' = Ok ''alice''"
  "HexToAddress c_lib ''0x62'' = Addr ''b''" "GetERC20Contract c_lib c_tp = Addr ''j''"
  "HexToAddress c_lib (Erc20Address c_tp) = Addr ''j''" "IsNativeCoin c_tp"
  by code_simp+

lemma c_ConvertCoin:
  "\<exists>c'. ConvertCoin c_env \<lparr>coin_denom = ''acoin'', coin_amount = 7\<rparr> ''0x62'' ''alice'' (c_conv_ctx c_tp c_world) = (Ok True, c')"
proof -
  have alive: "\<not> is_selfdestructed c_env a c" for a c
    by (simp add: is_selfdestructed_def c_evm_def)
  have pays: "SendCoinsFromAccountToModule c_bank ''alice'' m [\<lparr>coin_denom = ''acoin'', coin_amount = 7\<rparr>] c_world =
      (Ok (), l_add (NewModuleAddress c_lib m) ''acoin'' 7 (l_add ''alice'' ''acoin'' (- 7) c_world))" for m
    by (simp add: c_bank_def c_world_def)
  have tok: "l_tok c_world con a = 0" for con a by (simp add: c_world_def)
  show ?thesis
    by (simp add: ConvertCoin_def Let_def bind_def c_addresses c_MintingEnabled alive convertCoinNativeCoin_def
        read_balance_def BalanceOf_eq [OF c_evm_query_ok] c_token_balance c_mint pays ext_def tok t_add_def)
qed


theorem MintingEnabled_exact_witness:
  "reg_ok c_lib (c_conv_ctx c_tp c_world) \<and>
   GetTokenPair (GetTokenPairID c_lib ''acoin'' (c_conv_ctx c_tp c_world)) (c_conv_ctx c_tp c_world) = Ok (Some c_tp) \<and>
   MintingEnabled c_env ''alice'' ''b'' ''acoin'' (c_conv_ctx c_tp c_world) = Ok c_tp"
  using MintingEnabled_exact [of c_env "c_conv_ctx c_tp c_world" _ "''alice''" "''b''" "''acoin''" c_tp]
  by (simp add: reg_ok_c_conv_ctx c_GetParams c_MintingEnabled)

text \<open>A state in which there are tokens and escrowed coins, and in which two accounts have coins.\<close>

definition c_long :: string where "c_long = replicate 20 (CHR ''a'')"

definition c_world2 :: ledger where
  "c_world2 = \<lparr>l_bal = (\<lambda>a d. if d = ''acoin'' then 100 else 0), l_tok = (\<lambda>_ _. 50), l_meta = (\<lambda>_. None)\<rparr>"

lemma c_world2_sel [simp]: "l_bal c_world2 a ''acoin'' = 100" "l_tok c_world2 con y = 50"
  by (simp_all add: c_world2_def)

lemma c_token_b: "0 \<le> l_tok w con (Addr ''b'') \<Longrightarrow> token_balance c_env con (Addr ''b'') w = Ok (Some (l_tok w con (Addr ''b'')))"
  by (rule c_token_balance) simp_all

lemma c_alive: "\<not> is_selfdestructed c_env a c"
  by (simp add: is_selfdestructed_def c_evm_def)

lemma c_coin_ops:
  "coin_denom x = coin_denom y \<Longrightarrow>
     Coin_Add c_math x y = Ok \<lparr>coin_denom = coin_denom x, coin_amount = coin_amount x + coin_amount y\<rparr>"
  "coin_denom x = coin_denom y \<Longrightarrow> Coin_IsEqual c_math x y = Ok (coin_amount x = coin_amount y)"
  by (simp_all add: c_math_def)

lemma l_tok_t_add [simp]: "l_tok (t_add con a n w) con' a' = l_tok w con' a' + (if con' = con \<and> a' = a then n else 0)"
  by (simp add: t_add_def)

lemma c_bank_ops:
  "GetBalance c_bank a d w = \<lparr>coin_denom = d, coin_amount = l_bal w a d\<rparr>"
  "SendCoinsFromModuleToAccount c_bank m t [x] w = l_move (''module:'' @ m) t [x] w"
  "SendCoinsFromAccountToModule c_bank f m [x] w = l_move f (''module:'' @ m) [x] w"
  by (simp_all add: c_bank_def c_lib_def)

lemma Denom_c_tp [simp]: "Denom c_tp = ''acoin''"
  by (simp add: c_tp_def)

lemma c_ConvertERC20:
  "\<exists>c'. ConvertERC20 c_env ''acoin'' 11 ''b'' ''0x62'' (c_conv_ctx c_tp c_world2) = (Ok True, c')"
proof -
  have b: "MustAccAddressFromBech32 c_lib ''b'' = Ok ''b''" by code_simp
  show ?thesis
    by (simp add: ConvertERC20_def Let_def bind_def c_addresses b c_MintingEnabled c_alive convertERC20NativeCoin_def
        read_balance_def BalanceOf_eq [OF c_evm_query_ok] c_token_b c_burnCoins ext_def c_coin_ops c_bank_ops)
qed


lemma c_gasfree:
  assumes "prm c = prm (c_conv_ctx tp w)"
  shows "GetGasfreeErc20InteropFeeBasisPoints c = Ok 1000" "GetGasfreeErc20InteropTokens c = Ok [''ACOIN'']"
  using assms by (simp_all add: GetGasfreeErc20InteropFeeBasisPoints_def GetGasfreeErc20InteropTokens_def
      gasfree_GetParamsIfSet_def gasfree_keys c_conv_ctx_def)

lemma c_lookup:
  assumes "kv c ''erc20'' = kv (c_conv_ctx c_tp w) ''erc20''"
  shows "GetTokenPair (GetTokenPairID c_lib ''acoin'' c) c = Ok (Some c_tp)"
  using lookup_token [of c_lib c "''acoin''"] reg_ok_cong [OF assms, of c_lib] reg_ok_c_conv_ctx [of w]
    find_pair_cong [OF assms, of c_lib "''acoin''"] by (simp add: find_c_conv_ctx)

lemma c_validate: "validateGasfreeInteropToken c_env ''acoin'' (c_conv_ctx c_tp w) = Ok ()"
  by (simp add: validateGasfreeInteropToken_def c_lookup [of "c_conv_ctx c_tp w" w] c_gasfree [of "c_conv_ctx c_tp w" c_tp w])
    code_simp

lemma c_fee: "CalculateBasisPointFee c_math 10 1000 = Ok 1"
  by (subst CalculateBasisPointFee_eq [OF c_dec_ok]) (simp_all add: bp_fee_def word_le_def)

lemma c_fee_deducted:
  assumes "prm c = prm (c_conv_ctx c_tp w)" and "1 \<le> l_bal (world c) a ''acoin''"
  shows "DeductGasfreeErc20Fee c_env a \<lparr>coin_denom = ''acoin'', coin_amount = 10\<rparr> c =
     (Ok \<lparr>coin_denom = ''acoin'', coin_amount = 1\<rparr>,
      c\<lparr>world := l_add ''module:fee_collector'' ''acoin'' 1 (l_add a ''acoin'' (- 1) (world c))\<rparr>)"
  using assms(2)
  by (simp add: DeductGasfreeErc20Fee_def bind_def c_gasfree [OF assms(1)] DeductBasisPointFee_def c_fee ext_def)
    (simp add: c_math_def c_bank_def c_acct_def c_lib_def bind_def ext_def)

lemma c_SendERC20ToCosmos:
  "\<exists>c'. SendERC20ToCosmos c_env ''acoin'' 10 ''0x62'' (c_conv_ctx c_tp c_world2) = (Ok (), c')"
proof -
  have b: "MustAccAddressFromBech32 c_lib ''b'' = Ok ''b''" "VerifyAddressFormat c_lib ''b'' = Ok ()"
    "AccAddress_String c_lib ''b'' = ''b''" "NewCoin c_math ''acoin'' 10 = Ok \<lparr>coin_denom = ''acoin'', coin_amount = 10\<rparr>"
    "Int_Add c_math 10 1 = Ok 11" by code_simp+
  show ?thesis
    by (simp add: SendERC20ToCosmos_def convert_with_fee_def ConvertERC20_def Let_def bind_def c_addresses b c_MintingEnabled
        c_alive c_validate c_fee c_gasfree [of _ c_tp c_world2] convertERC20NativeCoin_def fee_of_token_def c_lookup [of _ c_world2]
        read_balance_def BalanceOf_eq [OF c_evm_query_ok] c_token_b c_burnCoins ext_def c_coin_ops c_bank_ops
        c_fee_deducted [of _ c_world2])
qed


lemma c_SendCoinToEVM:
  "\<exists>c'. SendCoinToEVM c_env \<lparr>coin_denom = ''acoin'', coin_amount = 10\<rparr> c_long (c_conv_ctx c_tp c_world2) = (Ok (), c')"
proof -
  have b: "MustAccAddressFromBech32 c_lib c_long = Ok c_long" "slice_to_Address c_long = Ok (Addr c_long)" by code_simp+
  have t: "token_balance c_env con (Addr c_long) w = Ok (Some (l_tok w con (Addr c_long)))"
    if "0 \<le> l_tok w con (Addr c_long)" for con w
    using that by (intro c_token_balance) (simp_all add: c_long_def)
  have m: "CallEVM c_env abi fr con True ''mint'' [VAddr (Addr c_long), VUint 10] c =
     (Ok (c_reply False []), c\<lparr>world := t_add con (Addr c_long) 10 (world c)\<rparr>)" for abi fr con c
    by (rule c_mint) (simp_all add: c_long_def)
  show ?thesis
    by (simp add: SendCoinToEVM_def ConvertCoin_def Let_def bind_def c_addresses b c_MintingEnabled addr_okD(1) [OF c_addr_ok]
        c_alive c_validate convertCoinNativeCoin_def read_balance_def BalanceOf_eq [OF c_evm_query_ok] t m
        ext_def c_bank_ops c_fee_deducted [of _ c_world2])
qed


text \<open>
  When the contract is gone, \<open>SendCoinToEVM\<close> removes the pair, converts nothing, and still succeeds
  and charges the fee.
\<close>

definition c_gone_env :: "ledger env" where
  "c_gone_env = c_env\<lparr>evm := c_evm\<lparr>GetAccountWithoutBalance := (\<lambda>_ _. None)\<rparr>\<rparr>"

lemma c_gone_sel: "libs c_gone_env = c_lib" "math c_gone_env = c_math" "bank c_gone_env = c_bank" "acct c_gone_env = c_acct"
  by (simp_all add: c_gone_env_def)

lemma c_gone_cong:
  "MintingEnabled c_gone_env = MintingEnabled c_env" "validateGasfreeInteropToken c_gone_env = validateGasfreeInteropToken c_env"
  "DeductGasfreeErc20Fee c_gone_env = DeductGasfreeErc20Fee c_env" "is_selfdestructed c_gone_env a c"
  unfolding fun_eq_iff MintingEnabled_def validateGasfreeInteropToken_def DeductGasfreeErc20Fee_def DeductBasisPointFee_def
    is_selfdestructed_def c_gone_sel c_env_sel by (simp_all add: c_gone_env_def)

lemma SendCoinToEVM_charges_for_nothing:
  "\<exists>c'. SendCoinToEVM c_gone_env \<lparr>coin_denom = ''acoin'', coin_amount = 10\<rparr> c_long (c_conv_ctx c_tp c_world2) = (Ok (), c') \<and>
     l_bal (world c') c_long ''acoin'' = l_bal c_world2 c_long ''acoin'' - 1 \<and> l_tok (world c') = l_tok c_world2"
proof -
  have b: "MustAccAddressFromBech32 c_lib c_long = Ok c_long" "slice_to_Address c_long = Ok (Addr c_long)" by code_simp+
  have "c_long \<noteq> ''module:fee_collector''" by code_simp
  then show ?thesis
    by (simp add: SendCoinToEVM_def ConvertCoin_def Let_def bind_def b c_MintingEnabled c_gone_sel c_gone_cong c_validate
        c_addresses DeleteTokenPair_run c_fee_deducted [of _ c_world2] addr_okD(1) [OF c_addr_ok])
qed

end
