(* ===== verification/Erc20_Proposals.thy ===== *)
theory Erc20_Proposals
  imports Erc20_Convert
begin

text \<open>
  Governance of the erc20 module: registration of coins and tokens, the metadata of a registered
  token, switching a pair on and off (\<open>x/erc20/keeper/proposals.go\<close>), the helper functions of
  \<open>x/erc20/types/utils.go\<close>, the proposals with their stateless checks (\<open>x/erc20/types/proposal.go\<close>), the
  proposal handler (\<open>x/erc20/proposal_handler.go\<close>) and the queries (\<open>x/erc20/keeper/grpc_query.go\<close>).
\<close>

section \<open>Names\<close>

definition is_digit :: "char \<Rightarrow> bool" where
  "is_digit x \<longleftrightarrow> 48 \<le> (of_char x :: nat) \<and> (of_char x :: nat) \<le> 57"

definition is_letter :: "char \<Rightarrow> bool" where
  "is_letter x \<longleftrightarrow> 65 \<le> (of_char x :: nat) \<and> (of_char x :: nat) \<le> 90 \<or>
     97 \<le> (of_char x :: nat) \<and> (of_char x :: nat) \<le> 122"

text \<open>
  The expression \<open>(?m)^(\d+)\<close>: digits at the start of a line are deleted. The first argument says
  whether the position is at the start of a line or in such a run of digits.
\<close>

fun strip_digits :: "bool \<Rightarrow> string \<Rightarrow> string" where
  "strip_digits at_start [] = []"
| "strip_digits at_start (x # xs) =
     (if at_start \<and> is_digit x then strip_digits True xs
      else x # strip_digits (x = CHR 0x0A) xs)"

definition removeLeadingNumbers :: "string \<Rightarrow> string" where
  "removeLeadingNumbers str = strip_digits True str"

text \<open>The expression \<open>^[^A-Za-z]|[^a-zA-Z0-9/-]\<close>: one character that is no letter is deleted at the start.\<close>

definition name_char :: "char \<Rightarrow> bool" where
  "name_char x \<longleftrightarrow> is_letter x \<or> is_digit x \<or> x = CHR ''/'' \<or> x = CHR ''-''"

definition removeSpecialChars :: "string \<Rightarrow> string" where
  "removeSpecialChars str = (case str of
     [] \<Rightarrow> []
   | x # xs \<Rightarrow> if is_letter x then x # filter name_char xs else filter name_char xs)"

function removeInvalidPrefixes :: "string \<Rightarrow> string" where
  "removeInvalidPrefixes str =
     (if HasPrefix str ''ibc/'' then removeInvalidPrefixes (drop 4 str)
      else if HasPrefix str ''erc20/'' then removeInvalidPrefixes (drop 6 str)
      else str)"
  by auto

lemma HasPrefix_length: "HasPrefix s p \<Longrightarrow> length p \<le> length s"
  by (auto simp: HasPrefix_iff)

termination removeInvalidPrefixes
proof (relation "measure length")
  show "HasPrefix str ''ibc/'' \<Longrightarrow> (drop 4 str, str) \<in> measure length" for str
    using HasPrefix_length [of str "''ibc/''"] by simp
  show "\<not> HasPrefix str ''ibc/'' \<Longrightarrow> HasPrefix str ''erc20/'' \<Longrightarrow> (drop 6 str, str) \<in> measure length" for str
    using HasPrefix_length [of str "''erc20/''"] by simp
qed simp

declare removeInvalidPrefixes.simps [simp del]

definition SanitizeERC20Name :: "string \<Rightarrow> string" where
  "SanitizeERC20Name name0 =
     (let name1 = removeLeadingNumbers name0;
          name2 = removeSpecialChars name1;
          name3 = (if 128 < length name2 then take 128 name2 else name2)
      in removeInvalidPrefixes name3)"

section \<open>Metadata\<close>

fun EqualStringSlice_loop :: "string list \<Rightarrow> string list \<Rightarrow> bool" where
  "EqualStringSlice_loop (a # as) (b # bs) = (if a \<noteq> b then False else EqualStringSlice_loop as bs)"
| "EqualStringSlice_loop _ _ = True"

definition EqualStringSlice :: "string list \<Rightarrow> string list \<Rightarrow> bool" where
  "EqualStringSlice aliasesA aliasesB =
     (if length aliasesA \<noteq> length aliasesB then False else EqualStringSlice_loop aliasesA aliasesB)"

fun equal_units :: "denom_unit list \<Rightarrow> denom_unit list \<Rightarrow> unit result" where
  "equal_units (u # us) (v # vs) =
     (if du_Exponent u \<noteq> du_Exponent v \<or> du_Denom u \<noteq> du_Denom v \<or> \<not> EqualStringSlice (du_Aliases u) (du_Aliases v)
      then Err (Errorf ''metadata provided has different denom unit from stored'') else equal_units us vs)"
| "equal_units _ _ = Ok ()"

definition EqualMetadata :: "metadata \<Rightarrow> metadata \<Rightarrow> unit result" where
  "EqualMetadata a b =
     (if md_Base a = md_Base b \<and> md_Description a = md_Description b \<and> md_Display a = md_Display b \<and>
         md_Name a = md_Name b \<and> md_Symbol a = md_Symbol b
      then if length (md_DenomUnits a) \<noteq> length (md_DenomUnits b)
           then Err (Errorf ''metadata provided has different denom units from stored'')
           else equal_units (md_DenomUnits a) (md_DenomUnits b)
      else Err (Errorf ''metadata provided is different from stored''))"

definition CreateDenomDescription :: "string \<Rightarrow> string" where
  "CreateDenomDescription addr = ''Cosmos coin token representation of '' @ addr"

definition CreateDenom :: "string \<Rightarrow> string" where
  "CreateDenom addr = ''erc20/'' @ addr"

definition verifyMetadata :: "'w env \<Rightarrow> metadata \<Rightarrow> ('w ctx, unit) go" where
  "verifyMetadata E coinMetadata =
     bind (gets (\<lambda>c. GetDenomMetaData (bank E) (md_Base coinMetadata) (world c))) (\<lambda>found. case found of
       None \<Rightarrow> modify (\<lambda>c. c\<lparr>world := SetDenomMetaData (bank E) coinMetadata (world c)\<rparr>)
     | Some meta \<Rightarrow> lift (EqualMetadata meta coinMetadata))"

text \<open>The metadata of a token, from its contract address and what the contract says of itself.\<close>

definition erc20_metadata :: "string \<Rightarrow> ERC20Data \<Rightarrow> metadata" where
  "erc20_metadata strContract erc20Data =
     (let base = CreateDenom strContract;
          md = \<lparr>md_Description = CreateDenomDescription strContract,
                md_DenomUnits = [\<lparr>du_Denom = base, du_Exponent = 0, du_Aliases = []\<rparr>],
                md_Base = base, md_Display = base, md_Name = CreateDenom strContract, md_Symbol = erc20_Symbol erc20Data\<rparr>
      in if 0 < erc20_Decimals erc20Data then
           (let nameSanitized = SanitizeERC20Name (erc20_Name erc20Data) in
            md\<lparr>md_DenomUnits := md_DenomUnits md @
                 [\<lparr>du_Denom = nameSanitized, du_Exponent = ucast (erc20_Decimals erc20Data), du_Aliases = []\<rparr>],
               md_Display := nameSanitized\<rparr>)
         else md)"

definition CreateCoinMetadata :: "'w env \<Rightarrow> address \<Rightarrow> ('w ctx, metadata) go" where
  "CreateCoinMetadata E contract =
     (let strContract = Address_Hex (libs E) contract in
      bind (QueryERC20 E contract) (\<lambda>erc20Data.
      bind (gets (\<lambda>c. GetDenomMetaData (bank E) (CreateDenom strContract) (world c))) (\<lambda>found.
      if found \<noteq> None then fail ErrInternalTokenPair
      else bind (gets (IsDenomRegistered (CreateDenom strContract))) (\<lambda>registered.
        if registered then fail ErrInternalTokenPair
        else let md = erc20_metadata strContract erc20Data in
          seq (lift (Metadata_Validate (math E) md))
          (seq (modify (\<lambda>c. c\<lparr>world := SetDenomMetaData (bank E) md (world c)\<rparr>))
           (ret md))))))"

section \<open>Registration\<close>

definition RegisterCoin :: "'w env \<Rightarrow> metadata \<Rightarrow> ('w ctx, TokenPair) go" where
  "RegisterCoin E coinMetadata =
     bind (reads erc20_GetParams) (\<lambda>params.
     if \<not> EnableErc20 params then fail ErrERC20Disabled
     else if Contains (md_Base coinMetadata) ''CANTO'' then fail ErrEVMDenom
     else bind (gets (IsDenomRegistered (md_Name coinMetadata))) (\<lambda>registered.
       if registered then fail ErrTokenPairAlreadyExists
       else bind (gets (\<lambda>c. HasSupply (bank E) (md_Base coinMetadata) (world c))) (\<lambda>supply.
         if \<not> supply then fail ErrInvalidCoins
         else seq (wrap_as ErrInternalTokenPair (verifyMetadata E coinMetadata))
           (bind (DeployERC20Contract E coinMetadata) (\<lambda>addr.
            let pair = NewTokenPair (libs E) addr (md_Base coinMetadata) True OWNER_MODULE in
            seq (put_pair (libs E) pair) (ret pair))))))"

definition RegisterERC20 :: "'w env \<Rightarrow> address \<Rightarrow> ('w ctx, TokenPair) go" where
  "RegisterERC20 E contract =
     bind (reads erc20_GetParams) (\<lambda>params.
     if \<not> EnableErc20 params then fail ErrERC20Disabled
     else bind (gets (IsERC20Registered contract)) (\<lambda>registered.
       if registered then fail ErrTokenPairAlreadyExists
       else bind (CreateCoinMetadata E contract) (\<lambda>md.
         let pair = NewTokenPair (libs E) contract (md_Name md) True OWNER_EXTERNAL in
         seq (put_pair (libs E) pair) (ret pair))))"

definition ToggleConversion :: "'w env \<Rightarrow> string \<Rightarrow> ('w ctx, TokenPair) go" where
  "ToggleConversion E token =
     bind (gets (GetTokenPairID (libs E) token)) (\<lambda>pid.
     if (case pid of None \<Rightarrow> True | Some k \<Rightarrow> length k = 0) then fail ErrTokenPairNotFound
     else bind (reads (GetTokenPair pid)) (\<lambda>found. case found of
         None \<Rightarrow> fail ErrTokenPairNotFound
       | Some pair \<Rightarrow>
           let pair' = pair\<lparr>Enabled := \<not> Enabled pair\<rparr> in
           seq (SetTokenPair (libs E) pair') (ret pair')))"

section \<open>Proposals\<close>

datatype erc20_content =
    RegisterCoinProposal string string metadata
  | RegisterERC20Proposal string string string
  | ToggleTokenConversionProposal string string string
  | OtherContent

fun erc20_ProposalRoute :: "erc20_content \<Rightarrow> string" where
  "erc20_ProposalRoute (RegisterCoinProposal _ _ _) = ''erc20''"
| "erc20_ProposalRoute (RegisterERC20Proposal _ _ _) = ''erc20''"
| "erc20_ProposalRoute (ToggleTokenConversionProposal _ _ _) = ''erc20''"
| "erc20_ProposalRoute OtherContent = []"

fun erc20_ProposalType :: "erc20_content \<Rightarrow> string" where
  "erc20_ProposalType (RegisterCoinProposal _ _ _) = ''RegisterCoin''"
| "erc20_ProposalType (RegisterERC20Proposal _ _ _) = ''RegisterERC20''"
| "erc20_ProposalType (ToggleTokenConversionProposal _ _ _) = ''ToggleTokenConversion''"
| "erc20_ProposalType OtherContent = []"

text \<open>
  \<open>strings.TrimSpace\<close> leaves nothing of a string of white space; these are its characters, the last ones
  in their encodings of two and three bytes.
\<close>

definition space1 :: "char \<Rightarrow> bool" where
  "space1 x \<longleftrightarrow> (of_char x :: nat) \<in> {9, 10, 11, 12, 13, 32}"

definition space2 :: "char \<Rightarrow> char \<Rightarrow> bool" where
  "space2 x y \<longleftrightarrow> (of_char x :: nat) = 194 \<and> (of_char y :: nat) \<in> {133, 160}"

definition space3 :: "char \<Rightarrow> char \<Rightarrow> char \<Rightarrow> bool" where
  "space3 x y z \<longleftrightarrow> (let b = (of_char x :: nat, of_char y :: nat, of_char z :: nat) in
     b = (225, 154, 128) \<or> fst b = 226 \<and> fst (snd b) = 128 \<and> snd (snd b) \<in> {128..138} \<union> {168, 169, 175} \<or>
     b = (226, 129, 159) \<or> b = (227, 128, 128))"

fun all_space :: "string \<Rightarrow> bool" where
  "all_space [] = True"
| "all_space (x # xs) = (space1 x \<and> all_space xs \<or>
     (case xs of [] \<Rightarrow> False | y # ys \<Rightarrow> space2 x y \<and> all_space ys \<or>
        (case ys of [] \<Rightarrow> False | z # zs \<Rightarrow> space3 x y z \<and> all_space zs)))"

definition ValidateIBCVoucherMetadata :: "metadata \<Rightarrow> unit result" where
  "ValidateIBCVoucherMetadata md =
     (let denomSplit = SplitN2 (CHR ''/'') (md_Base md) in
      if hd denomSplit = md_Base md \<and> \<not> all_space (md_Base md) then Ok ()
      else if length denomSplit \<noteq> 2 \<or> hd denomSplit \<noteq> ''ibc'' then Err (Errorf ''invalid metadata'')
      else Ok ())"

definition ValidateErc20Denom :: "lib \<Rightarrow> string \<Rightarrow> unit result" where
  "ValidateErc20Denom L denom =
     (let denomSplit = SplitN2 (CHR ''/'') denom in
      if length denomSplit \<noteq> 2 \<or> hd denomSplit \<noteq> ''erc20'' then Err (Errorf ''invalid denom'')
      else ValidateAddress L (denomSplit ! 1))"

definition RegisterCoinProposal_ValidateBasic :: "'w env \<Rightarrow> string \<Rightarrow> string \<Rightarrow> metadata \<Rightarrow> unit result" where
  "RegisterCoinProposal_ValidateBasic E title description md =
     andThen (Metadata_Validate (math E) md) (\<lambda>_.
     andThen (ValidateIBCDenom (ibc E) (md_Base md)) (\<lambda>_.
     andThen (ValidateIBCVoucherMetadata md) (\<lambda>_.
     ValidateAbstract (ibc E) title description)))"

definition RegisterERC20Proposal_ValidateBasic :: "'w env \<Rightarrow> string \<Rightarrow> string \<Rightarrow> string \<Rightarrow> unit result" where
  "RegisterERC20Proposal_ValidateBasic E title description erc20Addr =
     andThen (ValidateAddress (libs E) erc20Addr) (\<lambda>_. ValidateAbstract (ibc E) title description)"

definition ToggleTokenConversionProposal_ValidateBasic :: "'w env \<Rightarrow> string \<Rightarrow> string \<Rightarrow> string \<Rightarrow> unit result" where
  "ToggleTokenConversionProposal_ValidateBasic E title description token =
     andThen (case ValidateAddress (libs E) token of Err e \<Rightarrow> ValidateDenom (math E) token | r \<Rightarrow> r) (\<lambda>_.
     ValidateAbstract (ibc E) title description)"

definition handleRegisterCoinProposal :: "'w env \<Rightarrow> metadata \<Rightarrow> ('w ctx, unit) go" where
  "handleRegisterCoinProposal E md =
     bind (RegisterCoin E md) (\<lambda>pair.
     EmitEvent (Event ''register_coin'' [(''cosmos_coin'', AStr (Denom pair)), (''erc20_token'', AStr (Erc20Address pair))]))"

definition handleRegisterERC20Proposal :: "'w env \<Rightarrow> string \<Rightarrow> ('w ctx, unit) go" where
  "handleRegisterERC20Proposal E erc20Addr =
     bind (RegisterERC20 E (HexToAddress (libs E) erc20Addr)) (\<lambda>pair.
     EmitEvent (Event ''register_erc20'' [(''cosmos_coin'', AStr (Denom pair)), (''erc20_token'', AStr (Erc20Address pair))]))"

definition handleToggleConversionProposal :: "'w env \<Rightarrow> string \<Rightarrow> ('w ctx, unit) go" where
  "handleToggleConversionProposal E token =
     bind (ToggleConversion E token) (\<lambda>pair.
     EmitEvent (Event ''toggle_token_conversion'' [(''cosmos_coin'', AStr (Denom pair)), (''erc20_token'', AStr (Erc20Address pair))]))"

fun NewErc20ProposalHandler :: "'w env \<Rightarrow> erc20_content \<Rightarrow> ('w ctx, unit) go" where
  "NewErc20ProposalHandler E (RegisterCoinProposal _ _ md) = handleRegisterCoinProposal E md"
| "NewErc20ProposalHandler E (RegisterERC20Proposal _ _ erc20Addr) = handleRegisterERC20Proposal E erc20Addr"
| "NewErc20ProposalHandler E (ToggleTokenConversionProposal _ _ token) = handleToggleConversionProposal E token"
| "NewErc20ProposalHandler E OtherContent = fail ErrUnknownRequest"

section \<open>Queries\<close>

text \<open>
  The status codes are errors of the gRPC server. The list query is paginated by the SDK's
  \<open>query.Paginate\<close>, a parameter here: it passes the entries of one page to the callback and returns
  the page response.
\<close>

fun unmarshal_page :: "(bytes \<times> bytes) list \<Rightarrow> TokenPair list result" where
  "unmarshal_page [] = Ok []"
| "unmarshal_page ((k, bz) # rest) =
     andThen (TokenPair_Unmarshal bz) (\<lambda>tp. andThen (unmarshal_page rest) (\<lambda>tps. Ok (tp # tps)))"

definition Query_TokenPairs ::
  "((bytes \<times> bytes) list \<Rightarrow> 'p \<Rightarrow> ((bytes \<times> bytes) list \<times> 'r) result) \<Rightarrow> 'p option \<Rightarrow> 'w ctx \<Rightarrow> (TokenPair list \<times> 'r) result" where
  "Query_TokenPairs Paginate req c = (case req of
     None \<Rightarrow> Err (ExtErr ''InvalidArgument'')
   | Some p \<Rightarrow> (case Paginate (kv_prefix KeyPrefixTokenPair (kv c ''erc20'')) p of
       Ok (entries, page) \<Rightarrow> (case unmarshal_page entries of
          Ok pairs \<Rightarrow> Ok (pairs, page) | Err e \<Rightarrow> Err (ExtErr ''Internal'') | Panic m \<Rightarrow> Panic m)
     | Err e \<Rightarrow> Err (ExtErr ''Internal'')
     | Panic m \<Rightarrow> Panic m))"

definition Query_TokenPair :: "'w env \<Rightarrow> string option \<Rightarrow> 'w ctx \<Rightarrow> TokenPair result" where
  "Query_TokenPair E req c = (case req of
     None \<Rightarrow> Err (ExtErr ''InvalidArgument'')
   | Some token \<Rightarrow>
       if \<not> is_ok (ValidateAddress (libs E) token) \<and> \<not> is_ok (ValidateDenom (math E) token)
       then Err (ExtErr ''InvalidArgument'')
       else let pid = GetTokenPairID (libs E) token c in
         if (case pid of None \<Rightarrow> True | Some k \<Rightarrow> length k = 0) then Err (ExtErr ''NotFound'')
         else andThen (GetTokenPair pid c) (\<lambda>found. case found of
             None \<Rightarrow> Err (ExtErr ''NotFound'') | Some pair \<Rightarrow> Ok pair))"

definition Query_Params :: "'w ctx \<Rightarrow> erc20_params result" where
  "Query_Params c = erc20_GetParams c"

section \<open>Lemmas\<close>

subsection \<open>Names\<close>

lemma removeSpecialChars_chars: "x \<in> set (removeSpecialChars s) \<Longrightarrow> name_char x"
  by (auto simp: removeSpecialChars_def name_char_def split: list.splits if_splits)

lemma removeInvalidPrefixes_suffix: "\<exists>n. removeInvalidPrefixes s = drop n s"
proof (induction s rule: removeInvalidPrefixes.induct)
  case (1 s)
  then show ?case
    by (subst removeInvalidPrefixes.simps) (auto simp: intro: exI [of _ 0])
qed

lemma removeInvalidPrefixes_none:
  "\<not> HasPrefix (removeInvalidPrefixes s) ''ibc/''" "\<not> HasPrefix (removeInvalidPrefixes s) ''erc20/''"
proof (induction s rule: removeInvalidPrefixes.induct)
  case (1 s)
  {
    case 1
    show ?case using "1.IH" by (subst removeInvalidPrefixes.simps) auto
  next
    case 2
    show ?case using "1.IH" by (subst removeInvalidPrefixes.simps) auto
  }
qed

lemma removeInvalidPrefixes_id:
  "\<not> HasPrefix s ''ibc/'' \<Longrightarrow> \<not> HasPrefix s ''erc20/'' \<Longrightarrow> removeInvalidPrefixes s = s"
  by (subst removeInvalidPrefixes.simps) simp

lemma EqualStringSlice_iff: "EqualStringSlice xs ys \<longleftrightarrow> xs = ys"
proof -
  have "length xs = length ys \<Longrightarrow> EqualStringSlice_loop xs ys \<longleftrightarrow> xs = ys"
    by (induction xs ys rule: list_induct2) auto
  then show ?thesis by (auto simp: EqualStringSlice_def)
qed

lemma equal_units_iff: "length us = length vs \<Longrightarrow> equal_units us vs = Ok () \<longleftrightarrow> us = vs"
proof (induction us vs rule: list_induct2)
  case (Cons u us v vs)
  then show ?case by (cases u; cases v) (auto simp: EqualStringSlice_iff)
qed simp

lemma EqualMetadata_iff: "EqualMetadata a b = Ok () \<longleftrightarrow> a = b"
  by (cases a; cases b) (auto simp: EqualMetadata_def equal_units_iff)

subsection \<open>Registration and the registry\<close>

text \<open>No pair stored under the id of another one by a collision of the hash.\<close>

definition collision_free :: "lib \<Rightarrow> TokenPair \<Rightarrow> 'w ctx \<Rightarrow> bool" where
  "collision_free L tp c \<longleftrightarrow> (\<forall>t. r_pairs (reg c) (GetID L tp) = Some t \<longrightarrow> id_text t = id_text tp)"

lemma NewTokenPair_sel [simp]:
  "Erc20Address (NewTokenPair L a d b ow) = Address_Hex L a" "Denom (NewTokenPair L a d b ow) = d"
  "Enabled (NewTokenPair L a d b ow)" "ContractOwner (NewTokenPair L a d b ow) = ow"
  by (simp_all add: NewTokenPair_def)

lemma GetERC20Contract_NewTokenPair: "addr_ok L \<Longrightarrow> GetERC20Contract L (NewTokenPair L a d b ow) = a"
  by (simp add: GetERC20Contract_def addr_okD(1))

lemma fresh_NewTokenPair:
  assumes "addr_ok L" "valid_ok L M" and ok: "reg_ok L c" and "length (addr_bytes a) = 20" and "length d < 2 ^ 61"
    and "\<not> IsERC20Registered a c" and unreg: "\<not> IsDenomRegistered d c"
    and free: "collision_free L (NewTokenPair L a d b ow) c"
  shows "reg_fresh L (NewTokenPair L a d b ow) (reg c)"
proof -
  let ?tp = "NewTokenPair L a d b ow"
  have "length (Erc20Address ?tp) = 42" using addr_okD(4) [OF assms(1,4)] by simp
  moreover have "GetID L ?tp \<noteq> []"
    unfolding GetID_id_text by (rule valid_okD(3) [OF assms(2)]) (simp add: id_text_def)
  ultimately have wf: "pair_wf L ?tp"
    using addr_okD(3) [OF assms(1)] assms(5) by (auto simp: pair_wf_def)
  have "r_pairs (reg c) (GetID L ?tp) = None"
  proof (rule ccontr)
    assume "r_pairs (reg c) (GetID L ?tp) \<noteq> None"
    then obtain t where t: "r_pairs (reg c) (GetID L ?tp) = Some t" by blast
    have inv: "reg_inv L (reg c)" using ok by (simp add: reg_ok_def)
    have "CHR ''|'' \<notin> set (Erc20Address t)" using reg_invD(2) [OF inv t] by (simp add: pair_wf_def)
    moreover have "id_text t = id_text ?tp" using free t by (simp add: collision_free_def)
    ultimately have "Denom t = d"
      using wf id_text_inj [of t ?tp] by (simp add: pair_wf_def)
    then show False using reg_invD(4) [OF inv t] unreg by (simp add: index_reg)
  qed
  with wf assms(6,7) show ?thesis
    by (simp add: reg_fresh_def index_reg GetERC20Contract_NewTokenPair [OF assms(1)])
qed

lemma put_pair_snd: "put_pair L tp c = (Ok (), snd (put_pair L tp c))"
  by (simp add: put_pair_run)

lemma RegisterERC20_Ok:
  assumes "RegisterERC20 E con c = (Ok pair, c')"
  shows "\<exists>c1. only_world c c1 \<and> \<not> IsERC20Registered con c \<and>
     \<not> IsDenomRegistered (CreateDenom (Address_Hex (libs E) con)) c \<and>
     pair = NewTokenPair (libs E) con (CreateDenom (Address_Hex (libs E) con)) True OWNER_EXTERNAL \<and>
     c' = snd (put_pair (libs E) pair c1)"
proof -
  let ?d = "CreateDenom (Address_Hex (libs E) con)"
  from assms obtain md c1 where unreg: "\<not> IsERC20Registered con c" and md: "CreateCoinMetadata E con c = (Ok md, c1)"
    and pair: "NewTokenPair (libs E) con (md_Name md) True OWNER_EXTERNAL = pair" and c': "snd (put_pair (libs E) pair c1) = c'"
    by (auto simp: RegisterERC20_def Let_def put_pair_run split: if_splits)
  from md obtain dat c2 where q: "QueryERC20 E con c = (Ok dat, c2)"
    and d: "\<not> IsDenomRegistered ?d c2" and c1: "c2\<lparr>world := SetDenomMetaData (bank E) md (world c2)\<rparr> = c1"
    and m: "erc20_metadata (Address_Hex (libs E) con) dat = md"
    by (auto simp: CreateCoinMetadata_def Let_def split: if_splits)
  have ow: "only_world c c2"
    using q by (auto simp: QueryERC20_def Let_def wrap_as_Ok dest!: CallEVM_only_world) (meson only_world_trans)
  then have "only_world c c1" unfolding c1 [symmetric] by (rule only_world_trans) simp
  moreover have "\<not> IsDenomRegistered ?d c"
    using d only_worldD(1) [OF ow] by (simp add: index_reg)
  moreover have "md_Name md = ?d"
    unfolding m [symmetric] by (simp add: erc20_metadata_def Let_def)
  ultimately show ?thesis using unreg pair c' by auto
qed

lemma ToggleConversion_run:
  assumes "reg_ok (libs E) c"
  shows "ToggleConversion E token c = (case find_pair (libs E) token c of
     None \<Rightarrow> (Err ErrTokenPairNotFound, c)
   | Some pair \<Rightarrow> (Ok (pair\<lparr>Enabled := \<not> Enabled pair\<rparr>), snd (SetTokenPair (libs E) (pair\<lparr>Enabled := \<not> Enabled pair\<rparr>) c)))"
proof -
  have "k \<noteq> []" if "GetTokenPairID (libs E) token c = Some k" and "r_pairs (reg c) k = Some tp" for k tp
    using that assms(1) reg_invD(1,2) [of "libs E" "reg c" k tp] by (auto simp: reg_ok_def pair_wf_def)
  then show ?thesis
    using lookup_token [OF assms, of token]
    by (cases "GetTokenPairID (libs E) token c")
      (auto simp: ToggleConversion_def find_pair_def bind_def Let_def SetTokenPair_run split: option.splits)
qed

lemma DeployERC20Contract_Ok:
  assumes "DeployERC20Contract E md c = (Ok con, c')"
  shows "only_world c c'"
  using assms by (auto simp: DeployERC20Contract_def Let_def dest: CallEVMWithData_Ok(1))

lemma verifyMetadata_Ok:
  assumes "verifyMetadata E md c = (Ok u, c')"
  shows "only_world c c'"
    and "GetDenomMetaData (bank E) (md_Base md) (world c) = Some stored \<Longrightarrow> stored = md \<and> c' = c"
  using assms by (auto simp: verifyMetadata_def EqualMetadata_iff split: option.splits)

lemma RegisterCoin_Ok:
  assumes "RegisterCoin E md c = (Ok pair, c')"
  shows "\<exists>c1 con. only_world c c1 \<and> \<not> IsDenomRegistered (md_Name md) c \<and>
     pair = NewTokenPair (libs E) con (md_Base md) True OWNER_MODULE \<and> c' = snd (put_pair (libs E) pair c1)"
proof -
  from assms obtain con c0 c1 where unreg: "\<not> IsDenomRegistered (md_Name md) c"
    and v: "verifyMetadata E md c = (Ok (), c0)" and d: "DeployERC20Contract E md c0 = (Ok con, c1)"
    and pair: "NewTokenPair (libs E) con (md_Base md) True OWNER_MODULE = pair" and c': "snd (put_pair (libs E) pair c1) = c'"
    by (auto simp: RegisterCoin_def Let_def put_pair_run split: if_splits)
  from only_world_trans [OF verifyMetadata_Ok(1) [OF v] DeployERC20Contract_Ok [OF d]] unreg pair c' show ?thesis by auto
qed

text \<open>What a registration promises: the new pair is found under its own names and nothing else changes.\<close>

definition registered :: "lib \<Rightarrow> TokenPair \<Rightarrow> 'w ctx \<Rightarrow> 'w ctx \<Rightarrow> bool" where
  "registered L pair c c' \<longleftrightarrow> reg_ok L c' \<and> prm c' = prm c \<and> evs c' = evs c \<and>
     (\<forall>token. find_pair L token c' = (if names L pair token then Some pair else find_pair L token c))"

lemma registered_put_pair:
  assumes ok: "reg_ok L c" and fresh: "reg_fresh L pair (reg c)" and ow: "only_world c c1"
  shows "registered L pair c (snd (put_pair L pair c1))"
proof -
  note kv = only_worldD [OF ow]
  have ok1: "reg_ok L c1" using ok reg_ok_cong [of c1 c L] by (simp add: kv)
  have fresh1: "reg_fresh L pair (reg c1)" using fresh by (simp add: kv)
  show ?thesis
    using erc20_registry.inv_register [OF ok1 fresh1] erc20_registry.find_register [OF ok1 fresh1] find_pair_cong [of c1 c L]
    by (simp add: registered_def kv) (simp add: put_pair_run kv)
qed

section \<open>Properties\<close>

text \<open>
  C23: Whatever a token contract says its name is, the denomination made of it has at most 128
  characters, all of them letters, digits, slashes or dashes, and does not start with the reserved
  prefixes of IBC vouchers and of the module's own denominations.
\<close>

theorem SanitizeERC20Name_safe:
  "length (SanitizeERC20Name s) \<le> 128 \<and> list_all name_char (SanitizeERC20Name s) \<and>
   \<not> HasPrefix (SanitizeERC20Name s) ''ibc/'' \<and> \<not> HasPrefix (SanitizeERC20Name s) ''erc20/''"
proof -
  define t where "t = (if 128 < length (removeSpecialChars (removeLeadingNumbers s))
     then take 128 (removeSpecialChars (removeLeadingNumbers s)) else removeSpecialChars (removeLeadingNumbers s))"
  have t: "length t \<le> 128" "set t \<subseteq> set (removeSpecialChars (removeLeadingNumbers s))"
    by (auto simp: t_def dest: in_set_takeD)
  obtain n where n: "removeInvalidPrefixes t = drop n t" using removeInvalidPrefixes_suffix by blast
  have s: "SanitizeERC20Name s = removeInvalidPrefixes t"
    by (simp add: SanitizeERC20Name_def t_def Let_def)
  have "length (drop n t) \<le> 128" using t(1) by simp
  moreover have "list_all name_char (drop n t)"
    using t(2) removeSpecialChars_chars by (fastforce simp: list_all_iff dest: in_set_dropD)
  ultimately show ?thesis unfolding s using removeInvalidPrefixes_none [of t] by (simp add: n)
qed

text \<open>
  The comparison of a coin's metadata with the stored metadata succeeds exactly when the two are
  the same, alias lists and units included, and it never panics.
\<close>

theorem EqualMetadata_exact:
  "(EqualMetadata a b = Ok () \<longleftrightarrow> a = b) \<and> EqualMetadata a b \<noteq> Panic p"
proof -
  have "length us = length vs \<Longrightarrow> equal_units us vs \<noteq> Panic p" for us vs
    by (induction us vs rule: list_induct2) auto
  then have "EqualMetadata a b \<noteq> Panic p" by (simp add: EqualMetadata_def)
  then show ?thesis by (simp add: EqualMetadata_iff)
qed

lemma RegisterERC20_registers:
  assumes laws: "addr_ok (libs E)" "valid_ok (libs E) (math E)" and ok: "reg_ok (libs E) c"
    and con: "length (addr_bytes con) = 20"
    and free: "collision_free (libs E) (NewTokenPair (libs E) con (CreateDenom (Address_Hex (libs E) con)) True OWNER_EXTERNAL) c"
    and run: "RegisterERC20 E con c = (Ok pair, c')"
  shows "registered (libs E) pair c c' \<and> \<not> IsERC20Registered con c \<and> \<not> IsDenomRegistered (Denom pair) c \<and>
     GetERC20Contract (libs E) pair = con \<and> Denom pair = ''erc20/'' @ Address_Hex (libs E) con \<and>
     Enabled pair \<and> IsNativeERC20 pair"
proof -
  from RegisterERC20_Ok [OF run] obtain c1 where ow: "only_world c c1" and unreg: "\<not> IsERC20Registered con c"
    "\<not> IsDenomRegistered (CreateDenom (Address_Hex (libs E) con)) c"
    and pair: "pair = NewTokenPair (libs E) con (CreateDenom (Address_Hex (libs E) con)) True OWNER_EXTERNAL"
    and c': "c' = snd (put_pair (libs E) pair c1)" by blast
  have "length (CreateDenom (Address_Hex (libs E) con)) < 2 ^ 61"
    by (simp add: CreateDenom_def addr_okD(4) [OF laws(1) con])
  from fresh_NewTokenPair [OF laws ok con this unreg free] have "reg_fresh (libs E) pair (reg c)"
    by (simp add: pair)
  from registered_put_pair [OF ok this ow] unreg show ?thesis
    by (simp add: c' pair GetERC20Contract_NewTokenPair [OF laws(1)] IsNativeERC20_def CreateDenom_def)
qed

text \<open>
  C20: A successful registration of a token contract adds exactly one pair: the contract with the
  denomination made of its address, enabled and owned by the contract. The registry invariant is
  kept, every name of the new pair finds it, every other name finds what it found before, and
  neither name was in use. (The contract has an address of 20 bytes, and the hash of the new pair
  is not the id of a different pair.)
\<close>

theorem RegisterERC20_exact:
  assumes laws: "addr_ok (libs E)" "valid_ok (libs E) (math E)" and ok: "reg_ok (libs E) c"
    and con: "length (addr_bytes con) = 20"
    and free: "collision_free (libs E) (NewTokenPair (libs E) con (CreateDenom (Address_Hex (libs E) con)) True OWNER_EXTERNAL) c"
    and run: "RegisterERC20 E con c = (Ok pair, c')"
  shows "registered (libs E) pair c c' \<and> \<not> IsERC20Registered con c \<and> \<not> IsDenomRegistered (Denom pair) c \<and>
     GetERC20Contract (libs E) pair = con \<and> Denom pair = ''erc20/'' @ Address_Hex (libs E) con \<and>
     Enabled pair \<and> IsNativeERC20 pair"
  by (rule RegisterERC20_registers [OF assms])

lemma RegisterCoin_registers:
  assumes laws: "addr_ok (libs E)" "valid_ok (libs E) (math E)" and ok: "reg_ok (libs E) c"
    and len: "length (md_Base md) < 2 ^ 61" and base: "\<not> IsDenomRegistered (md_Base md) c"
    and con: "length (addr_bytes (GetERC20Contract (libs E) pair)) = 20" "\<not> IsERC20Registered (GetERC20Contract (libs E) pair) c"
    and free: "collision_free (libs E) pair c" and run: "RegisterCoin E md c = (Ok pair, c')"
  shows "registered (libs E) pair c c' \<and> Denom pair = md_Base md \<and> Enabled pair \<and> IsNativeCoin pair"
proof -
  from RegisterCoin_Ok [OF run] obtain c1 a where ow: "only_world c c1"
    and pair: "pair = NewTokenPair (libs E) a (md_Base md) True OWNER_MODULE"
    and c': "c' = snd (put_pair (libs E) pair c1)" by blast
  have a: "GetERC20Contract (libs E) pair = a" by (simp add: pair GetERC20Contract_NewTokenPair [OF laws(1)])
  from fresh_NewTokenPair [OF laws ok con(1) [unfolded a] len con(2) [unfolded a] base free [unfolded pair]]
  have "reg_fresh (libs E) pair (reg c)" by (simp add: pair)
  from registered_put_pair [OF ok this ow] show ?thesis
    by (simp add: c' pair IsNativeCoin_def)
qed


text \<open>
  C22: Toggling an unknown token is the error \<open>ErrTokenPairNotFound\<close> and changes nothing. Toggling a
  registered one keeps the registry invariant and switches the pair that the token names, and no
  other; toggling it a second time makes every lookup what it was at the start.
\<close>

theorem ToggleConversion_exact:
  assumes "reg_ok (libs E) c"
  shows "case find_pair (libs E) token c of
     None \<Rightarrow> ToggleConversion E token c = (Err ErrTokenPairNotFound, c)
   | Some pair \<Rightarrow> \<exists>c1 c2. ToggleConversion E token c = (Ok (pair\<lparr>Enabled := \<not> Enabled pair\<rparr>), c1) \<and>
       reg_ok (libs E) c1 \<and> world c1 = world c \<and> prm c1 = prm c \<and>
       (\<forall>t. find_pair (libs E) t c1 =
          (if names (libs E) pair t then Some (pair\<lparr>Enabled := \<not> Enabled pair\<rparr>) else find_pair (libs E) t c)) \<and>
       ToggleConversion E token c1 = (Ok pair, c2) \<and> (\<forall>t. find_pair (libs E) t c2 = find_pair (libs E) t c)"
proof (cases "find_pair (libs E) token c")
  case None
  then show ?thesis by (simp add: ToggleConversion_run [OF assms])
next
  case (Some pair)
  let ?p = "pair\<lparr>Enabled := \<not> Enabled pair\<rparr>"
  let ?c = "snd (SetTokenPair (libs E) ?p c)"
  have ok: "reg_ok (libs E) ?c" by (rule erc20_registry.inv_enable [OF assms Some])
  have find: "find_pair (libs E) t ?c = (if names (libs E) pair t then Some ?p else find_pair (libs E) t c)" for t
    by (rule erc20_registry.find_enable [OF assms Some])
  have named: "names (libs E) pair t \<longleftrightarrow> find_pair (libs E) t c = Some pair" for t
    by (rule erc20_registry.find_naming [OF assms Some])
  have Some1: "find_pair (libs E) token ?c = Some ?p" using find [of token] named [of token] Some by simp
  have "?p\<lparr>Enabled := \<not> Enabled ?p\<rparr> = pair" by simp
  then have "ToggleConversion E token ?c = (Ok pair, snd (SetTokenPair (libs E) pair ?c))"
    using ToggleConversion_run [OF ok, of token] by (simp add: Some1)
  moreover have "find_pair (libs E) t (snd (SetTokenPair (libs E) pair ?c)) = find_pair (libs E) t c" for t
    using erc20_registry.find_enable [OF ok Some1, of t "Enabled pair"] find [of t] named [of t] by simp
  moreover have "world ?c = world c" "prm ?c = prm c" by (simp_all add: SetTokenPair_run)
  ultimately show ?thesis
    using ok find by (simp add: Some ToggleConversion_run [OF assms])
qed

section \<open>Witnesses\<close>

lemma c_collision_free:
  assumes "reg_ok c_lib c"
  shows "collision_free c_lib tp c"
proof -
  have inv: "reg_inv c_lib (reg c)" using assms by (simp add: reg_ok_def)
  have "id_text t = id_text tp" if "r_pairs (reg c) (GetID c_lib tp) = Some t" for t
    using reg_invD(1) [OF inv that] by (simp add: GetID_id_text c_lib_def)
  then show ?thesis by (simp add: collision_free_def)
qed

lemma storable_c_tp: "storable c_tp"
  by (rule pair_wf_storable [of c_lib]) (simp add: pair_wf_def c_tp_def GetID_def c_lib_def)

lemma c_index:
  "IsERC20Registered a (c_conv_ctx c_tp w) \<longleftrightarrow> a = Addr ''j''"
  "IsDenomRegistered d (c_conv_ctx c_tp w) \<longleftrightarrow> d = ''acoin''"
  by (simp_all add: index_reg reg_put_pair [OF storable_c_tp] reg_insert_def c_addresses)
    (simp_all add: registry_of_def by_erc20.lookup_def by_denom.lookup_def)

lemma c_QueryERC20: "\<exists>dat. QueryERC20 c_env con c = (Ok dat, c)"
proof -
  have q: "CallEVM c_env ab fr con False meth [] c = (Ok (c_reply False ''Tok''), c)" if "CHR '':'' \<notin> set meth" "meth \<noteq> ''Version''" for ab fr con meth c
    using that by (simp add: CallEVM_def CallEVMWithData_def bind_def wrap_as_def ext_def c_evm_def c_acct_def c_apply_def
        c_pack_def c_call_def SplitN2_shape c_reply_def)
  have u: "unpack_string c_env ''name'' b = Ok b" "unpack_string c_env ''symbol'' b = Ok b"
    "unpack_uint8 c_env ''decimals'' b = Ok (of_nat (length b))" for b
    by (simp_all add: unpack_string_def unpack_uint8_def c_evm_def c_unpack_def)
  show ?thesis by (simp add: QueryERC20_def Let_def bind_def wrap_as_def q u)
qed

lemma c_RegisterERC20:
  "\<exists>pair c'. RegisterERC20 c_env (Addr c_long) (c_conv_ctx c_tp c_world) = (Ok pair, c')"
proof -
  obtain dat where q: "QueryERC20 c_env (Addr c_long) (c_conv_ctx c_tp c_world) = (Ok dat, c_conv_ctx c_tp c_world)"
    using c_QueryERC20 by blast
  have m: "GetDenomMetaData c_bank d c_world = None" "Metadata_Validate c_math md = Ok ()" for d md
    by (simp_all add: c_bank_def c_world_def c_math_def)
  have n: "c_long \<noteq> ''j''" "CreateDenom (Address_Hex c_lib (Addr c_long)) \<noteq> ''acoin''"
    by (auto simp: c_long_def CreateDenom_def dest: arg_cong [of _ _ length])
  define f where "f tp c = snd (put_pair c_lib tp c)" for tp and c :: "ledger ctx"
  have "put_pair c_lib tp c = (Ok (), f tp c)" for tp and c :: "ledger ctx"
    unfolding f_def by (rule put_pair_snd)
  then show ?thesis
    by (simp add: RegisterERC20_def bind_def c_GetParams CreateCoinMetadata_def Let_def q m c_index n)
qed

theorem RegisterERC20_exact_witness:
  "\<exists>pair (c' :: ledger ctx). RegisterERC20 c_env (Addr c_long) (c_conv_ctx c_tp c_world) = (Ok pair, c') \<and>
     registered c_lib pair (c_conv_ctx c_tp c_world) c' \<and> GetERC20Contract c_lib pair = Addr c_long"
proof -
  obtain pair c' where run: "RegisterERC20 c_env (Addr c_long) (c_conv_ctx c_tp c_world) = (Ok pair, c')"
    using c_RegisterERC20 by blast
  have "length c_long = 20" by (simp add: c_long_def)
  with RegisterERC20_exact [OF _ _ _ _ _ run] run show ?thesis
    by (auto simp: c_addr_ok c_valid_ok reg_ok_c_conv_ctx c_collision_free)
qed

definition c_metadata :: "string \<Rightarrow> metadata" where
  "c_metadata d = \<lparr>md_Description = ''A coin'', md_DenomUnits = [], md_Base = d, md_Display = d, md_Name = ''Coin'', md_Symbol = ''C''\<rparr>"

definition c_new_contract :: address where
  "c_new_contract = Addr ''module:erc20/contrac''"

lemma c_Deploy: "DeployERC20Contract c_env md c = (Ok c_new_contract, c)"
proof -
  have "addr_bytes (erc20_ModuleAddress c_lib) = ''module:erc20''" by code_simp
  then show ?thesis
    by (simp add: DeployERC20Contract_def CallEVMWithData_def Let_def bind_def wrap_as_def ext_def c_evm_def c_acct_def c_apply_def
        c_reply_def c_new_contract_def) (simp add: c_lib_def)
qed

lemma c_RegisterCoin:
  assumes "\<not> Contains d ''CANTO''"
  shows "\<exists>c1. only_world (c_conv_ctx c_tp c_world) c1 \<and>
     RegisterCoin c_env (c_metadata d) (c_conv_ctx c_tp c_world) =
       (Ok (NewTokenPair c_lib c_new_contract d True OWNER_MODULE),
        snd (put_pair c_lib (NewTokenPair c_lib c_new_contract d True OWNER_MODULE) c1))"
proof -
  have m: "GetDenomMetaData c_bank d c_world = None" and h: "HasSupply c_bank d c_world" by (simp_all add: c_bank_def c_world_def)
  define f where "f tp c = snd (put_pair c_lib tp c)" for tp and c :: "ledger ctx"
  have f: "put_pair c_lib tp c = (Ok (), f tp c)" for tp and c :: "ledger ctx"
    unfolding f_def by (rule put_pair_snd)
  show ?thesis
    using assms unfolding f_def [symmetric]
    by (intro exI [of _ "c_conv_ctx c_tp c_world\<lparr>world := SetDenomMetaData c_bank (c_metadata d) c_world\<rparr>"] conjI)
      (simp_all add: RegisterCoin_def bind_def c_GetParams c_index c_metadata_def h verifyMetadata_def wrap_as_def m
        c_Deploy Let_def f)
qed


theorem ToggleConversion_exact_witness:
  "\<exists>(c1 :: ledger ctx). ToggleConversion c_env ''acoin'' (c_conv_ctx c_tp c_world) = (Ok (c_tp\<lparr>Enabled := False\<rparr>), c1) \<and>
     find_pair c_lib ''acoin'' c1 = Some (c_tp\<lparr>Enabled := False\<rparr>) \<and> reg_ok c_lib c1"
  using ToggleConversion_exact [of c_env "c_conv_ctx c_tp c_world" "''acoin''"]
  by (auto simp: reg_ok_c_conv_ctx find_c_conv_ctx names_c_tp) (auto simp: c_tp_def)

section \<open>Findings\<close>

text \<open>
  \<open>RegisterCoin\<close> checks that the name of the coin is not registered, and then registers its base
  denomination: a denomination that has a pair already gets a second one, and the pair that still
  answers to the old contract no longer answers to its denomination.
\<close>

lemma RegisterCoin_overwrites:
  "\<exists>pair (c' :: ledger ctx). RegisterCoin c_env (c_metadata ''acoin'') (c_conv_ctx c_tp c_world) = (Ok pair, c') \<and> pair \<noteq> c_tp \<and>
     find_pair c_lib ''acoin'' c' = Some pair \<and> find_pair c_lib (Erc20Address c_tp) c' = Some c_tp \<and> Denom pair = Denom c_tp"
proof -
  let ?p = "NewTokenPair c_lib c_new_contract ''acoin'' True OWNER_MODULE"
  obtain c1 where ow: "only_world (c_conv_ctx c_tp c_world) c1" and
    run: "RegisterCoin c_env (c_metadata ''acoin'') (c_conv_ctx c_tp c_world) = (Ok ?p, snd (put_pair c_lib ?p c1))"
    using c_RegisterCoin [of "''acoin''"] by (auto simp: HasPrefix_def)
  have "length (Erc20Address ?p) = 42" "CHR ''|'' \<notin> set (Erc20Address ?p)" "GetID c_lib ?p \<noteq> []"
    by (simp_all add: addr_okD [OF c_addr_ok] c_new_contract_def) (simp add: GetID_def c_lib_def)
  then have st: "storable ?p" by (intro pair_wf_storable [of c_lib]) (auto simp: pair_wf_def)
  have ne: "Erc20Address ?p \<noteq> Erc20Address c_tp" and ids: "GetID c_lib ?p \<noteq> GetID c_lib c_tp"
    by code_simp+
  have hex: "IsHexAddress c_lib (Erc20Address c_tp)" "\<not> IsHexAddress c_lib ''acoin''" "c_new_contract \<noteq> Addr ''j''"
    by code_simp+
  show ?thesis
    using run ne ids hex only_worldD(1) [OF ow]
    by (auto simp: find_pair_def GetTokenPairID_reg reg_put_pair [OF st] reg_put_pair [OF storable_c_tp] reg_insert_def
        GetERC20Contract_NewTokenPair [OF c_addr_ok] c_addresses)
qed

text \<open>Sanitizing is not idempotent: one character that is no letter goes away at a time.\<close>

lemma SanitizeERC20Name_not_idempotent:
  "SanitizeERC20Name ''--a'' = ''-a'' \<and> SanitizeERC20Name ''-a'' = ''a''"
  by code_simp

end
