(* ===== verification/Erc20_Msg.thy ===== *)
theory Erc20_Msg
  imports Erc20_Proposals
begin

text \<open>
  The messages of the erc20 module (\<open>x/erc20/types/msg.go\<close>): constructors, stateless checks and
  signers, and the module's legacy handler (\<open>x/erc20/handler.go\<close>).
\<close>

section \<open>Constructors\<close>

definition erc20_RouterKey :: string where "erc20_RouterKey = ''erc20''"

definition NewMsgConvertCoin :: "lib \<Rightarrow> coin \<Rightarrow> address \<Rightarrow> bytes \<Rightarrow> msg" where
  "NewMsgConvertCoin L x receiver sender = MsgConvertCoin x (Address_Hex L receiver) (AccAddress_String L sender)"

definition NewMsgConvertERC20 :: "lib \<Rightarrow> int \<Rightarrow> bytes \<Rightarrow> address \<Rightarrow> address \<Rightarrow> msg" where
  "NewMsgConvertERC20 L amt receiver contract sender =
     MsgConvertERC20 (Address_Hex L contract) amt (AccAddress_String L receiver) (Address_Hex L sender)"

definition NewMsgSendCoinToEVM :: "lib \<Rightarrow> coin \<Rightarrow> bytes \<Rightarrow> msg" where
  "NewMsgSendCoinToEVM L x sender = MsgSendCoinToEVM x (AccAddress_String L sender)"

definition NewMsgSendERC20ToCosmos :: "lib \<Rightarrow> int \<Rightarrow> address \<Rightarrow> address \<Rightarrow> msg" where
  "NewMsgSendERC20ToCosmos L amt contract sender =
     MsgSendERC20ToCosmos (Address_Hex L contract) amt (Address_Hex L sender)"

definition NewMsgSendERC20ToCosmosAndIBCTransfer ::
  "lib \<Rightarrow> int \<Rightarrow> address \<Rightarrow> address \<Rightarrow> string \<Rightarrow> string \<Rightarrow> bytes \<Rightarrow> msg" where
  "NewMsgSendERC20ToCosmosAndIBCTransfer L amt contract sender destPort destChannel destReceiver =
     MsgSendERC20ToCosmosAndIBCTransfer (Address_Hex L contract) amt (Address_Hex L sender) destPort destChannel
       (AccAddress_String L destReceiver)"

fun erc20_msg_Type :: "msg \<Rightarrow> string" where
  "erc20_msg_Type (MsgConvertCoin _ _ _) = ''convert_coin''"
| "erc20_msg_Type (MsgConvertERC20 _ _ _ _) = ''convert_ERC20''"
| "erc20_msg_Type (MsgSendCoinToEVM _ _) = ''send_coin_to_evm''"
| "erc20_msg_Type (MsgSendERC20ToCosmos _ _ _) = ''send_ERC20_to_cosmos''"
| "erc20_msg_Type (MsgSendERC20ToCosmosAndIBCTransfer _ _ _ _ _ _) = ''send_ERC20_to_cosmos_and_ibc_transfer''"
| "erc20_msg_Type _ = []"

section \<open>Stateless checks\<close>

text \<open>The denomination is one of the module's own, or else acceptable to IBC.\<close>

definition validate_coin_denom :: "'w env \<Rightarrow> string \<Rightarrow> unit result" where
  "validate_coin_denom E denom = (case ValidateErc20Denom (libs E) denom of
     Err e \<Rightarrow> ValidateIBCDenom (ibc E) denom | r \<Rightarrow> r)"

definition MsgConvertCoin_ValidateBasic :: "'w env \<Rightarrow> coin \<Rightarrow> string \<Rightarrow> string \<Rightarrow> unit result" where
  "MsgConvertCoin_ValidateBasic E mcoin receiver sender =
     andThen (validate_coin_denom E (coin_denom mcoin)) (\<lambda>_.
     andThen (guard (0 < coin_amount mcoin) ErrInvalidCoins) (\<lambda>_.
     andThen (AccAddressFromBech32 (libs E) sender) (\<lambda>_.
     guard (IsHexAddress (libs E) receiver) ErrInvalidAddress)))"

definition MsgConvertERC20_ValidateBasic :: "'w env \<Rightarrow> string \<Rightarrow> int \<Rightarrow> string \<Rightarrow> string \<Rightarrow> unit result" where
  "MsgConvertERC20_ValidateBasic E contract amt receiver sender =
     andThen (guard (IsHexAddress (libs E) contract) ErrInvalidAddress) (\<lambda>_.
     andThen (guard (0 < amt) ErrInvalidCoins) (\<lambda>_.
     andThen (AccAddressFromBech32 (libs E) receiver) (\<lambda>_.
     guard (IsHexAddress (libs E) sender) ErrInvalidAddress)))"

definition MsgSendCoinToEVM_ValidateBasic :: "'w env \<Rightarrow> coin \<Rightarrow> string \<Rightarrow> unit result" where
  "MsgSendCoinToEVM_ValidateBasic E mcoin sender =
     andThen (validate_coin_denom E (coin_denom mcoin)) (\<lambda>_.
     andThen (guard (0 < coin_amount mcoin) ErrInvalidCoins) (\<lambda>_.
     andThen (AccAddressFromBech32 (libs E) sender) (\<lambda>_. Ok ())))"

definition MsgSendERC20ToCosmos_ValidateBasic :: "'w env \<Rightarrow> string \<Rightarrow> int \<Rightarrow> string \<Rightarrow> unit result" where
  "MsgSendERC20ToCosmos_ValidateBasic E erc20 amt sender =
     andThen (guard (IsHexAddress (libs E) erc20) ErrInvalidAddress) (\<lambda>_.
     andThen (guard (0 < amt) ErrInvalidCoins) (\<lambda>_.
     guard (IsHexAddress (libs E) sender) ErrInvalidAddress))"

definition MsgSendERC20ToCosmosAndIBCTransfer_ValidateBasic ::
  "'w env \<Rightarrow> string \<Rightarrow> int \<Rightarrow> string \<Rightarrow> string \<Rightarrow> string \<Rightarrow> string \<Rightarrow> unit result" where
  "MsgSendERC20ToCosmosAndIBCTransfer_ValidateBasic E erc20 amt sender port channel receiver =
     andThen (guard (IsHexAddress (libs E) erc20) ErrInvalidAddress) (\<lambda>_.
     andThen (guard (0 < amt) ErrInvalidCoins) (\<lambda>_.
     andThen (guard (IsHexAddress (libs E) sender) ErrInvalidAddress) (\<lambda>_.
     andThen (err_as ErrInvalidRequest (PortIdentifierValidator (ibc E) port)) (\<lambda>_.
     andThen (err_as ErrInvalidRequest (ChannelIdentifierValidator (ibc E) channel)) (\<lambda>_.
     andThen (DecodeAndConvert (ibc E) receiver) (\<lambda>_. Ok ()))))))"

fun erc20_ValidateBasic :: "'w env \<Rightarrow> msg \<Rightarrow> unit result" where
  "erc20_ValidateBasic E (MsgConvertCoin x r s) = MsgConvertCoin_ValidateBasic E x r s"
| "erc20_ValidateBasic E (MsgConvertERC20 con amt r s) = MsgConvertERC20_ValidateBasic E con amt r s"
| "erc20_ValidateBasic E (MsgSendCoinToEVM x s) = MsgSendCoinToEVM_ValidateBasic E x s"
| "erc20_ValidateBasic E (MsgSendERC20ToCosmos con amt s) = MsgSendERC20ToCosmos_ValidateBasic E con amt s"
| "erc20_ValidateBasic E (MsgSendERC20ToCosmosAndIBCTransfer con amt s p ch r) =
     MsgSendERC20ToCosmosAndIBCTransfer_ValidateBasic E con amt s p ch r"
| "erc20_ValidateBasic E _ = Err ErrUnknownRequest"

section \<open>Signers\<close>

definition MsgConvertCoin_GetSigners :: "lib \<Rightarrow> string \<Rightarrow> bytes list result" where
  "MsgConvertCoin_GetSigners L sender = andThen (MustAccAddressFromBech32 L sender) (\<lambda>addr. Ok [addr])"

definition MsgConvertERC20_GetSigners :: "lib \<Rightarrow> string \<Rightarrow> bytes list result" where
  "MsgConvertERC20_GetSigners L sender = Ok [addr_bytes (HexToAddress L sender)]"

definition MsgSendCoinToEVM_GetSigners :: "lib \<Rightarrow> string \<Rightarrow> bytes list result" where
  "MsgSendCoinToEVM_GetSigners L sender = andThen (MustAccAddressFromBech32 L sender) (\<lambda>addr. Ok [addr])"

definition MsgSendERC20ToCosmos_GetSigners :: "lib \<Rightarrow> string \<Rightarrow> bytes list result" where
  "MsgSendERC20ToCosmos_GetSigners L sender = Ok [addr_bytes (HexToAddress L sender)]"

definition MsgSendERC20ToCosmosAndIBCTransfer_GetSigners :: "lib \<Rightarrow> string \<Rightarrow> bytes list result" where
  "MsgSendERC20ToCosmosAndIBCTransfer_GetSigners L sender = Ok [addr_bytes (HexToAddress L sender)]"

fun erc20_GetSigners :: "lib \<Rightarrow> msg \<Rightarrow> bytes list result" where
  "erc20_GetSigners L (MsgConvertCoin x r s) = MsgConvertCoin_GetSigners L s"
| "erc20_GetSigners L (MsgConvertERC20 con amt r s) = MsgConvertERC20_GetSigners L s"
| "erc20_GetSigners L (MsgSendCoinToEVM x s) = MsgSendCoinToEVM_GetSigners L s"
| "erc20_GetSigners L (MsgSendERC20ToCosmos con amt s) = MsgSendERC20ToCosmos_GetSigners L s"
| "erc20_GetSigners L (MsgSendERC20ToCosmosAndIBCTransfer con amt s p ch r) =
     MsgSendERC20ToCosmosAndIBCTransfer_GetSigners L s"
| "erc20_GetSigners L _ = Ok []"

section \<open>Dispatch\<close>

text \<open>
  The message service routes each message to its handler. The flag says whether the handler returns
  a response; a conversion whose contract is gone returns none.
\<close>

fun erc20_serve :: "'w env \<Rightarrow> msg \<Rightarrow> ('w ctx, bool) go" where
  "erc20_serve E (MsgConvertCoin x r s) = ConvertCoin E x r s"
| "erc20_serve E (MsgConvertERC20 con amt r s) = ConvertERC20 E con amt r s"
| "erc20_serve E (MsgSendCoinToEVM x s) = seq (SendCoinToEVM E x s) (ret True)"
| "erc20_serve E (MsgSendERC20ToCosmos con amt s) = seq (SendERC20ToCosmos E con amt s) (ret True)"
| "erc20_serve E (MsgSendERC20ToCosmosAndIBCTransfer con amt s p ch r) =
     seq (SendERC20ToCosmosAndIBCTransfer E con amt s p ch r) (ret True)"
| "erc20_serve E _ = fail ErrUnknownRequest"

text \<open>
  The legacy handler runs a call with its own event manager and returns its events. The SDK's
  \<open>WrapServiceResult\<close> marshals the response, which is a parameter.
\<close>

definition with_own_events :: "(bool \<Rightarrow> unit result) \<Rightarrow> ('w ctx, bool) go \<Rightarrow> ('w ctx, event list) go" where
  "with_own_events marshal m = (\<lambda>c. case m (c\<lparr>evs := []\<rparr>) of
     (Ok r, c') \<Rightarrow> (andThen (marshal r) (\<lambda>_. Ok (evs c')), c'\<lparr>evs := evs c\<rparr>)
   | (Err e, c') \<Rightarrow> (Err e, c'\<lparr>evs := evs c\<rparr>)
   | (Panic p, c') \<Rightarrow> (Panic p, c'\<lparr>evs := evs c\<rparr>))"

definition erc20_NewHandler :: "'w env \<Rightarrow> (bool \<Rightarrow> unit result) \<Rightarrow> msg \<Rightarrow> ('w ctx, event list) go" where
  "erc20_NewHandler E marshal m = (case m of
     MsgConvertCoin x r s \<Rightarrow> with_own_events marshal (ConvertCoin E x r s)
   | MsgConvertERC20 con amt r s \<Rightarrow> with_own_events marshal (ConvertERC20 E con amt r s)
   | _ \<Rightarrow> fail ErrUnknownRequest)"

section \<open>Lemmas\<close>

text \<open>A denomination made of a contract address is checked by checking the address.\<close>

lemma ValidateErc20Denom_CreateDenom: "ValidateErc20Denom L (CreateDenom a) = ValidateAddress L a"
  by (simp add: ValidateErc20Denom_def CreateDenom_def SplitN2_append [of _ "''erc20''", simplified])

text \<open>No account outside a set loses anything, except possibly in the EVM's denomination.\<close>

definition only_pay :: "'w env \<Rightarrow> string \<Rightarrow> bytes set \<Rightarrow> 'w \<Rightarrow> 'w \<Rightarrow> bool" where
  "only_pay E ed payers w w' \<longleftrightarrow> (\<forall>a d. a \<notin> payers \<longrightarrow> d \<noteq> ed \<longrightarrow> bal E a d w \<le> bal E a d w')"

lemma only_pay_refl [simp]: "only_pay E ed X w w"
  by (simp add: only_pay_def)

lemma only_pay_trans: "only_pay E ed X w w1 \<Longrightarrow> only_pay E ed X w1 w2 \<Longrightarrow> only_pay E ed X w w2"
  unfolding only_pay_def by (meson order_trans)

lemma only_pay_mono: "only_pay E ed X w w' \<Longrightarrow> X \<subseteq> Y \<Longrightarrow> only_pay E ed Y w w'"
  by (auto simp: only_pay_def)

lemma only_pay_moves: "bal_moves E ed w w' d f \<Longrightarrow> (\<And>a. a \<notin> X \<Longrightarrow> 0 \<le> f a) \<Longrightarrow> only_pay E ed X w w'"
  by (simp add: only_pay_def bal_moves_def)

lemma only_pay_change: "bal_change E w w' d (pay fr to n) \<Longrightarrow> 0 \<le> n \<Longrightarrow> fr \<in> X \<Longrightarrow> only_pay E ed X w w'"
  by (erule only_pay_moves [OF bal_moves_change]) (auto simp: pay_def)

lemma coin_converted_pays:
  assumes "coin_converted E ed x receiver sender pair r c c'" and "0 \<le> coin_amount x"
  shows "only_pay E ed {sender} (world c) (world c')"
proof (cases r)
  case True
  with assms(1) have "bal_moves E ed (world c) (world c') (coin_denom x)
      (if IsNativeCoin pair then pay sender (module_acc E ''erc20'') (coin_amount x)
       else (\<lambda>a. if a = sender then - coin_amount x else 0))" by (simp add: coin_converted_def)
  then show ?thesis by (rule only_pay_moves) (use assms(2) in \<open>auto simp: pay_def\<close>)
next
  case False
  with assms(1) show ?thesis by (simp add: coin_converted_def DeleteTokenPair_run)
qed

lemma token_converted_pays:
  assumes "token_converted E ed token amt receiver sender pair r c c'" and "0 \<le> amt"
  shows "only_pay E ed {module_acc E ''erc20''} (world c) (world c')"
proof (cases r)
  case True
  with assms(1) have "bal_moves E ed (world c) (world c') (Denom pair)
      (if IsNativeCoin pair then pay (module_acc E ''erc20'') receiver amt
       else (\<lambda>a. if a = receiver then amt else 0))" by (simp add: token_converted_def)
  then show ?thesis by (rule only_pay_moves) (use assms(2) in \<open>auto simp: pay_def\<close>)
next
  case False
  with assms(1) show ?thesis by (simp add: token_converted_def DeleteTokenPair_run)
qed

text \<open>
  The ICS-20 module escrows or burns the token of the sender: nobody else loses anything.
\<close>

definition transfer_ok :: "'w env \<Rightarrow> bool" where
  "transfer_ok E \<longleftrightarrow> (\<forall>m s n w w' a d. ibc_Transfer E m w = (Ok n, w') \<and> AccAddressFromBech32 (libs E) (tr_Sender m) = Ok s \<and>
     0 \<le> coin_amount (tr_Token m) \<and> a \<noteq> s \<longrightarrow> bal E a d w \<le> bal E a d w')"

lemma initiateIBCTransfer_Ok:
  assumes "transfer_ok E" and run: "initiateIBCTransfer E con amt ms port channel receiver c = (Ok n, c')"
    and s: "AccAddressFromBech32 (libs E) (AccAddress_String (libs E) (addr_bytes (HexToAddress (libs E) ms))) = Ok s"
  shows "only_world c c'" and "only_pay E ed {s} (world c) (world c')"
proof -
  from run obtain m w where m: "ibc_Transfer E m (world c) = (Ok n, w)" "c' = c\<lparr>world := w\<rparr>"
    "tr_Sender m = AccAddress_String (libs E) (addr_bytes (HexToAddress (libs E) ms))" "0 < coin_amount (tr_Token m)"
    by (auto simp: initiateIBCTransfer_def Let_def split: if_splits option.splits)
  show "only_world c c'" by (simp add: m(2))
  show "only_pay E ed {s} (world c) (world c')"
    using assms(1) m s unfolding transfer_ok_def only_pay_def by (simp add: m(2)) (metis less_imp_le)
qed

text \<open>The amount of a message and the state a gas-free message relies on.\<close>

fun erc20_amount :: "msg \<Rightarrow> int" where
  "erc20_amount (MsgConvertCoin x _ _) = coin_amount x"
| "erc20_amount (MsgConvertERC20 _ amt _ _) = amt"
| "erc20_amount (MsgSendCoinToEVM x _) = coin_amount x"
| "erc20_amount (MsgSendERC20ToCosmos _ amt _) = amt"
| "erc20_amount (MsgSendERC20ToCosmosAndIBCTransfer _ amt _ _ _ _) = amt"
| "erc20_amount _ = 0"

definition erc20_laws :: "'w env \<Rightarrow> string \<Rightarrow> bool" where
  "erc20_laws E ed \<longleftrightarrow> bank_ok E \<and> evm_query_ok E \<and> evm_frame_ok E ed \<and> bank_evm_ok E ed \<and> dec_ok (math E) \<and>
     coin_ok (math E) \<and> fees_ok E \<and> fees_evm_ok E ed \<and> bech32_ok (libs E) \<and> addr_ok (libs E) \<and> transfer_ok E"

text \<open>No registered pair is one of the EVM's own denomination, and the fee is a valid fraction.\<close>

definition erc20_state_ok :: "'w env \<Rightarrow> string \<Rightarrow> 'w ctx \<Rightarrow> bool" where
  "erc20_state_ok E ed c \<longleftrightarrow> reg_ok (libs E) c \<and> (\<forall>token pair. find_pair (libs E) token c = Some pair \<longrightarrow> Denom pair \<noteq> ed) \<and>
     (\<exists>bp. GetGasfreeErc20InteropFeeBasisPoints c = Ok bp \<and> bp \<le> 10000)"

lemma SendCoinToEVM_pays:
  assumes laws: "erc20_laws E ed" and ok: "erc20_state_ok E ed c" and amt: "0 < coin_amount x" "coin_amount x < 2 ^ 240"
    and denom: "coin_denom x \<noteq> ed" and run: "SendCoinToEVM E x ms c = (Ok (), c')"
  shows "\<exists>s. AccAddressFromBech32 (libs E) ms = Ok s \<and> only_pay E ed {s} (world c) (world c')"
proof -
  from ok obtain bp where bp: "GetGasfreeErc20InteropFeeBasisPoints c = Ok bp" "bp \<le> 10000" by (auto simp: erc20_state_ok_def)
  have "0 \<le> coin_amount x" using amt by simp
  from SendCoinToEVM_Ok [OF _ _ _ _ _ _ _ _ _ denom this amt(2) bp run] laws ok obtain pair sender r c1 where
    s: "AccAddressFromBech32 (libs E) ms = Ok sender" and
    cc: "coin_converted E ed x (Addr (take 20 sender)) sender pair r c c1" and
    fee: "bal_change E (world c1) (world c') (coin_denom x) (pay sender (fee_collector E) (bp_fee (coin_amount x) bp))"
    by (auto simp: erc20_laws_def erc20_state_ok_def)
  have "0 \<le> bp_fee (coin_amount x) bp" using amt bp(2) by (intro bp_fee_bounds(1)) auto
  from only_pay_trans [OF coin_converted_pays [OF cc] only_pay_change [OF fee this]] s amt show ?thesis by auto
qed

lemma convert_with_fee_pays:
  assumes laws: "erc20_laws E ed" and ok: "erc20_state_ok E ed c" and amt: "0 < amt" "amt < 2 ^ 240"
    and run: "convert_with_fee E token amt ms c = (Ok acc, c')"
  shows "acc = addr_bytes (HexToAddress (libs E) ms)" "AccAddressFromBech32 (libs E) (AccAddress_String (libs E) acc) = Ok acc"
    "only_pay E ed {module_acc E ''erc20''} (world c) (world c')" "reg_ok (libs E) c'" "prm c' = prm c"
proof -
  from ok obtain bp where bp: "GetGasfreeErc20InteropFeeBasisPoints c = Ok bp" "bp \<le> 10000" by (auto simp: erc20_state_ok_def)
  have reg: "reg_ok (libs E) c" and denom: "\<And>pair. find_pair (libs E) token c = Some pair \<Longrightarrow> Denom pair \<noteq> ed"
    using ok by (auto simp: erc20_state_ok_def)
  have "0 \<le> amt" using amt by simp
  from convert_with_fee_Ok [OF _ _ _ _ _ reg denom this amt(2) bp run] laws obtain pair r receiver where
    acc: "acc = addr_bytes (HexToAddress (libs E) ms)" and
    tc: "token_converted E ed token (amt + bp_fee amt bp) receiver (HexToAddress (libs E) ms) pair r c c'"
    by (auto simp: erc20_laws_def)
  show "acc = addr_bytes (HexToAddress (libs E) ms)" by (rule acc)
  have "VerifyAddressFormat (libs E) acc = Ok ()" using run by (auto simp: convert_with_fee_def Let_def)
  with laws show "AccAddressFromBech32 (libs E) (AccAddress_String (libs E) acc) = Ok acc"
    by (auto simp: erc20_laws_def intro: bech32_okD)
  have "0 \<le> amt + bp_fee amt bp" using bp_fee_bounds(1) [OF \<open>0 \<le> amt\<close> bp(2)] amt by simp
  from token_converted_pays [OF tc this] show "only_pay E ed {module_acc E ''erc20''} (world c) (world c')" .
  show "reg_ok (libs E) c'" by (rule token_converted_reg(1) [OF reg tc])
  show "prm c' = prm c" by (rule token_converted_prm [OF tc])
qed

lemma fee_of_token_pays:
  assumes laws: "erc20_laws E ed" and reg: "reg_ok (libs E) c" and amt: "0 < amt" "amt < 2 ^ 240"
    and bp: "GetGasfreeErc20InteropFeeBasisPoints c = Ok bp" "bp \<le> 10000"
    and run: "fee_of_token E token amt acc c = (Ok f, c')"
  shows "only_pay E ed {acc} (world c) (world c')"
proof -
  from fee_of_token_Ok [OF _ _ _ reg amt(2) bp run] laws obtain d where
    "bal_change E (world c) (world c') d (pay acc (fee_collector E) (bp_fee amt bp))" by (auto simp: erc20_laws_def)
  then show ?thesis using amt bp by (auto intro!: only_pay_change bp_fee_bounds(1))
qed

lemma SendERC20ToCosmos_pays:
  assumes laws: "erc20_laws E ed" and ok: "erc20_state_ok E ed c" and amt: "0 < amt" "amt < 2 ^ 240"
    and run: "SendERC20ToCosmos E token amt ms c = (Ok (), c')"
  shows "only_pay E ed {addr_bytes (HexToAddress (libs E) ms), module_acc E ''erc20''} (world c) (world c')"
proof -
  from run obtain acc c1 f c2 where conv: "convert_with_fee E token amt ms c = (Ok acc, c1)"
    and fee: "fee_of_token E token amt acc c1 = (Ok f, c2)" and w: "world c' = world c2"
    by (auto simp: SendERC20ToCosmos_def)
  note cw = convert_with_fee_pays [OF laws ok amt conv]
  from ok obtain bp where bp: "GetGasfreeErc20InteropFeeBasisPoints c1 = Ok bp" "bp \<le> 10000"
    using fees_param_cong [OF cw(5)] by (auto simp: erc20_state_ok_def)
  from only_pay_trans [OF only_pay_mono [OF cw(3)] only_pay_mono [OF fee_of_token_pays [OF laws cw(4) amt bp fee]]]
  show ?thesis unfolding w by (simp add: cw(1))
qed

lemma SendERC20ToCosmosAndIBCTransfer_pays:
  assumes laws: "erc20_laws E ed" and ok: "erc20_state_ok E ed c" and amt: "0 < amt" "amt < 2 ^ 240"
    and run: "SendERC20ToCosmosAndIBCTransfer E token amt ms port channel receiver c = (Ok (), c')"
  shows "only_pay E ed {addr_bytes (HexToAddress (libs E) ms), module_acc E ''erc20''} (world c) (world c')"
proof -
  from run obtain acc c1 n c2 f c3 where conv: "convert_with_fee E token amt ms c = (Ok acc, c1)"
    and tr: "initiateIBCTransfer E token amt ms port channel receiver c1 = (Ok n, c2)"
    and fee: "fee_of_token E token amt acc c2 = (Ok f, c3)" and w: "world c' = world c3"
    by (auto simp: SendERC20ToCosmosAndIBCTransfer_def)
  note cw = convert_with_fee_pays [OF laws ok amt conv]
  have "transfer_ok E" using laws by (simp add: erc20_laws_def)
  note tr = initiateIBCTransfer_Ok [OF this tr cw(2) [unfolded cw(1)]]
  have reg: "reg_ok (libs E) c2" using cw(4) reg_ok_cong [of c2 c1] only_worldD(1) [OF tr(1)] by simp
  have prm: "prm c2 = prm c" using cw(5) only_worldD(2) [OF tr(1)] by simp
  from ok obtain bp where bp: "GetGasfreeErc20InteropFeeBasisPoints c2 = Ok bp" "bp \<le> 10000"
    using fees_param_cong [OF prm] by (auto simp: erc20_state_ok_def)
  let ?X = "{addr_bytes (HexToAddress (libs E) ms), module_acc E ''erc20''}"
  have "only_pay E ed ?X (world c) (world c1)" by (rule only_pay_mono [OF cw(3)]) simp
  also have "only_pay E ed ?X (world c1) (world c2)" by (rule only_pay_mono [OF tr(2)]) simp
  finally (only_pay_trans) have "only_pay E ed ?X (world c) (world c2)" .
  moreover have "only_pay E ed ?X (world c2) (world c3)"
    by (rule only_pay_mono [OF fee_of_token_pays [OF laws reg amt bp fee]]) (simp add: cw(1))
  ultimately show ?thesis unfolding w by (rule only_pay_trans)
qed

section \<open>Properties\<close>


lemma c_erc20_laws: "erc20_laws c_env ed"
  by (simp add: erc20_laws_def c_bank_ok c_evm_query_ok c_evm_frame_ok c_bank_evm_ok c_dec_ok c_coin_ok c_fees_ok c_fees_evm_ok
      c_bech32_ok c_addr_ok) (simp add: transfer_ok_def c_env_def)

lemma c_erc20_state_ok: "erc20_state_ok c_env ''aalthea'' (c_conv_ctx c_tp w)"
proof -
  have "Denom pair = ''acoin''" if "find_pair c_lib token (c_conv_ctx c_tp w) = Some pair" for token pair
  proof -
    from that have "r_pairs (reg (c_conv_ctx c_tp w)) (GetID c_lib pair) = Some pair"
      using find_pair_iff [OF reg_ok_c_conv_ctx] by blast
    moreover have "r_pairs (registry_of []) k = None" for k by (simp add: registry_of_def pairs.lookup_def)
    ultimately show ?thesis
      by (auto simp: reg_put_pair [OF storable_c_tp] reg_insert_def split: if_splits)
  qed
  then show ?thesis
    by (auto simp: erc20_state_ok_def reg_ok_c_conv_ctx c_gasfree [of _ c_tp w] word_le_def)
qed


end
