(* ===== verification/Erc20_Hooks.thy ===== *)
theory Erc20_Hooks
  imports Erc20_Msg
begin

text \<open>
  The hook that runs after an Ethereum transaction (\<open>x/erc20/keeper/evm_hooks.go\<close>): a transfer of a
  registered token to the module's address is converted into coins for the sender of the transfer.
\<close>

section \<open>The hook\<close>

text \<open>\<open>if err != nil { continue }\<close>: the loop goes on in the state the failed call left.\<close>

definition or_continue :: "('s, 'a) go \<Rightarrow> ('a \<Rightarrow> ('s, unit) go) \<Rightarrow> ('s, unit) go" where
  "or_continue m f = (\<lambda>s. case m s of
     (Ok x, s') \<Rightarrow> f x s' | (Err e, s') \<Rightarrow> (Ok (), s') | (Panic p, s') \<Rightarrow> (Panic p, s'))"

definition ERC20EventTransfer :: string where "ERC20EventTransfer = ''Transfer''"

text \<open>The amount of tokens of a transfer event, when it is one and the amount is positive.\<close>

definition transfer_tokens :: "'w env \<Rightarrow> bytes \<Rightarrow> bytes \<Rightarrow> int option result" where
  "transfer_tokens E eventID data = (case abi_EventByID (evm E) ERC20MinterBurnerDecimals eventID of
     Ok ename \<Rightarrow>
       if ename \<noteq> ERC20EventTransfer then Ok None
       else (case abi_Unpack (evm E) ERC20MinterBurnerDecimals ename data of
           Ok (VUint tokens # _) \<Rightarrow> Ok (if 0 < tokens then Some tokens else None)
         | Panic p \<Rightarrow> Panic p
         | _ \<Rightarrow> Ok None)
   | Panic p \<Rightarrow> Panic p
   | Err e \<Rightarrow> Ok None)"

text \<open>The switch on the owner: the tokens are burned, or coins are minted.\<close>

definition hook_take :: "'w env \<Rightarrow> address \<Rightarrow> TokenPair \<Rightarrow> int \<Rightarrow> coin list \<Rightarrow> ('w ctx, unit) go" where
  "hook_take E contractAddr pair tokens coins =
     (if ContractOwner pair = OWNER_MODULE
      then bind (CallEVM E ERC20MinterBurnerDecimals (erc20_ModuleAddress (libs E)) contractAddr True
             ''burn'' [VUint tokens]) (\<lambda>_. ret ())
      else if ContractOwner pair = OWNER_EXTERNAL then ext (MintCoins (bank E) ''erc20'' coins)
      else fail ErrUndefinedOwner)"

text \<open>The conversion for one log of an enabled pair.\<close>

definition hook_convert :: "'w env \<Rightarrow> address \<Rightarrow> TokenPair \<Rightarrow> int \<Rightarrow> bytes \<Rightarrow> ('w ctx, unit) go" where
  "hook_convert E contractAddr pair tokens fromTopic =
     bind (lift (NewIntFromBigInt (math E) tokens)) (\<lambda>amt.
     let coins = [\<lparr>coin_denom = Denom pair, coin_amount = amt\<rparr>] in
     or_continue (hook_take E contractAddr pair tokens coins) (\<lambda>_.
     let recipient = addr_bytes (BytesToAddress (libs E) fromTopic) in
     or_continue (ext (SendCoinsFromModuleToAccount (bank E) ''erc20'' recipient coins)) (\<lambda>_. ret ())))"

definition hook_log :: "'w env \<Rightarrow> evm_log \<Rightarrow> ('w ctx, unit) go" where
  "hook_log E log = (case log_Topics log of
     [eventID, fromTopic, toTopic] \<Rightarrow> bind (lift (transfer_tokens E eventID (log_Data log))) (\<lambda>found. case found of
         None \<Rightarrow> ret ()
       | Some tokens \<Rightarrow>
           bind (gets (GetERC20Map (log_Address log))) (\<lambda>pid.
           if (case pid of None \<Rightarrow> True | Some k \<Rightarrow> length k = 0) then ret ()
           else bind (reads (GetTokenPair pid)) (\<lambda>found. case found of
               None \<Rightarrow> ret ()
             | Some pair \<Rightarrow>
                 if BytesToAddress (libs E) toTopic \<noteq> erc20_ModuleAddress (libs E) then ret ()
                 else if \<not> Enabled pair then ret ()
                 else hook_convert E (log_Address log) pair tokens fromTopic)))
   | _ \<Rightarrow> ret ())"

definition PostTxProcessing :: "'w env \<Rightarrow> evm_log list \<Rightarrow> ('w ctx, unit) go" where
  "PostTxProcessing E logs =
     bind (reads erc20_GetParams) (\<lambda>params.
     if \<not> EnableErc20 params \<or> \<not> EnableEVMHook params then ret ()
     else for_each logs (hook_log E))"

section \<open>What the hook promises\<close>

text \<open>The credit a log asks for: recipient, denomination and amount.\<close>

definition log_credit :: "'w env \<Rightarrow> 'w ctx \<Rightarrow> evm_log \<Rightarrow> (bytes \<times> TokenPair \<times> int) option" where
  "log_credit E c log = (case log_Topics log of
     [eventID, fromTopic, toTopic] \<Rightarrow> (case transfer_tokens E eventID (log_Data log) of
         Ok (Some tokens) \<Rightarrow> (case find_pair (libs E) (Address_Hex (libs E) (log_Address log)) c of
             None \<Rightarrow> None
           | Some pair \<Rightarrow>
               if BytesToAddress (libs E) toTopic = erc20_ModuleAddress (libs E) \<and> Enabled pair
               then Some (addr_bytes (BytesToAddress (libs E) fromTopic), pair, tokens) else None)
       | _ \<Rightarrow> None)
   | _ \<Rightarrow> None)"

definition credit_to :: "bytes \<Rightarrow> string \<Rightarrow> (bytes \<times> TokenPair \<times> int) option \<Rightarrow> int" where
  "credit_to a d cr = (case cr of None \<Rightarrow> 0 | Some (b, pair, n) \<Rightarrow> if a = b \<and> d = Denom pair then n else 0)"

text \<open>Amounts of tokens fit an SDK integer, and a failed bank operation on one coin changes no balance.\<close>

definition big_ok :: "'w env \<Rightarrow> bool" where
  "big_ok E \<longleftrightarrow> (\<forall>n r. NewIntFromBigInt (math E) n = Ok r \<longrightarrow> r = n) \<and> (\<forall>n e. NewIntFromBigInt (math E) n \<noteq> Err e)"

definition bank_err_ok :: "'w env \<Rightarrow> bool" where
  "bank_err_ok E \<longleftrightarrow>
     (\<forall>m x w e w' a d. MintCoins (bank E) m [x] w = (Err e, w') \<longrightarrow> bal E a d w' = bal E a d w) \<and>
     (\<forall>m t x w e w' a d. SendCoinsFromModuleToAccount (bank E) m t [x] w = (Err e, w') \<longrightarrow> bal E a d w' = bal E a d w)"

section \<open>Lemmas\<close>

lemma CallEVMWithData_any:
  assumes "evm_query_ok E" and "evm_frame_ok E ed" and "CallEVMWithData E fr con dat commit c = (r, c')"
  shows "only_world c c'" and "d \<noteq> ed \<Longrightarrow> bal E a d (world c') = bal E a d (world c)"
proof -
  have est: "w = world c" if "EstimateGas (evm E) fr con dat (world c) = (g, w)" for g w
    using evm_query_okD(2) [OF assms(1) that] .
  show "only_world c c'"
    using assms(3) by (auto simp: CallEVMWithData_def bind_def ext_def split: prod.splits result.splits if_splits)
  show "d \<noteq> ed \<Longrightarrow> bal E a d (world c') = bal E a d (world c)"
    using assms(3) by (auto simp: CallEVMWithData_def bind_def ext_def dest!: est evm_frame_okD [OF assms(2)]
        split: prod.splits result.splits if_splits)
qed

lemma CallEVM_any:
  assumes "evm_query_ok E" and "evm_frame_ok E ed" and "CallEVM E ab fr con commit meth args c = (r, c')"
  shows "only_world c c'" and "d \<noteq> ed \<Longrightarrow> bal E a d (world c') = bal E a d (world c)"
  using assms(3) CallEVMWithData_any [OF assms(1,2)]
  by (auto simp: CallEVM_def bind_def wrap_as_def split: prod.splits result.splits)

lemma transfer_tokens_pos: "transfer_tokens E i dat = Ok (Some n) \<Longrightarrow> 0 < n"
  by (auto simp: transfer_tokens_def split: result.splits if_splits list.splits abi_value.splits)

lemma transfer_tokens_not_Err: "transfer_tokens E i dat \<noteq> Err e"
  by (auto simp: transfer_tokens_def split: result.splits list.splits abi_value.splits)

lemma hook_log_cases:
  assumes addr: "addr_ok (libs E)" and ok: "reg_ok (libs E) c" and run: "hook_log E log c = (r, c')"
  obtains "c' = c" and "\<And>e. r \<noteq> Err e" and "log_credit E c log = None"
  | fromTopic pair n where "log_credit E c log = Some (addr_bytes (BytesToAddress (libs E) fromTopic), pair, n)" and "0 < n"
      and "hook_convert E (log_Address log) pair n fromTopic c = (r, c')"
proof -
  let ?id = "GetERC20Map (log_Address log) c"
  have fp: "find_pair (libs E) (Address_Hex (libs E) (log_Address log)) c = Option.bind ?id (r_pairs (reg c))"
    by (simp add: find_pair_def GetTokenPairID_def addr_okD [OF addr])
  have get: "GetTokenPair (Some k) c = Ok (r_pairs (reg c) k)" for k
    using ok by (simp add: GetTokenPair_reg reg_ok_def)
  have ne: "k \<noteq> []" if "r_pairs (reg c) k = Some tp" for k tp
    using that ok reg_invD(1,2) [of "libs E" "reg c" k tp] by (auto simp: reg_ok_def pair_wf_def)
  show thesis
  proof (cases "\<exists>i f t. log_Topics log = [i, f, t]")
    case False
    then have "hook_log E log c = (Ok (), c)" "log_credit E c log = None"
      by (auto simp: hook_log_def log_credit_def split: list.splits)
    then show thesis using run that(1) by auto
  next
    case True
    then obtain i f t where topics: "log_Topics log = [i, f, t]" by blast
    show thesis
    proof (cases "transfer_tokens E i (log_Data log)")
      case (Ok tok)
      have eq: "hook_log E log c = (case log_credit E c log of None \<Rightarrow> (Ok (), c)
          | Some (a, pair, n) \<Rightarrow> hook_convert E (log_Address log) pair n f c)"
        using Ok ne by (cases tok; cases ?id; cases "Option.bind ?id (r_pairs (reg c))")
          (auto simp: hook_log_def log_credit_def topics fp get bind_def)
      show thesis
      proof (cases "log_credit E c log")
        case None
        then show thesis using run eq that(1) by auto
      next
        case (Some z)
        then obtain pair n where "log_credit E c log = Some (addr_bytes (BytesToAddress (libs E) f), pair, n)" "0 < n"
          using Ok transfer_tokens_pos [of E i "log_Data log"]
          by (auto simp: log_credit_def topics split: option.splits if_splits)
        then show thesis using run eq that(2) by simp
      qed
    next
      case (Err e)
      then show thesis using transfer_tokens_not_Err by metis
    next
      case (Panic p)
      then show thesis using run that(1) topics by (auto simp: hook_log_def log_credit_def bind_def)
    qed
  qed
qed

text \<open>A step of the hook credits an account other than the module's at most what the log says.\<close>

definition credits :: "'w env \<Rightarrow> string \<Rightarrow> 'w \<Rightarrow> 'w \<Rightarrow> (bytes \<Rightarrow> string \<Rightarrow> int) \<Rightarrow> bool" where
  "credits E ed w w' f \<longleftrightarrow> (\<forall>a d. a \<noteq> module_acc E ''erc20'' \<longrightarrow> d \<noteq> ed \<longrightarrow>
     bal E a d w \<le> bal E a d w' \<and> bal E a d w' \<le> bal E a d w + f a d)"

lemma credits_trans: "credits E ed w w1 f \<Longrightarrow> credits E ed w1 w2 g \<Longrightarrow> credits E ed w w2 (\<lambda>a d. f a d + g a d)"
  unfolding credits_def by (smt (verit, best))

lemma or_continue_cases:
  assumes "or_continue m f s = (r, s')" and "\<And>p. r \<noteq> Panic p"
  shows "(\<exists>e. m s = (Err e, s') \<and> r = Ok ()) \<or> (\<exists>x s1. m s = (Ok x, s1) \<and> f x s1 = (r, s'))"
  using assms by (auto simp: or_continue_def split: prod.splits result.splits)

lemma hook_take_any:
  assumes laws: "bank_ok E" "bank_err_ok E" "evm_query_ok E" "evm_frame_ok E ed"
    and run: "hook_take E con pair n [x] c = (r, c')" and r: "\<And>p. r \<noteq> Panic p"
  shows "only_world c c' \<and> credits E ed (world c) (world c') (\<lambda>_ _. 0)"
proof (cases "ContractOwner pair = OWNER_MODULE")
  case True
  with run obtain q where "CallEVM E ERC20MinterBurnerDecimals (erc20_ModuleAddress (libs E)) con True ''burn'' [VUint n] c = (q, c')"
    by (auto simp: hook_take_def bind_def split: prod.splits result.splits)
  from CallEVM_any [OF laws(3,4) this] show ?thesis by (simp add: credits_def)
next
  case False
  show ?thesis
  proof (cases r)
    case (Ok u)
    with run False bank_okD(5) [OF laws(1), of "''erc20''" x "world c"] show ?thesis
      by (auto simp: hook_take_def ext_Ok credits_def bal_change_def split: if_splits)
  next
    case (Err e)
    with run False laws(2) show ?thesis
      by (auto simp: hook_take_def ext_def credits_def bank_err_ok_def split: if_splits prod.splits)
  qed (use r in simp)
qed

lemma hook_convert_any:
  assumes laws: "bank_ok E" "bank_err_ok E" "evm_query_ok E" "evm_frame_ok E ed" "big_ok E" and n: "0 < n"
    and run: "hook_convert E con pair n fromTopic c = (r, c')" and r: "\<And>p. r \<noteq> Panic p"
  shows "only_world c c'" and "r = Ok ()"
    and "credits E ed (world c) (world c') (\<lambda>a d. if a = addr_bytes (BytesToAddress (libs E) fromTopic) \<and> d = Denom pair then n else 0)"
proof -
  let ?a = "addr_bytes (BytesToAddress (libs E) fromTopic)" and ?x = "\<lparr>coin_denom = Denom pair, coin_amount = n\<rparr>"
  let ?f = "\<lambda>a d. if a = ?a \<and> d = Denom pair then n else 0"
  have "NewIntFromBigInt (math E) n = Ok n"
    using run r laws(5) by (cases "NewIntFromBigInt (math E) n") (auto simp: big_ok_def hook_convert_def bind_def)
  with run have oc: "or_continue (hook_take E con pair n [?x]) (\<lambda>_.
      or_continue (ext (SendCoinsFromModuleToAccount (bank E) ''erc20'' ?a [?x])) (\<lambda>_. ret ())) c = (r, c')"
    by (simp add: hook_convert_def bind_def Let_def)
  from or_continue_cases [OF oc r] have "only_world c c' \<and> r = Ok () \<and> credits E ed (world c) (world c') ?f"
  proof (elim disjE exE conjE)
    fix e assume 1: "hook_take E con pair n [?x] c = (Err e, c')" "r = Ok ()"
    then show ?thesis using hook_take_any [OF laws(1-4) 1(1)] n by (force simp: credits_def)
  next
    fix u c1 assume 2: "hook_take E con pair n [?x] c = (Ok u, c1)"
      and oc1: "or_continue (ext (SendCoinsFromModuleToAccount (bank E) ''erc20'' ?a [?x])) (\<lambda>_. ret ()) c1 = (r, c')"
    note t = hook_take_any [OF laws(1-4) 2, simplified]
    from or_continue_cases [OF oc1 r] have "only_world c1 c' \<and> r = Ok () \<and> credits E ed (world c1) (world c') ?f"
    proof (elim disjE exE conjE)
      fix e assume "ext (SendCoinsFromModuleToAccount (bank E) ''erc20'' ?a [?x]) c1 = (Err e, c')" "r = Ok ()"
      then show ?thesis using laws(2) n by (auto simp: ext_def credits_def bank_err_ok_def split: prod.splits)
    next
      fix u' c2 assume "ext (SendCoinsFromModuleToAccount (bank E) ''erc20'' ?a [?x]) c1 = (Ok u', c2)" "ret () c2 = (r, c')"
      then show ?thesis
        using bank_okD(4) [OF laws(1), of "''erc20''" ?a ?x "world c1"] n
        by (auto simp: ext_Ok credits_def bal_change_def pay_def)
    qed
    then show ?thesis using t only_world_trans [of c c1 c'] credits_trans [of E ed "world c" "world c1" "\<lambda>_ _. 0" "world c'" ?f]
      by auto
  qed
  then show "only_world c c'" "r = Ok ()" "credits E ed (world c) (world c') ?f" by auto
qed

lemma log_credit_cong:
  assumes "kv c' ''erc20'' = kv c ''erc20''"
  shows "log_credit E c' l = log_credit E c l"
  unfolding log_credit_def find_pair_cong [OF assms] ..

lemma as_bool_not_Err [simp]: "as_bool p \<noteq> Err e"
  by (cases p) auto

lemma andThen_Err: "andThen r f = Err e \<longleftrightarrow> r = Err e \<or> (\<exists>x. r = Ok x \<and> f x = Err e)"
  by (cases r) auto

lemma erc20_GetParams_not_Err: "erc20_GetParams c \<noteq> Err e"
  by (auto simp: erc20_GetParams_def andThen_Err split: option.splits)

lemma hook_log_any:
  assumes laws: "bank_ok E" "bank_err_ok E" "evm_query_ok E" "evm_frame_ok E ed" "big_ok E" "addr_ok (libs E)"
    and ok: "reg_ok (libs E) c" and run: "hook_log E l c = (r, c')" and r: "\<And>p. r \<noteq> Panic p"
  shows "only_world c c' \<and> r = Ok () \<and> credits E ed (world c) (world c') (\<lambda>a d. credit_to a d (log_credit E c l))"
proof (cases rule: hook_log_cases [OF laws(6) ok run])
  case 1
  then show ?thesis using r by (cases r) (auto simp: credits_def credit_to_def)
next
  case (2 fromTopic pair n)
  from hook_convert_any [OF laws(1-5) 2(2,3) r] show ?thesis
    by (simp add: 2(1) credit_to_def cong: if_cong)
qed

lemma hook_loop:
  assumes laws: "bank_ok E" "bank_err_ok E" "evm_query_ok E" "evm_frame_ok E ed" "big_ok E" "addr_ok (libs E)"
    and "reg_ok (libs E) c" and "for_each logs (hook_log E) c = (r, c')" and r: "\<And>p. r \<noteq> Panic p"
  shows "only_world c c' \<and> r = Ok () \<and>
     credits E ed (world c) (world c') (\<lambda>a d. \<Sum>l\<leftarrow>logs. credit_to a d (log_credit E c l))"
  using assms(7,8)
proof (induction logs arbitrary: c)
  case Nil
  then show ?case by (simp add: credits_def)
next
  case (Cons l logs)
  obtain r1 c1 where h: "hook_log E l c = (r1, c1)" by fastforce
  have r1: "r1 \<noteq> Panic p" for p using Cons.prems(2) h r [of p] by (auto simp: bind_def)
  note step = hook_log_any [OF laws Cons.prems(1) h r1]
  then have kv: "kv c1 = kv c" and rest: "for_each logs (hook_log E) c1 = (r, c')"
    using Cons.prems(2) h only_worldD(1) [of c c1] by (auto simp: bind_def)
  have "reg_ok (libs E) c1" using Cons.prems(1) reg_ok_cong [of c1 c] kv by simp
  from Cons.IH [OF this rest] have ih: "only_world c1 c'" "r = Ok ()"
    "credits E ed (world c1) (world c') (\<lambda>a d. \<Sum>l\<leftarrow>logs. credit_to a d (log_credit E c l))"
    using log_credit_cong [of c1 c E] kv by simp_all
  with step credits_trans [of E ed "world c" "world c1" _ "world c'"] only_world_trans [of c c1 c'] show ?case by auto
qed

section \<open>Properties\<close>

text \<open>
  C17: After an Ethereum transaction the hook never returns an error, so it does not revert the
  transaction; it leaves the registry alone; and it credits every account other than the module's,
  in every denomination but the EVM's, with at least nothing and at most the tokens that the logs
  say this account transferred to the module, of enabled pairs only.
\<close>

theorem hook_credits_bounded:
  assumes laws: "bank_ok E" "bank_err_ok E" "evm_query_ok E" "evm_frame_ok E ed" "big_ok E" "addr_ok (libs E)"
    and ok: "reg_ok (libs E) c" and run: "PostTxProcessing E logs c = (r, c')" and r: "\<And>p. r \<noteq> Panic p"
  shows "r = Ok () \<and> kv c' = kv c \<and> prm c' = prm c \<and> (\<forall>a d. a \<noteq> module_acc E ''erc20'' \<longrightarrow> d \<noteq> ed \<longrightarrow>
     bal E a d (world c) \<le> bal E a d (world c') \<and>
     bal E a d (world c') \<le> bal E a d (world c) + (\<Sum>l\<leftarrow>logs. credit_to a d (log_credit E c l)))"
proof -
  obtain p where p: "erc20_GetParams c = Ok p"
    using run r by (cases "erc20_GetParams c") (auto simp: PostTxProcessing_def bind_def erc20_GetParams_not_Err)
  show ?thesis
  proof (cases "EnableErc20 p \<and> EnableEVMHook p")
    case True
    then have "for_each logs (hook_log E) c = (r, c')" using run p by (simp add: PostTxProcessing_def bind_def)
    from hook_loop [OF laws ok this r] show ?thesis
      using only_worldD [of c c'] by (simp add: credits_def)
  next
    case False
    have "0 \<le> credit_to a d (log_credit E c l)" for a d l
      by (auto simp: credit_to_def log_credit_def dest!: transfer_tokens_pos split: option.splits list.splits result.splits if_splits)
    then have "0 \<le> (\<Sum>l\<leftarrow>logs. credit_to a d (log_credit E c l))" for a d
      by (intro sum_list_nonneg) auto
    then show ?thesis using False run p by (auto simp: PostTxProcessing_def bind_def)
  qed
qed


section \<open>Witnesses\<close>

definition c_transfer_log :: evm_log where
  "c_transfer_log = \<lparr>log_Address = Addr ''j'', log_Topics = [''Transfer'', ''alice'', ''module:erc20''], log_Data = ''11111''\<rparr>"

lemma c_log_credit: "log_credit c_env (c_conv_ctx c_tp w) c_transfer_log = Some (''alice'', c_tp, 5)"
proof -
  have "transfer_tokens c_env ''Transfer'' ''11111'' = Ok (Some 5)"
    by (simp add: transfer_tokens_def c_evm_def c_unpack_def ERC20EventTransfer_def)
  moreover have "names c_lib c_tp (Address_Hex c_lib (Addr ''j''))"
    by (simp add: names_def addr_okD [OF c_addr_ok] c_addresses)
  then have "find_pair c_lib (Address_Hex c_lib (Addr ''j'')) (c_conv_ctx c_tp w) = Some c_tp"
    using erc20_registry.find_naming [OF reg_ok_c_conv_ctx find_c_conv_ctx] by blast
  moreover have "BytesToAddress c_lib ''module:erc20'' = erc20_ModuleAddress c_lib" "BytesToAddress c_lib ''alice'' = Addr ''alice''"
    "Enabled c_tp" by code_simp+
  ultimately show ?thesis by (simp add: log_credit_def c_transfer_log_def)
qed

lemma c_big_ok: "big_ok c_env"
  by (simp add: big_ok_def c_math_def)

lemma l_move_Err: "l_move f t [x] w = (Err e, w') \<Longrightarrow> w' = w"
  by (simp split: if_splits)

lemma c_bank_err_ok: "bank_err_ok c_env"
  by (auto simp: bank_err_ok_def c_bank_def simp del: l_move.simps dest: l_move_Err)

text \<open>The tokens of the module's address are burned.\<close>

lemma c_hook_take:
  assumes "5 \<le> l_tok w (Addr ''j'') (Addr ''module:erc20'')"
  shows "hook_take c_env (Addr ''j'') c_tp 5 xs (c_conv_ctx c_tp w) =
     (Ok (), (c_conv_ctx c_tp w)\<lparr>world := t_add (Addr ''j'') (Addr ''module:erc20'') (- 5) w\<rparr>)"
proof -
  have m: "erc20_ModuleAddress c_lib = Addr ''module:erc20''" by code_simp
  have "c_pack ''burn'' [VUint 5] = ''burn'' @ CHR '':'' # ''11111''" by code_simp
  then have s: "SplitN2 (CHR '':'') (c_pack ''burn'' [VUint 5]) = [''burn'', ''11111'']"
    using SplitN2_append [of "CHR '':''" "''burn''" "''11111''"] by simp
  show ?thesis
    using assms by (simp add: hook_take_def c_addresses(6) [unfolded IsNativeCoin_def] bind_def c_CallEVM m c_call_def s c_reply_def)
qed

lemma c_PostTx:
  assumes "5 \<le> l_tok w (Addr ''j'') (Addr ''module:erc20'')"
  shows "\<exists>c'. PostTxProcessing c_env [c_transfer_log] (c_conv_ctx c_tp w) = (Ok (), c') \<and>
     l_tok (world c') (Addr ''j'') (Addr ''module:erc20'') = l_tok w (Addr ''j'') (Addr ''module:erc20'') - 5 \<and>
     l_bal (world c') ''alice'' ''acoin'' = l_bal w ''alice'' ''acoin'' + (if 5 \<le> l_bal w ''module:erc20'' ''acoin'' then 5 else 0)"
proof -
  obtain r c' where run: "hook_log c_env c_transfer_log (c_conv_ctx c_tp w) = (r, c')" by fastforce
  let ?w1 = "t_add (Addr ''j'') (Addr ''module:erc20'') (- 5) w"
  let ?w' = "if 5 \<le> l_bal w ''module:erc20'' ''acoin'' then l_add ''alice'' ''acoin'' 5 (l_add ''module:erc20'' ''acoin'' (- 5) ?w1) else ?w1"
  have adl: "log_Address c_transfer_log = Addr ''j''" by (simp add: c_transfer_log_def)
  have adr: "BytesToAddress c_lib b = Addr b" for b by (simp add: c_lib_def)
  moreover have "NewIntFromBigInt c_math n = Ok n" for n by (simp add: c_math_def)
  ultimately have "hook_convert c_env (Addr ''j'') c_tp 5 ''alice'' (c_conv_ctx c_tp w) = (Ok (), (c_conv_ctx c_tp w)\<lparr>world := ?w'\<rparr>)"
    by (simp add: hook_convert_def bind_def Let_def or_continue_def c_hook_take [OF assms] ext_def c_bank_ops)
  moreover have "hook_convert c_env (Addr ''j'') c_tp 5 ''alice'' (c_conv_ctx c_tp w) = (r, c')"
    using hook_log_cases [of c_env "c_conv_ctx c_tp w" c_transfer_log r c'] run adr adl
    by (auto simp: c_addr_ok reg_ok_c_conv_ctx c_log_credit)
  ultimately have "PostTxProcessing c_env [c_transfer_log] (c_conv_ctx c_tp w) = (Ok (), (c_conv_ctx c_tp w)\<lparr>world := ?w'\<rparr>)"
    using run by (simp add: PostTxProcessing_def bind_def c_GetParams)
  then show ?thesis by (simp add: t_add_def)
qed

theorem hook_credits_bounded_witness:
  "\<exists>(c' :: ledger ctx). PostTxProcessing c_env [c_transfer_log] (c_conv_ctx c_tp c_world2) = (Ok (), c') \<and>
     l_bal (world c') ''alice'' ''acoin'' \<le> l_bal c_world2 ''alice'' ''acoin'' + 5"
proof -
  obtain c' where run: "PostTxProcessing c_env [c_transfer_log] (c_conv_ctx c_tp c_world2) = (Ok (), c')"
    using c_PostTx [of c_world2] by auto
  have "module_acc c_env ''erc20'' = ''module:erc20''" by (simp add: c_lib_def)
  moreover have "\<forall>a d. a \<noteq> module_acc c_env ''erc20'' \<longrightarrow> d \<noteq> ''aalthea'' \<longrightarrow>
      bal c_env a d (world c') \<le> bal c_env a d c_world2 + credit_to a d (Some (''alice'', c_tp, 5))"
    using hook_credits_bounded [OF c_bank_ok c_bank_err_ok c_evm_query_ok c_evm_frame_ok c_big_ok _ _ run, of "''aalthea''"]
    by (simp add: c_addr_ok reg_ok_c_conv_ctx c_log_credit)
  ultimately have "bal c_env ''alice'' ''acoin'' (world c') \<le> bal c_env ''alice'' ''acoin'' c_world2 + credit_to ''alice'' ''acoin'' (Some (''alice'', c_tp, 5))"
    by simp
  then show ?thesis using run by (simp add: credit_to_def c_bank_ops)
qed


section \<open>Finding\<close>

text \<open>When the escrow cannot pay, the tokens are burned all the same and the sender gets nothing.\<close>

lemma hook_burns_without_credit:
  "\<exists>(w :: ledger) (c' :: ledger ctx). PostTxProcessing c_env [c_transfer_log] (c_conv_ctx c_tp w) = (Ok (), c') \<and>
     l_tok (world c') (Addr ''j'') (Addr ''module:erc20'') = l_tok w (Addr ''j'') (Addr ''module:erc20'') - 5 \<and>
     l_bal (world c') ''alice'' ''acoin'' = l_bal w ''alice'' ''acoin''"
proof -
  let ?w = "c_world2\<lparr>l_bal := (\<lambda>_ _. 0)\<rparr>"
  obtain c' :: "ledger ctx" where "PostTxProcessing c_env [c_transfer_log] (c_conv_ctx c_tp ?w) = (Ok (), c')"
    "l_tok (world c') (Addr ''j'') (Addr ''module:erc20'') = l_tok ?w (Addr ''j'') (Addr ''module:erc20'') - 5"
    "l_bal (world c') ''alice'' ''acoin'' = l_bal ?w ''alice'' ''acoin''"
    using c_PostTx [of ?w] by (auto simp: c_world2_def)
  then show ?thesis by blast
qed

end
