(* ===== verification/Frame.thy ===== *)
theory Frame
  imports Chain
begin

text \<open>
  What a computation leaves alone, whatever its outcome. A relation between the state before and the
  state after that is reflexive and transitive is kept by a computation when it is kept by its
  parts; the locale \<open>state_frame\<close> has one rule per construct of the context monad, so that a whole
  handler is checked by applying the rules to its definition.
\<close>

definition keeps :: "('s \<Rightarrow> 's \<Rightarrow> bool) \<Rightarrow> ('s, 'a) go \<Rightarrow> bool" where
  "keeps R m \<longleftrightarrow> (\<forall>s. R s (snd (m s)))"

lemma keepsD: "keeps R m \<Longrightarrow> m s = (r, s') \<Longrightarrow> R s s'"
  unfolding keeps_def by (metis snd_conv)

lemma keepsI: "(\<And>s r s'. m s = (r, s') \<Longrightarrow> R s s') \<Longrightarrow> keeps R m"
  unfolding keeps_def by (metis prod.collapse)

locale state_frame =
  fixes R :: "'s \<Rightarrow> 's \<Rightarrow> bool"
  assumes R_refl: "R s s" and R_trans: "R s s1 \<Longrightarrow> R s1 s2 \<Longrightarrow> R s s2"
begin

lemma keeps_ret: "keeps R (ret x)"
  by (simp add: keeps_def R_refl)

lemma keeps_fail: "keeps R (fail e)"
  by (simp add: keeps_def R_refl)

lemma keeps_panic: "keeps R (panic p)"
  by (simp add: keeps_def R_refl)

lemma keeps_gets: "keeps R (gets f)"
  by (simp add: keeps_def R_refl)

lemma keeps_reads: "keeps R (reads f)"
  by (simp add: keeps_def R_refl)

lemma keeps_lift: "keeps R (lift r)"
  by (simp add: keeps_def R_refl)

lemma keeps_bind: "keeps R m \<Longrightarrow> (\<And>x. keeps R (f x)) \<Longrightarrow> keeps R (bind m f)"
  by (rule keepsI) (auto simp: bind_def dest: keepsD intro: R_trans split: prod.splits result.splits)

lemma keeps_wrap_as: "keeps R m \<Longrightarrow> keeps R (wrap_as e m)"
  by (rule keepsI) (auto simp: wrap_as_def dest: keepsD split: prod.splits result.splits)

lemma keeps_panic_on_err: "keeps R m \<Longrightarrow> keeps R (panic_on_err p m)"
  by (rule keepsI) (auto simp: panic_on_err_def dest: keepsD split: prod.splits result.splits)

lemma keeps_for_each: "(\<And>x. keeps R (f x)) \<Longrightarrow> keeps R (for_each xs f)"
  by (induction xs) (auto intro: keeps_ret keeps_bind)

lemma keeps_if: "keeps R m \<Longrightarrow> keeps R n \<Longrightarrow> keeps R (if b then m else n)"
  by simp

lemma keeps_Let: "(\<And>x. keeps R (f x)) \<Longrightarrow> keeps R (let x = a in f x)"
  by simp

lemma keeps_case_option: "keeps R m \<Longrightarrow> (\<And>x. keeps R (f x)) \<Longrightarrow> keeps R (case v of None \<Rightarrow> m | Some x \<Rightarrow> f x)"
  by (cases v) auto

lemma keeps_case_prod: "(\<And>x y. keeps R (f x y)) \<Longrightarrow> keeps R (case v of (x, y) \<Rightarrow> f x y)"
  by (cases v) auto

lemma keeps_case_result:
  "(\<And>x. keeps R (f x)) \<Longrightarrow> (\<And>e. keeps R (g e)) \<Longrightarrow> (\<And>p. keeps R (h p)) \<Longrightarrow>
     keeps R (case v of Ok x \<Rightarrow> f x | Err e \<Rightarrow> g e | Panic p \<Rightarrow> h p)"
  by (cases v) auto

lemmas keeps_rules = keeps_ret keeps_fail keeps_panic keeps_gets keeps_reads keeps_lift keeps_bind keeps_wrap_as
  keeps_panic_on_err keeps_for_each keeps_if keeps_Let keeps_case_option keeps_case_prod keeps_case_result

end

text \<open>Stores other than the listed ones are not written, and neither are the parameters.\<close>

definition writes_only :: "string set \<Rightarrow> 'w ctx \<Rightarrow> 'w ctx \<Rightarrow> bool" where
  "writes_only X c c' \<longleftrightarrow> (\<forall>m. m \<notin> X \<longrightarrow> kv c' m = kv c m) \<and> prm c' = prm c"

interpretation writes: state_frame "writes_only X" for X
  by unfold_locales (auto simp: writes_only_def)

lemma writes_ext: "keeps (writes_only X) (ext m)"
  by (rule keepsI) (auto simp: ext_def writes_only_def split: prod.splits)

lemma writes_EmitEvent: "keeps (writes_only X) (EmitEvent e)"
  by (rule keepsI) (simp add: writes_only_def)

lemma writes_store: "m \<in> X \<Longrightarrow> keeps (writes_only X) (modify (store_upd m f))"
  by (rule keepsI) (auto simp: writes_only_def)

lemma writes_world: "keeps (writes_only X) (modify (\<lambda>c. c\<lparr>world := f c\<rparr>))"
  by (rule keepsI) (auto simp: writes_only_def)

lemma writes_mono: "keeps (writes_only X) m \<Longrightarrow> X \<subseteq> Y \<Longrightarrow> keeps (writes_only Y) m"
  unfolding keeps_def writes_only_def by (metis subsetD)

lemmas writes_rules = writes.keeps_rules writes_ext writes_EmitEvent writes_world

end
