(* ===== verification/Erc20_Frame.thy ===== *)
theory Erc20_Frame
  imports Erc20_Hooks Frame
begin

text \<open>
  The erc20 module writes no store but its own and changes no parameter: every operation of the
  keeper, every message handler, the governance operations and the hook, whatever their outcome.
\<close>

abbreviation only_erc20 :: "('w ctx, 'a) go \<Rightarrow> bool" where
  "only_erc20 m \<equiv> keeps (writes_only {''erc20''}) m"

lemma frame_CallEVMWithData: "keeps (writes_only X) (CallEVMWithData E fr con dat commit)"
  unfolding CallEVMWithData_def by (intro writes_rules)

lemma frame_CallEVM: "keeps (writes_only X) (CallEVM E ab fr con commit meth args)"
  unfolding CallEVM_def by (intro writes_rules frame_CallEVMWithData)

lemma frame_BalanceOf: "keeps (writes_only X) (BalanceOf E con a)"
proof (rule keepsI)
  fix c r c' assume "BalanceOf E con a c = (r, c')"
  then obtain q where "CallEVM E ERC20MinterBurnerDecimals (erc20_ModuleAddress (libs E)) con False ''balanceOf'' [VAddr a] c = (q, c')"
    by (auto simp: BalanceOf_def split: prod.splits result.splits list.splits abi_value.splits)
  then show "writes_only X c c'" by (rule keepsD [OF frame_CallEVM])
qed

lemma frame_read_balance: "keeps (writes_only X) (read_balance E con a)"
  unfolding read_balance_def by (intro writes_rules frame_BalanceOf)

lemma frame_registry:
  "only_erc20 (SetTokenPair L tp)" "only_erc20 (DeleteTokenPair L tp)" "only_erc20 (put_pair L tp)"
  by (rule keepsI; simp add: SetTokenPair_run DeleteTokenPair_run put_pair_run writes_only_def)+

lemmas evm_rules = writes_rules frame_CallEVMWithData frame_CallEVM frame_BalanceOf frame_read_balance

lemmas frame_rules = evm_rules frame_registry

lemma frame_conversions:
  "keeps (writes_only X) (convertCoinNativeCoin E pair x mr ms receiver sender)"
  "keeps (writes_only X) (convertCoinNativeERC20 E pair x mr ms receiver sender)"
  "keeps (writes_only X) (convertERC20NativeCoin E pair con amt mr ms receiver' sender')"
  "keeps (writes_only X) (convertERC20NativeToken E pair con amt mr ms receiver' sender')"
  unfolding convertCoinNativeCoin_def convertCoinNativeERC20_def convertERC20NativeCoin_def convertERC20NativeToken_def
  by (intro evm_rules)+

lemma frame_ConvertCoin: "only_erc20 (ConvertCoin E x mr ms)"
  unfolding ConvertCoin_def by (intro frame_rules frame_conversions)

lemma frame_ConvertERC20: "only_erc20 (ConvertERC20 E con amt mr ms)"
  unfolding ConvertERC20_def by (intro frame_rules frame_conversions)

lemma frame_fee: "keeps (writes_only X) (DeductBasisPointFee E bp x a)" "keeps (writes_only X) (DeductGasfreeErc20Fee E a x)"
proof -
  show fee: "keeps (writes_only X) (DeductBasisPointFee E bp x a)" for bp x a
    unfolding DeductBasisPointFee_def by (intro writes_rules)
  show "keeps (writes_only X) (DeductGasfreeErc20Fee E a x)"
    unfolding DeductGasfreeErc20Fee_def by (intro writes_rules fee)
qed

lemma frame_gasfree:
  "only_erc20 (SendCoinToEVM E x ms)" "only_erc20 (SendERC20ToCosmos E con amt ms)"
  "only_erc20 (SendERC20ToCosmosAndIBCTransfer E con amt ms port channel receiver)"
  unfolding SendCoinToEVM_def SendERC20ToCosmos_def SendERC20ToCosmosAndIBCTransfer_def convert_with_fee_def fee_of_token_def
    initiateIBCTransfer_def
  by (intro frame_rules frame_ConvertCoin frame_ConvertERC20 frame_fee)+

lemma frame_erc20_serve: "only_erc20 (erc20_serve E m)"
  by (cases m; simp) (intro frame_rules frame_ConvertCoin frame_ConvertERC20 frame_gasfree)+

lemma frame_QueryERC20: "only_erc20 (QueryERC20 E con)"
  unfolding QueryERC20_def by (intro frame_rules)

lemma frame_governance:
  "only_erc20 (RegisterCoin E md)" "only_erc20 (RegisterERC20 E con)" "only_erc20 (ToggleConversion E token)"
  unfolding RegisterCoin_def RegisterERC20_def ToggleConversion_def CreateCoinMetadata_def verifyMetadata_def DeployERC20Contract_def
  by (intro frame_rules frame_QueryERC20)+

lemma frame_proposals: "only_erc20 (NewErc20ProposalHandler E content)"
  by (cases content; simp add: handleRegisterCoinProposal_def handleRegisterERC20Proposal_def handleToggleConversionProposal_def)
    (intro frame_rules frame_governance)+

lemma frame_or_continue: "keeps (writes_only X) m \<Longrightarrow> (\<And>x. keeps (writes_only X) (f x)) \<Longrightarrow> keeps (writes_only X) (or_continue m f)"
  by (rule keepsI) (auto simp: or_continue_def dest: keepsD intro: writes.R_trans split: prod.splits result.splits)

lemma frame_hook: "keeps (writes_only X) (PostTxProcessing E logs)"
proof -
  have "keeps (writes_only X) (hook_convert E con pair n t)" for con pair n t
    unfolding hook_convert_def hook_take_def by (intro evm_rules frame_or_continue)
  then have "keeps (writes_only X) (hook_log E l)" for l
    unfolding hook_log_def by (cases "log_Topics l" rule: list.exhaust) (auto intro!: evm_rules split: list.splits)
  then show ?thesis unfolding PostTxProcessing_def by (intro evm_rules)
qed

end
