(* ===== verification/Md5.thy ===== *)
theory Md5
  imports Prelude
begin

text \<open>
  The MD5 hash of Go's standard library (\<open>crypto/md5\<close>), as RFC 1321 defines it. The microtx module
  uses it for the prefix of its store keys (\<open>HashString\<close> in \<open>x/microtx/types/key.go\<close>).
\<close>

unbundle bit_operations_syntax

definition byte_word :: "char \<Rightarrow> u32" where
  "byte_word x = word_of_nat (of_char x)"

definition word_byte :: "u32 \<Rightarrow> char" where
  "word_byte w = char_of (unat w mod 256)"

text \<open>A word from four bytes and back, the low byte first.\<close>

fun le_words :: "bytes \<Rightarrow> u32 list" where
  "le_words (a # b # c # d # rest) =
     (byte_word a OR push_bit 8 (byte_word b) OR push_bit 16 (byte_word c) OR push_bit 24 (byte_word d)) # le_words rest"
| "le_words _ = []"

definition le_bytes :: "u32 \<Rightarrow> bytes" where
  "le_bytes w = [word_byte w, word_byte (drop_bit 8 w), word_byte (drop_bit 16 w), word_byte (drop_bit 24 w)]"

text \<open>The padding: a one bit, zeros, and the length in bits in 64 bits.\<close>

definition md5_pad :: "bytes \<Rightarrow> bytes" where
  "md5_pad msg =
     (let len = (word_of_nat (8 * length msg) :: u64) in
      msg @ [CHR 0x80] @ replicate ((119 - length msg mod 64) mod 64) (CHR 0x00) @
      le_bytes (ucast len) @ le_bytes (ucast (drop_bit 32 len)))"

definition md5_K :: "u32 list" where
  "md5_K = [
     0xd76aa478, 0xe8c7b756, 0x242070db, 0xc1bdceee,
     0xf57c0faf, 0x4787c62a, 0xa8304613, 0xfd469501,
     0x698098d8, 0x8b44f7af, 0xffff5bb1, 0x895cd7be,
     0x6b901122, 0xfd987193, 0xa679438e, 0x49b40821,
     0xf61e2562, 0xc040b340, 0x265e5a51, 0xe9b6c7aa,
     0xd62f105d, 0x02441453, 0xd8a1e681, 0xe7d3fbc8,
     0x21e1cde6, 0xc33707d6, 0xf4d50d87, 0x455a14ed,
     0xa9e3e905, 0xfcefa3f8, 0x676f02d9, 0x8d2a4c8a,
     0xfffa3942, 0x8771f681, 0x6d9d6122, 0xfde5380c,
     0xa4beea44, 0x4bdecfa9, 0xf6bb4b60, 0xbebfbc70,
     0x289b7ec6, 0xeaa127fa, 0xd4ef3085, 0x04881d05,
     0xd9d4d039, 0xe6db99e5, 0x1fa27cf8, 0xc4ac5665,
     0xf4292244, 0x432aff97, 0xab9423a7, 0xfc93a039,
     0x655b59c3, 0x8f0ccc92, 0xffeff47d, 0x85845dd1,
     0x6fa87e4f, 0xfe2ce6e0, 0xa3014314, 0x4e0811a1,
     0xf7537e82, 0xbd3af235, 0x2ad7d2bb, 0xeb86d391]"

definition md5_shift :: "nat \<Rightarrow> nat" where
  "md5_shift i = [7, 12, 17, 22, 5, 9, 14, 20, 4, 11, 16, 23, 6, 10, 15, 21] ! (4 * (i div 16) + i mod 4)"

type_synonym md5_state = "u32 \<times> u32 \<times> u32 \<times> u32"

definition md5_round :: "u32 list \<Rightarrow> nat \<Rightarrow> md5_state \<Rightarrow> md5_state" where
  "md5_round ws i s = (case s of (a, b, c, d) \<Rightarrow>
     let f = (if i < 16 then (b AND c) OR (NOT b AND d)
              else if i < 32 then (d AND b) OR (NOT d AND c)
              else if i < 48 then b XOR c XOR d
              else c XOR (b OR NOT d));
         g = (if i < 16 then i else if i < 32 then (5 * i + 1) mod 16 else if i < 48 then (3 * i + 5) mod 16 else (7 * i) mod 16)
     in (d, b + word_rotl (md5_shift i) (a + f + md5_K ! i + ws ! g), b, c))"

definition md5_block :: "u32 list \<Rightarrow> md5_state \<Rightarrow> md5_state" where
  "md5_block ws s = (case s of (a0, b0, c0, d0) \<Rightarrow>
     (case fold (md5_round ws) [0..<64] s of (a, b, c, d) \<Rightarrow> (a0 + a, b0 + b, c0 + c, d0 + d)))"

function md5_blocks :: "u32 list \<Rightarrow> md5_state \<Rightarrow> md5_state" where
  "md5_blocks ws s = (if length ws < 16 then s else md5_blocks (drop 16 ws) (md5_block (take 16 ws) s))"
  by auto
termination by (relation "measure (length \<circ> fst)") auto

declare md5_blocks.simps [simp del]

definition md5_Sum :: "bytes \<Rightarrow> bytes" where
  "md5_Sum msg = (case md5_blocks (le_words (md5_pad msg)) (0x67452301, 0xefcdab89, 0x98badcfe, 0x10325476) of
     (a, b, c, d) \<Rightarrow> le_bytes a @ le_bytes b @ le_bytes c @ le_bytes d)"

text \<open>A hash has 16 bytes, and the padded message is a whole number of blocks of 64 bytes.\<close>

lemma length_md5_Sum [simp]: "length (md5_Sum msg) = 16"
  by (simp add: md5_Sum_def le_bytes_def split: prod.splits)

lemma length_md5_pad: "length (md5_pad msg) mod 64 = 0"
proof -
  define n where "n = length msg"
  have l: "length (md5_pad msg) = n + 9 + (119 - n mod 64) mod 64"
    by (simp add: md5_pad_def le_bytes_def Let_def n_def)
  define r where "r = n mod 64"
  have n: "n = 64 * (n div 64) + r" and r: "r < 64" by (simp_all add: r_def)
  have "\<exists>k. r + 9 + (119 - r) mod 64 = 64 * k"
  proof (cases "r \<le> 55")
    case True
    then have "119 - r = 64 + (55 - r)" by simp
    then have "(119 - r) mod 64 = (55 - r) mod 64" by (metis mod_add_self1)
    then have "(119 - r) mod 64 = 55 - r" by simp
    then show ?thesis using True by (intro exI [of _ 1]) simp
  next
    case False
    then show ?thesis using r by (intro exI [of _ 2]) simp
  qed
  then obtain k where "r + 9 + (119 - r) mod 64 = 64 * k" ..
  with n have "length (md5_pad msg) = 64 * (n div 64 + k)"
    unfolding l r_def [symmetric] by simp
  then show ?thesis by simp
qed

end
