(* ===== verification/Microtx.thy ===== *)
theory Microtx
  imports Erc20_Frame Md5
begin

text \<open>
  The microtx module (\<open>x/microtx\<close>): small payments with a basis-point fee, and Liquid Infrastructure
  Accounts, whose balance above a threshold is converted to tokens held by an NFT contract.
  Logging is left out.
\<close>

section \<open>Errors, keys and parameters\<close>

definition ErrContractDeployment :: go_error where "ErrContractDeployment = Registered ''microtx'' 1"
definition ErrContractCall :: go_error where "ErrContractCall = Registered ''microtx'' 2"
definition ErrNoLiquidAccount :: go_error where "ErrNoLiquidAccount = Registered ''microtx'' 3"
definition ErrInvalidThresholds :: go_error where "ErrInvalidThresholds = Registered ''microtx'' 4"
definition ErrInvalidMicrotx :: go_error where "ErrInvalidMicrotx = Registered ''microtx'' 5"
definition ErrInvalidContract :: go_error where "ErrInvalidContract = Registered ''microtx'' 6"
definition ErrAccountAlreadyLiquid :: go_error where "ErrAccountAlreadyLiquid = Registered ''microtx'' 7"

definition config_BaseDenom :: string where "config_BaseDenom = ''aalthea''"

definition microtx_ModuleAddress :: "lib \<Rightarrow> bytes" where
  "microtx_ModuleAddress L = NewModuleAddress L ''microtx''"

definition ModuleEVMAddress :: "lib \<Rightarrow> address" where
  "ModuleEVMAddress L = BytesToAddress L (microtx_ModuleAddress L)"

definition HashString :: "string \<Rightarrow> bytes" where
  "HashString input = md5_Sum input"

text \<open>\<open>AppendBytes\<close> copies its arguments one after the other into a slice of the right length.\<close>

definition copy_at :: "nat \<Rightarrow> bytes \<Rightarrow> bytes \<Rightarrow> bytes" where
  "copy_at at v res = take at res @ v @ drop (at + length v) res"

definition AppendBytes :: "bytes list \<Rightarrow> bytes" where
  "AppendBytes args =
     (let total = fold (\<lambda>v n. n + length v) args 0 in
      fst (fold (\<lambda>v (res, at). (copy_at at v res, at + length v)) args (replicate total (CHR 0x00), 0)))"

definition LiquidAccountKey :: bytes where
  "LiquidAccountKey = HashString ''LiquidAccount''"

definition GetLiquidAccountKey :: "lib \<Rightarrow> bytes \<Rightarrow> bytes" where
  "GetLiquidAccountKey L address = AppendBytes [LiquidAccountKey, AccAddress_String L address]"

definition GetAccountFromLiquidAccountKey :: "bytes \<Rightarrow> bytes result" where
  "GetAccountFromLiquidAccountKey key = slice_from (length LiquidAccountKey) key"

record microtx_params =
  MicrotxFeeBasisPoints :: u64

definition ParamsStoreKeyMicrotxFeeBasisPoints :: string where
  "ParamsStoreKeyMicrotxFeeBasisPoints = ''MicrotxFeeBasisPoints''"

definition microtx_DefaultParams :: microtx_params where
  "microtx_DefaultParams = \<lparr>MicrotxFeeBasisPoints = 1000\<rparr>"

fun validateMicrotxFeeBasisPoints :: "param \<Rightarrow> unit result" where
  "validateMicrotxFeeBasisPoints (PU64 v) =
     (if 10000 \<le> v then Err (Errorf ''excessive microtx fee of at least 100 percent'') else Ok ())"
| "validateMicrotxFeeBasisPoints _ = Err (Errorf ''invalid parameter type'')"

definition microtx_Params_ValidateBasic :: "microtx_params \<Rightarrow> unit result" where
  "microtx_Params_ValidateBasic p = validateMicrotxFeeBasisPoints (PU64 (MicrotxFeeBasisPoints p))"

definition microtx_ParamSetPairs :: "microtx_params \<Rightarrow> param_pair list" where
  "microtx_ParamSetPairs p =
     [(ParamsStoreKeyMicrotxFeeBasisPoints, PU64 (MicrotxFeeBasisPoints p), validateMicrotxFeeBasisPoints)]"

text \<open>\<open>GetParams\<close> panics before the chain is initialised, \<open>GetParamsIfSet\<close> gives an error.\<close>

definition microtx_GetParams :: "'w ctx \<Rightarrow> microtx_params result" where
  "microtx_GetParams c = (case prm c ''microtx'' ParamsStoreKeyMicrotxFeeBasisPoints of
     None \<Rightarrow> Panic ''parameter not set''
   | Some p \<Rightarrow> andThen (as_u64 p) (\<lambda>n. Ok \<lparr>MicrotxFeeBasisPoints = n\<rparr>))"

definition microtx_GetParamsIfSet :: "'w ctx \<Rightarrow> microtx_params result" where
  "microtx_GetParamsIfSet c = (case prm c ''microtx'' ParamsStoreKeyMicrotxFeeBasisPoints of
     None \<Rightarrow> Err ErrNotFound
   | Some p \<Rightarrow> andThen (as_u64 p) (\<lambda>n. Ok \<lparr>MicrotxFeeBasisPoints = n\<rparr>))"

definition microtx_SetParams :: "microtx_params \<Rightarrow> ('w ctx, unit) go" where
  "microtx_SetParams p =
     seq (lift (microtx_Params_ValidateBasic p)) (param_SetParamSet ''microtx'' (microtx_ParamSetPairs p))"

definition GetMicrotxFeeBasisPoints :: "'w ctx \<Rightarrow> u64 result" where
  "GetMicrotxFeeBasisPoints c = andThen (microtx_GetParamsIfSet c) (\<lambda>p. Ok (MicrotxFeeBasisPoints p))"

section \<open>Genesis\<close>

text \<open>The parameters of the genesis state are behind a pointer.\<close>

definition microtx_Genesis_ValidateBasic :: "microtx_params option \<Rightarrow> unit result" where
  "microtx_Genesis_ValidateBasic gs = (case gs of
     None \<Rightarrow> Panic ''nil pointer dereference'' | Some p \<Rightarrow> microtx_Params_ValidateBasic p)"

definition microtx_DefaultGenesisState :: "microtx_params option" where
  "microtx_DefaultGenesisState = Some microtx_DefaultParams"

definition microtx_InitGenesis :: "microtx_params option \<Rightarrow> ('w ctx, unit) go" where
  "microtx_InitGenesis gs = (case gs of
     None \<Rightarrow> panic ''nil pointer dereference''
   | Some p \<Rightarrow> panic_on_err ''Unable to set params'' (microtx_SetParams p))"

definition microtx_ExportGenesis :: "'w ctx \<Rightarrow> microtx_params option result" where
  "microtx_ExportGenesis c = andThen (microtx_GetParams c) (\<lambda>p. Ok (Some p))"

section \<open>Messages\<close>

definition NewMsgMicrotx :: "string \<Rightarrow> string \<Rightarrow> coin \<Rightarrow> msg" where
  "NewMsgMicrotx sender receiver amount = MsgMicrotx sender receiver amount"

definition NewMsgLiquify :: "string \<Rightarrow> msg" where
  "NewMsgLiquify sender = MsgLiquify sender"

definition MsgMicrotx_ValidateBasic :: "'w env \<Rightarrow> string \<Rightarrow> string \<Rightarrow> coin \<Rightarrow> unit result" where
  "MsgMicrotx_ValidateBasic E sender receiver amount =
     andThen (AccAddressFromBech32 (libs E) sender) (\<lambda>_.
     andThen (AccAddressFromBech32 (libs E) receiver) (\<lambda>_.
     andThen (Coin_Validate (math E) amount) (\<lambda>_.
     guard (coin_amount amount \<noteq> 0) ErrInvalidMicrotx)))"

definition MsgMicrotx_GetSigners :: "lib \<Rightarrow> string \<Rightarrow> bytes list result" where
  "MsgMicrotx_GetSigners L sender = (case AccAddressFromBech32 L sender of
     Ok acc \<Rightarrow> Ok [acc] | Err e \<Rightarrow> Panic ''invalid sender'' | Panic p \<Rightarrow> Panic p)"

definition MsgLiquify_ValidateBasic :: "'w env \<Rightarrow> string \<Rightarrow> unit result" where
  "MsgLiquify_ValidateBasic E sender = andThen (AccAddressFromBech32 (libs E) sender) (\<lambda>_. Ok ())"

definition MsgLiquify_GetSigners :: "lib \<Rightarrow> string \<Rightarrow> bytes list result" where
  "MsgLiquify_GetSigners L sender = (case AccAddressFromBech32 L sender of
     Ok acc \<Rightarrow> Ok [acc] | Err e \<Rightarrow> Panic ''invalid sender'' | Panic p \<Rightarrow> Panic p)"

section \<open>Events\<close>

definition NewEventMicrotx :: "string \<Rightarrow> string \<Rightarrow> coin \<Rightarrow> event" where
  "NewEventMicrotx sender receiver amount =
     Event ''microtx'' [(''sender'', AStr sender), (''receiver'', AStr receiver), (''amount'', ACoin amount)]"

definition NewEventMicrotxFeeCollected :: "string \<Rightarrow> coin \<Rightarrow> event" where
  "NewEventMicrotxFeeCollected sender fee =
     Event ''microtx-fee-collected'' [(''sender'', AStr sender), (''fee'', ACoin fee)]"

text \<open>The amount is the zero value of \<open>sdk.Coin\<close> when nothing was redirected; its text is \<open><nil>\<close>.\<close>

definition NewEventBalanceRedirect :: "string \<Rightarrow> coin option \<Rightarrow> event" where
  "NewEventBalanceRedirect receiver amount =
     Event ''balance-redirect'' [(''receiver'', AStr receiver),
       (''amount'', case amount of None \<Rightarrow> AStr ''<nil>'' | Some x \<Rightarrow> ACoin x)]"

definition NewEventLiquify :: "lib \<Rightarrow> string \<Rightarrow> address \<Rightarrow> event" where
  "NewEventLiquify L account nftAddress =
     Event ''liquify'' [(''account'', AStr account), (''nft-address'', AStr (Address_Hex L nftAddress))]"

section \<open>Thresholds\<close>

record LiquidAccountThreshold =
  th_Amount :: int
  th_Token :: address

definition NewLiquidAccountThreshold :: "address \<Rightarrow> int \<Rightarrow> LiquidAccountThreshold" where
  "NewLiquidAccountThreshold token amount = \<lparr>th_Amount = amount, th_Token = token\<rparr>"

definition NewLiquidAccountThresholds :: "address list \<Rightarrow> int list \<Rightarrow> LiquidAccountThreshold list result" where
  "NewLiquidAccountThresholds tokens amounts =
     (if length tokens \<noteq> length amounts then Err ErrInvalidThresholds
      else Ok (map (\<lambda>i. \<lparr>th_Amount = amounts ! i, th_Token = tokens ! i\<rparr>) [0..<length tokens]))"

fun FindThresholdForERC20 :: "LiquidAccountThreshold list \<Rightarrow> address \<Rightarrow> LiquidAccountThreshold option" where
  "FindThresholdForERC20 [] token = None"
| "FindThresholdForERC20 (thold # rest) token =
     (if th_Token thold = token then Some thold else FindThresholdForERC20 rest token)"

section \<open>The EVM\<close>

definition SDKToEVMAddress :: "lib \<Rightarrow> bytes \<Rightarrow> address" where
  "SDKToEVMAddress L addr = BytesToAddress L addr"

definition EVMToSDKAddress :: "address \<Rightarrow> bytes" where
  "EVMToSDKAddress addr = addr_bytes addr"

text \<open>An interface value that holds no account: the method call panics.\<close>

definition IsEthermintAccount :: "account option \<Rightarrow> bool result" where
  "IsEthermintAccount acc = (case acc of
     None \<Rightarrow> Panic ''nil pointer dereference''
   | Some a \<Rightarrow> Ok (case acc_pubkey a of None \<Rightarrow> False | Some pk \<Rightarrow> pk_type pk = ''eth_secp256k1''))"

definition microtx_CallEVM :: "'w env \<Rightarrow> address \<Rightarrow> address option \<Rightarrow> int \<Rightarrow> bytes \<Rightarrow> bool \<Rightarrow> ('w ctx, evm_response) go" where
  "microtx_CallEVM E from to amount data commit =
     bind (reads (\<lambda>c. GetSequence (acct E) (addr_bytes from) (world c))) (\<lambda>nonce.
     bind (gets (\<lambda>c. GasMeter_Limit (evm E) (world c))) (\<lambda>cosmosLimit.
     bind (gets (\<lambda>c. GasMeter_Consumed (evm E) (world c))) (\<lambda>gasUsed.
     if cosmosLimit \<le> gasUsed then fail ErrOutOfGas
     else
       let gasLimit = cosmosLimit - gasUsed in
       bind (ext (ApplyMessage (evm E) \<lparr>em_From = from, em_To = to, em_Nonce = nonce, em_Amount = amount,
              em_GasLimit = gasLimit, em_Data = data, em_IsFake = (\<not> commit)\<rparr> commit)) (\<lambda>res.
       seq (ext (ConsumeGas (evm E) (evm_GasUsed res)))
       (if evm_Failed res then fail ErrVMExecution else ret res)))))"

definition CallMethod ::
  "'w env \<Rightarrow> string \<Rightarrow> contract_name \<Rightarrow> address \<Rightarrow> address option \<Rightarrow> int \<Rightarrow> abi_value list \<Rightarrow> ('w ctx, evm_response) go" where
  "CallMethod E meth contract from contractAddr amount args =
     bind (wrap_as ErrContractCall (lift (abi_Pack (evm E) contract meth args))) (\<lambda>data.
     wrap_as ErrContractCall (microtx_CallEVM E from contractAddr amount data True))"

definition DefaultGasLimit :: u64 where "DefaultGasLimit = 30000000"

definition QueryEVM ::
  "'w env \<Rightarrow> string \<Rightarrow> contract_name \<Rightarrow> address \<Rightarrow> address option \<Rightarrow> abi_value list \<Rightarrow> ('w ctx, evm_response) go" where
  "QueryEVM E meth contract querier contractAddr args =
     bind (reads (\<lambda>c. GetSequence (acct E) (microtx_ModuleAddress (libs E)) (world c))) (\<lambda>nonce.
     bind (wrap_as ErrContractCall (lift (abi_Pack (evm E) contract meth args))) (\<lambda>data.
     bind (ext (ApplyMessage (evm E) \<lparr>em_From = querier, em_To = contractAddr, em_Nonce = nonce, em_Amount = 0,
            em_GasLimit = DefaultGasLimit, em_Data = data, em_IsFake = True\<rparr> False)) (\<lambda>res.
     if evm_Failed res then fail ErrVMExecution else ret res)))"

definition DeployContract :: "'w env \<Rightarrow> bytes \<Rightarrow> contract_name \<Rightarrow> abi_value list \<Rightarrow> ('w ctx, address) go" where
  "DeployContract E deployer contract args =
     (let deployerEVM = SDKToEVMAddress (libs E) deployer in
      bind (wrap_as ErrContractDeployment (lift (abi_Pack (evm E) contract '''' args))) (\<lambda>ctorArgs.
      let data = contract_Bin (evm E) contract @ ctorArgs in
      bind (wrap_as ErrContractDeployment (reads (\<lambda>c. GetSequence (acct E) deployer (world c)))) (\<lambda>nonce.
      bind (wrap_as ErrContractDeployment (microtx_CallEVM E deployerEVM None 0 data True)) (\<lambda>_.
      ret (CreateAddress (libs E) deployerEVM nonce)))))"

section \<open>Liquid Infrastructure Accounts\<close>

record LiquidInfrastructureAccount =
  la_Owner :: string
  la_Account :: string
  la_NftAddress :: string

definition AccountId :: int where "AccountId = 1"
definition CurrentNFTVersion :: int where "CurrentNFTVersion = 1"

definition queryLiquidInfrastructureOwner :: "'w env \<Rightarrow> address \<Rightarrow> ('w ctx, address) go" where
  "queryLiquidInfrastructureOwner E nftAddress =
     bind (QueryEVM E ''ownerOf'' LiquidInfrastructureNFT (ModuleEVMAddress (libs E)) (Some nftAddress) [VUint AccountId]) (\<lambda>res.
     ret (BytesToAddress (libs E) (evm_Ret res)))"

text \<open>\<open>big.Int.SetBytes\<close>: the bytes are a big-endian number.\<close>

definition big_of_bytes :: "bytes \<Rightarrow> int" where
  "big_of_bytes bz = fold (\<lambda>x n. 256 * n + int (of_char x)) bz 0"

definition queryLiquidInfrastructureContractVersion :: "'w env \<Rightarrow> address \<Rightarrow> ('w ctx, int) go" where
  "queryLiquidInfrastructureContractVersion E nftAddress =
     bind (QueryEVM E ''Version'' LiquidInfrastructureNFT (ModuleEVMAddress (libs E)) (Some nftAddress) []) (\<lambda>res.
     ret (big_of_bytes (evm_Ret res)))"

text \<open>The type assertions on the decoded values: a list of addresses, a list of integers.\<close>

fun as_addresses :: "abi_value list \<Rightarrow> address list option" where
  "as_addresses [] = Some []"
| "as_addresses (VAddr a # vs) = map_option ((#) a) (as_addresses vs)"
| "as_addresses _ = None"

fun as_big_ints :: "abi_value list \<Rightarrow> int list option" where
  "as_big_ints [] = Some []"
| "as_big_ints (VUint n # vs) = map_option ((#) n) (as_big_ints vs)"
| "as_big_ints _ = None"

definition thresholds_of_values :: "abi_value list \<Rightarrow> LiquidAccountThreshold list result" where
  "thresholds_of_values vs = (case vs of
     [v1, v2] \<Rightarrow>
       (case (case v1 of VList xs \<Rightarrow> as_addresses xs | _ \<Rightarrow> None) of
          None \<Rightarrow> Err (Errorf ''invalid response in position 0'')
        | Some addresses \<Rightarrow>
            (case (case v2 of VList ys \<Rightarrow> as_big_ints ys | _ \<Rightarrow> None) of
               None \<Rightarrow> Err (Errorf ''invalid response in position 1'')
             | Some amounts \<Rightarrow>
                 if length addresses \<noteq> length amounts then Err (Errorf ''incorrect number of values'')
                 else Ok (map (\<lambda>i. NewLiquidAccountThreshold (addresses ! i) (amounts ! i)) [0..<length addresses])))
   | _ \<Rightarrow> Err (Errorf ''expected to get a 2 tuple response''))"

definition queryLiquidInfrastructureThresholds :: "'w env \<Rightarrow> address \<Rightarrow> ('w ctx, LiquidAccountThreshold list) go" where
  "queryLiquidInfrastructureThresholds E nftAddress =
     bind (QueryEVM E ''getThresholds'' LiquidInfrastructureNFT (ModuleEVMAddress (libs E)) (Some nftAddress) []) (\<lambda>res.
     bind (lift (abi_Unpack (evm E) LiquidInfrastructureNFT ''getThresholds'' (evm_Ret res))) (\<lambda>vs.
     lift (thresholds_of_values vs)))"

text \<open>
  A contract of another version is reported with \<open>Wrapf\<close> of an error that is \<open>nil\<close>, which is no
  error: the call returns the zero address.
\<close>

definition deployLiquidInfrastructureNFTContract :: "'w env \<Rightarrow> bytes \<Rightarrow> ('w ctx, address) go" where
  "deployLiquidInfrastructureNFTContract E account =
     bind (DeployContract E account LiquidInfrastructureNFT [VStr (AccAddress_String (libs E) account)]) (\<lambda>contract.
     bind (queryLiquidInfrastructureContractVersion E contract) (\<lambda>version.
     if version \<noteq> CurrentNFTVersion then ret zero_address else ret contract))"

definition addLiquidInfrastructureEntry :: "'w env \<Rightarrow> bytes \<Rightarrow> address \<Rightarrow> ('w ctx, unit) go" where
  "addLiquidInfrastructureEntry E accAddress nftAddress =
     (let key = GetLiquidAccountKey (libs E) accAddress in
      bind (gets (\<lambda>c. kv_has (kv c ''microtx'') key)) (\<lambda>present.
      if present then fail ErrContractDeployment
      else modify (store_upd ''microtx'' (kv_set key (addr_bytes nftAddress)))))"

definition DoLiquify :: "'w env \<Rightarrow> bytes \<Rightarrow> ('w ctx, address) go" where
  "DoLiquify E account =
     bind (wrap_as ErrContractDeployment (deployLiquidInfrastructureNFTContract E account)) (\<lambda>nftAddr.
     seq (addLiquidInfrastructureEntry E account nftAddr)
     (seq (EmitEvent (NewEventLiquify (libs E) (AccAddress_String (libs E) account) nftAddr))
      (ret nftAddr)))"

definition GetLiquidAccountEntry :: "'w env \<Rightarrow> bytes \<Rightarrow> 'w ctx \<Rightarrow> address result" where
  "GetLiquidAccountEntry E accAddress c =
     (case kv_get (kv c ''microtx'') (GetLiquidAccountKey (libs E) accAddress) of
        None \<Rightarrow> Err ErrNoLiquidAccount
      | Some bz \<Rightarrow> if length bz = 0 then Err ErrNoLiquidAccount else Ok (BytesToAddress (libs E) bz))"

definition liquid_account :: "lib \<Rightarrow> address \<Rightarrow> bytes \<Rightarrow> address \<Rightarrow> LiquidInfrastructureAccount" where
  "liquid_account L owner accAddress nftAddr =
     \<lparr>la_Owner = AccAddress_String L (EVMToSDKAddress owner), la_Account = AccAddress_String L accAddress,
      la_NftAddress = Address_Hex L nftAddr\<rparr>"

definition GetLiquidAccount :: "'w env \<Rightarrow> bytes \<Rightarrow> ('w ctx, LiquidInfrastructureAccount) go" where
  "GetLiquidAccount E accAddress =
     bind (reads (GetLiquidAccountEntry E accAddress)) (\<lambda>contractAddress.
     bind (queryLiquidInfrastructureOwner E contractAddress) (\<lambda>owner.
     ret (liquid_account (libs E) owner accAddress contractAddress)))"

definition IsLiquidAccountWithValue :: "'w env \<Rightarrow> bytes \<Rightarrow> 'w ctx \<Rightarrow> bool \<times> address option" where
  "IsLiquidAccountWithValue E account c = (case GetLiquidAccountEntry E account c of
     Ok taEntry \<Rightarrow> (True, Some taEntry) | _ \<Rightarrow> (False, None))"

definition IsLiquidAccount :: "'w env \<Rightarrow> bytes \<Rightarrow> 'w ctx \<Rightarrow> bool" where
  "IsLiquidAccount E account c = fst (IsLiquidAccountWithValue E account c)"

text \<open>
  The iteration stops when the callback says so or when the owner cannot be queried. The iterator of
  a prefix store has already cut the prefix off its keys; the code cuts the same number of bytes off
  a second time. The callback updates an accumulator.
\<close>

fun iterate_entries :: "'w env \<Rightarrow> (bytes \<Rightarrow> bytes \<Rightarrow> address \<Rightarrow> address \<Rightarrow> 'a \<Rightarrow> bool \<times> 'a) \<Rightarrow> (bytes \<times> bytes) list \<Rightarrow> 'a \<Rightarrow> ('w ctx, 'a) go" where
  "iterate_entries E cb [] acc = ret acc"
| "iterate_entries E cb ((key, bz) # rest) acc =
     bind (lift (slice_from (length LiquidAccountKey) key)) (\<lambda>accAddress. \<lambda>c.
       let nftAddress = BytesToAddress (libs E) bz in
       case queryLiquidInfrastructureOwner E nftAddress c of
         (Err e, c') \<Rightarrow> (Ok acc, c')
       | (Panic p, c') \<Rightarrow> (Panic p, c')
       | (Ok owner, c') \<Rightarrow>
           (case cb key accAddress owner nftAddress acc of (stop, acc') \<Rightarrow>
              if stop then (Ok acc', c') else iterate_entries E cb rest acc' c'))"

definition IterateLiquidAccounts :: "'w env \<Rightarrow> (bytes \<Rightarrow> bytes \<Rightarrow> address \<Rightarrow> address \<Rightarrow> 'a \<Rightarrow> bool \<times> 'a) \<Rightarrow> 'a \<Rightarrow> ('w ctx, 'a) go" where
  "IterateLiquidAccounts E cb acc =
     bind (gets (\<lambda>c. kv_prefix LiquidAccountKey (kv c ''microtx''))) (\<lambda>entries. iterate_entries E cb entries acc)"

definition GetLiquidAccountByNFTAddress :: "'w env \<Rightarrow> address \<Rightarrow> ('w ctx, LiquidInfrastructureAccount option) go" where
  "GetLiquidAccountByNFTAddress E nftAddress =
     IterateLiquidAccounts E (\<lambda>_ accAddress owner nftAddr acc.
       if nftAddr = nftAddress then (True, Some (liquid_account (libs E) owner accAddress nftAddr)) else (False, acc)) None"

definition GetLiquidAccountsByEVMOwner :: "'w env \<Rightarrow> address \<Rightarrow> ('w ctx, LiquidInfrastructureAccount list) go" where
  "GetLiquidAccountsByEVMOwner E ownerAddress =
     IterateLiquidAccounts E (\<lambda>_ accAddress owner nftAddr acc.
       (True, if owner = ownerAddress then acc @ [liquid_account (libs E) owner accAddress nftAddr] else acc)) []"

definition GetLiquidAccountsByCosmosOwner :: "'w env \<Rightarrow> bytes \<Rightarrow> ('w ctx, LiquidInfrastructureAccount list) go" where
  "GetLiquidAccountsByCosmosOwner E ownerAddress =
     GetLiquidAccountsByEVMOwner E (SDKToEVMAddress (libs E) ownerAddress)"

definition CollectLiquidAccounts :: "'w env \<Rightarrow> ('w ctx, LiquidInfrastructureAccount list) go" where
  "CollectLiquidAccounts E =
     IterateLiquidAccounts E (\<lambda>_ accAddress owner nftAddr acc.
       (False, acc @ [liquid_account (libs E) owner accAddress nftAddr])) []"

section \<open>Redirection\<close>

definition RedirectBalanceToToken :: "'w env \<Rightarrow> bytes \<Rightarrow> address \<Rightarrow> coin \<Rightarrow> int \<Rightarrow> ('w ctx, coin) go" where
  "RedirectBalanceToToken E account nft currBalance thresholdAmount =
     bind (lift (NewIntFromBigInt (math E) thresholdAmount)) (\<lambda>threshold.
     bind (lift (Int_Sub (math E) (coin_amount currBalance) threshold)) (\<lambda>excessBalance.
     if excessBalance < 0 then fail ErrInvalidCoins
     else bind (lift (NewCoin (math E) (coin_denom currBalance) excessBalance)) (\<lambda>funnelAmount.
       let receiver = Address_Hex (libs E) nft; sender = AccAddress_String (libs E) account in
       seq (lift (MsgConvertCoin_ValidateBasic E funnelAmount receiver sender))
       (bind (ConvertCoin E funnelAmount receiver sender) (\<lambda>_. ret funnelAmount)))))"

definition RedirectLiquidAccountExcessBalance :: "'w env \<Rightarrow> bytes \<Rightarrow> address \<Rightarrow> ('w ctx, unit) go" where
  "RedirectLiquidAccountExcessBalance E account changedErc20 =
     bind (gets (IsLiquidAccountWithValue E account)) (\<lambda>(isLiquidAccount, nft0).
     if \<not> isLiquidAccount then ret ()
     else case nft0 of
       None \<Rightarrow> panic ''discovered nil nft address in liquid account entry''
     | Some nft \<Rightarrow>
         bind (panic_on_err ''failed to query evm for liquid account thresholds'' (queryLiquidInfrastructureThresholds E nft)) (\<lambda>thresholds.
         case FindThresholdForERC20 thresholds changedErc20 of
           None \<Rightarrow> ret ()
         | Some threshold \<Rightarrow>
             bind (reads (\<lambda>c. GetTokenPair (GetTokenPairID (libs E) (Address_Hex (libs E) (th_Token threshold)) c) c)) (\<lambda>found.
             case found of
               None \<Rightarrow> panic ''threshold token pair does not exist or is inactive''
             | Some pair \<Rightarrow>
                 if \<not> Enabled pair then panic ''threshold token pair does not exist or is inactive''
                 else bind (gets (\<lambda>c. GetBalance (bank E) account (Denom pair) (world c))) (\<lambda>balance.
                   bind (if th_Amount threshold < coin_amount balance
                         then bind (RedirectBalanceToToken E account nft balance (th_Amount threshold)) (\<lambda>redirected. ret (Some redirected))
                         else ret None) (\<lambda>redirectedAmount.
                   EmitEvent (NewEventBalanceRedirect (AccAddress_String (libs E) account) redirectedAmount))))))"

section \<open>Payments\<close>

definition ValidateAndGetERC20Address :: "'w env \<Rightarrow> coin \<Rightarrow> 'w ctx \<Rightarrow> address result" where
  "ValidateAndGetERC20Address E amount c =
     (if coin_denom amount \<noteq> config_BaseDenom then
        andThen (GetTokenPair (GetTokenPairID (libs E) (coin_denom amount) c) c) (\<lambda>found. case found of
          None \<Rightarrow> Err ErrInvalidMicrotx
        | Some pair \<Rightarrow>
            if \<not> Enabled pair then Err ErrInvalidMicrotx else Ok (HexToAddress (libs E) (Erc20Address pair)))
      else Ok zero_address)"

definition DeductMicrotxFee :: "'w env \<Rightarrow> bytes \<Rightarrow> coin \<Rightarrow> ('w ctx, coin) go" where
  "DeductMicrotxFee E sender sendAmount =
     bind (reads (\<lambda>c. case GetMicrotxFeeBasisPoints c of Err e \<Rightarrow> Ok 0 | r \<Rightarrow> r)) (\<lambda>microtxFeeBasisPoints.
     DeductBasisPointFee E microtxFeeBasisPoints sendAmount sender)"

definition DeductMsgMicrotxFee :: "'w env \<Rightarrow> string \<Rightarrow> coin \<Rightarrow> ('w ctx, coin) go" where
  "DeductMsgMicrotxFee E msgSender amount =
     bind (reads (ValidateAndGetERC20Address E amount)) (\<lambda>_.
     bind (lift (AccAddressFromBech32 (libs E) msgSender)) (\<lambda>sender.
     DeductMicrotxFee E sender amount))"

definition keeper_Microtx :: "'w env \<Rightarrow> bytes \<Rightarrow> bytes \<Rightarrow> coin \<Rightarrow> ('w ctx, unit) go" where
  "keeper_Microtx E sender receiver amount =
     bind (reads (ValidateAndGetERC20Address E amount)) (\<lambda>erc20Address.
     bind (reads (IsGasFreeMsgType ''/althea.microtx.v1.MsgMicrotx'')) (\<lambda>gasFree.
     seq (if \<not> gasFree
          then bind (DeductMicrotxFee E sender amount) (\<lambda>collected.
                 EmitEvent (NewEventMicrotxFeeCollected (AccAddress_String (libs E) sender) collected))
          else ret ())
     (bind (lift (NewCoins (math E) [amount])) (\<lambda>coins.
      seq (ext (SendCoins (bank E) sender receiver coins))
      (seq (EmitEvent (NewEventMicrotx (AccAddress_String (libs E) sender) (AccAddress_String (libs E) receiver) amount))
       (RedirectLiquidAccountExcessBalance E receiver erc20Address))))))"

definition msgServer_Microtx :: "'w env \<Rightarrow> string \<Rightarrow> string \<Rightarrow> coin \<Rightarrow> ('w ctx, unit) go" where
  "msgServer_Microtx E msgSender msgReceiver amount =
     seq (reads (\<lambda>c. IsSendEnabledCoins (bank E) [amount] (world c)))
     (bind (lift (AccAddressFromBech32 (libs E) msgSender)) (\<lambda>sender.
      bind (lift (AccAddressFromBech32 (libs E) msgReceiver)) (\<lambda>receiver.
      if BlockedAddr (bank E) receiver then fail ErrUnauthorized
      else keeper_Microtx E sender receiver amount)))"

definition msgServer_Liquify :: "'w env \<Rightarrow> string \<Rightarrow> ('w ctx, LiquidInfrastructureAccount) go" where
  "msgServer_Liquify E msgSender =
     bind (lift (AccAddressFromBech32 (libs E) msgSender)) (\<lambda>sender.
     bind (reads (\<lambda>c. IsEthermintAccount (GetAccount (acct E) sender (world c)))) (\<lambda>ethermint.
     if \<not> ethermint then fail ErrorInvalidSigner
     else bind (gets (IsLiquidAccount E sender)) (\<lambda>liquid.
       if liquid then fail ErrAccountAlreadyLiquid
       else bind (DoLiquify E sender) (\<lambda>nft.
         ret \<lparr>la_Owner = AccAddress_String (libs E) sender, la_Account = AccAddress_String (libs E) sender,
              la_NftAddress = Address_Hex (libs E) nft\<rparr>))))"

text \<open>The legacy handler knows one of the two messages.\<close>

definition microtx_NewHandler :: "'w env \<Rightarrow> (bool \<Rightarrow> unit result) \<Rightarrow> msg \<Rightarrow> ('w ctx, event list) go" where
  "microtx_NewHandler E marshal m = (case m of
     MsgMicrotx s r x \<Rightarrow> with_own_events marshal (seq (msgServer_Microtx E s r x) (ret True))
   | _ \<Rightarrow> fail ErrUnknownRequest)"

section \<open>Queries\<close>

definition microtx_Query_Params :: "'w ctx \<Rightarrow> microtx_params result" where
  "microtx_Query_Params c = microtx_GetParamsIfSet c"

text \<open>\<open>Int.Uint64\<close> panics when the number does not fit.\<close>

definition Int_Uint64 :: "int \<Rightarrow> u64 result" where
  "Int_Uint64 n = (if 0 \<le> n \<and> n < 2 ^ 64 then Ok (word_of_int n) else Panic ''Uint64() out of bounds'')"

definition Query_MicrotxFee :: "'w env \<Rightarrow> u64 \<Rightarrow> 'w ctx \<Rightarrow> u64 result" where
  "Query_MicrotxFee E amount c =
     andThen (GetMicrotxFeeBasisPoints c) (\<lambda>bp.
     andThen (CalculateBasisPointFee (math E) (uint amount) bp) (\<lambda>fee. Int_Uint64 fee))"

text \<open>A pointer that is \<open>nil\<close> may be in the answer.\<close>

definition Query_LiquidAccount ::
  "'w env \<Rightarrow> string \<Rightarrow> string \<Rightarrow> string \<Rightarrow> ('w ctx, LiquidInfrastructureAccount option list) go" where
  "Query_LiquidAccount E reqOwner reqAccount reqNft =
     (let byOwner = 0 < length reqOwner; byLiquidAccount = 0 < length reqAccount; byNFTAddress = 0 < length reqNft in
      if byOwner \<and> byLiquidAccount \<and> byNFTAddress then fail (Errorf ''all details already provided'')
      else if byOwner then
        (let ethOwner = HasPrefix reqOwner ''0x''; cosmosOwner = HasPrefix reqOwner (Bech32AccountAddrPrefix (ibc E)) in
         if ethOwner \<and> \<not> cosmosOwner
         then bind (GetLiquidAccountsByEVMOwner E (HexToAddress (libs E) reqOwner)) (\<lambda>accs. ret (map Some accs))
         else if cosmosOwner \<and> \<not> ethOwner
         then bind (lift (AccAddressFromBech32 (libs E) reqOwner)) (\<lambda>reqAcc.
              bind (GetLiquidAccountsByCosmosOwner E reqAcc) (\<lambda>accs. ret (map Some accs)))
         else fail ErrInvalidAddress)
      else if byLiquidAccount then
        bind (lift (AccAddressFromBech32 (libs E) reqAccount)) (\<lambda>reqAcc.
        bind (GetLiquidAccount E reqAcc) (\<lambda>acc. ret [Some acc]))
      else if byNFTAddress then
        bind (GetLiquidAccountByNFTAddress E (HexToAddress (libs E) reqNft)) (\<lambda>acc. ret [acc])
      else fail ErrInvalidRequest)"

definition Query_LiquidAccounts :: "'w env \<Rightarrow> ('w ctx, LiquidInfrastructureAccount list) go" where
  "Query_LiquidAccounts E = CollectLiquidAccounts E"

section \<open>Lemmas\<close>

subsection \<open>The store\<close>

lemma AppendBytes_concat: "AppendBytes args = concat args"
proof -
  have total: "fold (\<lambda>v n. n + length v) args k = k + length (concat args)" for k
    by (induction args arbitrary: k) auto
  have "fst (fold (\<lambda>v (res, at). (copy_at at v res, at + length v)) args (p @ replicate (length (concat args)) x, length p)) = p @ concat args"
    for p and x :: char
  proof (induction args arbitrary: p)
    case (Cons v args)
    have "copy_at (length p) v (p @ replicate (length v + length (concat args)) x) = (p @ v) @ replicate (length (concat args)) x"
      by (simp add: copy_at_def)
    with Cons.IH [of "p @ v"] show ?case by simp
  qed simp
  from this [of "[]"] show ?thesis by (simp add: AppendBytes_def total)
qed

lemma GetLiquidAccountKey_eq: "GetLiquidAccountKey L a = LiquidAccountKey @ AccAddress_String L a"
  by (simp add: GetLiquidAccountKey_def AppendBytes_concat)

interpretation liquid: kv_region LiquidAccountKey "\<lambda>s. s" addr_bytes "\<lambda>bz. Some (Addr bz)" "\<lambda>_. True"
  by unfold_locales (auto simp: inj_on_def)

text \<open>The entries of the module, by the text of the account's address.\<close>

definition liquid_entries :: "'w ctx \<Rightarrow> string \<rightharpoonup> address" where
  "liquid_entries c = liquid.lookup (kv c ''microtx'')"

lemma GetLiquidAccountEntry_eq:
  "GetLiquidAccountEntry E a c = (case liquid_entries c (AccAddress_String (libs E) a) of
     None \<Rightarrow> Err ErrNoLiquidAccount
   | Some nft \<Rightarrow> if addr_bytes nft = [] then Err ErrNoLiquidAccount else Ok (BytesToAddress (libs E) (addr_bytes nft)))"
  by (auto simp: GetLiquidAccountEntry_def GetLiquidAccountKey_eq liquid_entries_def liquid.lookup_def split: option.splits)

lemma addLiquidInfrastructureEntry_Ok:
  assumes "addLiquidInfrastructureEntry E a nft c = (Ok u, c')"
  shows "liquid_entries c (AccAddress_String (libs E) a) = None"
    and "liquid_entries c' = (liquid_entries c)(AccAddress_String (libs E) a \<mapsto> nft)"
    and "writes_only {''microtx''} c c'" and "world c' = world c"
proof -
  let ?k = "LiquidAccountKey @ AccAddress_String (libs E) a"
  from assms have free: "\<not> kv_has (kv c ''microtx'') ?k" and c': "c' = store_upd ''microtx'' (kv_set ?k (addr_bytes nft)) c"
    by (auto simp: addLiquidInfrastructureEntry_def GetLiquidAccountKey_eq Let_def split: if_splits)
  show "liquid_entries c (AccAddress_String (libs E) a) = None"
    using free by (simp add: liquid_entries_def liquid.lookup_def kv_has_def)
  show "liquid_entries c' = (liquid_entries c)(AccAddress_String (libs E) a \<mapsto> nft)"
    using liquid.lookup_update [where v = nft and k = "AccAddress_String (libs E) a" and s = "kv c ''microtx''"]
    by (simp add: c' liquid_entries_def liquid.update_def)
  show "writes_only {''microtx''} c c'" "world c' = world c" by (simp_all add: c' writes_only_def)
qed

lemma addLiquidInfrastructureEntry_not_Ok:
  "addLiquidInfrastructureEntry E a nft c = (r, c') \<Longrightarrow> \<not> is_ok r \<Longrightarrow> c' = c"
  by (auto simp: addLiquidInfrastructureEntry_def Let_def bind_def split: if_splits)

subsection \<open>Entries are permanent\<close>

definition entries_grow :: "'w ctx \<Rightarrow> 'w ctx \<Rightarrow> bool" where
  "entries_grow c c' \<longleftrightarrow> map_le (liquid_entries c) (liquid_entries c')"

interpretation entries: state_frame entries_grow
  by unfold_locales (auto simp: entries_grow_def intro: map_le_trans)

lemma entries_of_writes: "keeps (writes_only {''erc20''}) m \<Longrightarrow> keeps entries_grow m"
  unfolding keeps_def writes_only_def entries_grow_def liquid_entries_def by simp

lemma frame_microtx_CallEVM: "keeps (writes_only X) (microtx_CallEVM E fr to n dat commit)"
  unfolding microtx_CallEVM_def by (intro writes_rules)

lemma frame_QueryEVM: "keeps (writes_only X) (QueryEVM E meth con q ca args)"
  unfolding QueryEVM_def by (intro writes_rules)

lemma frame_DeployContract: "keeps (writes_only X) (DeployContract E a con args)"
  unfolding DeployContract_def by (intro writes_rules frame_microtx_CallEVM)

lemma frame_queries:
  "keeps (writes_only X) (queryLiquidInfrastructureOwner E nft)"
  "keeps (writes_only X) (queryLiquidInfrastructureContractVersion E nft)"
  "keeps (writes_only X) (queryLiquidInfrastructureThresholds E nft)"
  "keeps (writes_only X) (deployLiquidInfrastructureNFTContract E a)"
  unfolding queryLiquidInfrastructureOwner_def queryLiquidInfrastructureContractVersion_def queryLiquidInfrastructureThresholds_def
    deployLiquidInfrastructureNFTContract_def
  by (intro writes_rules frame_QueryEVM frame_DeployContract)+

lemma frame_Redirect: "keeps (writes_only {''erc20''}) (RedirectLiquidAccountExcessBalance E a con)"
proof -
  have "keeps (writes_only {''erc20''}) (RedirectBalanceToToken E a nft x n)" for nft x n
    unfolding RedirectBalanceToToken_def by (intro writes_rules frame_ConvertCoin)
  then show ?thesis
    unfolding RedirectLiquidAccountExcessBalance_def by (intro writes_rules frame_queries)
qed

lemma frame_Microtx: "keeps (writes_only {''erc20''}) (msgServer_Microtx E s r x)"
proof -
  have fee: "keeps (writes_only {''erc20''}) (DeductMicrotxFee E a x)" for a
    unfolding DeductMicrotxFee_def by (intro writes_rules frame_fee)
  show ?thesis
    unfolding msgServer_Microtx_def keeper_Microtx_def by (intro writes_rules frame_Redirect fee)
qed

lemma entries_add: "keeps entries_grow (addLiquidInfrastructureEntry E a nft)"
proof (rule keepsI)
  fix c r c' assume run: "addLiquidInfrastructureEntry E a nft c = (r, c')"
  show "entries_grow c c'"
  proof (cases r)
    case (Ok u)
    with addLiquidInfrastructureEntry_Ok(1,2) [of E a nft c u c'] run show ?thesis
      by (auto simp: entries_grow_def map_le_def)
  qed (use addLiquidInfrastructureEntry_not_Ok [OF run] entries.R_refl in auto)
qed

lemma entries_Liquify: "keeps entries_grow (msgServer_Liquify E s)"
proof -
  have "keeps entries_grow (DoLiquify E a)" for a
    unfolding DoLiquify_def
    by (intro entries.keeps_rules entries_add entries_of_writes [OF writes_EmitEvent] entries_of_writes [OF frame_queries(4)])
  then show ?thesis unfolding msgServer_Liquify_def by (intro entries.keeps_rules)
qed

subsection \<open>Payments\<close>

lemma DeductMicrotxFee_Ok:
  assumes laws: "dec_ok (math E)" "coin_ok (math E)" "fees_ok E" and amt: "0 \<le> coin_amount x" "coin_amount x < 2 ^ 240"
    and bp: "GetMicrotxFeeBasisPoints c = Ok bp" "bp \<le> 10000" and run: "DeductMicrotxFee E a x c = (Ok f, c')"
  shows "f = \<lparr>coin_denom = coin_denom x, coin_amount = bp_fee (coin_amount x) bp\<rparr>"
    and "bal_change E (world c) (world c') (coin_denom x) (pay a (fee_collector E) (bp_fee (coin_amount x) bp))"
    and "c' = c\<lparr>world := world c'\<rparr>"
    and "fees_evm_ok E ed \<Longrightarrow> coin_denom x \<noteq> ed \<Longrightarrow> same_evm E (world c) (world c')"
proof -
  have "DeductBasisPointFee E bp x a c = (Ok f, c')"
    using run bp(1) by (simp add: DeductMicrotxFee_def bind_def)
  from DeductBasisPointFee_Ok [OF laws amt bp(2) this]
  show "f = \<lparr>coin_denom = coin_denom x, coin_amount = bp_fee (coin_amount x) bp\<rparr>"
    "bal_change E (world c) (world c') (coin_denom x) (pay a (fee_collector E) (bp_fee (coin_amount x) bp))"
    "c' = c\<lparr>world := world c'\<rparr>"
    "fees_evm_ok E ed \<Longrightarrow> coin_denom x \<noteq> ed \<Longrightarrow> same_evm E (world c) (world c')" by auto
qed

text \<open>The balances a payment changes, with the fee unless the message is free of gas.\<close>

definition payment :: "'w env \<Rightarrow> bool \<Rightarrow> u64 \<Rightarrow> bytes \<Rightarrow> bytes \<Rightarrow> int \<Rightarrow> bytes \<Rightarrow> int" where
  "payment E gasFree bp sender receiver amt a =
     pay sender receiver amt a + (if gasFree then 0 else pay sender (fee_collector E) (bp_fee amt bp) a)"

text \<open>Sending coins of another denomination is invisible to the EVM.\<close>

definition send_evm_ok :: "'w env \<Rightarrow> string \<Rightarrow> bool" where
  "send_evm_ok E ed \<longleftrightarrow> (\<forall>f t x w w' u. SendCoins (bank E) f t [x] w = (Ok u, w') \<and> coin_denom x \<noteq> ed \<longrightarrow> same_evm E w w')"

lemma keeper_Microtx_Ok:
  assumes laws: "dec_ok (math E)" "coin_ok (math E)" "fees_ok E" "bank_ok E"
    and amt: "0 < coin_amount x" "coin_amount x < 2 ^ 240"
    and bp: "GetMicrotxFeeBasisPoints c = Ok bp" "bp \<le> 10000"
    and gf: "IsGasFreeMsgType ''/althea.microtx.v1.MsgMicrotx'' c = Ok gf"
    and run: "keeper_Microtx E sender receiver x c = (Ok (), c')"
  shows "\<exists>con c1. ValidateAndGetERC20Address E x c = Ok con \<and> kv c1 = kv c \<and> prm c1 = prm c \<and>
     bal_change E (world c) (world c1) (coin_denom x) (payment E gf bp sender receiver (coin_amount x)) \<and>
     (fees_evm_ok E ed \<and> send_evm_ok E ed \<and> coin_denom x \<noteq> ed \<longrightarrow> same_evm E (world c) (world c1)) \<and>
     RedirectLiquidAccountExcessBalance E receiver con c1 = (Ok (), c')"
proof -
  let ?fee = "bp_fee (coin_amount x) bp"
  from run gf obtain con c0 coins w c1 where con: "ValidateAndGetERC20Address E x c = Ok con"
    and fee: "(if \<not> gf then bind (DeductMicrotxFee E sender x) (\<lambda>collected.
                 EmitEvent (NewEventMicrotxFeeCollected (AccAddress_String (libs E) sender) collected)) else ret ()) c = (Ok (), c0)"
    and coins: "NewCoins (math E) [x] = Ok coins" and send: "SendCoins (bank E) sender receiver coins (world c0) = (Ok (), w)"
    and c1: "c0\<lparr>world := w, evs := evs c0 @ [NewEventMicrotx (AccAddress_String (libs E) sender) (AccAddress_String (libs E) receiver) x]\<rparr> = c1"
    and red: "RedirectLiquidAccountExcessBalance E receiver con c1 = (Ok (), c')"
    by (auto simp: keeper_Microtx_def)
  have coins: "coins = [x]" using coin_okD(2) [OF laws(2) coins amt(1)] .
  have 0: "kv c0 = kv c \<and> prm c0 = prm c \<and>
      bal_change E (world c) (world c0) (coin_denom x) (\<lambda>a. if gf then 0 else pay sender (fee_collector E) ?fee a) \<and>
      (fees_evm_ok E ed \<and> coin_denom x \<noteq> ed \<longrightarrow> same_evm E (world c) (world c0))"
  proof (cases gf)
    case True
    then show ?thesis using fee by (simp add: bal_change_def)
  next
    case False
    with fee obtain f c2 where ded: "DeductMicrotxFee E sender x c = (Ok f, c2)"
      and c0: "kv c0 = kv c2" "prm c0 = prm c2" "world c0 = world c2" by auto
    have "0 \<le> coin_amount x" using amt by simp
    note d = DeductMicrotxFee_Ok [OF laws(1-3) this amt(2) bp ded]
    from arg_cong [OF d(3), of kv] arg_cong [OF d(3), of prm] d(2) d(4) [of ed] False show ?thesis by (simp add: c0)
  qed
  have "bal_change E (world c0) w (coin_denom x) (pay sender receiver (coin_amount x))"
    using bank_okD(2) [OF laws(4) send [unfolded coins]] .
  with 0 have "bal_change E (world c) w (coin_denom x) (payment E gf bp sender receiver (coin_amount x))"
    by (auto simp: bal_change_def payment_def)
  moreover have "same_evm E (world c) w" if "fees_evm_ok E ed" "send_evm_ok E ed" "coin_denom x \<noteq> ed"
    using 0 that send [unfolded coins] same_evm_trans unfolding send_evm_ok_def by metis
  moreover have "world c1 = w" "kv c1 = kv c0" "prm c1 = prm c0" using c1 by auto
  ultimately show ?thesis using con 0 red by (intro exI [of _ con] exI [of _ c1]) simp
qed

lemma IsLiquid_cong: "kv c' ''microtx'' = kv c ''microtx'' \<Longrightarrow> IsLiquidAccountWithValue E a c' = IsLiquidAccountWithValue E a c"
  by (simp add: IsLiquidAccountWithValue_def GetLiquidAccountEntry_def)

subsection \<open>Redirection\<close>

lemma FindThreshold_token: "FindThresholdForERC20 ths con = Some th \<Longrightarrow> th \<in> set ths \<and> th_Token th = con"
  by (induction ths con rule: FindThresholdForERC20.induct) (auto split: if_splits)

definition int_ok :: "mathlib \<Rightarrow> bool" where
  "int_ok M \<longleftrightarrow> (\<forall>a b r. Int_Sub M a b = Ok r \<longrightarrow> r = a - b) \<and> (\<forall>n r. NewIntFromBigInt M n = Ok r \<longrightarrow> r = n)"

lemma QueryEVM_state:
  assumes "evm_query_ok E"
  shows "snd (QueryEVM E meth con q ca args c) = c"
  using assms by (auto simp: QueryEVM_def bind_def wrap_as_def ext_ApplyMessage_query split: result.splits)

lemma thresholds_state:
  assumes "evm_query_ok E" and "fst (queryLiquidInfrastructureThresholds E nft c) = Ok ths"
  shows "queryLiquidInfrastructureThresholds E nft c = (Ok ths, c)"
proof -
  have "snd (queryLiquidInfrastructureThresholds E nft c) = c"
    using QueryEVM_state [OF assms(1)]
    by (auto simp: queryLiquidInfrastructureThresholds_def bind_def split: result.splits prod.splits) (metis snd_conv)+
  with assms(2) show ?thesis by (metis prod.collapse)
qed

lemma thresholds_same_evm:
  assumes "evm_query_ok E" and "same_evm E (world c) (world c1)"
  shows "fst (queryLiquidInfrastructureThresholds E nft c1) = fst (queryLiquidInfrastructureThresholds E nft c)"
proof -
  have "fst (QueryEVM E meth con q ca args c1) = fst (QueryEVM E meth con q ca args c)" for meth con q ca args
    using assms by (auto simp: QueryEVM_def bind_def wrap_as_def ext_ApplyMessage_query same_evm_def split: result.splits)
  then show ?thesis by (simp add: queryLiquidInfrastructureThresholds_def fst_bind)
qed

lemma RedirectBalanceToToken_Ok:
  assumes laws: "erc20_laws E ed" "int_ok (math E)" and ok: "reg_ok (libs E) c" and denom: "coin_denom bal0 \<noteq> ed"
    and acc: "VerifyAddressFormat (libs E) a = Ok u" and run: "RedirectBalanceToToken E a nft bal0 th c = (Ok f, c')"
  shows "\<exists>pair r. f = \<lparr>coin_denom = coin_denom bal0, coin_amount = coin_amount bal0 - th\<rparr> \<and>
     coin_converted E ed f nft a pair r c c'"
proof -
  from run obtain t e r where i: "NewIntFromBigInt (math E) th = Ok t" "Int_Sub (math E) (coin_amount bal0) t = Ok e"
    and n: "NewCoin (math E) (coin_denom bal0) e = Ok f"
    and conv: "ConvertCoin E f (Address_Hex (libs E) nft) (AccAddress_String (libs E) a) c = (Ok r, c')"
    by (auto simp: RedirectBalanceToToken_def Let_def split: if_splits)
  have "t = th" "e = coin_amount bal0 - t" using i laws(2) unfolding int_ok_def by blast+
  with n have f: "NewCoin (math E) (coin_denom bal0) (coin_amount bal0 - th) = Ok f" by simp
  have l: "bank_ok E" "evm_query_ok E" "evm_frame_ok E ed" "bank_evm_ok E ed" "coin_ok (math E)" "bech32_ok (libs E)" "addr_ok (libs E)"
    using laws(1) by (auto simp: erc20_laws_def)
  have f': "f = \<lparr>coin_denom = coin_denom bal0, coin_amount = coin_amount bal0 - th\<rparr>"
    using coin_okD(1) [OF l(5) f] by simp
  then have "coin_denom f \<noteq> ed" using denom by simp
  from ConvertCoin_Ok [OF l(1-4) ok this conv] show ?thesis
    using f' bech32_okD [OF l(6) acc] by (auto simp: addr_okD(1) [OF l(7)])
qed

lemma Redirect_not_liquid:
  "\<not> IsLiquidAccount E a c \<Longrightarrow> RedirectLiquidAccountExcessBalance E a con c = (Ok (), c)"
  by (auto simp: RedirectLiquidAccountExcessBalance_def IsLiquidAccount_def bind_def split: prod.splits)

text \<open>
  What a redirection promises: nothing moves up to the threshold; above it, the excess is converted
  to tokens of the NFT contract.
\<close>

lemma Redirect_Ok:
  fixes E :: "'w env"
  assumes laws: "erc20_laws E ed" "int_ok (math E)" and ok: "reg_ok (libs E) c" and acc: "VerifyAddressFormat (libs E) a = Ok u"
    and liquid: "IsLiquidAccountWithValue E a c = (True, Some nft)"
    and ths: "fst (queryLiquidInfrastructureThresholds E nft c) = Ok ths" and th: "FindThresholdForERC20 ths con = Some th"
    and pair: "find_pair (libs E) (Address_Hex (libs E) con) c = Some pair" "Denom pair \<noteq> ed" "\<not> IsHexAddress (libs E) (Denom pair)"
    and run: "RedirectLiquidAccountExcessBalance E a con c = (Ok (), c')"
  shows "if bal E a (Denom pair) (world c) \<le> th_Amount th then world c' = world c \<and> kv c' = kv c
     else \<exists>r c1. coin_converted E ed \<lparr>coin_denom = Denom pair, coin_amount = bal E a (Denom pair) (world c) - th_Amount th\<rparr>
            nft a pair r c c1 \<and> world c' = world c1 \<and> kv c' = kv c1"
proof -
  let ?bal = "GetBalance (bank E) a (Denom pair) (world c)"
  have b: "bank_ok E" "evm_query_ok E" using laws(1) by (simp_all add: erc20_laws_def)
  have tok: "th_Token th = con" using FindThreshold_token [OF th] by simp
  let ?rest = "bind (if th_Amount th < coin_amount ?bal
        then bind (RedirectBalanceToToken E a nft ?bal (th_Amount th)) (\<lambda>redirected. ret (Some redirected)) else ret None) (\<lambda>redirectedAmount.
        EmitEvent (NewEventBalanceRedirect (AccAddress_String (libs E) a) redirectedAmount))"
  have look: "GetTokenPair (GetTokenPairID (libs E) (Address_Hex (libs E) con) c) c = Ok (Some pair)"
    using lookup_token [OF ok] pair(1) by simp
  have q: "bind (panic_on_err p (queryLiquidInfrastructureThresholds E nft)) g c = g ths c"
    for p and g :: "LiquidAccountThreshold list \<Rightarrow> ('w ctx, unit) go"
    by (rule bind_OkI) (simp add: thresholds_state [OF b(2) ths])
  have step: "RedirectLiquidAccountExcessBalance E a con c =
      (if \<not> Enabled pair then (Panic ''threshold token pair does not exist or is inactive'', c) else ?rest c)"
    unfolding RedirectLiquidAccountExcessBalance_def by (simp add: bind_gets q bind_reads look liquid th tok)
  with run have r: "?rest c = (Ok (), c')" by (cases "Enabled pair") simp_all
  have named: "find_pair (libs E) (Denom pair) c = Some pair"
    using erc20_registry.find_naming [OF ok pair(1), of "Denom pair"] pair(3) by (simp add: names_def)
  show ?thesis
  proof (cases "th_Amount th < coin_amount ?bal")
    case False
    with r show ?thesis by auto
  next
    case True
    with r obtain f c1 where red: "RedirectBalanceToToken E a nft ?bal (th_Amount th) c = (Ok f, c1)"
      and c': "world c' = world c1" "kv c' = kv c1" by auto
    have d: "coin_denom ?bal = Denom pair" by (rule bank_okD(1) [OF b(1)])
    then have "coin_denom ?bal \<noteq> ed" using pair(2) by simp
    from RedirectBalanceToToken_Ok [OF laws ok this acc red] d obtain p q where
      cc: "coin_converted E ed \<lparr>coin_denom = Denom pair, coin_amount = bal E a (Denom pair) (world c) - th_Amount th\<rparr> nft a p q c c1"
      by auto
    moreover from cc named have "p = pair" by (simp add: coin_converted_def)
    ultimately show ?thesis using True c' by auto
  qed
qed

subsection \<open>Liquifying\<close>

text \<open>Addresses of contracts have 20 bytes, and reading the bytes of such an address gives it back.\<close>

definition evm_addr_ok :: "lib \<Rightarrow> bool" where
  "evm_addr_ok L \<longleftrightarrow> (\<forall>a. length (addr_bytes a) = 20 \<longrightarrow> BytesToAddress L (addr_bytes a) = a) \<and>
     (\<forall>a n. length (addr_bytes (CreateAddress L a n)) = 20)"

lemma DeployContract_addr: "DeployContract E a con args c = (Ok nft, c') \<Longrightarrow> \<exists>n. nft = CreateAddress (libs E) (BytesToAddress (libs E) a) n"
  by (auto simp: DeployContract_def Let_def SDKToEVMAddress_def)

lemma deploy_addr:
  assumes "deployLiquidInfrastructureNFTContract E a c = (Ok nft, c')"
  shows "nft = zero_address \<or> (\<exists>n. nft = CreateAddress (libs E) (BytesToAddress (libs E) a) n)"
proof -
  from assms obtain con c1 where dep: "DeployContract E a LiquidInfrastructureNFT [VStr (AccAddress_String (libs E) a)] c = (Ok con, c1)"
    and "nft = zero_address \<or> nft = con"
    by (auto simp: deployLiquidInfrastructureNFTContract_def split: if_splits)
  with DeployContract_addr [OF dep] show ?thesis by (auto split: if_splits)
qed

lemma msgServer_Liquify_Ok:
  assumes addr: "evm_addr_ok (libs E)" and run: "msgServer_Liquify E ms c = (Ok acc, c')"
  shows "\<exists>sender nft. AccAddressFromBech32 (libs E) ms = Ok sender \<and> \<not> IsLiquidAccount E sender c \<and>
     liquid_entries c' = (liquid_entries c)(AccAddress_String (libs E) sender \<mapsto> nft) \<and>
     GetLiquidAccountEntry E sender c' = Ok nft \<and> la_NftAddress acc = Address_Hex (libs E) nft \<and>
     la_Account acc = AccAddress_String (libs E) sender \<and> la_Owner acc = AccAddress_String (libs E) sender \<and>
     writes_only {''microtx''} c c'"
proof -
  from run obtain sender nft where s: "AccAddressFromBech32 (libs E) ms = Ok sender" "\<not> IsLiquidAccount E sender c"
    and do: "DoLiquify E sender c = (Ok nft, c')"
    and acc: "\<lparr>la_Owner = AccAddress_String (libs E) sender, la_Account = AccAddress_String (libs E) sender,
       la_NftAddress = Address_Hex (libs E) nft\<rparr> = acc"
    by (auto simp: msgServer_Liquify_def split: if_splits)
  from do obtain c1 c2 where dep: "deployLiquidInfrastructureNFTContract E sender c = (Ok nft, c1)"
    and add: "addLiquidInfrastructureEntry E sender nft c1 = (Ok (), c2)" and c': "kv c' = kv c2" "prm c' = prm c2"
    by (auto simp: DoLiquify_def)
  have w1: "writes_only {''microtx''} c c1" by (rule keepsD [OF frame_queries(4) dep])
  have e1: "liquid_entries c1 = liquid_entries c"
    using keepsD [OF frame_queries(4) [of "{}"] dep] by (simp add: writes_only_def liquid_entries_def)
  note a = addLiquidInfrastructureEntry_Ok [OF add]
  have ent: "liquid_entries c' = (liquid_entries c)(AccAddress_String (libs E) sender \<mapsto> nft)"
    using a(2) e1 c'(1) by (simp add: liquid_entries_def)
  have "length (addr_bytes nft) = 20"
    using deploy_addr [OF dep] addr by (auto simp: evm_addr_ok_def zero_address_def)
  then have "GetLiquidAccountEntry E sender c' = Ok nft"
    using addr ent by (auto simp: GetLiquidAccountEntry_eq evm_addr_ok_def)
  moreover have "writes_only {''microtx''} c c'"
    using writes.R_trans [OF w1 a(3)] c' by (simp add: writes_only_def)
  ultimately show ?thesis using s acc ent by auto
qed

lemma msgServer_Microtx_Ok:
  assumes laws: "dec_ok (math E)" "coin_ok (math E)" "fees_ok E" "bank_ok E"
    and amt: "0 < coin_amount x" "coin_amount x < 2 ^ 240"
    and bp: "GetMicrotxFeeBasisPoints c = Ok bp" "bp \<le> 10000"
    and gf: "IsGasFreeMsgType ''/althea.microtx.v1.MsgMicrotx'' c = Ok gf"
    and run: "msgServer_Microtx E ms mr x c = (Ok (), c')"
    and plain: "\<And>receiver. AccAddressFromBech32 (libs E) mr = Ok receiver \<Longrightarrow> \<not> IsLiquidAccount E receiver c"
  shows "\<exists>sender receiver. AccAddressFromBech32 (libs E) ms = Ok sender \<and> AccAddressFromBech32 (libs E) mr = Ok receiver \<and>
     \<not> BlockedAddr (bank E) receiver \<and> kv c' = kv c \<and> prm c' = prm c \<and>
     bal_change E (world c) (world c') (coin_denom x) (payment E gf bp sender receiver (coin_amount x))"
proof -
  from run obtain sender receiver where s: "AccAddressFromBech32 (libs E) ms = Ok sender" "AccAddressFromBech32 (libs E) mr = Ok receiver"
    "\<not> BlockedAddr (bank E) receiver" and k: "keeper_Microtx E sender receiver x c = (Ok (), c')"
    by (auto simp: msgServer_Microtx_def split: if_splits)
  from keeper_Microtx_Ok [OF laws amt bp gf k] obtain con c1 where c1: "kv c1 = kv c" "prm c1 = prm c"
    "bal_change E (world c) (world c1) (coin_denom x) (payment E gf bp sender receiver (coin_amount x))"
    and red: "RedirectLiquidAccountExcessBalance E receiver con c1 = (Ok (), c')" by blast
  have "IsLiquidAccountWithValue E receiver c1 = IsLiquidAccountWithValue E receiver c" by (rule IsLiquid_cong) (simp add: c1(1))
  with plain [OF s(2)] have "\<not> IsLiquidAccount E receiver c1" by (simp add: IsLiquidAccount_def)
  from Redirect_not_liquid [OF this, of con] red have "c' = c1" by simp
  with s c1 show ?thesis by blast
qed

section \<open>Properties\<close>

text \<open>
  C24: A successful payment to an account that is not a Liquid Infrastructure Account moves exactly
  the amount from the sender to the receiver and, unless the message is free of gas, exactly the
  basis-point fee from the sender to the fee collector; no other balance of any denomination
  changes, and no store of any module does.
\<close>

theorem Microtx_exact:
  assumes laws: "dec_ok (math E)" "coin_ok (math E)" "fees_ok E" "bank_ok E"
    and amt: "0 < coin_amount x" "coin_amount x < 2 ^ 240"
    and bp: "GetMicrotxFeeBasisPoints c = Ok bp" "bp \<le> 10000"
    and gf: "IsGasFreeMsgType ''/althea.microtx.v1.MsgMicrotx'' c = Ok gf"
    and run: "msgServer_Microtx E ms mr x c = (Ok (), c')"
    and plain: "\<And>receiver. AccAddressFromBech32 (libs E) mr = Ok receiver \<Longrightarrow> \<not> IsLiquidAccount E receiver c"
  shows "\<exists>sender receiver. AccAddressFromBech32 (libs E) ms = Ok sender \<and> AccAddressFromBech32 (libs E) mr = Ok receiver \<and>
     \<not> BlockedAddr (bank E) receiver \<and> kv c' = kv c \<and>
     bal_change E (world c) (world c') (coin_denom x) (payment E gf bp sender receiver (coin_amount x))"
  using msgServer_Microtx_Ok [OF laws amt bp gf run plain] by blast



text \<open>
  C27: The NFT of a Liquid Infrastructure Account is permanent: whatever message of the module is
  handled, and whether it succeeds, fails or panics, an entry that exists before is there
  afterwards with the same address.
\<close>

theorem liquid_entry_permanent:
  assumes "GetLiquidAccountEntry E a c = Ok nft"
    and "c' = snd (msgServer_Microtx E s r x c) \<or> c' = snd (msgServer_Liquify E s c)"
  shows "GetLiquidAccountEntry E a c' = Ok nft"
proof -
  have "entries_grow c c'"
    using assms(2) entries_of_writes [OF frame_Microtx, of E s r x] entries_Liquify [of E s] by (auto simp: keeps_def)
  then have "liquid_entries c' s = Some n" if "liquid_entries c s = Some n" for s n
    using that by (simp add: entries_grow_def map_le_def) (metis domI)
  then show ?thesis
    using assms(1) by (auto simp: GetLiquidAccountEntry_eq split: option.splits if_splits)
qed

text \<open>
  C28: The fee query answers without a panic for every amount of 64 bits, with at most the amount,
  and it is the fee that a payment of this amount is charged: what \<open>DeductMicrotxFee\<close> moves from the
  payer to the fee collector.
\<close>

theorem Query_MicrotxFee_exact:
  assumes laws: "dec_ok (math E)" "coin_ok (math E)" "fees_ok E" and bp: "GetMicrotxFeeBasisPoints c = Ok bp" "bp \<le> 10000"
  shows "\<exists>fee. Query_MicrotxFee E amount c = Ok fee \<and> fee \<le> amount \<and>
     (\<forall>a d f c'. DeductMicrotxFee E a \<lparr>coin_denom = d, coin_amount = uint amount\<rparr> c = (Ok f, c') \<longrightarrow>
        coin_amount f = uint fee \<and> bal_change E (world c) (world c') d (pay a (fee_collector E) (uint fee)))"
proof -
  have a: "0 \<le> uint amount" by simp
  have lt: "uint amount < 2 ^ 64" using uint_lt2p [of amount] by simp
  then have big: "uint amount < 2 ^ 240" by simp
  note b = bp_fee_bounds(1,2) [OF a bp(2)]
  let ?fee = "word_of_int (bp_fee (uint amount) bp) :: u64"
  have u: "uint ?fee = bp_fee (uint amount) bp" using lt b by (simp add: uint_word_of_int)
  have "Query_MicrotxFee E amount c = Ok ?fee"
    using lt b by (simp add: Query_MicrotxFee_def bp(1) CalculateBasisPointFee_eq [OF laws(1) a big bp(2)] Int_Uint64_def)
  moreover have "?fee \<le> amount" using b(2) u by (simp add: word_le_def)
  moreover have "coin_amount f = uint ?fee \<and> bal_change E (world c) (world c') d (pay a (fee_collector E) (uint ?fee))"
    if "DeductMicrotxFee E a \<lparr>coin_denom = d, coin_amount = uint amount\<rparr> c = (Ok f, c')" for a d f c'
    using DeductMicrotxFee_Ok(1,2) [OF laws _ _ bp that] a big u by simp
  ultimately show ?thesis by blast
qed

text \<open>
  C29: Import of a microtx genesis with a fee below 100 percent succeeds and export gives it back;
  with any other fee the import panics and leaves the context as it is.
\<close>

theorem microtx_genesis_roundtrip:
  "if MicrotxFeeBasisPoints p < 10000
   then \<exists>c'. microtx_InitGenesis (Some p) c = (Ok (), c') \<and> microtx_ExportGenesis c' = Ok (Some p) \<and> kv c' = kv c \<and> world c' = world c
   else \<exists>m. microtx_InitGenesis (Some p) c = (Panic m, c)"
proof (cases "MicrotxFeeBasisPoints p < 10000")
  case True
  then have "\<not> 10000 \<le> MicrotxFeeBasisPoints p" by simp
  then show ?thesis
    using True by (cases p) (simp add: microtx_InitGenesis_def panic_on_err_def microtx_SetParams_def bind_def microtx_Params_ValidateBasic_def
        param_SetParamSet_def microtx_ParamSetPairs_def microtx_ExportGenesis_def microtx_GetParams_def)
next
  case False
  then have "10000 \<le> MicrotxFeeBasisPoints p" by simp
  then show ?thesis
    using False by (simp add: microtx_InitGenesis_def panic_on_err_def microtx_SetParams_def bind_def microtx_Params_ValidateBasic_def)
qed

section \<open>Witnesses\<close>

definition c_mtx_ctx :: "ledger \<Rightarrow> ledger ctx" where
  "c_mtx_ctx w = (c_conv_ctx c_tp w)\<lparr>prm := (prm (c_conv_ctx c_tp w))
     (''microtx'' := [ParamsStoreKeyMicrotxFeeBasisPoints \<mapsto> PU64 1000])\<rparr>"

definition c_liquid_ctx :: "ledger \<Rightarrow> ledger ctx" where
  "c_liquid_ctx w = store_upd ''microtx'' (kv_set (GetLiquidAccountKey c_lib ''b'') c_long) (c_mtx_ctx w)"

lemma c_mtx_sel [simp]: "world (c_mtx_ctx w) = w" "world (c_liquid_ctx w) = w" "prm (c_liquid_ctx w) = prm (c_mtx_ctx w)"
  "kv (c_mtx_ctx w) = kv (c_conv_ctx c_tp w)" "kv (c_liquid_ctx w) ''erc20'' = kv (c_conv_ctx c_tp w) ''erc20''"
  by (simp_all add: c_mtx_ctx_def c_liquid_ctx_def)

lemma c_mtx_fees:
  assumes "prm c = prm (c_mtx_ctx w)"
  shows "GetMicrotxFeeBasisPoints c = Ok 1000" "IsGasFreeMsgType m c = Ok False" "erc20_GetParams c = Ok \<lparr>EnableErc20 = True, EnableEVMHook = True\<rparr>"
  using assms by (simp_all add: GetMicrotxFeeBasisPoints_def microtx_GetParamsIfSet_def c_mtx_ctx_def IsGasFreeMsgType_def
      GetGasFreeMessageTypes_def GetIfExists_def gasfree_keys c_conv_ctx_def erc20_GetParams_def
      ParamStoreKeyEnableErc20_def ParamStoreKeyEnableEVMHook_def)

lemma c_mtx_Minting:
  assumes "kv c ''erc20'' = kv (c_conv_ctx c_tp w) ''erc20''" and "prm c = prm (c_mtx_ctx w)"
  shows "MintingEnabled c_env sender receiver ''acoin'' c = Ok c_tp"
  using assms(1) by (rule c_Minting) (simp add: assms(2) c_mtx_ctx_def)

lemma c_mtx_Deduct:
  assumes "prm c = prm (c_mtx_ctx w)" and "1 \<le> l_bal (world c) a ''acoin''"
  shows "DeductMicrotxFee c_env a \<lparr>coin_denom = ''acoin'', coin_amount = 10\<rparr> c =
     (Ok \<lparr>coin_denom = ''acoin'', coin_amount = 1\<rparr>,
      c\<lparr>world := l_add ''module:fee_collector'' ''acoin'' 1 (l_add a ''acoin'' (- 1) (world c))\<rparr>)"
  using assms(2)
  by (simp add: DeductMicrotxFee_def bind_def c_mtx_fees [OF assms(1)] DeductBasisPointFee_def c_fee ext_def)
    (simp add: c_math_def c_bank_def c_acct_def c_lib_def bind_def ext_def)

lemma c_mtx_ERC20:
  assumes "kv c ''erc20'' = kv (c_conv_ctx c_tp w) ''erc20''"
  shows "ValidateAndGetERC20Address c_env \<lparr>coin_denom = ''acoin'', coin_amount = n\<rparr> c = Ok (Addr ''j'')"
  using c_addresses by (simp add: ValidateAndGetERC20Address_def c_lookup [OF assms] config_BaseDenom_def) (simp add: c_tp_def)

lemma c_mtx_ops:
  "NewCoins c_math [\<lparr>coin_denom = d, coin_amount = 10\<rparr>] = Ok [\<lparr>coin_denom = d, coin_amount = 10\<rparr>]"
  "SendCoins c_bank = l_move" "IsSendEnabledCoins c_bank xs w = Ok ()" "\<not> BlockedAddr c_bank a" "AccAddress_String c_lib a = a"
  "NewIntFromBigInt c_math n = Ok n" "Int_Sub c_math n k = Ok (n - k)"
  by (simp_all add: c_math_def c_bank_def c_lib_def)

lemma c_not_liquid: "\<not> IsLiquidAccount c_env a (c_mtx_ctx w)"
  by (simp add: IsLiquidAccount_def IsLiquidAccountWithValue_def GetLiquidAccountEntry_def put_pair_run store_upd_def)

lemma c_Microtx: "\<exists>c'. msgServer_Microtx c_env ''alice'' ''bob'' \<lparr>coin_denom = ''acoin'', coin_amount = 10\<rparr> (c_mtx_ctx c_world) = (Ok (), c')"
proof -
  have b: "AccAddressFromBech32 c_lib ''bob'' = Ok ''bob''" by code_simp
  have w: "l_bal c_world ''alice'' ''acoin'' = 1000" by (simp add: c_world_def)
  have liq: "\<not> IsLiquidAccount c_env ''bob'' c" if "kv c = kv (c_mtx_ctx c_world)" for c
    using c_not_liquid [of "''bob''" c_world] IsLiquid_cong [of c "c_mtx_ctx c_world" c_env "''bob''"] that by (simp add: IsLiquidAccount_def)
  show ?thesis
    by (simp add: msgServer_Microtx_def keeper_Microtx_def bind_def c_addresses b c_mtx_ops c_mtx_ERC20 [of _ c_world]
        c_mtx_fees [of _ c_world] c_mtx_Deduct [of _ c_world] ext_def w Redirect_not_liquid [OF liq])
qed

theorem Microtx_exact_witness:
  "\<exists>(c' :: ledger ctx). bal_change c_env c_world (world c') ''acoin'' (payment c_env False 1000 ''alice'' ''bob'' 10)"
proof -
  obtain c' where "msgServer_Microtx c_env ''alice'' ''bob'' \<lparr>coin_denom = ''acoin'', coin_amount = 10\<rparr> (c_mtx_ctx c_world) = (Ok (), c')"
    using c_Microtx by blast
  from Microtx_exact [OF _ _ _ _ _ _ _ _ _ this, of 1000 False] show ?thesis
    by (auto simp: c_dec_ok c_coin_ok c_fees_ok c_bank_ok c_mtx_fees [of _ c_world] c_not_liquid word_le_def c_addresses)
      (auto simp: c_lib_def)
qed

lemma c_getThresholds:
  "queryLiquidInfrastructureThresholds c_env nft c = (Ok [\<lparr>th_Amount = 40, th_Token = Addr ''j''\<rparr>], c)"
proof -
  have "QueryEVM c_env ''getThresholds'' LiquidInfrastructureNFT q (Some nft) [] c = (Ok (c_reply False ''Tok''), c)" for q
    by (simp add: QueryEVM_def bind_def wrap_as_def ext_def c_evm_def c_acct_def c_apply_def c_pack_def c_call_def SplitN2_shape c_reply_def)
  then show ?thesis
    by (simp add: queryLiquidInfrastructureThresholds_def bind_def)
      (simp add: c_evm_def c_unpack_def thresholds_of_values_def NewLiquidAccountThreshold_def)
qed

lemma c_liquid:
  assumes "kv c ''microtx'' = kv (c_liquid_ctx w) ''microtx''"
  shows "IsLiquidAccountWithValue c_env ''b'' c = (True, Some (Addr c_long))"
  using assms by (simp add: IsLiquidAccountWithValue_def GetLiquidAccountEntry_def c_liquid_ctx_def) (simp add: c_lib_def c_long_def)

lemma c_Redirect:
  assumes "kv c = kv (c_liquid_ctx w)" and "prm c = prm (c_mtx_ctx w)" and "l_bal (world c) ''b'' ''acoin'' = 110"
    and "l_tok (world c) (Addr ''j'') (Addr c_long) = 50"
  shows "\<exists>c'. RedirectLiquidAccountExcessBalance c_env ''b'' (Addr ''j'') c = (Ok (), c') \<and> kv c' = kv c"
proof -
  have kv: "kv c ''erc20'' = kv (c_conv_ctx c_tp w) ''erc20''" using assms(1) by simp
  have hex: "Address_Hex c_lib (Addr ''j'') = ''0x6a''" "IsHexAddress c_lib (Address_Hex c_lib a)" for a
    by (code_simp, simp add: c_lib_def HasPrefix_def)
  have h: "IsHexAddress c_lib ''0x6a''" "HexToAddress c_lib ''0x6a'' = Addr ''j''" by code_simp+
  have "find_pair c_lib ''0x6a'' c = Some c_tp"
    using find_pair_cong [OF kv, of c_lib "''0x6a''"] erc20_registry.find_naming [OF reg_ok_c_conv_ctx find_c_conv_ctx, of "''0x6a''" w] c_addresses(4) h
    by (simp add: names_def)
  then have look: "GetTokenPair (GetTokenPairID c_lib ''0x6a'' c) c = Ok (Some c_tp)"
    using lookup_token [of c_lib c "''0x6a''"] reg_ok_cong [OF kv, of c_lib] reg_ok_c_conv_ctx [of w] by simp
  have t: "token_balance c_env con (Addr c_long) w = Ok (Some (l_tok w con (Addr c_long)))"
    if "0 \<le> l_tok w con (Addr c_long)" for con w
    using that by (intro c_token_balance) (simp_all add: c_long_def)
  have m: "CallEVM c_env abi fr con True ''mint'' [VAddr (Addr c_long), VUint 70] c =
     (Ok (c_reply False []), c\<lparr>world := t_add con (Addr c_long) 70 (world c)\<rparr>)" for abi fr con c
    by (rule c_mint) (simp_all add: c_long_def)
  have v: "NewCoin c_math ''acoin'' 70 = Ok \<lparr>coin_denom = ''acoin'', coin_amount = 70\<rparr>" "validate_coin_denom c_env ''acoin'' = Ok ()"
    "AccAddressFromBech32 c_lib ''b'' = Ok ''b''" "MustAccAddressFromBech32 c_lib ''b'' = Ok ''b''" "Enabled c_tp" by code_simp+
  have conv: "\<exists>c'. ConvertCoin c_env \<lparr>coin_denom = ''acoin'', coin_amount = 70\<rparr> (Address_Hex c_lib (Addr c_long)) ''b'' c = (Ok True, c') \<and> kv c' = kv c"
    using assms(3,4)
    by (simp add: ConvertCoin_def Let_def bind_def c_addresses v c_mtx_Minting [OF kv assms(2)] addr_okD(1) [OF c_addr_ok]
        c_alive convertCoinNativeCoin_def read_balance_def BalanceOf_eq [OF c_evm_query_ok] t m ext_def c_bank_ops)
  then obtain c' where c': "ConvertCoin c_env \<lparr>coin_denom = ''acoin'', coin_amount = 70\<rparr> (Address_Hex c_lib (Addr c_long)) ''b'' c = (Ok True, c')"
    "kv c' = kv c" by blast
  show ?thesis
    using assms(3) c'(2)
    by (simp add: RedirectLiquidAccountExcessBalance_def RedirectBalanceToToken_def MsgConvertCoin_ValidateBasic_def bind_def panic_on_err_def
        c_liquid [of c w] assms(1) c_getThresholds look hex v c_bank_ops c_mtx_ops c' Let_def)
qed

lemma c_Microtx_liquid:
  "\<exists>c'. keeper_Microtx c_env ''alice'' ''b'' \<lparr>coin_denom = ''acoin'', coin_amount = 10\<rparr> (c_liquid_ctx c_world2) = (Ok (), c') \<and>
     kv c' = kv (c_liquid_ctx c_world2)"
proof -
  define fee where "fee = NewEventMicrotxFeeCollected ''alice'' \<lparr>coin_denom = ''acoin'', coin_amount = 1\<rparr>"
  define mtx where "mtx = NewEventMicrotx ''alice'' ''b'' \<lparr>coin_denom = ''acoin'', coin_amount = 10\<rparr>"
  define w where "w = l_add ''b'' ''acoin'' 10 (l_add ''alice'' ''acoin'' (- 10)
    (l_add ''module:fee_collector'' ''acoin'' 1 (l_add ''alice'' ''acoin'' (- 1) c_world2)))"
  define c1 where "c1 = (c_liquid_ctx c_world2)\<lparr>world := w, evs := evs (c_liquid_ctx c_world2) @ [fee] @ [mtx]\<rparr>"
  have "keeper_Microtx c_env ''alice'' ''b'' \<lparr>coin_denom = ''acoin'', coin_amount = 10\<rparr> (c_liquid_ctx c_world2) =
      RedirectLiquidAccountExcessBalance c_env ''b'' (Addr ''j'') c1"
    by (simp add: keeper_Microtx_def bind_def c_mtx_ops c_mtx_ERC20 [of _ c_world2] c_mtx_fees [of _ c_world2]
        c_mtx_Deduct [of _ c_world2] ext_def c1_def w_def fee_def mtx_def)
  moreover have "\<exists>c'. RedirectLiquidAccountExcessBalance c_env ''b'' (Addr ''j'') c1 = (Ok (), c') \<and> kv c' = kv c1"
    by (rule c_Redirect [of _ c_world2]) (simp_all add: c1_def w_def)
  ultimately show ?thesis by (simp add: c1_def)
qed

lemma c_send_evm_ok: "send_evm_ok c_env ed"
  unfolding send_evm_ok_def c_env_sel c_mtx_ops by (metis c_same_evm l_tok_move)

lemma c_int_ok: "int_ok c_math"
  by (simp add: int_ok_def c_math_def)


lemma c_evm_addr_ok: "evm_addr_ok c_lib"
  by (auto simp: evm_addr_ok_def c_lib_def min_def)

lemma c_Liquify: "\<exists>acc c'. msgServer_Liquify c_env ''alice'' (c_mtx_ctx c_world) = (Ok acc, c')"
proof -
  have call: "microtx_CallEVM c_env fr None 0 dat True c = (Ok (c_reply False []), c)" for fr dat c
    by (simp add: microtx_CallEVM_def bind_def ext_def c_evm_def c_acct_def c_apply_def c_reply_def Let_def)
  have q: "QueryEVM c_env ''Version'' LiquidInfrastructureNFT q (Some nft) [] c = (Ok (c_reply False [CHR 0x01]), c)" for q nft c
    by (simp add: QueryEVM_def bind_def wrap_as_def ext_def c_evm_def c_acct_def c_apply_def c_pack_def c_call_def SplitN2_shape c_reply_def)
  have one: "big_of_bytes (evm_Ret (c_reply False [CHR 0x01])) = CurrentNFTVersion"
    by (simp add: big_of_bytes_def c_reply_def CurrentNFTVersion_def)
  have p: "abi_Pack c_evm con m args = Ok (c_pack m args)" for con m args by (simp add: c_evm_def)
  have acc: "GetSequence c_acct a w = Ok 0" "IsEthermintAccount (GetAccount c_acct a w) = Ok True" for a w
    by (simp_all add: c_acct_def IsEthermintAccount_def)
  have dep: "\<exists>nft. deployLiquidInfrastructureNFTContract c_env ''alice'' c = (Ok nft, c)" for c
    by (simp add: deployLiquidInfrastructureNFTContract_def DeployContract_def queryLiquidInfrastructureContractVersion_def
        Let_def bind_def wrap_as_def p acc call q one)
  obtain nft where "deployLiquidInfrastructureNFTContract c_env ''alice'' (c_mtx_ctx c_world) = (Ok nft, c_mtx_ctx c_world)" using dep by blast
  moreover have "\<not> kv_has (kv (c_mtx_ctx c_world) ''microtx'') k" for k by (simp add: put_pair_run store_upd_def kv_has_def)
  ultimately show ?thesis
    using c_not_liquid [of "''alice''" c_world]
    by (simp add: msgServer_Liquify_def DoLiquify_def addLiquidInfrastructureEntry_def bind_def wrap_as_def c_addresses acc Let_def)
qed


theorem liquid_entry_permanent_witness:
  "GetLiquidAccountEntry c_env ''b'' (c_liquid_ctx c_world2) = Ok (Addr c_long) \<and>
   GetLiquidAccountEntry c_env ''b'' (snd (msgServer_Liquify c_env ''b'' (c_liquid_ctx c_world2))) = Ok (Addr c_long)"
proof -
  have e: "GetLiquidAccountEntry c_env ''b'' (c_liquid_ctx c_world2) = Ok (Addr c_long)"
    using c_liquid [of "c_liquid_ctx c_world2" c_world2] by (simp add: IsLiquidAccountWithValue_def split: result.splits)
  with liquid_entry_permanent [OF e, of _ "''b''"] show ?thesis by simp
qed

theorem Query_MicrotxFee_exact_witness:
  "\<exists>fee. Query_MicrotxFee c_env 10 (c_mtx_ctx c_world) = Ok fee \<and> fee \<le> 10"
  using Query_MicrotxFee_exact [of c_env "c_mtx_ctx c_world" 1000 10]
  by (auto simp: c_dec_ok c_coin_ok c_fees_ok c_mtx_fees [of _ c_world] word_le_def)

section \<open>Shortcomings\<close>

text \<open>The query by owner stops at the first entry, so it never returns more than one account.\<close>

lemma owner_query_at_most_one:
  assumes "GetLiquidAccountsByEVMOwner E owner c = (Ok accs, c')"
  shows "length accs \<le> 1"
proof -
  have "length accs \<le> 1" if "iterate_entries E (\<lambda>_ accAddress own nftAddr acc.
      (True, if own = owner then acc @ [liquid_account (libs E) own accAddress nftAddr] else acc)) es [] d = (Ok accs, c')" for es d
    using that by (cases es) (auto simp: bind_def Let_def split: result.splits prod.splits if_splits)
  with assms show ?thesis by (auto simp: GetLiquidAccountsByEVMOwner_def IterateLiquidAccounts_def)
qed

text \<open>
  A deployed contract that reports another version is no error: the zero address is recorded as the
  account's NFT.
\<close>

lemma wrong_version_is_recorded:
  assumes "DeployContract E account LiquidInfrastructureNFT [VStr (AccAddress_String (libs E) account)] c = (Ok con, c1)"
    and "queryLiquidInfrastructureContractVersion E con c1 = (Ok v, c2)" and "v \<noteq> 1"
    and "\<not> kv_has (kv c2 ''microtx'') (GetLiquidAccountKey (libs E) account)"
  shows "fst (DoLiquify E account c) = Ok zero_address"
  using assms by (simp add: DoLiquify_def deployLiquidInfrastructureNFTContract_def addLiquidInfrastructureEntry_def
      CurrentNFTVersion_def bind_def wrap_as_def Let_def)

text \<open>
  The listing cuts sixteen bytes off the text of the account's address: an account with a shorter
  text makes it panic.
\<close>

lemma short_account_panics:
  assumes "kv_prefix LiquidAccountKey (kv c ''microtx'') = (key, bz) # rest" and "length key < 16"
  shows "\<exists>p. CollectLiquidAccounts E c = (Panic p, c)"
  using assms by (simp add: CollectLiquidAccounts_def IterateLiquidAccounts_def bind_def slice_from_def LiquidAccountKey_def HashString_def)

end
