(* ===== verification/Lockup.thy ===== *)
theory Lockup
  imports AnteCore Concrete
begin

text \<open>
  The lockup module (\<open>x/lockup\<close>): its parameters, genesis, and the ante decorator that keeps
  locked tokens from moving while the chain is locked.
\<close>

section \<open>Parameters\<close>

definition ErrLocked :: go_error where "ErrLocked = Registered ''lockup'' 1"
definition ErrUnhandled :: go_error where "ErrUnhandled = Registered ''lockup'' 2"

definition LockedKey :: string where "LockedKey = ''locked''"
definition LockExemptKey :: string where "LockExemptKey = ''lockExempt''"
definition LockedMessageTypesKey :: string where "LockedMessageTypesKey = ''lockedMessageTypes''"
definition LockedTokenDenomsKey :: string where "LockedTokenDenomsKey = ''lockedTokenDenoms''"

lemmas lockup_keys = LockedKey_def LockExemptKey_def LockedMessageTypesKey_def LockedTokenDenomsKey_def

definition BaseDenom :: string where "BaseDenom = ''aalthea''"

record lockup_params =
  Locked :: bool
  LockExempt :: "string list"
  LockedMessageTypes :: "string list"
  LockedTokenDenoms :: "string list"

definition lockup_DefaultParams :: lockup_params where
  "lockup_DefaultParams = \<lparr>Locked = False, LockExempt = [],
     LockedMessageTypes = [''/cosmos.bank.v1beta1.MsgSend'', ''/cosmos.bank.v1beta1.MsgMultiSend'',
       ''/ibc.applications.transfer.v1.MsgTransfer'', ''/althea.microtx.v1.MsgMicrotx'',
       ''/ethermint.evm.v1.MsgEthereumTx''],
     LockedTokenDenoms = [BaseDenom]\<rparr>"

text \<open>The validators get an \<open>interface{}\<close> and assert its type first.\<close>

fun ValidateLocked :: "param \<Rightarrow> unit result" where
  "ValidateLocked (PBool _) = Ok ()"
| "ValidateLocked _ = Err (Errorf ''invalid locked type'')"

fun ValidateLockExempt :: "lib \<Rightarrow> param \<Rightarrow> unit result" where
  "ValidateLockExempt L (PStrs v) =
     (if list_all (\<lambda>a. is_ok (AccAddressFromBech32 L a)) v then Ok ()
      else Err (Errorf ''invalid lock exempt address''))"
| "ValidateLockExempt L _ = Err (Errorf ''invalid lock exempt type'')"

fun ValidateLockedMessageTypes :: "param \<Rightarrow> unit result" where
  "ValidateLockedMessageTypes (PStrs v) =
     (if length v = 0 then Err (Errorf ''no locked message types'') else Ok ())"
| "ValidateLockedMessageTypes _ = Err (Errorf ''invalid locked message types type'')"

fun ValidateLockedTokenDenoms :: "param \<Rightarrow> unit result" where
  "ValidateLockedTokenDenoms (PStrs v) =
     (if length v = 0 then Err (Errorf ''no locked token denoms'') else Ok ())"
| "ValidateLockedTokenDenoms _ = Err (Errorf ''invalid locked token denoms type'')"

text \<open>\<open>GenesisState.Params\<close> is a pointer: dereferencing \<open>nil\<close> panics.\<close>

definition lockup_ValidateBasic :: "lib \<Rightarrow> lockup_params option \<Rightarrow> unit result" where
  "lockup_ValidateBasic L s = (case s of
     None \<Rightarrow> Panic ''nil pointer dereference''
   | Some p \<Rightarrow>
       andThen (ValidateLockExempt L (PStrs (LockExempt p))) (\<lambda>_.
       andThen (ValidateLockedMessageTypes (PStrs (LockedMessageTypes p))) (\<lambda>_.
       andThen (ValidateLockedTokenDenoms (PStrs (LockedTokenDenoms p))) (\<lambda>_. Ok ()))))"

definition lockup_ParamSetPairs :: "lib \<Rightarrow> lockup_params \<Rightarrow> param_pair list" where
  "lockup_ParamSetPairs L p =
     [(LockedKey, PBool (Locked p), ValidateLocked),
      (LockExemptKey, PStrs (LockExempt p), ValidateLockExempt L),
      (LockedMessageTypesKey, PStrs (LockedMessageTypes p), ValidateLockedMessageTypes),
      (LockedTokenDenomsKey, PStrs (LockedTokenDenoms p), ValidateLockedTokenDenoms)]"

section \<open>Keeper\<close>

definition GetChainLocked :: "'w ctx \<Rightarrow> bool result" where
  "GetChainLocked c = GetIfExists ''lockup'' LockedKey as_bool (Locked lockup_DefaultParams) c"

definition SetChainLocked :: "bool \<Rightarrow> 'w ctx \<Rightarrow> 'w ctx" where
  "SetChainLocked b c = param_set ''lockup'' LockedKey (PBool b) c"

definition GetLockExemptAddresses :: "'w ctx \<Rightarrow> string list result" where
  "GetLockExemptAddresses c = GetIfExists ''lockup'' LockExemptKey as_strs (LockExempt lockup_DefaultParams) c"

definition SetLockExemptAddresses :: "string list \<Rightarrow> 'w ctx \<Rightarrow> 'w ctx" where
  "SetLockExemptAddresses xs c = param_set ''lockup'' LockExemptKey (PStrs xs) c"

definition GetLockedTokenDenoms :: "'w ctx \<Rightarrow> string list result" where
  "GetLockedTokenDenoms c =
     GetIfExists ''lockup'' LockedTokenDenomsKey as_strs (LockedTokenDenoms lockup_DefaultParams) c"

definition SetLockedTokenDenoms :: "string list \<Rightarrow> 'w ctx \<Rightarrow> 'w ctx" where
  "SetLockedTokenDenoms xs c = param_set ''lockup'' LockedTokenDenomsKey (PStrs xs) c"

definition GetLockedMessageTypes :: "'w ctx \<Rightarrow> string list result" where
  "GetLockedMessageTypes c =
     GetIfExists ''lockup'' LockedMessageTypesKey as_strs (LockedMessageTypes lockup_DefaultParams) c"

definition SetLockedMessageTypes :: "string list \<Rightarrow> 'w ctx \<Rightarrow> 'w ctx" where
  "SetLockedMessageTypes xs c = param_set ''lockup'' LockedMessageTypesKey (PStrs xs) c"

definition createSet :: "string list \<Rightarrow> string set" where
  "createSet strs = createSet_loop strs {}"

definition GetLockExemptAddressesSet :: "'w ctx \<Rightarrow> string set result" where
  "GetLockExemptAddressesSet c = andThen (GetLockExemptAddresses c) (\<lambda>xs. Ok (createSet xs))"

definition GetLockedTokenDenomsSet :: "'w ctx \<Rightarrow> string set result" where
  "GetLockedTokenDenomsSet c = andThen (GetLockedTokenDenoms c) (\<lambda>xs. Ok (createSet xs))"

definition GetLockedMessageTypesSet :: "'w ctx \<Rightarrow> string set result" where
  "GetLockedMessageTypesSet c = andThen (GetLockedMessageTypes c) (\<lambda>xs. Ok (createSet xs))"

text \<open>\<open>GetParamsIfSet\<close> stops at the first key that is not set.\<close>

definition lockup_GetParamsIfSet :: "'w ctx \<Rightarrow> lockup_params result" where
  "lockup_GetParamsIfSet c =
     (let get = (\<lambda>k. case prm c ''lockup'' k of None \<Rightarrow> Err ErrNotFound | Some p \<Rightarrow> Ok p) in
      andThen (get LockedKey) (\<lambda>p1. andThen (as_bool p1) (\<lambda>b.
      andThen (get LockExemptKey) (\<lambda>p2. andThen (as_strs p2) (\<lambda>ex.
      andThen (get LockedMessageTypesKey) (\<lambda>p3. andThen (as_strs p3) (\<lambda>ty.
      andThen (get LockedTokenDenomsKey) (\<lambda>p4. andThen (as_strs p4) (\<lambda>de.
      Ok \<lparr>Locked = b, LockExempt = ex, LockedMessageTypes = ty, LockedTokenDenoms = de\<rparr>)))))))))"

text \<open>\<open>InitGenesis\<close> reads a \<open>nil\<close> \<open>Params\<close> through nil-safe getters except for the last field.\<close>

definition lockup_InitGenesis :: "lockup_params option \<Rightarrow> ('w ctx, unit) go" where
  "lockup_InitGenesis d = (case d of
     None \<Rightarrow> seq (modify (SetChainLocked False)) (seq (modify (SetLockExemptAddresses []))
       (seq (modify (SetLockedMessageTypes [])) (panic ''nil pointer dereference'')))
   | Some p \<Rightarrow> seq (modify (SetChainLocked (Locked p)))
       (seq (modify (SetLockExemptAddresses (LockExempt p)))
       (seq (modify (SetLockedMessageTypes (LockedMessageTypes p)))
            (modify (SetLockedTokenDenoms (LockedTokenDenoms p))))))"

definition lockup_ExportGenesis :: "'w ctx \<Rightarrow> lockup_params result" where
  "lockup_ExportGenesis c =
     andThen (GetChainLocked c) (\<lambda>b. andThen (GetLockExemptAddresses c) (\<lambda>ex.
     andThen (GetLockedMessageTypes c) (\<lambda>ty. andThen (GetLockedTokenDenoms c) (\<lambda>de.
     Ok \<lparr>Locked = b, LockExempt = ex, LockedMessageTypes = ty, LockedTokenDenoms = de\<rparr>))))"

section \<open>Ante decorator\<close>

text \<open>
  \<open>allowMessage\<close> switches on the type URL and then asserts the message type; the result
  \<open>(true, nil)\<close> is \<open>Ok\<close> and \<open>(false, err)\<close> is \<open>Err\<close>.
\<close>

fun multiSendAllowed :: "string set \<Rightarrow> string set \<Rightarrow> (string \<times> coin list) list \<Rightarrow> unit result" where
  "multiSendAllowed exempt denoms [] = Ok ()"
| "multiSendAllowed exempt denoms ((adr, coins) # inputs) =
     (let lockedToken = list_ex (\<lambda>c. coin_denom c \<in> denoms) coins;
          blockedAddress = (adr \<notin> exempt)
      in if lockedToken \<and> blockedAddress then Err ErrLocked
         else multiSendAllowed exempt denoms inputs)"

definition allowMessage :: "lib \<Rightarrow> msg \<Rightarrow> string set \<Rightarrow> string set \<Rightarrow> unit result" where
  "allowMessage L m exempt denoms =
     (if MsgTypeURL m = ''/cosmos.bank.v1beta1.MsgSend'' then
        (case m of MsgSend from to amt \<Rightarrow>
           if from \<notin> exempt \<and> list_ex (\<lambda>c. coin_denom c \<in> denoms) amt then Err ErrLocked else Ok ()
         | _ \<Rightarrow> Panic ''interface conversion'')
      else if MsgTypeURL m = ''/cosmos.bank.v1beta1.MsgMultiSend'' then
        (case m of MsgMultiSend ins outs \<Rightarrow> multiSendAllowed exempt denoms ins
         | _ \<Rightarrow> Panic ''interface conversion'')
      else if MsgTypeURL m = ''/ibc.applications.transfer.v1.MsgTransfer'' then
        (case m of MsgTransfer t \<Rightarrow>
           if tr_Sender t \<notin> exempt \<and> coin_denom (tr_Token t) \<in> denoms then Err ErrLocked else Ok ()
         | _ \<Rightarrow> Panic ''interface conversion'')
      else if MsgTypeURL m = ''/althea.microtx.v1.MsgMicrotx'' then
        (case m of MsgMicrotx sender receiver amt \<Rightarrow>
           if sender \<notin> exempt \<and> coin_denom amt \<in> denoms then Err ErrLocked else Ok ()
         | _ \<Rightarrow> Panic ''interface conversion'')
      else if MsgTypeURL m = ''/ethermint.evm.v1.MsgEthereumTx'' then
        (case m of MsgEthereumTx from etx \<Rightarrow>
           let ethermintAddr = addr_bytes (HexToAddress L from)
           in if AccAddress_String L ethermintAddr \<notin> exempt then Err ErrLocked else Ok ()
         | _ \<Rightarrow> Panic ''interface conversion'')
      else Err ErrUnhandled)"

definition isAcceptable :: "lib \<Rightarrow> msg \<Rightarrow> 'w ctx \<Rightarrow> unit result" where
  "isAcceptable L m c =
     andThen (GetLockedTokenDenomsSet c) (\<lambda>denoms.
     andThen (GetLockedMessageTypesSet c) (\<lambda>types.
     andThen (GetLockExemptAddressesSet c) (\<lambda>exempt.
       let msgType = MsgTypeURL m in
       if msgType \<in> types then allowMessage L m exempt denoms
       else if msgType = ''/cosmos.distribution.v1beta1.MsgSetWithdrawAddress'' then Err ErrLocked
       else if msgType = ''/cosmos.authz.v1beta1.MsgExec'' then Err ErrLocked
       else if msgType = ''/ethermint.evm.v1.MsgEthereumTx'' then allowMessage L m exempt denoms
       else Ok ())))"

text \<open>One turn of the loop of \<open>AnteHandle\<close> over the messages of the transaction.\<close>

fun lockup_checkMsg :: "lib \<Rightarrow> msg \<Rightarrow> ('w ctx, unit) go" where
  "lockup_checkMsg L (MsgExec grantee msgs) =
     for_each msgs (\<lambda>m. case m of None \<Rightarrow> fail ErrInvalidType | Some inner \<Rightarrow> reads (isAcceptable L inner))"
| "lockup_checkMsg L m = reads (isAcceptable L m)"

definition lockup_AnteHandle :: "lib \<Rightarrow> 'w ante_decorator" where
  "lockup_AnteHandle L tx simulate next =
     bind (reads GetChainLocked) (\<lambda>locked.
     seq (if locked then for_each (GetMsgs tx) (lockup_checkMsg L) else ret ())
         (next tx simulate))"

text \<open>\<open>WrappedAnteHandler\<close>: an ante handler as a decorator.\<close>

definition WrappedAnteHandler :: "'w ante_handler \<Rightarrow> 'w ante_decorator" where
  "WrappedAnteHandler h tx simulate next = seq (h tx simulate) (next tx simulate)"

definition NewLockupAnteHandler :: "'w ante_chain \<Rightarrow> lib \<Rightarrow> 'w ante_handler" where
  "NewLockupAnteHandler chain L = chain [lockup_AnteHandle L]"

definition NewWrappedLockupAnteHandler :: "'w ante_chain \<Rightarrow> lib \<Rightarrow> 'w ante_handler \<Rightarrow> 'w ante_handler" where
  "NewWrappedLockupAnteHandler chain L h = chain [WrappedAnteHandler h, lockup_AnteHandle L]"

section \<open>Lemmas\<close>

lemma createSet_eq [simp]: "createSet xs = set xs"
  by (simp add: createSet_def createSet_loop_eq)

text \<open>The module's subspace holds values of the registered types only.\<close>

definition lockup_typed :: "'w ctx \<Rightarrow> bool" where
  "lockup_typed c \<longleftrightarrow>
     (\<forall>p. prm c ''lockup'' LockedKey = Some p \<longrightarrow> (\<exists>b. p = PBool b)) \<and>
     (\<forall>k \<in> {LockExemptKey, LockedMessageTypesKey, LockedTokenDenomsKey}.
        \<forall>p. prm c ''lockup'' k = Some p \<longrightarrow> (\<exists>xs. p = PStrs xs))"

text \<open>What the getters read, with the defaults for what is not set.\<close>

definition lockup_view :: "'w ctx \<Rightarrow> lockup_params" where
  "lockup_view c = \<lparr>
     Locked = (case prm c ''lockup'' LockedKey of Some (PBool b) \<Rightarrow> b | _ \<Rightarrow> Locked lockup_DefaultParams),
     LockExempt = (case prm c ''lockup'' LockExemptKey of Some (PStrs xs) \<Rightarrow> xs
       | _ \<Rightarrow> LockExempt lockup_DefaultParams),
     LockedMessageTypes = (case prm c ''lockup'' LockedMessageTypesKey of Some (PStrs xs) \<Rightarrow> xs
       | _ \<Rightarrow> LockedMessageTypes lockup_DefaultParams),
     LockedTokenDenoms = (case prm c ''lockup'' LockedTokenDenomsKey of Some (PStrs xs) \<Rightarrow> xs
       | _ \<Rightarrow> LockedTokenDenoms lockup_DefaultParams)\<rparr>"

lemma lockup_getters:
  assumes "lockup_typed c"
  shows "GetChainLocked c = Ok (Locked (lockup_view c))"
    and "GetLockExemptAddresses c = Ok (LockExempt (lockup_view c))"
    and "GetLockedMessageTypes c = Ok (LockedMessageTypes (lockup_view c))"
    and "GetLockedTokenDenoms c = Ok (LockedTokenDenoms (lockup_view c))"
  using assms
  by (auto simp: lockup_typed_def lockup_view_def GetIfExists_def GetChainLocked_def
      GetLockExemptAddresses_def GetLockedMessageTypes_def GetLockedTokenDenoms_def split: option.splits)

lemma lockup_InitGenesis_run:
  "lockup_InitGenesis (Some p) c = (Ok (), SetLockedTokenDenoms (LockedTokenDenoms p)
     (SetLockedMessageTypes (LockedMessageTypes p) (SetLockExemptAddresses (LockExempt p)
       (SetChainLocked (Locked p) c))))"
  by (simp add: lockup_InitGenesis_def bind_def)

lemmas lockup_setters =
  SetChainLocked_def SetLockExemptAddresses_def SetLockedMessageTypes_def SetLockedTokenDenoms_def

lemma lockup_InitGenesis_view:
  assumes "lockup_InitGenesis (Some p) c = (r, c')"
  shows "lockup_typed c'" and "lockup_view c' = p"
  using assms
  by (auto simp: lockup_InitGenesis_run lockup_typed_def lockup_view_def lockup_setters lockup_keys)

subsection \<open>The decorator is a filter\<close>

definition lockup_check :: "lib \<Rightarrow> tx \<Rightarrow> bool \<Rightarrow> ('w ctx, unit) go" where
  "lockup_check L tx sim = bind (reads GetChainLocked) (\<lambda>locked.
     if locked then for_each (GetMsgs tx) (lockup_checkMsg L) else ret ())"

lemma lockup_checkMsg_reads: "lockup_checkMsg L m c = (r, c') \<Longrightarrow> c' = c"
proof (induction L m rule: lockup_checkMsg.induct)
  case (1 L grantee msgs)
  then show ?case
    by (auto intro: for_each_unchanged split: option.splits)
qed auto

interpretation lockup_filter: ante_filter "lockup_AnteHandle L" "lockup_check L" for L
proof
  show "lockup_AnteHandle L tx sim nxt = seq (lockup_check L tx sim) (nxt tx sim)" for tx sim nxt
    by (simp add: lockup_AnteHandle_def lockup_check_def bind_assoc)
  show "c' = c" if "lockup_check L tx sim c = (r, c')" for tx sim c r c'
    using that unfolding lockup_check_def
    by (auto simp: bind_def dest!: for_each_unchanged intro: lockup_checkMsg_reads split: result.splits if_splits)
qed

interpretation lockup_wrapped: ante_guard "WrappedAnteHandler h" h for h
  by unfold_locales (simp add: WrappedAnteHandler_def)

subsection \<open>What the decorator lets through\<close>

text \<open>The accounts a message debits, each with the denominations it debits.\<close>

fun moved :: "msg \<Rightarrow> (string \<times> string set) list" where
  "moved (MsgSend from to amt) = [(from, coin_denom ` set amt)]"
| "moved (MsgMultiSend ins outs) = map (\<lambda>(a, cs). (a, coin_denom ` set cs)) ins"
| "moved (MsgTransfer t) = [(tr_Sender t, {coin_denom (tr_Token t)})]"
| "moved (MsgMicrotx s r amt) = [(s, {coin_denom amt})]"
| "moved _ = []"

definition moves_no_locked :: "lockup_params \<Rightarrow> msg \<Rightarrow> bool" where
  "moves_no_locked p m =
     list_all (\<lambda>(a, ds). a \<in> set (LockExempt p) \<or> ds \<inter> set (LockedTokenDenoms p) = {}) (moved m)"

text \<open>The rule the decorator enforces while the chain is locked.\<close>

fun permissible :: "lib \<Rightarrow> lockup_params \<Rightarrow> msg \<Rightarrow> bool" where
  "permissible L p (MsgEthereumTx from etx) =
     (AccAddress_String L (addr_bytes (HexToAddress L from)) \<in> set (LockExempt p))"
| "permissible L p (MsgExec g ms) = False"
| "permissible L p m =
     (if MsgTypeURL m \<in> set (LockedMessageTypes p)
      then moved m \<noteq> [] \<and> moves_no_locked p m \<or> (\<exists>outs. m = MsgMultiSend [] outs)
      else MsgTypeURL m \<notin> {''/cosmos.distribution.v1beta1.MsgSetWithdrawAddress'',
             ''/cosmos.authz.v1beta1.MsgExec'', ''/ethermint.evm.v1.MsgEthereumTx''})"

lemma list_ex_denoms: "list_ex (\<lambda>c. coin_denom c \<in> de) cs \<longleftrightarrow> coin_denom ` set cs \<inter> de \<noteq> {}"
  by (auto simp: list_ex_iff)

lemma multiSendAllowed_Ok:
  "multiSendAllowed ex de ins = Ok () \<longleftrightarrow>
     list_all (\<lambda>(a, cs). a \<in> ex \<or> coin_denom ` set cs \<inter> de = {}) ins"
  by (induction ex de ins rule: multiSendAllowed.induct) (auto simp: list_ex_denoms Let_def)

lemma list_all_moved:
  "list_all (\<lambda>(a, ds). P a ds) (map (\<lambda>(a, cs). (a, f cs)) ins) = list_all (\<lambda>(a, cs). P a (f cs)) ins"
  by (induction ins) auto

lemma isAcceptable_eq:
  assumes "lockup_typed c"
  shows "isAcceptable L m c =
     (let p = lockup_view c; url = MsgTypeURL m in
      if url \<in> set (LockedMessageTypes p) \<or> url = ''/ethermint.evm.v1.MsgEthereumTx''
      then allowMessage L m (set (LockExempt p)) (set (LockedTokenDenoms p))
      else if url = ''/cosmos.distribution.v1beta1.MsgSetWithdrawAddress''
        \<or> url = ''/cosmos.authz.v1beta1.MsgExec'' then Err ErrLocked
      else Ok ())"
  using lockup_getters [OF assms]
  by (auto simp: isAcceptable_def GetLockExemptAddressesSet_def GetLockedMessageTypesSet_def
      GetLockedTokenDenomsSet_def Let_def)

lemma isAcceptable_iff:
  assumes "lockup_typed c"
  shows "isAcceptable L m c = Ok () \<longleftrightarrow> permissible L (lockup_view c) m"
  unfolding isAcceptable_eq [OF assms]
  by (cases m) (auto simp: allowMessage_def multiSendAllowed_Ok list_ex_denoms moves_no_locked_def
      list_all_moved Let_def split: if_splits)

lemma lockup_checkMsg_Ok:
  assumes "lockup_typed c"
  shows "lockup_checkMsg L m c = (Ok (), c) \<longleftrightarrow>
     (\<forall>mo \<in> set (unwrap_exec m). \<exists>i. mo = Some i \<and> permissible L (lockup_view c) i)"
proof (cases "\<exists>g msgs. m = MsgExec g msgs")
  case True
  then obtain g msgs where "m = MsgExec g msgs" by blast
  then show ?thesis
    by (subst \<open>m = _\<close>, simp only: lockup_checkMsg.simps, subst for_each_unchanged_Ok)
      (auto simp: isAcceptable_iff [OF assms] split: option.splits)
next
  case False
  then show ?thesis
    by (cases m) (auto simp: isAcceptable_iff [OF assms] simp del: permissible.simps)
qed

text \<open>While the chain is locked, every effective message must unpack and be permissible.\<close>

definition lockup_admits :: "lib \<Rightarrow> lockup_params \<Rightarrow> tx \<Rightarrow> bool" where
  "lockup_admits L p tx \<longleftrightarrow>
     (Locked p \<longrightarrow> (\<forall>mo \<in> set (effective_msgs tx). \<exists>m. mo = Some m \<and> permissible L p m))"

lemma lockup_check_Ok:
  assumes "lockup_typed c"
  shows "lockup_check L tx sim c = (Ok (), c) \<longleftrightarrow> lockup_admits L (lockup_view c) tx"
  by (simp add: lockup_check_def bind_def lockup_getters [OF assms] lockup_admits_def effective_msgs_def
      for_each_unchanged_Ok lockup_checkMsg_reads lockup_checkMsg_Ok [OF assms])

lemma lockup_check_is_ok:
  assumes "lockup_typed c"
  shows "is_ok (fst (lockup_check L tx sim c)) \<longleftrightarrow> lockup_admits L (lockup_view c) tx"
proof -
  obtain r c1 where r: "lockup_check L tx sim c = (r, c1)" by fastforce
  with lockup_filter.check_reads have "c1 = c" by blast
  with r lockup_check_Ok [OF assms, of L tx sim] show ?thesis
    by (cases r) auto
qed

section \<open>Properties\<close>

text \<open>
  C14: The lockup decorator is exactly the rule \<open>lockup_admits\<close>. When the chain is unlocked, or
  when every message of the transaction and every message inside its MsgExecs is permissible,
  the decorator is transparent: it runs the next handler on the unchanged context. In every
  other case the next handler does not run, an error is returned and the context is unchanged.
\<close>

theorem lockup_AnteHandle_exact:
  assumes "lockup_typed c"
  shows "(lockup_admits L (lockup_view c) tx \<longrightarrow> lockup_AnteHandle L tx sim nxt c = nxt tx sim c) \<and>
     (\<not> lockup_admits L (lockup_view c) tx \<longrightarrow>
        snd (lockup_AnteHandle L tx sim nxt c) = c \<and> \<not> is_ok (fst (lockup_AnteHandle L tx sim nxt c)))"
  using lockup_check_Ok [OF assms, of L tx sim] lockup_check_is_ok [OF assms, of L tx sim]
    lockup_filter.filter_transparent lockup_filter.filter_reject_unchanged by blast

theorem lockup_AnteHandle_exact_witness:
  "lockup_typed (c_ctx ()) \<and>
   lockup_AnteHandle c_lib (c_tx [MsgLiquify ''a'']) False (\<lambda>_ _. fail ErrNotFound) (c_ctx ()) = (Err ErrNotFound, c_ctx ())"
proof -
  have ty: "lockup_typed (c_ctx ())"
    by (simp add: lockup_typed_def)
  have "lockup_admits c_lib (lockup_view (c_ctx ())) (c_tx [MsgLiquify ''a''])"
    by (simp add: lockup_admits_def lockup_view_def lockup_DefaultParams_def)
  with ty lockup_AnteHandle_exact [OF ty, of c_lib "c_tx [MsgLiquify ''a'']" False "\<lambda>_ _. fail ErrNotFound"]
  show ?thesis by simp
qed


definition c_locked_ctx :: "unit ctx" where
  "c_locked_ctx = param_set ''lockup'' LockedKey (PBool True)
     (param_set ''lockup'' LockExemptKey (PStrs [''alice'']) (c_ctx ()))"


text \<open>
  Exporting the genesis state of a chain that was started from some lockup genesis gives that
  genesis state back, for every value of the parameters.
\<close>

theorem lockup_genesis_roundtrip:
  "lockup_ExportGenesis (snd (lockup_InitGenesis (Some p) c)) = Ok p"
proof -
  have "lockup_InitGenesis (Some p) c = (fst (lockup_InitGenesis (Some p) c), snd (lockup_InitGenesis (Some p) c))"
    by simp
  note iv = lockup_InitGenesis_view [OF this]
  show ?thesis
    by (simp add: lockup_ExportGenesis_def lockup_getters [OF iv(1)] iv(2))
qed

end
