(* ===== verification/Ante.thy ===== *)
theory Ante
  imports Microtx Lockup
begin

text \<open>
  The ante decorators of the application (\<open>app/ante\<close>) other than the recovery of Ethereum keys: the
  limiter of group proposals, the minimum commission of validators, the fees of gas-free payments,
  and the account type of Ethermint keys.
\<close>

section \<open>Group proposals\<close>

definition maxNestedMsgs :: nat where "maxNestedMsgs = 6"

text \<open>\<open>MsgSubmitProposal.GetMsgs\<close> fails when one of the messages cannot be unpacked.\<close>

fun unpack_msgs :: "msg option list \<Rightarrow> msg list result" where
  "unpack_msgs [] = Ok []"
| "unpack_msgs (None # ms) = Err (ExtErr ''can't proto marshal'')"
| "unpack_msgs (Some m # ms) = andThen (unpack_msgs ms) (\<lambda>xs. Ok (m # xs))"

lemma size_unpack_msgs: "unpack_msgs ms = Ok xs \<Longrightarrow> size_list size xs \<le> size_list (size_option size) ms"
  by (induction ms arbitrary: xs rule: unpack_msgs.induct) auto

definition NewGroupLimiterDecorator :: "string list \<Rightarrow> string set" where
  "NewGroupLimiterDecorator disabledMsgTypes = fold insert disabledMsgTypes {}"

definition isDisabledMsg :: "string set \<Rightarrow> string \<Rightarrow> bool" where
  "isDisabledMsg disabledMsgs msgTypeURL = (msgTypeURL \<in> disabledMsgs)"

text \<open>The counter of the loop is its own; a nested call starts from its value.\<close>

function (sequential) checkDisabledMsgs :: "string set \<Rightarrow> msg list \<Rightarrow> bool \<Rightarrow> nat \<Rightarrow> unit result"
  and check_loop :: "string set \<Rightarrow> msg list \<Rightarrow> bool \<Rightarrow> nat \<Rightarrow> unit result" where
  "checkDisabledMsgs dis msgs isGroupInnerMsg nestedMsgs =
     (if maxNestedMsgs \<le> nestedMsgs then Err (Errorf ''found more nested msgs than permitted'')
      else check_loop dis msgs isGroupInnerMsg nestedMsgs)"
| "check_loop dis [] isGroupInnerMsg nestedMsgs = Ok ()"
| "check_loop dis (MsgGroupSubmitProposal ms # rest) isGroupInnerMsg nestedMsgs =
     (if isGroupInnerMsg then Err (Errorf ''found MsgSubmitProposal inside another group msg'')
      else case unpack_msgs ms of
        Err e \<Rightarrow> Err e
      | Panic p \<Rightarrow> Panic p
      | Ok innerMsgs \<Rightarrow>
          (case checkDisabledMsgs dis innerMsgs True (nestedMsgs + 1) of
             Ok u \<Rightarrow> check_loop dis rest isGroupInnerMsg (nestedMsgs + 1)
           | Err e \<Rightarrow> Err e
           | Panic p \<Rightarrow> Panic p))"
| "check_loop dis (MsgExec g ms # rest) isGroupInnerMsg nestedMsgs =
     (if isGroupInnerMsg then Err (Errorf ''found MsgExec inside a group msg'')
      else check_loop dis rest isGroupInnerMsg nestedMsgs)"
| "check_loop dis (m # rest) isGroupInnerMsg nestedMsgs =
     (if isGroupInnerMsg \<and> isDisabledMsg dis (MsgTypeURL m) then Err (Errorf ''found disabled msg type'')
      else check_loop dis rest isGroupInnerMsg nestedMsgs)"
  by pat_completeness auto
termination
  by (relation "measure (\<lambda>x. case x of Inl (d, ms, i, n) \<Rightarrow> 2 * size_list size ms + 1 | Inr (d, ms, i, n) \<Rightarrow> 2 * size_list size ms)")
    (auto dest: size_unpack_msgs)

definition GroupLimiter_AnteHandle :: "string set \<Rightarrow> 'w ante_decorator" where
  "GroupLimiter_AnteHandle dis tx simulate next =
     seq (lift (err_as ErrUnauthorized (checkDisabledMsgs dis (GetMsgs tx) False 0))) (next tx simulate)"

section \<open>Commission of validators\<close>

text \<open>A decimal is the integer it is scaled to: 5 percent is \<open>NewDecWithPrec(5, 2)\<close>.\<close>

definition minCommission :: int where "minCommission = 5 * 10 ^ 16"

fun validateMsg :: "msg \<Rightarrow> unit result" where
  "validateMsg (MsgCreateValidator rate) = (if rate < minCommission then Err ErrInvalidRequest else Ok ())"
| "validateMsg (MsgEditValidator rate) = (case rate of
     None \<Rightarrow> Ok () | Some r \<Rightarrow> if r < minCommission then Err ErrInvalidRequest else Ok ())"
| "validateMsg _ = Ok ()"

fun validateAuthz :: "msg option list \<Rightarrow> unit result" where
  "validateAuthz [] = Ok ()"
| "validateAuthz (None # ms) = Err (ExtErr ''cannot unmarshal authz exec msgs'')"
| "validateAuthz (Some innerMsg # ms) = andThen (validateMsg innerMsg) (\<lambda>_. validateAuthz ms)"

fun commission_loop :: "msg list \<Rightarrow> unit result" where
  "commission_loop [] = Ok ()"
| "commission_loop (MsgExec g ms # rest) = andThen (validateAuthz ms) (\<lambda>_. commission_loop rest)"
| "commission_loop (m # rest) = andThen (validateMsg m) (\<lambda>_. commission_loop rest)"

definition ValidatorCommission_AnteHandle :: "'w ante_decorator" where
  "ValidatorCommission_AnteHandle tx simulate next = seq (lift (commission_loop (GetMsgs tx))) (next tx simulate)"

section \<open>Fees of gas-free payments\<close>

definition microtxMsgType :: string where
  "microtxMsgType = ''/althea.microtx.v1.MsgMicrotx''"

fun microtx_fee_of :: "'w env \<Rightarrow> msg \<Rightarrow> ('w ctx, unit) go" where
  "microtx_fee_of E (MsgMicrotx sender receiver amount) =
     bind (DeductMsgMicrotxFee E sender amount) (\<lambda>feeCollected.
     EmitEvent (NewEventMicrotxFeeCollected sender feeCollected))"
| "microtx_fee_of E _ = ret ()"

definition DeductAnyMicrotxFees :: "'w env \<Rightarrow> tx \<Rightarrow> ('w ctx, unit) go" where
  "DeductAnyMicrotxFees E tx =
     bind (reads (IsGasFreeMsgType microtxMsgType)) (\<lambda>gasFree.
     if \<not> gasFree then ret () else for_each (GetMsgs tx) (microtx_fee_of E))"

definition ChargeGasfreeFees_AnteHandle :: "'w env \<Rightarrow> 'w ante_decorator" where
  "ChargeGasfreeFees_AnteHandle E tx simulate next = seq (DeductAnyMicrotxFees E tx) (next tx simulate)"

section \<open>Account types\<close>

text \<open>\<open>authante.GetSignerAcc\<close>, over the account keeper.\<close>

definition GetSignerAcc :: "'w env \<Rightarrow> bytes \<Rightarrow> 'w ctx \<Rightarrow> account result" where
  "GetSignerAcc E addr c = (case GetAccount (acct E) addr (world c) of None \<Rightarrow> Err ErrUnknownAddress | Some a \<Rightarrow> Ok a)"

text \<open>
  The replacement of an account; the setters of an Ethermint account do not fail. The loop ends
  at the first signer without a public key, and the transaction goes on.
\<close>

definition eth_replacement :: "(bytes \<Rightarrow> account) \<Rightarrow> bytes \<Rightarrow> account \<Rightarrow> pubkey \<Rightarrow> account" where
  "eth_replacement ethAccountProto signer acc storedPubKey =
     (ethAccountProto signer)\<lparr>acc_number := acc_number acc, acc_sequence := acc_sequence acc, acc_pubkey := Some storedPubKey\<rparr>"

fun account_type_loop :: "'w env \<Rightarrow> (bytes \<Rightarrow> account) \<Rightarrow> bytes list \<Rightarrow> ('w ctx, unit) go" where
  "account_type_loop E ethAccountProto [] = ret ()"
| "account_type_loop E ethAccountProto (signer # rest) =
     bind (reads (GetSignerAcc E signer)) (\<lambda>acc.
     case acc_pubkey acc of
       None \<Rightarrow> ret ()
     | Some storedPubKey \<Rightarrow>
         seq (if pk_type storedPubKey = ''eth_secp256k1'' \<and> acc_kind acc = BaseAccount
              then modify (\<lambda>c. c\<lparr>world := SetAccount (acct E) (eth_replacement ethAccountProto signer acc storedPubKey) (world c)\<rparr>)
              else ret ())
         (account_type_loop E ethAccountProto rest))"

definition SetAccountType_AnteHandle :: "'w env \<Rightarrow> (bytes \<Rightarrow> account) \<Rightarrow> 'w ante_decorator" where
  "SetAccountType_AnteHandle E ethAccountProto tx simulate next = (case GetSigners tx of
     None \<Rightarrow> fail ErrTxDecode
   | Some signers \<Rightarrow> seq (account_type_loop E ethAccountProto signers) (next tx simulate))"

section \<open>Lemmas\<close>

subsection \<open>Group proposals\<close>

fun is_proposal :: "msg \<Rightarrow> bool" where
  "is_proposal (MsgGroupSubmitProposal ms) = True"
| "is_proposal _ = False"

fun is_exec :: "msg \<Rightarrow> bool" where
  "is_exec (MsgExec g ms) = True"
| "is_exec _ = False"

text \<open>The rule: at most five proposals, each of messages that may be in a proposal.\<close>

definition inner_ok :: "string set \<Rightarrow> msg \<Rightarrow> bool" where
  "inner_ok dis m \<longleftrightarrow> \<not> is_proposal m \<and> \<not> is_exec m \<and> MsgTypeURL m \<notin> dis"

fun proposal_ok :: "string set \<Rightarrow> msg \<Rightarrow> bool" where
  "proposal_ok dis (MsgGroupSubmitProposal ms) = list_all (\<lambda>mo. case mo of None \<Rightarrow> False | Some m \<Rightarrow> inner_ok dis m) ms"
| "proposal_ok dis _ = True"

definition group_admits :: "string set \<Rightarrow> msg list \<Rightarrow> bool" where
  "group_admits dis msgs \<longleftrightarrow> length (filter is_proposal msgs) < 6 \<and> list_all (proposal_ok dis) msgs"

lemma check_loop_inner: "check_loop dis ms True n = Ok () \<longleftrightarrow> list_all (inner_ok dis) ms"
proof (induction ms)
  case (Cons m ms)
  then show ?case
    by (cases m) (auto simp: inner_ok_def isDisabledMsg_def)
qed simp

lemma unpack_inner: 
  "(\<exists>xs. unpack_msgs ms = Ok xs \<and> list_all (inner_ok dis) xs) \<longleftrightarrow> proposal_ok dis (MsgGroupSubmitProposal ms)"
  by (induction ms rule: unpack_msgs.induct) (auto split: result.splits)

lemma check_loop_proposal:
  assumes "n < 6"
  shows "check_loop dis (MsgGroupSubmitProposal ms # rest) False n = Ok () \<longleftrightarrow>
    n + 1 < 6 \<and> proposal_ok dis (MsgGroupSubmitProposal ms) \<and> check_loop dis rest False (n + 1) = Ok ()"
proof (cases "unpack_msgs ms")
  case (Ok xs)
  have "checkDisabledMsgs dis xs True (n + 1) = Ok () \<longleftrightarrow> n + 1 < 6 \<and> list_all (inner_ok dis) xs"
    by (auto simp: maxNestedMsgs_def check_loop_inner)
  then show ?thesis
    using Ok unpack_inner [of ms dis]
    by (cases "checkDisabledMsgs dis xs True (n + 1)") (auto simp del: checkDisabledMsgs.simps)
next
  case (Err e)
  then show ?thesis using unpack_inner [of ms dis] by auto
next
  case (Panic p)
  then show ?thesis using unpack_inner [of ms dis] by auto
qed

lemma check_loop_outer:
  "n < 6 \<Longrightarrow> check_loop dis ms False n = Ok () \<longleftrightarrow>
     n + length (filter is_proposal ms) < 6 \<and> list_all (proposal_ok dis) ms"
proof (induction ms arbitrary: n)
  case (Cons m ms)
  show ?case
  proof (cases "is_proposal m")
    case True
    then obtain ps where m: "m = MsgGroupSubmitProposal ps" by (auto elim: is_proposal.elims)
    show ?thesis
      unfolding m check_loop_proposal [OF Cons.prems] using Cons.IH [of "n + 1"] by auto
  next
    case False
    with Cons show ?thesis by (cases m) auto
  qed
qed simp

lemma group_check_iff: "checkDisabledMsgs dis msgs False 0 = Ok () \<longleftrightarrow> group_admits dis msgs"
  by (simp add: maxNestedMsgs_def group_admits_def check_loop_outer)


lemma group_no_panic:
  "checkDisabledMsgs dis ms inner n \<noteq> Panic p" "check_loop dis ms inner n \<noteq> Panic p"
proof (induction dis ms inner n and dis ms inner n rule: checkDisabledMsgs_check_loop.induct)
  case (3 dis ms rest inner n)
  have "unpack_msgs ms \<noteq> Panic p" by (induction ms rule: unpack_msgs.induct) (auto split: result.splits elim: andThen.elims)
  with 3 show ?case by (auto simp del: checkDisabledMsgs.simps split: result.splits)
qed auto

subsection \<open>Commission\<close>

text \<open>The rate that a message sets for a validator.\<close>

fun commission_of :: "msg \<Rightarrow> int option" where
  "commission_of (MsgCreateValidator rate) = Some rate"
| "commission_of (MsgEditValidator rate) = rate"
| "commission_of _ = None"

definition commission_admits :: "tx \<Rightarrow> bool" where
  "commission_admits tx = list_all (\<lambda>mo. case mo of None \<Rightarrow> False
     | Some m \<Rightarrow> (case commission_of m of None \<Rightarrow> True | Some rate \<Rightarrow> minCommission \<le> rate)) (effective_msgs tx)"

lemma validateMsg_Ok: "validateMsg m = Ok () \<longleftrightarrow> (case commission_of m of None \<Rightarrow> True | Some rate \<Rightarrow> minCommission \<le> rate)"
  by (cases m) (auto split: option.splits)

lemma validateAuthz_Ok: "validateAuthz ms = Ok () \<longleftrightarrow> list_all (\<lambda>mo. case mo of None \<Rightarrow> False
     | Some m \<Rightarrow> (case commission_of m of None \<Rightarrow> True | Some rate \<Rightarrow> minCommission \<le> rate)) ms"
  by (induction ms rule: validateAuthz.induct) (auto simp: validateMsg_Ok)

lemma commission_loop_Ok: "commission_loop (GetMsgs tx) = Ok () \<longleftrightarrow> commission_admits tx"
proof -
  have "commission_loop ms = Ok () \<longleftrightarrow> list_all (\<lambda>mo. case mo of None \<Rightarrow> False
     | Some m \<Rightarrow> (case commission_of m of None \<Rightarrow> True | Some rate \<Rightarrow> minCommission \<le> rate)) (concat (map unwrap_exec ms))" for ms
    by (induction ms rule: commission_loop.induct) (auto simp: validateAuthz_Ok validateMsg_Ok simp del: validateMsg.simps)
  then show ?thesis by (simp add: commission_admits_def effective_msgs_def)
qed

text \<open>The decorators are filters.\<close>

interpretation group_filter: ante_filter "GroupLimiter_AnteHandle dis"
  "\<lambda>tx sim. lift (err_as ErrUnauthorized (checkDisabledMsgs dis (GetMsgs tx) False 0))" for dis
  by unfold_locales (auto simp: GroupLimiter_AnteHandle_def)

interpretation commission_filter: ante_filter ValidatorCommission_AnteHandle "\<lambda>tx sim. lift (commission_loop (GetMsgs tx))"
  by unfold_locales (auto simp: ValidatorCommission_AnteHandle_def)

interpretation gasfree_fees: ante_guard "ChargeGasfreeFees_AnteHandle E" "\<lambda>tx sim. DeductAnyMicrotxFees E tx" for E
  by unfold_locales (simp add: ChargeGasfreeFees_AnteHandle_def)

text \<open>A rate in an authorization inside an authorization is not looked at, and neither is one in a group proposal.\<close>

lemma commission_nested_bypass:
  "commission_loop [MsgExec g [Some (MsgExec g' [Some (MsgCreateValidator 0)])]] = Ok ()"
  "commission_loop [MsgGroupSubmitProposal [Some (MsgEditValidator (Some 0))]] = Ok ()"
  by simp_all

subsection \<open>Fees\<close>

text \<open>The balances after a run of several payments: each account and denomination by the sum.\<close>

definition net_change :: "'w env \<Rightarrow> 'w \<Rightarrow> 'w \<Rightarrow> (string \<Rightarrow> bytes \<Rightarrow> int) \<Rightarrow> bool" where
  "net_change E w w' f \<longleftrightarrow> (\<forall>a d. bal E a d w' = bal E a d w + f d a)"

definition addr_of :: "'w env \<Rightarrow> string \<Rightarrow> bytes" where
  "addr_of E s = (case AccAddressFromBech32 (libs E) s of Ok a \<Rightarrow> a | _ \<Rightarrow> [])"

fun payments :: "'w env \<Rightarrow> (bytes \<Rightarrow> bytes \<Rightarrow> int \<Rightarrow> bytes \<Rightarrow> int) \<Rightarrow> msg list \<Rightarrow> string \<Rightarrow> bytes \<Rightarrow> int" where
  "payments E g (MsgMicrotx s r x # ms) d a =
     (if d = coin_denom x then g (addr_of E s) (addr_of E r) (coin_amount x) a else 0) + payments E g ms d a"
| "payments E g (m # ms) d a = payments E g ms d a"
| "payments E g [] d a = 0"

lemma payments_zero: "payments E (\<lambda>s r x a. 0) ms d a = 0"
proof (induction ms)
  case (Cons m ms)
  then show ?case by (cases m) auto
qed simp

lemma payments_add: "payments E (\<lambda>s r x a. g s r x a + h s r x a) ms d a = payments E g ms d a + payments E h ms d a"
  by (induction E g ms d a rule: payments.induct) auto

text \<open>A payment to an account that is not a Liquid Infrastructure Account.\<close>

fun plain_payment :: "'w env \<Rightarrow> 'w ctx \<Rightarrow> msg \<Rightarrow> bool" where
  "plain_payment E c (MsgMicrotx s r x) \<longleftrightarrow>
     0 < coin_amount x \<and> coin_amount x < 2 ^ 240 \<and> \<not> IsLiquidAccount E (addr_of E r) c"
| "plain_payment E c _ = False"

fun exec_payment :: "'w env \<Rightarrow> msg \<Rightarrow> ('w ctx, unit) go" where
  "exec_payment E (MsgMicrotx s r x) = msgServer_Microtx E s r x"
| "exec_payment E _ = fail ErrUnknownRequest"

lemma plain_paymentE:
  assumes "plain_payment E c m"
  obtains s r x where "m = MsgMicrotx s r x" "0 < coin_amount x" "coin_amount x < 2 ^ 240" "\<not> IsLiquidAccount E (addr_of E r) c"
  using assms by (cases m) auto

lemma plain_payment_cong: "kv c' = kv c \<Longrightarrow> plain_payment E c' m = plain_payment E c m"
  using IsLiquid_cong [of c' c E] by (cases m) (simp_all add: IsLiquidAccount_def)

lemma params_cong:
  assumes "prm c' = prm c"
  shows "GetMicrotxFeeBasisPoints c' = GetMicrotxFeeBasisPoints c" "IsGasFreeMsgType m c' = IsGasFreeMsgType m c"
  using assms by (simp_all add: GetMicrotxFeeBasisPoints_def microtx_GetParamsIfSet_def IsGasFreeMsgType_def
      GetGasFreeMessageTypes_def GetIfExists_def)


lemma microtx_fee_of_Ok:
  assumes laws: "dec_ok (math E)" "coin_ok (math E)" "fees_ok E" and m: "plain_payment E c0 m"
    and bp: "GetMicrotxFeeBasisPoints c = Ok bp" "bp \<le> 10000" and run: "microtx_fee_of E m c = (Ok (), c')"
  shows "kv c' = kv c" "prm c' = prm c"
    "\<exists>s r x. m = MsgMicrotx s r x \<and> bal_change E (world c) (world c') (coin_denom x)
       (pay (addr_of E s) (fee_collector E) (bp_fee (coin_amount x) bp))"
proof -
  from m obtain s r x where m: "m = MsgMicrotx s r x" and amt: "0 \<le> coin_amount x" "coin_amount x < 2 ^ 240"
    by (auto elim: plain_paymentE)
  with run obtain f c1 a where a: "AccAddressFromBech32 (libs E) s = Ok a" and d: "DeductMicrotxFee E a x c = (Ok f, c1)"
    and c': "kv c' = kv c1" "prm c' = prm c1" "world c' = world c1" by (auto simp: DeductMsgMicrotxFee_def)
  note ded = DeductMicrotxFee_Ok [OF laws amt bp d]
  show "kv c' = kv c" "prm c' = prm c" using arg_cong [OF ded(3), of kv] arg_cong [OF ded(3), of prm] c' by simp_all
  show "\<exists>s r x. m = MsgMicrotx s r x \<and> bal_change E (world c) (world c') (coin_denom x)
       (pay (addr_of E s) (fee_collector E) (bp_fee (coin_amount x) bp))"
    using m ded(2) a c' by (auto simp: addr_of_def)
qed

lemma fees_charged:
  assumes laws: "dec_ok (math E)" "coin_ok (math E)" "fees_ok E"
    and ms: "list_all (plain_payment E c) ms"
    and bp: "GetMicrotxFeeBasisPoints c = Ok bp" "bp \<le> 10000" and run: "for_each ms (microtx_fee_of E) c = (Ok (), c')"
  shows "kv c' = kv c \<and> prm c' = prm c \<and>
     net_change E (world c) (world c') (payments E (\<lambda>s r x. pay s (fee_collector E) (bp_fee x bp)) ms)"
  using ms bp(1) run
proof (induction ms arbitrary: c)
  case Nil
  then show ?case by (simp add: net_change_def)
next
  case (Cons m ms)
  from Cons.prems(3) obtain c1 where m: "microtx_fee_of E m c = (Ok (), c1)" and rest: "for_each ms (microtx_fee_of E) c1 = (Ok (), c')"
    by auto
  from Cons.prems(1) have "plain_payment E c m" by simp
  note one = microtx_fee_of_Ok [OF laws this Cons.prems(2) bp(2) m]
  have ms: "list_all (plain_payment E c1) ms"
    using Cons.prems(1) plain_payment_cong [OF one(1)] by (simp add: list_all_iff)
  have "GetMicrotxFeeBasisPoints c1 = Ok bp" using params_cong(1) [OF one(2)] Cons.prems(2) by simp
  from Cons.IH [OF ms this rest] one show ?case
    by (auto simp: net_change_def bal_change_def)
qed

lemma payments_made:
  assumes laws: "dec_ok (math E)" "coin_ok (math E)" "fees_ok E" "bank_ok E"
    and ms: "list_all (plain_payment E c) ms"
    and bp: "GetMicrotxFeeBasisPoints c = Ok bp" "bp \<le> 10000" and gf: "IsGasFreeMsgType microtxMsgType c = Ok gf"
    and run: "for_each ms (exec_payment E) c = (Ok (), c')"
  shows "kv c' = kv c \<and> net_change E (world c) (world c') (payments E (payment E gf bp) ms)"
  using ms bp(1) gf run
proof (induction ms arbitrary: c)
  case Nil
  then show ?case by (simp add: net_change_def)
next
  case (Cons m ms)
  from Cons.prems(1) obtain s r x where m: "m = MsgMicrotx s r x" and amt: "0 < coin_amount x" "coin_amount x < 2 ^ 240"
    and liq: "\<not> IsLiquidAccount E (addr_of E r) c" by (auto elim: plain_paymentE)
  from Cons.prems(4) m obtain c1 where one: "msgServer_Microtx E s r x c = (Ok (), c1)" and rest: "for_each ms (exec_payment E) c1 = (Ok (), c')"
    by auto
  have "\<not> IsLiquidAccount E receiver c" if "AccAddressFromBech32 (libs E) r = Ok receiver" for receiver
    using liq that by (simp add: addr_of_def)
  from msgServer_Microtx_Ok [OF laws amt Cons.prems(2) bp(2) Cons.prems(3) [unfolded microtxMsgType_def] one this]
  have c1: "kv c1 = kv c" "prm c1 = prm c" and b: "bal_change E (world c) (world c1) (coin_denom x) (payment E gf bp (addr_of E s) (addr_of E r) (coin_amount x))"
    by (auto simp: addr_of_def)
  have ms: "list_all (plain_payment E c1) ms"
    using Cons.prems(1) plain_payment_cong [OF c1(1)] by (simp add: list_all_iff)
  have "GetMicrotxFeeBasisPoints c1 = Ok bp" "IsGasFreeMsgType microtxMsgType c1 = Ok gf"
    using params_cong [OF c1(2)] Cons.prems(2,3) by simp_all
  from Cons.IH [OF ms this rest] b c1 m show ?case
    by (auto simp: net_change_def bal_change_def)
qed

lemma DeductAnyMicrotxFees_run:
  assumes "IsGasFreeMsgType microtxMsgType c = Ok gf"
  shows "DeductAnyMicrotxFees E tx c = (if gf then for_each (GetMsgs tx) (microtx_fee_of E) c else (Ok (), c))"
  using assms by (simp add: DeductAnyMicrotxFees_def bind_def)

text \<open>
  A payment inside a MsgExec is free of gas when the message type is, but the decorator does not
  charge its fee, and neither does the message server.
\<close>

lemma exec_payment_not_charged:
  assumes "GetGasFreeMessageTypes c = Ok types" and "microtxMsgType \<in> set types"
    and tx: "GetMsgs tx = [MsgExec g [Some (MsgMicrotx s r x)]]"
  shows "DeductAnyMicrotxFees E tx c = (Ok (), c)" "IsGasFreeTx tx c = Ok True" "payment E True bp a b n = pay a b n"
  using assms by (auto simp: DeductAnyMicrotxFees_def bind_def IsGasFreeMsgType_def IsGasFreeTx_def
      GetGasFreeMessageTypesSet_def microtxMsgType_def payment_def)

subsection \<open>Account types\<close>

text \<open>The account keeper stores accounts by their address, and an Ethermint prototype is an EthAccount of its address.\<close>

definition acct_store_ok :: "'w account_keeper \<Rightarrow> bool" where
  "acct_store_ok A \<longleftrightarrow> (\<forall>a w acc. GetAccount A a w = Some acc \<longrightarrow> acc_address acc = a) \<and>
     (\<forall>acc a w. GetAccount A a (SetAccount A acc w) = (if a = acc_address acc then Some acc else GetAccount A a w))"

definition eth_proto_ok :: "(bytes \<Rightarrow> account) \<Rightarrow> bool" where
  "eth_proto_ok p \<longleftrightarrow> (\<forall>a. acc_address (p a) = a \<and> acc_kind (p a) = EthAccount)"

definition retyped :: "account \<Rightarrow> account" where
  "retyped acc = (if acc_kind acc = BaseAccount \<and> (case acc_pubkey acc of None \<Rightarrow> False | Some pk \<Rightarrow> pk_type pk = ''eth_secp256k1'')
     then acc\<lparr>acc_kind := EthAccount\<rparr> else acc)"

definition keyed :: "'w env \<Rightarrow> 'w \<Rightarrow> bytes \<Rightarrow> bool" where
  "keyed E w a \<longleftrightarrow> (case GetAccount (acct E) a w of None \<Rightarrow> False | Some acc \<Rightarrow> acc_pubkey acc \<noteq> None)"

definition retypes :: "'w env \<Rightarrow> bytes set \<Rightarrow> 'w \<Rightarrow> 'w \<Rightarrow> bool" where
  "retypes E S w w' \<longleftrightarrow> (\<forall>a. GetAccount (acct E) a w' =
     (if a \<in> S then map_option retyped (GetAccount (acct E) a w) else GetAccount (acct E) a w))"

lemma retyped_simps [simp]: "acc_pubkey (retyped acc) = acc_pubkey acc" "retyped (retyped acc) = retyped acc"
  by (simp_all add: retyped_def)

lemma eth_replacement_eq:
  assumes "eth_proto_ok p" and "acc_address acc = a" and "acc_pubkey acc = Some pk"
  shows "eth_replacement p a acc pk = acc\<lparr>acc_kind := EthAccount\<rparr>"
  using assms by (cases acc, cases "p a") (auto simp: eth_replacement_def eth_proto_ok_def dest: spec [of _ a])

lemma keyed_retypes: "retypes E S w w' \<Longrightarrow> keyed E w' a = keyed E w a"
  by (auto simp: retypes_def keyed_def split: option.splits)

lemma retypes_trans: "retypes E S w w1 \<Longrightarrow> retypes E T w1 w' \<Longrightarrow> retypes E (S \<union> T) w w'"
  by (auto simp: retypes_def option.map_comp comp_def)

text \<open>One turn of the loop with a signer that has a key.\<close>

lemma retype_one:
  assumes laws: "acct_store_ok (acct E)" "eth_proto_ok p" and acc: "GetAccount (acct E) a (world c) = Some acc" "acc_pubkey acc = Some pk"
    and run: "(if pk_type pk = ''eth_secp256k1'' \<and> acc_kind acc = BaseAccount
       then modify (\<lambda>c. c\<lparr>world := SetAccount (acct E) (eth_replacement p a acc pk) (world c)\<rparr>) else ret ()) c = (Ok (), c1)"
  shows "retypes E {a} (world c) (world c1)" and "c1 = c\<lparr>world := world c1\<rparr>"
proof -
  have a: "acc_address acc = a" using laws(1) acc(1) by (simp add: acct_store_ok_def)
  have set: "GetAccount (acct E) b (SetAccount (acct E) (acc\<lparr>acc_kind := EthAccount\<rparr>) w) =
      (if b = a then Some (acc\<lparr>acc_kind := EthAccount\<rparr>) else GetAccount (acct E) b w)" for b w
    using laws(1) a unfolding acct_store_ok_def by simp
  from eth_replacement_eq [OF laws(2) a acc(2)] acc run
  show "retypes E {a} (world c) (world c1)" "c1 = c\<lparr>world := world c1\<rparr>"
    by (auto simp: retypes_def retyped_def set split: if_splits)
qed

lemma account_type_loop_Ok:
  assumes laws: "acct_store_ok (acct E)" "eth_proto_ok p" and run: "account_type_loop E p signers c = (Ok (), c')"
  shows "retypes E (set (takeWhile (keyed E (world c)) signers)) (world c) (world c') \<and> c' = c\<lparr>world := world c'\<rparr>"
  using run
proof (induction signers arbitrary: c)
  case Nil
  then show ?case by (simp add: retypes_def)
next
  case (Cons a rest)
  from Cons.prems obtain acc where acc: "GetAccount (acct E) a (world c) = Some acc"
    by (auto simp: GetSignerAcc_def split: option.splits)
  show ?case
  proof (cases "acc_pubkey acc")
    case None
    with Cons.prems acc show ?thesis by (auto simp: GetSignerAcc_def bind_def keyed_def retypes_def)
  next
    case (Some pk)
    with Cons.prems acc obtain c1 where 1: "(if pk_type pk = ''eth_secp256k1'' \<and> acc_kind acc = BaseAccount
       then modify (\<lambda>c. c\<lparr>world := SetAccount (acct E) (eth_replacement p a acc pk) (world c)\<rparr>) else ret ()) c = (Ok (), c1)"
      and rest: "account_type_loop E p rest c1 = (Ok (), c')"
      by (simp add: GetSignerAcc_def bind_def split: if_splits)
    note one = retype_one [OF laws acc Some 1]
    from Cons.IH [OF rest] have ih: "retypes E (set (takeWhile (keyed E (world c)) rest)) (world c1) (world c')" "c' = c1\<lparr>world := world c'\<rparr>"
      using keyed_retypes [OF one(1)] by auto
    have "keyed E (world c) a" using acc Some by (simp add: keyed_def)
    with retypes_trans [OF one(1) ih(1)] ih(2) one(2) show ?thesis
      by (metis ctx.update_convs(7) ctx.surjective insert_is_Un list.set(2) takeWhile.simps(2))
  qed
qed

interpretation account_type: ante_guard "SetAccountType_AnteHandle E p"
  "\<lambda>tx sim. case GetSigners tx of None \<Rightarrow> fail ErrTxDecode | Some signers \<Rightarrow> account_type_loop E p signers" for E p
  by unfold_locales (auto simp: SetAccountType_AnteHandle_def fun_eq_iff bind_def split: option.splits)

section \<open>Properties\<close>






section \<open>Witnesses\<close>


text \<open>An account keeper over a map of accounts; the rest of the environment does nothing.\<close>

definition a_acct :: "(bytes \<rightharpoonup> account) account_keeper" where
  "a_acct = \<lparr>GetSequence = (\<lambda>a w. case w a of None \<Rightarrow> Err ErrUnknownAddress | Some acc \<Rightarrow> Ok (acc_sequence acc)),
     GetAccount = (\<lambda>a w. case w a of None \<Rightarrow> None | Some acc \<Rightarrow> Some (acc\<lparr>acc_address := a\<rparr>)),
     SetAccount = (\<lambda>acc w. w(acc_address acc \<mapsto> acc)),
     GetModuleAccount = (\<lambda>m. ret None), DeductFees = (\<lambda>acc xs. ret ())\<rparr>"

lemma a_acct_ok: "acct_store_ok a_acct"
  by (auto simp: acct_store_ok_def a_acct_def split: option.splits)


definition a_bank :: "'w bank_keeper" where
  "a_bank = \<lparr>SendCoins = (\<lambda>f t xs. ret ()), SendCoinsFromModuleToAccount = (\<lambda>m t xs. ret ()),
     SendCoinsFromAccountToModule = (\<lambda>f m xs. ret ()), MintCoins = (\<lambda>m xs. ret ()), BurnCoins = (\<lambda>m xs. ret ()),
     IsSendEnabledCoin = (\<lambda>x w. True), IsSendEnabledCoins = (\<lambda>xs w. Ok ()), BlockedAddr = (\<lambda>a. False),
     GetDenomMetaData = (\<lambda>d w. None), SetDenomMetaData = (\<lambda>m w. w), HasSupply = (\<lambda>d w. True),
     GetBalance = (\<lambda>a d w. \<lparr>coin_denom = d, coin_amount = 0\<rparr>)\<rparr>"

definition a_evm :: "'w evm_keeper" where
  "a_evm = \<lparr>GetAccountWithoutBalance = (\<lambda>a w. None), EstimateGas = (\<lambda>a b d. ret 0),
     ApplyMessage = (\<lambda>m b. fail (ExtErr ''no EVM'')), abi_Pack = (\<lambda>con meth args. Ok []), abi_Unpack = (\<lambda>con meth bz. Ok []),
     abi_EventByID = (\<lambda>con h. Ok []), abi_Arguments_Pack = (\<lambda>ts vs. Ok []), contract_Bin = (\<lambda>con. []), DefaultGasCap = 0,
     GasMeter_Limit = (\<lambda>w. 0), GasMeter_Consumed = (\<lambda>w. 0), ConsumeGas = (\<lambda>g. ret ())\<rparr>"

definition a_env :: "(bytes \<rightharpoonup> account) env" where
  "a_env = \<lparr>libs = c_lib, math = c_math, bank = a_bank, acct = a_acct, evm = a_evm, ibc = c_ibc, ibc_Transfer = (\<lambda>m. ret 0)\<rparr>"

definition a_account :: "account_kind \<Rightarrow> bytes \<Rightarrow> account" where
  "a_account k a = \<lparr>acc_kind = k, acc_address = a, acc_pubkey = Some (PubKey ''eth_secp256k1'' a), acc_number = 7, acc_sequence = 3\<rparr>"

definition a_world :: "bytes \<rightharpoonup> account" where
  "a_world = [''alice'' \<mapsto> a_account BaseAccount ''alice'', ''bob'' \<mapsto> (a_account BaseAccount ''bob'')\<lparr>acc_pubkey := None\<rparr>]"


end
