(* ===== verification/EthKeys.thy ===== *)
theory EthKeys
  imports Ante
begin

text \<open>
  The decorators of Ethereum transactions (\<open>app/ante/eth_account_verification.go\<close> and
  \<open>eth_set_pubkey.go\<close>) and the recovery of the public key from the signature of a transaction.
\<close>

section \<open>External code\<close>

text \<open>
  The chain configuration of go-ethereum, its signers, and its signature functions. An elliptic
  curve key is held by its uncompressed bytes.
\<close>

record ChainConfig =
  cfg_ChainID :: int
  IsLondon :: "int \<Rightarrow> bool"
  IsBerlin :: "int \<Rightarrow> bool"
  IsEIP155 :: "int \<Rightarrow> bool"
  IsHomestead :: "int \<Rightarrow> bool"

datatype eth_signer = LondonSigner int | EIP2930Signer int | EIP155Signer int | HomesteadSigner | FrontierSigner

record crypto =
  Signer_Hash :: "eth_signer \<Rightarrow> eth_tx \<Rightarrow> bytes"
  ValidateSignatureValues :: "u8 \<Rightarrow> int \<Rightarrow> int \<Rightarrow> bool \<Rightarrow> bool"
  SigToPub :: "bytes \<Rightarrow> bytes \<Rightarrow> bytes result"
  CompressPubkey :: "bytes \<Rightarrow> bytes"

text \<open>
  What the decorators use of Ethermint: the chain configuration in force, the EVM view of an account
  (whether it is a contract, and its balance), the sender and the data of a message, the check of the
  balance, and the creation of accounts.
\<close>

record 'w eth_ext =
  EthereumConfig :: "'w \<Rightarrow> ChainConfig"
  evm_GetAccount :: "address \<Rightarrow> 'w \<Rightarrow> (bool \<times> int) option"
  GetFrom :: "string \<Rightarrow> bytes"
  UnpackTxData :: "eth_tx \<Rightarrow> unit result"
  CheckSenderBalance :: "int \<Rightarrow> eth_tx \<Rightarrow> unit result"
  ProtoAccount :: account
  NewAccount :: "account \<Rightarrow> ('w, account) go"

section \<open>Recovery of the public key\<close>

text \<open>\<open>big.Int\<close>: the number of bits and the bytes of the absolute value, and the low 64 bits.\<close>

fun bit_len :: "nat \<Rightarrow> nat" where
  "bit_len n = (if n = 0 then 0 else Suc (bit_len (n div 2)))"

fun be_bytes :: "nat \<Rightarrow> bytes" where
  "be_bytes n = (if n = 0 then [] else be_bytes (n div 256) @ [char_of (n mod 256)])"

declare bit_len.simps [simp del] be_bytes.simps [simp del]

definition LegacyTxType :: nat where "LegacyTxType = 0"
definition AccessListTxType :: nat where "AccessListTxType = 1"
definition DynamicFeeTxType :: nat where "DynamicFeeTxType = 2"

definition ErrInvalidChainId :: go_error where "ErrInvalidChainId = Errorf ''invalid chain id for signer''"
definition ErrTxTypeNotSupported :: go_error where "ErrTxTypeNotSupported = Errorf ''transaction type not supported''"
definition ErrInvalidSig :: go_error where "ErrInvalidSig = Errorf ''invalid transaction v, r, s values''"

text \<open>\<open>copy(sig[k-len(v):k], v)\<close>; a negative bound panics.\<close>

definition copy_before :: "nat \<Rightarrow> bytes \<Rightarrow> bytes \<Rightarrow> bytes result" where
  "copy_before k v sig = (if k < length v then Panic ''slice bounds out of range'' else Ok (copy_at (k - length v) v sig))"

definition recoverPubKeyBase :: "crypto \<Rightarrow> bytes \<Rightarrow> int \<Rightarrow> int \<Rightarrow> int \<Rightarrow> bool \<Rightarrow> bytes result" where
  "recoverPubKeyBase K sighash R S Vb homestead =
     (if 8 < bit_len (nat \<bar>Vb\<bar>) then Err ErrInvalidSig
      else let V = (ucast ((word_of_int Vb :: u64) - 27) :: u8) in
        if \<not> ValidateSignatureValues K V R S homestead then Err ErrInvalidSig
        else let r = be_bytes (nat \<bar>R\<bar>); s = be_bytes (nat \<bar>S\<bar>) in
          andThen (copy_before 32 r (replicate 65 (CHR 0x00))) (\<lambda>sig.
          andThen (copy_before 64 s sig) (\<lambda>sig.
          SigToPub K sighash (sig[64 := char_of (unat V)]))))"

definition homesteadPubKey :: "crypto \<Rightarrow> eth_tx \<Rightarrow> eth_signer \<Rightarrow> bytes result" where
  "homesteadPubKey K tx signer =
     (if et_Type tx \<noteq> LegacyTxType then Err ErrTxTypeNotSupported
      else recoverPubKeyBase K (Signer_Hash K signer tx) (et_R tx) (et_S tx) (et_V tx) True)"

definition frontierPubKey :: "crypto \<Rightarrow> eth_tx \<Rightarrow> eth_signer \<Rightarrow> bytes result" where
  "frontierPubKey K tx signer =
     (if et_Type tx \<noteq> LegacyTxType then Err ErrTxTypeNotSupported
      else recoverPubKeyBase K (Signer_Hash K signer tx) (et_R tx) (et_S tx) (et_V tx) False)"

definition eip155PubKey :: "crypto \<Rightarrow> ChainConfig \<Rightarrow> eth_tx \<Rightarrow> eth_signer \<Rightarrow> bytes result" where
  "eip155PubKey K config tx signer =
     (if et_Type tx \<noteq> LegacyTxType then Err ErrTxTypeNotSupported
      else if \<not> et_Protected tx then homesteadPubKey K tx HomesteadSigner
      else if et_ChainId tx \<noteq> cfg_ChainID config then Err ErrInvalidChainId
      else let V = et_V tx - cfg_ChainID config * 2; V = V - 8 in
        recoverPubKeyBase K (Signer_Hash K signer tx) (et_R tx) (et_S tx) V True)"

definition eip2930PubKey :: "crypto \<Rightarrow> ChainConfig \<Rightarrow> eth_tx \<Rightarrow> eth_signer \<Rightarrow> bytes result" where
  "eip2930PubKey K config tx signer =
     (let check = (\<lambda>V. if et_ChainId tx \<noteq> cfg_ChainID config then Err ErrInvalidChainId
            else recoverPubKeyBase K (Signer_Hash K signer tx) (et_R tx) (et_S tx) V True) in
      if et_Type tx = LegacyTxType then
        (if \<not> et_Protected tx then homesteadPubKey K tx HomesteadSigner
         else let V = et_V tx - cfg_ChainID config * 2; V = V - 8 in check V)
      else if et_Type tx = AccessListTxType then check (et_V tx + 27)
      else Err ErrTxTypeNotSupported)"

definition londonPubKey :: "crypto \<Rightarrow> ChainConfig \<Rightarrow> eth_tx \<Rightarrow> eth_signer \<Rightarrow> bytes result" where
  "londonPubKey K config tx signer =
     (if et_Type tx \<noteq> DynamicFeeTxType then eip2930PubKey K config tx (EIP2930Signer (cfg_ChainID config))
      else let V = et_V tx + 27 in
        if et_ChainId tx \<noteq> cfg_ChainID config then Err ErrInvalidChainId
        else recoverPubKeyBase K (Signer_Hash K signer tx) (et_R tx) (et_S tx) V True)"

definition recoverPubKey :: "crypto \<Rightarrow> ChainConfig \<Rightarrow> int \<Rightarrow> eth_tx \<Rightarrow> pubkey result" where
  "recoverPubKey K config blockNumber tx =
     andThen
       (if IsLondon config blockNumber then londonPubKey K config tx (LondonSigner (cfg_ChainID config))
        else if IsBerlin config blockNumber then eip2930PubKey K config tx (EIP2930Signer (cfg_ChainID config))
        else if IsEIP155 config blockNumber then eip155PubKey K config tx (EIP155Signer (cfg_ChainID config))
        else if IsHomestead config blockNumber then homesteadPubKey K tx HomesteadSigner
        else frontierPubKey K tx FrontierSigner)
       (\<lambda>pubkeyUncompressed. Ok (PubKey ''eth_secp256k1'' (CompressPubkey K pubkeyUncompressed)))"

section \<open>Decorators\<close>

fun eth_verify_msg :: "'w env \<Rightarrow> 'w eth_ext \<Rightarrow> msg \<Rightarrow> ('w ctx, unit) go" where
  "eth_verify_msg E X (MsgEthereumTx msgFrom txData) =
     seq (lift (UnpackTxData X txData))
     (let from = GetFrom X msgFrom in
      if from = [] then fail ErrInvalidAddress
      else bind (gets (\<lambda>c. evm_GetAccount X (BytesToAddress (libs E) from) (world c))) (\<lambda>acct.
        bind (case acct of
            None \<Rightarrow> if acc_address (ProtoAccount X) \<noteq> [] then fail (ExtErr ''cannot override BaseAccount address'')
              else bind (ext (NewAccount X ((ProtoAccount X)\<lparr>acc_address := from\<rparr>))) (\<lambda>_. ret 0)
          | Some (isContract, balance) \<Rightarrow> if isContract then fail ErrInvalidType else ret balance) (\<lambda>balance.
        bind (lift (NewIntFromBigInt (math E) balance)) (\<lambda>b.
        lift (CheckSenderBalance X b txData)))))"
| "eth_verify_msg E X _ = fail ErrUnknownRequest"

definition EthAccountVerification_AnteHandle :: "'w env \<Rightarrow> 'w eth_ext \<Rightarrow> 'w ante_decorator" where
  "EthAccountVerification_AnteHandle E X tx simulate next =
     bind (gets IsCheckTx) (\<lambda>check. if \<not> check then next tx simulate
       else seq (for_each (GetMsgs tx) (eth_verify_msg E X)) (next tx simulate))"

text \<open>
  A nil EVM account panics in \<open>IsContract\<close>, and a nil transaction, which is what \<open>AsTransaction\<close>
  gives for data that cannot be unpacked, in the recovery. A module account has no public key.
\<close>

fun eth_set_pubkey_msg :: "'w env \<Rightarrow> 'w eth_ext \<Rightarrow> crypto \<Rightarrow> ChainConfig \<Rightarrow> msg \<Rightarrow> ('w ctx, unit) go" where
  "eth_set_pubkey_msg E X K ethCfg (MsgEthereumTx msgFrom txData) =
     (let from = GetFrom X msgFrom in
      if from = [] then fail ErrInvalidAddress
      else bind (gets (\<lambda>c. evm_GetAccount X (BytesToAddress (libs E) from) (world c))) (\<lambda>evmAcct. case evmAcct of
        None \<Rightarrow> panic ''nil pointer dereference''
      | Some (isContract, balance) \<Rightarrow>
        if isContract then fail ErrUnauthorized
        else bind (gets (\<lambda>c. GetAccount (acct E) from (world c))) (\<lambda>cosmosAcc. case cosmosAcc of
          None \<Rightarrow> fail ErrUnknownAddress
        | Some fromCosmosAcc \<Rightarrow>
          if acc_pubkey fromCosmosAcc \<noteq> None then ret ()
          else if \<not> is_ok (UnpackTxData X txData) then panic ''nil pointer dereference''
          else bind (reads (\<lambda>c. err_as ErrorInvalidSigner (recoverPubKey K ethCfg (BlockHeight c) txData))) (\<lambda>pubkey.
            if acc_kind fromCosmosAcc = ModuleAccount then fail ErrInvalidPubKey
            else modify (\<lambda>c. c\<lparr>world := SetAccount (acct E) (fromCosmosAcc\<lparr>acc_pubkey := Some pubkey\<rparr>) (world c)\<rparr>)))))"
| "eth_set_pubkey_msg E X K ethCfg _ = fail ErrUnknownRequest"

definition EthSetPubkey_AnteHandle :: "'w env \<Rightarrow> 'w eth_ext \<Rightarrow> crypto \<Rightarrow> 'w ante_decorator" where
  "EthSetPubkey_AnteHandle E X K tx simulate next =
     bind (gets (\<lambda>c. EthereumConfig X (world c))) (\<lambda>ethCfg.
     seq (for_each (GetMsgs tx) (eth_set_pubkey_msg E X K ethCfg)) (next tx simulate))"

section \<open>Lemmas\<close>

lemma bit_len_le: "bit_len n \<le> k \<longleftrightarrow> n < 2 ^ k"
proof (induction k arbitrary: n)
  case 0
  then show ?case by (subst bit_len.simps) auto
next
  case (Suc k)
  then show ?case by (subst bit_len.simps) (auto simp: div_less_iff_less_mult mult.commute)
qed

lemma length_be_bytes: "n < 256 ^ k \<Longrightarrow> length (be_bytes n) \<le> k"
proof (induction k arbitrary: n)
  case (Suc k)
  then have "n div 256 < 256 ^ k" by (simp add: div_less_iff_less_mult mult.commute)
  from Suc.IH [OF this] show ?case by (subst be_bytes.simps) auto
qed (simp add: be_bytes.simps)

text \<open>A number on 32 bytes.\<close>

definition be32 :: "int \<Rightarrow> bytes" where
  "be32 n = replicate (32 - length (be_bytes (nat n))) (CHR 0x00) @ be_bytes (nat n)"

text \<open>
  The bytes of a signature as \<open>ValidateSignatureValues\<close> documents it: a recovery id of 0 or 1 and two
  positive numbers below the order of the curve.
\<close>

definition sig_values_ok :: "crypto \<Rightarrow> bool" where
  "sig_values_ok K \<longleftrightarrow> (\<forall>v r s h. ValidateSignatureValues K v r s h \<longrightarrow>
     (v = 0 \<or> v = 1) \<and> 0 < r \<and> r < 2 ^ 256 \<and> 0 < s \<and> s < 2 ^ 256)"

lemma copy_sig:
  assumes "length r \<le> 32" "length s \<le> 32"
  shows "andThen (copy_before 32 r (replicate 65 (CHR 0x00))) (\<lambda>sig. andThen (copy_before 64 s sig) (\<lambda>sig. f (sig[64 := v]))) =
     f ((replicate (32 - length r) (CHR 0x00) @ r) @ (replicate (32 - length s) (CHR 0x00) @ s) @ [v])"
proof -
  let ?r = "replicate (32 - length r) (CHR 0x00) @ r" and ?s = "replicate (32 - length s) (CHR 0x00) @ s"
  have 1: "copy_before 32 r (replicate 65 (CHR 0x00)) = Ok (?r @ replicate 33 (CHR 0x00))"
    using assms by (simp add: copy_before_def copy_at_def min_def)
  have len: "length ?r = 32" "length ?s = 32" using assms by simp_all
  have "replicate 33 (CHR 0x00) = replicate (32 - length s) (CHR 0x00) @ replicate (Suc (length s)) (CHR 0x00)"
    using assms(2) by (subst replicate_add [symmetric]) simp
  also have "replicate (Suc (length s)) (CHR 0x00) = replicate (length s) (CHR 0x00) @ [CHR 0x00]"
    by (simp add: replicate_append_same)
  finally have 2: "copy_before 64 s (?r @ replicate 33 (CHR 0x00)) = Ok (?r @ ?s @ [CHR 0x00])"
    using assms len(1) by (simp add: copy_before_def copy_at_def)
  have 3: "(?r @ ?s @ [CHR 0x00])[64 := v] = ?r @ ?s @ [v]"
    using assms by (auto simp: list_update_append)
  show ?thesis unfolding 1 by (simp only: andThen.simps 2 3)
qed

lemma byte_minus_27: "(ucast ((word_of_int Vb :: u64) - 27) :: u8) = word_of_int (Vb - 27)"
proof -
  have "(word_of_int Vb :: u64) - 27 = word_of_int (Vb - 27)" by (simp add: wi_hom_syms)
  then show ?thesis by (simp only:) (rule ucast_down_wi, simp add: is_down)
qed

lemma byte_recid:
  assumes "0 \<le> Vb" "Vb < 256"
  shows "(word_of_int (Vb - 27) :: u8) = 0 \<longleftrightarrow> Vb = 27" "(word_of_int (Vb - 27) :: u8) = 1 \<longleftrightarrow> Vb = 28"
proof -
  have "(word_of_int (Vb - 27) :: u8) = word_of_int n \<longleftrightarrow> (Vb - 27) mod 256 = n mod 256" for n
    by (subst word_of_int_eq_iff) (simp add: take_bit_eq_mod)
  from this [of 0] this [of 1]
  have "(word_of_int (Vb - 27) :: u8) = 0 \<longleftrightarrow> (Vb - 27) mod 256 = 0" "(word_of_int (Vb - 27) :: u8) = 1 \<longleftrightarrow> (Vb - 27) mod 256 = 1"
    by simp_all
  moreover have "(Vb - 27) mod 256 = (if Vb < 27 then Vb + 229 else Vb - 27)"
    using assms mod_add_self2 [of "Vb - 27" 256] by (auto simp del: mod_add_self2)
  ultimately show "(word_of_int (Vb - 27) :: u8) = 0 \<longleftrightarrow> Vb = 27" "(word_of_int (Vb - 27) :: u8) = 1 \<longleftrightarrow> Vb = 28"
    using assms(1) by auto
qed

lemma recoverPubKeyBase_Ok:
  assumes law: "sig_values_ok K" and V: "0 \<le> Vb"
  shows "recoverPubKeyBase K h R S Vb hs = Ok p \<longleftrightarrow> (\<exists>recid \<in> {0, 1 :: nat}. Vb = 27 + int recid \<and>
     ValidateSignatureValues K (of_nat recid) R S hs \<and> SigToPub K h (be32 R @ be32 S @ [char_of recid]) = Ok p)"
proof -
  define v where "v = (ucast ((word_of_int Vb :: u64) - 27) :: u8)"
  have small: "\<not> 8 < bit_len (nat \<bar>Vb\<bar>) \<longleftrightarrow> Vb < 256"
    using bit_len_le [of "nat \<bar>Vb\<bar>" 8] V by auto
  have v: "v = 0 \<longleftrightarrow> Vb = 27" "v = 1 \<longleftrightarrow> Vb = 28" if "Vb < 256"
    unfolding v_def byte_minus_27 using byte_recid [OF V that] .
  have run: "recoverPubKeyBase K h R S Vb hs = SigToPub K h (be32 R @ be32 S @ [char_of (unat v)])"
    if b: "Vb < 256" and v: "ValidateSignatureValues K v R S hs"
  proof -
    from law v have rs: "0 < R" "R < 2 ^ 256" "0 < S" "S < 2 ^ 256" unfolding sig_values_ok_def by blast+
    have len: "length (be_bytes (nat R)) \<le> 32" "length (be_bytes (nat S)) \<le> 32"
      using rs by (auto intro!: length_be_bytes simp: nat_less_iff)
    from copy_sig [OF len, of "SigToPub K h"] b v small rs show ?thesis
      unfolding recoverPubKeyBase_def be32_def Let_def v_def by simp
  qed
  have rej: "recoverPubKeyBase K h R S Vb hs \<noteq> Ok p" if "\<not> (Vb < 256 \<and> ValidateSignatureValues K v R S hs)"
    using that small unfolding recoverPubKeyBase_def Let_def v_def by auto
  show ?thesis
  proof (cases "Vb < 256 \<and> ValidateSignatureValues K v R S hs")
    case True
    then have "v = 0 \<or> v = 1" using law unfolding sig_values_ok_def by blast
    with True v run show ?thesis by auto
  next
    case False
    then have "\<not> (\<exists>recid \<in> {0, 1 :: nat}. Vb = 27 + int recid \<and> ValidateSignatureValues K (of_nat recid) R S hs)"
      using v by auto
    with rej [OF False] show ?thesis by blast
  qed
qed


text \<open>
  The scheme in which a transaction is signed under a configuration: the signer that hashes it, what
  is added to the recovery id in its V, and whether the stricter rule of Homestead applies.
\<close>

definition signature_scheme :: "ChainConfig \<Rightarrow> int \<Rightarrow> eth_tx \<Rightarrow> (eth_signer \<times> int \<times> bool) option" where
  "signature_scheme cfg b tx =
     (let cid = cfg_ChainID cfg; berlin = (IsLondon cfg b \<or> IsBerlin cfg b) in
      if et_Type tx = 2 then (if IsLondon cfg b \<and> et_ChainId tx = cid then Some (LondonSigner cid, 0, True) else None)
      else if et_Type tx = 1 then (if berlin \<and> et_ChainId tx = cid then Some (EIP2930Signer cid, 0, True) else None)
      else if et_Type tx \<noteq> 0 then None
      else if (berlin \<or> IsEIP155 cfg b) \<and> et_Protected tx then
        (if et_ChainId tx = cid then Some (if berlin then EIP2930Signer cid else EIP155Signer cid, 35 + 2 * cid, True) else None)
      else if berlin \<or> IsEIP155 cfg b \<or> IsHomestead cfg b then Some (HomesteadSigner, 27, True)
      else Some (FrontierSigner, 27, False))"

definition recovers :: "crypto \<Rightarrow> ChainConfig \<Rightarrow> int \<Rightarrow> eth_tx \<Rightarrow> bytes \<Rightarrow> bool" where
  "recovers K cfg b tx key = (case signature_scheme cfg b tx of None \<Rightarrow> False
     | Some (signer, base, homestead) \<Rightarrow> (\<exists>recid \<in> {0, 1 :: nat}. et_V tx = base + int recid \<and>
         ValidateSignatureValues K (of_nat recid) (et_R tx) (et_S tx) homestead \<and>
         SigToPub K (Signer_Hash K signer tx) (be32 (et_R tx) @ be32 (et_S tx) @ [char_of recid]) = Ok key))"

text \<open>
  A transaction as go-ethereum decodes it: V is not negative, and the chain id of a protected
  legacy transaction is derived from V.
\<close>

definition eth_tx_ok :: "eth_tx \<Rightarrow> bool" where
  "eth_tx_ok tx \<longleftrightarrow> 0 \<le> et_V tx \<and>
     (et_Type tx = 0 \<and> et_Protected tx \<and> 0 \<le> et_ChainId tx \<and> et_ChainId tx < 2 ^ 62 \<longrightarrow>
        et_V tx = 35 + 2 * et_ChainId tx \<or> et_V tx = 36 + 2 * et_ChainId tx)"

lemmas pubkey_defs = recoverPubKey_def londonPubKey_def eip2930PubKey_def eip155PubKey_def homesteadPubKey_def frontierPubKey_def
  LegacyTxType_def AccessListTxType_def DynamicFeeTxType_def

lemma protected_V:
  assumes "eth_tx_ok tx" "et_Type tx = 0" "et_Protected tx" "et_ChainId tx = c" "0 \<le> c" "c < 2 ^ 62"
  shows "0 \<le> et_V tx - c * 2 - 8" "et_V tx - c * 2 - 8 = 27 + int n \<longleftrightarrow> et_V tx = 35 + 2 * c + int n"
  using assms by (auto simp: eth_tx_ok_def)

lemma eth_tx_V: "eth_tx_ok tx \<Longrightarrow> 0 \<le> et_V tx"
  by (simp add: eth_tx_ok_def)

lemma recover_uncompressed:
  assumes law: "sig_values_ok K" and tx: "eth_tx_ok tx" and cid: "0 \<le> cfg_ChainID cfg" "cfg_ChainID cfg < 2 ^ 62"
  shows "recoverPubKey K cfg b tx = Ok pk \<longleftrightarrow> (\<exists>key. recovers K cfg b tx key \<and> pk = PubKey ''eth_secp256k1'' (CompressPubkey K key))"
proof -
  note base = recoverPubKeyBase_Ok [OF law]
  have typed: "0 \<le> et_V tx + 27" "et_V tx + 27 = 27 + int n \<longleftrightarrow> et_V tx = int n" for n
    using eth_tx_V [OF tx] by auto
  show ?thesis
    using eth_tx_V [OF tx] protected_V [OF tx _ _ _ cid]
    by (auto simp: pubkey_defs recovers_def signature_scheme_def Let_def base typed split: if_splits)
qed


subsection \<open>Keys of accounts\<close>

text \<open>The accounts of one state against those of another: a key may have been added to an account without one.\<close>

definition keys_added :: "'w env \<Rightarrow> (bytes \<Rightarrow> pubkey \<Rightarrow> bool) \<Rightarrow> 'w \<Rightarrow> 'w \<Rightarrow> bool" where
  "keys_added E Q w w' \<longleftrightarrow> (\<forall>a. GetAccount (acct E) a w' = GetAccount (acct E) a w \<or>
     (\<exists>acc pk. GetAccount (acct E) a w = Some acc \<and> acc_pubkey acc = None \<and> acc_kind acc \<noteq> ModuleAccount \<and> Q a pk \<and>
        GetAccount (acct E) a w' = Some (acc\<lparr>acc_pubkey := Some pk\<rparr>)))"

lemma keys_added_trans:
  assumes "keys_added E Q w w1" and "keys_added E Q w1 w'"
  shows "keys_added E Q w w'"
  unfolding keys_added_def
proof
  fix a
  note 2 = assms(2) [unfolded keys_added_def, rule_format, of a]
  show "GetAccount (acct E) a w' = GetAccount (acct E) a w \<or>
     (\<exists>acc pk. GetAccount (acct E) a w = Some acc \<and> acc_pubkey acc = None \<and> acc_kind acc \<noteq> ModuleAccount \<and> Q a pk \<and>
        GetAccount (acct E) a w' = Some (acc\<lparr>acc_pubkey := Some pk\<rparr>))"
  proof (cases "GetAccount (acct E) a w1 = GetAccount (acct E) a w")
    case True
    with 2 show ?thesis by simp
  next
    case False
    with assms(1) obtain acc pk where 1: "GetAccount (acct E) a w = Some acc" "acc_pubkey acc = None" "acc_kind acc \<noteq> ModuleAccount" "Q a pk"
      "GetAccount (acct E) a w1 = Some (acc\<lparr>acc_pubkey := Some pk\<rparr>)" unfolding keys_added_def by blast
    with 2 have "GetAccount (acct E) a w' = GetAccount (acct E) a w1" by auto
    with 1 show ?thesis by auto
  qed
qed

lemma keys_added_keyed:
  assumes "keys_added E Q w w'" and "keyed E w a"
  shows "keyed E w' a"
proof -
  from assms(2) have "\<not> (\<exists>acc. GetAccount (acct E) a w = Some acc \<and> acc_pubkey acc = None)"
    by (auto simp: keyed_def)
  with assms(1) have "GetAccount (acct E) a w' = GetAccount (acct E) a w" unfolding keys_added_def by blast
  with assms(2) show ?thesis by (simp add: keyed_def)
qed

text \<open>The keys that the signatures of the messages stand for.\<close>

definition signed_by :: "'w eth_ext \<Rightarrow> crypto \<Rightarrow> ChainConfig \<Rightarrow> int \<Rightarrow> msg list \<Rightarrow> bytes \<Rightarrow> pubkey \<Rightarrow> bool" where
  "signed_by X K cfg b ms a pk \<longleftrightarrow> (\<exists>from etx key. MsgEthereumTx from etx \<in> set ms \<and> a = GetFrom X from \<and>
     recovers K cfg b etx key \<and> pk = PubKey ''eth_secp256k1'' (CompressPubkey K key))"

fun eth_msg_ok :: "msg \<Rightarrow> bool" where
  "eth_msg_ok (MsgEthereumTx from etx) = eth_tx_ok etx"
| "eth_msg_ok _ = True"

text \<open>A message whose sender has a key.\<close>

fun sender_keyed :: "'w env \<Rightarrow> 'w eth_ext \<Rightarrow> 'w \<Rightarrow> msg \<Rightarrow> bool" where
  "sender_keyed E X w (MsgEthereumTx from etx) = keyed E w (GetFrom X from)"
| "sender_keyed E X w _ = False"

lemma eth_set_pubkey_msg_Ok:
  assumes laws: "acct_store_ok (acct E)" "sig_values_ok K" and m: "m \<in> set ms" "eth_msg_ok m"
    and cid: "0 \<le> cfg_ChainID cfg" "cfg_ChainID cfg < 2 ^ 62"
    and run: "eth_set_pubkey_msg E X K cfg m c = (Ok (), c')"
  shows "c' = c\<lparr>world := world c'\<rparr>" "keys_added E (signed_by X K cfg (BlockHeight c) ms) (world c) (world c')"
    "sender_keyed E X (world c') m"
proof -
  from run obtain msgFrom etx where meq: "m = MsgEthereumTx msgFrom etx" by (cases m) auto
  let ?a = "GetFrom X msgFrom"
  from run meq obtain acc where acc: "GetAccount (acct E) ?a (world c) = Some acc"
    by (auto simp: Let_def split: if_splits option.splits)
  have "c' = c\<lparr>world := world c'\<rparr> \<and> keys_added E (signed_by X K cfg (BlockHeight c) ms) (world c) (world c') \<and> keyed E (world c') ?a"
  proof (cases "acc_pubkey acc")
    case (Some pk)
    with run meq acc show ?thesis
      by (auto simp: Let_def keys_added_def keyed_def bind_def split: if_splits option.splits)
  next
    case None
    with run meq acc obtain pk where rec: "recoverPubKey K cfg (BlockHeight c) etx = Ok pk" and "acc_kind acc \<noteq> ModuleAccount"
      and c': "c' = c\<lparr>world := SetAccount (acct E) (acc\<lparr>acc_pubkey := Some pk\<rparr>) (world c)\<rparr>"
      by (auto simp: Let_def split: if_splits option.splits)
    moreover have "signed_by X K cfg (BlockHeight c) ms ?a pk"
      using rec recover_uncompressed [OF laws(2) _ cid] m meq by (auto simp: signed_by_def)
    moreover have "acc_address acc = ?a" using laws(1) acc by (simp add: acct_store_ok_def)
    then have "GetAccount (acct E) a (SetAccount (acct E) (acc\<lparr>acc_pubkey := Some pk\<rparr>) w) =
        (if a = ?a then Some (acc\<lparr>acc_pubkey := Some pk\<rparr>) else GetAccount (acct E) a w)" for a w
      using laws(1) unfolding acct_store_ok_def by simp
    ultimately show ?thesis using acc None by (auto simp: keys_added_def keyed_def)
  qed
  then show "c' = c\<lparr>world := world c'\<rparr>" "keys_added E (signed_by X K cfg (BlockHeight c) ms) (world c) (world c')"
    "sender_keyed E X (world c') m" using meq by auto
qed

lemma eth_set_pubkey_Ok:
  assumes laws: "acct_store_ok (acct E)" "sig_values_ok K" and cid: "0 \<le> cfg_ChainID cfg" "cfg_ChainID cfg < 2 ^ 62"
    and ms: "list_all eth_msg_ok ms" and sub: "set xs \<subseteq> set ms"
    and run: "for_each xs (eth_set_pubkey_msg E X K cfg) c = (Ok (), c')"
  shows "c' = c\<lparr>world := world c'\<rparr> \<and> keys_added E (signed_by X K cfg (BlockHeight c) ms) (world c) (world c') \<and>
     list_all (sender_keyed E X (world c')) xs"
  using sub run
proof (induction xs arbitrary: c)
  case Nil
  then show ?case by (simp add: keys_added_def)
next
  case (Cons m xs)
  from Cons.prems(2) obtain c1 where m: "eth_set_pubkey_msg E X K cfg m c = (Ok (), c1)"
    and rest: "for_each xs (eth_set_pubkey_msg E X K cfg) c1 = (Ok (), c')" by auto
  have "m \<in> set ms" "eth_msg_ok m" using Cons.prems(1) ms by (auto simp: list_all_iff)
  note one = eth_set_pubkey_msg_Ok [OF laws this cid m]
  have bh: "BlockHeight c1 = BlockHeight c" using arg_cong [OF one(1), of BlockHeight] by simp
  from Cons.IH [OF _ rest] Cons.prems(1) bh
  have ih: "c' = c1\<lparr>world := world c'\<rparr>" "keys_added E (signed_by X K cfg (BlockHeight c) ms) (world c1) (world c')"
    "list_all (sender_keyed E X (world c')) xs" by auto
  have "sender_keyed E X (world c') m"
    using one(3) keys_added_keyed [OF ih(2)] by (cases m) auto
  moreover have "c' = c\<lparr>world := world c'\<rparr>"
    using one(1) ih(1) by (metis ctx.surjective ctx.update_convs(7))
  ultimately show ?case using keys_added_trans [OF one(2) ih(2)] ih(3) by simp
qed


subsection \<open>The decorators are guards\<close>

definition eth_verify_check :: "'w env \<Rightarrow> 'w eth_ext \<Rightarrow> tx \<Rightarrow> bool \<Rightarrow> ('w ctx, unit) go" where
  "eth_verify_check E X tx sim = bind (gets IsCheckTx) (\<lambda>check. if \<not> check then ret () else for_each (GetMsgs tx) (eth_verify_msg E X))"

definition eth_pubkey_check :: "'w env \<Rightarrow> 'w eth_ext \<Rightarrow> crypto \<Rightarrow> tx \<Rightarrow> bool \<Rightarrow> ('w ctx, unit) go" where
  "eth_pubkey_check E X K tx sim = bind (gets (\<lambda>c. EthereumConfig X (world c))) (\<lambda>ethCfg.
     for_each (GetMsgs tx) (eth_set_pubkey_msg E X K ethCfg))"

interpretation eth_verify: ante_guard "EthAccountVerification_AnteHandle E X" "eth_verify_check E X" for E X
  by unfold_locales (auto simp: EthAccountVerification_AnteHandle_def eth_verify_check_def fun_eq_iff bind_def)

interpretation eth_pubkey: ante_guard "EthSetPubkey_AnteHandle E X K" "eth_pubkey_check E X K" for E X K
  by unfold_locales (auto simp: EthSetPubkey_AnteHandle_def eth_pubkey_check_def fun_eq_iff bind_def)

text \<open>
  A sender without an account: the verification only takes an account number for it and stores
  nothing, and then the key decorator panics, also for a transaction that costs nothing.
\<close>

lemma unknown_sender_panics:
  assumes "GetFrom X msgFrom \<noteq> []" and "evm_GetAccount X (BytesToAddress (libs E) (GetFrom X msgFrom)) (world c) = None"
  shows "eth_set_pubkey_msg E X K cfg (MsgEthereumTx msgFrom etx) c = (Panic ''nil pointer dereference'', c)"
  using assms by (simp add: bind_def Let_def)

section \<open>Properties\<close>

text \<open>
  C35: The recovery of the public key is right for every chain configuration and every transaction
  type: it returns a key exactly if the transaction is supported by the configuration, is for its
  chain, has in its V the recovery id 0 or 1 encoded as the type of the transaction prescribes, and
  go-ethereum recovers that key from the hash of the right signer and the 65 bytes of R, S and the
  recovery id. In particular the arithmetic on bytes that decodes V accepts no other value.
\<close>

theorem recoverPubKey_exact:
  assumes "sig_values_ok K" and "eth_tx_ok tx" and "0 \<le> cfg_ChainID cfg" and "cfg_ChainID cfg < 2 ^ 62"
  shows "recoverPubKey K cfg b tx = Ok pk \<longleftrightarrow>
     (\<exists>key. recovers K cfg b tx key \<and> pk = PubKey ''eth_secp256k1'' (CompressPubkey K key))"
  by (rule recover_uncompressed [OF assms])

text \<open>
  C36: When the key decorator passes an Ethereum transaction on, all its messages are Ethereum
  messages and the accounts of their senders have public keys; an account has changed only if it
  had no key, is not a module account and is the sender of a message of the transaction, and then
  only by the key that the signature of the message stands for. Nothing else of the context changed.
\<close>

theorem EthSetPubkey_exact:
  assumes laws: "acct_store_ok (acct E)" "sig_values_ok K" and ms: "list_all eth_msg_ok (GetMsgs tx)"
    and cfg: "EthereumConfig X (world c) = cfg" "0 \<le> cfg_ChainID cfg" "cfg_ChainID cfg < 2 ^ 62"
    and run: "EthSetPubkey_AnteHandle E X K tx sim nxt c = (Ok u, c')"
  shows "\<exists>c1. nxt tx sim c1 = (Ok u, c') \<and> c1 = c\<lparr>world := world c1\<rparr> \<and>
     list_all (sender_keyed E X (world c1)) (GetMsgs tx) \<and>
     keys_added E (signed_by X K cfg (BlockHeight c) (GetMsgs tx)) (world c) (world c1)"
proof -
  from run cfg(1) obtain c1 where "for_each (GetMsgs tx) (eth_set_pubkey_msg E X K cfg) c = (Ok (), c1)"
    and nxt: "nxt tx sim c1 = (Ok u, c')" by (auto simp: eth_pubkey.accepts_iff eth_pubkey_check_def bind_def)
  from eth_set_pubkey_Ok [OF laws cfg(2,3) ms order_refl this(1)] nxt show ?thesis by blast
qed

section \<open>Witnesses\<close>

definition c_crypto :: crypto where
  "c_crypto = \<lparr>Signer_Hash = (\<lambda>s tx. et_Payload tx),
     ValidateSignatureValues = (\<lambda>v r s h. (v = 0 \<or> v = 1) \<and> 0 < r \<and> r < 2 ^ 256 \<and> 0 < s \<and> s < 2 ^ 256),
     SigToPub = (\<lambda>h sig. Ok (h @ sig)), CompressPubkey = (\<lambda>p. take 33 p)\<rparr>"

definition c_cfg :: ChainConfig where
  "c_cfg = \<lparr>cfg_ChainID = 417834, IsLondon = (\<lambda>b. True), IsBerlin = (\<lambda>b. True), IsEIP155 = (\<lambda>b. True), IsHomestead = (\<lambda>b. True)\<rparr>"

definition c_etx :: eth_tx where
  "c_etx = \<lparr>et_Type = 2, et_V = 1, et_R = 5, et_S = 258, et_ChainId = 417834, et_Protected = True, et_Payload = ''payload''\<rparr>"

definition c_eth :: "(bytes \<rightharpoonup> account) eth_ext" where
  "c_eth = \<lparr>EthereumConfig = (\<lambda>w. c_cfg), evm_GetAccount = (\<lambda>a w. Some (False, 1000)), GetFrom = (\<lambda>s. s),
     UnpackTxData = (\<lambda>t. Ok ()), CheckSenderBalance = (\<lambda>b t. Ok ()),
     ProtoAccount = \<lparr>acc_kind = EthAccount, acc_address = [], acc_pubkey = None, acc_number = 0, acc_sequence = 0\<rparr>,
     NewAccount = (\<lambda>a. ret a)\<rparr>"

lemma c_sig_ok: "sig_values_ok c_crypto" "eth_tx_ok c_etx" "0 \<le> cfg_ChainID c_cfg" "cfg_ChainID c_cfg < 2 ^ 62"
  by (auto simp: sig_values_ok_def c_crypto_def eth_tx_ok_def c_etx_def c_cfg_def)

lemma c_recovers: "recovers c_crypto c_cfg b c_etx (''payload'' @ be32 5 @ be32 258 @ [char_of (1 :: nat)])"
  by (simp add: recovers_def signature_scheme_def c_cfg_def c_etx_def c_crypto_def)

theorem recoverPubKey_exact_witness:
  "recoverPubKey c_crypto c_cfg 1 c_etx =
     Ok (PubKey ''eth_secp256k1'' (CompressPubkey c_crypto (''payload'' @ be32 5 @ be32 258 @ [char_of (1 :: nat)])))"
  using recoverPubKey_exact [OF c_sig_ok] c_recovers by blast

theorem EthSetPubkey_exact_witness:
  "\<exists>c1. keyed a_env (world (c1 :: (bytes \<rightharpoonup> account) ctx)) ''bob'' \<and>
     keys_added a_env (signed_by c_eth c_crypto c_cfg (BlockHeight (c_ctx a_world)) [MsgEthereumTx ''bob'' c_etx]) a_world (world c1)"
proof -
  let ?tx = "c_tx [MsgEthereumTx ''bob'' c_etx]" and ?c = "c_ctx a_world"
  have rec: "recoverPubKey c_crypto c_cfg b c_etx =
      Ok (PubKey ''eth_secp256k1'' (CompressPubkey c_crypto (''payload'' @ be32 5 @ be32 258 @ [char_of (1 :: nat)])))" for b
    using recover_uncompressed [OF c_sig_ok] c_recovers by blast
  have "\<exists>c'. EthSetPubkey_AnteHandle a_env c_eth c_crypto ?tx False (\<lambda>_ _. ret ()) ?c = (Ok (), c')"
    by (simp add: EthSetPubkey_AnteHandle_def bind_def Let_def c_eth_def a_env_def a_acct_def a_account_def a_world_def rec)
  then obtain c' where run: "EthSetPubkey_AnteHandle a_env c_eth c_crypto ?tx False (\<lambda>_ _. ret ()) ?c = (Ok (), c')" by blast
  have cfg: "EthereumConfig c_eth (world ?c) = c_cfg" by (simp add: c_eth_def)
  have acct: "acct_store_ok (acct a_env)" by (simp add: a_env_def a_acct_ok)
  have ms: "list_all eth_msg_ok (GetMsgs ?tx)" using c_sig_ok(2) by simp
  from EthSetPubkey_exact [OF acct c_sig_ok(1) ms cfg c_sig_ok(3,4) run] show ?thesis
    by (auto simp: c_eth_def)
qed

end
