(* ===== verification/AnteChain.thy ===== *)
theory AnteChain
  imports EthKeys
begin

text \<open>
  The ante handler of the application (\<open>app/ante/ante.go\<close>, \<open>handler_options.go\<close> and the wiring in
  \<open>app/app.go\<close>): the routing of a transaction by its extension option, the three chains of
  decorators, and the lockup decorator behind them.
\<close>

section \<open>Options and chains\<close>

text \<open>The decorators of the SDK, ibc-go and Ethermint that the chains contain.\<close>

record 'w ext_decorators =
  RejectMessagesDecorator :: "'w ante_decorator"
  AuthzLimiterDecorator :: "string list \<Rightarrow> 'w ante_decorator"
  SetUpContextDecorator :: "'w ante_decorator"
  ExtensionOptionsDecorator :: "'w ante_decorator"
  ValidateBasicDecorator :: "'w ante_decorator"
  TxTimeoutHeightDecorator :: "'w ante_decorator"
  MinGasPriceDecorator :: "'w ante_decorator"
  ValidateMemoDecorator :: "'w ante_decorator"
  ConsumeGasForTxSizeDecorator :: "'w ante_decorator"
  DeductFeeDecorator :: "'w ante_decorator"
  SetPubKeyDecorator :: "'w ante_decorator"
  ValidateSigCountDecorator :: "'w ante_decorator"
  SigGasConsumeDecorator :: "'w ante_decorator"
  SigVerificationDecorator :: "'w ante_decorator"
  LegacyEip712SigVerificationDecorator :: "'w ante_decorator"
  IncrementSequenceDecorator :: "'w ante_decorator"
  RedundantRelayDecorator :: "'w ante_decorator"
  GasWantedDecorator :: "'w ante_decorator"
  EthSetUpContextDecorator :: "'w ante_decorator"
  EthMempoolFeeDecorator :: "'w ante_decorator"
  EthMinGasPriceDecorator :: "'w ante_decorator"
  EthValidateBasicDecorator :: "'w ante_decorator"
  EthSigVerificationDecorator :: "'w ante_decorator"
  CanTransferDecorator :: "'w ante_decorator"
  EthGasConsumeDecorator :: "'w ante_decorator"
  EthIncrementSenderSequenceDecorator :: "'w ante_decorator"
  EthEmitEventDecorator :: "'w ante_decorator"

record 'w HandlerOptions =
  ho_env :: "'w env"
  ho_eth :: "'w eth_ext"
  ho_crypto :: crypto
  AccountProtoFn :: "bytes \<Rightarrow> account"
  ho_ext :: "'w ext_decorators"
  DisabledAuthzMsgs :: "string list"
  DisabledGroupMsgs :: "string list"

definition newEthAnteHandler :: "'w ante_chain \<Rightarrow> 'w HandlerOptions \<Rightarrow> 'w ante_handler" where
  "newEthAnteHandler chain options = (let X = ho_ext options in chain [
     EthSetUpContextDecorator X,
     EthMempoolFeeDecorator X,
     EthMinGasPriceDecorator X,
     EthValidateBasicDecorator X,
     EthSigVerificationDecorator X,
     EthAccountVerification_AnteHandle (ho_env options) (ho_eth options),
     EthSetPubkey_AnteHandle (ho_env options) (ho_eth options) (ho_crypto options),
     SetAccountType_AnteHandle (ho_env options) (AccountProtoFn options),
     CanTransferDecorator X,
     EthGasConsumeDecorator X,
     EthIncrementSenderSequenceDecorator X,
     GasWantedDecorator X,
     EthEmitEventDecorator X])"

definition newCosmosAnteHandler :: "'w ante_chain \<Rightarrow> 'w HandlerOptions \<Rightarrow> 'w ante_handler" where
  "newCosmosAnteHandler chain options = (let X = ho_ext options in chain [
     RejectMessagesDecorator X,
     AuthzLimiterDecorator X (DisabledAuthzMsgs options),
     GroupLimiter_AnteHandle (NewGroupLimiterDecorator (DisabledGroupMsgs options)),
     SetUpContextDecorator X,
     ExtensionOptionsDecorator X,
     ValidateBasicDecorator X,
     TxTimeoutHeightDecorator X,
     SelectiveBypass_AnteHandle (MinGasPriceDecorator X),
     ValidateMemoDecorator X,
     ConsumeGasForTxSizeDecorator X,
     SelectiveBypass_AnteHandle (DeductFeeDecorator X),
     ChargeGasfreeFees_AnteHandle (ho_env options),
     ValidatorCommission_AnteHandle,
     SetPubKeyDecorator X,
     ValidateSigCountDecorator X,
     SigGasConsumeDecorator X,
     SigVerificationDecorator X,
     IncrementSequenceDecorator X,
     RedundantRelayDecorator X,
     GasWantedDecorator X,
     SetAccountType_AnteHandle (ho_env options) (AccountProtoFn options)])"

definition newCosmosAnteHandlerEip712 :: "'w ante_chain \<Rightarrow> 'w HandlerOptions \<Rightarrow> 'w ante_handler" where
  "newCosmosAnteHandlerEip712 chain options = (let X = ho_ext options in chain [
     RejectMessagesDecorator X,
     AuthzLimiterDecorator X (DisabledAuthzMsgs options),
     GroupLimiter_AnteHandle (NewGroupLimiterDecorator (DisabledGroupMsgs options)),
     SetUpContextDecorator X,
     ExtensionOptionsDecorator X,
     ValidateBasicDecorator X,
     TxTimeoutHeightDecorator X,
     MinGasPriceDecorator X,
     ValidateMemoDecorator X,
     ConsumeGasForTxSizeDecorator X,
     DeductFeeDecorator X,
     ValidatorCommission_AnteHandle,
     SetPubKeyDecorator X,
     ValidateSigCountDecorator X,
     SigGasConsumeDecorator X,
     LegacyEip712SigVerificationDecorator X,
     IncrementSequenceDecorator X,
     RedundantRelayDecorator X,
     GasWantedDecorator X,
     SetAccountType_AnteHandle (ho_env options) (AccountProtoFn options)])"

text \<open>\<open>ethante.Recover\<close>, deferred: a panic becomes an error.\<close>

definition recover_panics :: "('s, 'a) go \<Rightarrow> ('s, 'a) go" where
  "recover_panics m = (\<lambda>s. case m s of (Panic p, s') \<Rightarrow> (Err (ExtErr ''panic''), s') | rs \<Rightarrow> rs)"

definition NewAnteHandler :: "'w ante_chain \<Rightarrow> 'w HandlerOptions \<Rightarrow> 'w ante_handler" where
  "NewAnteHandler chain options tx sim = recover_panics
     (case GetExtensionOptions tx of
        typeURL # opts \<Rightarrow>
          if typeURL = ''/ethermint.evm.v1.ExtensionOptionsEthereumTx'' then newEthAnteHandler chain options tx sim
          else if typeURL = ''/ethermint.types.v1.ExtensionOptionsWeb3Tx'' then newCosmosAnteHandlerEip712 chain options tx sim
          else fail ErrUnknownExtensionOptions
      | [] \<Rightarrow> newCosmosAnteHandler chain options tx sim)"

definition NewAnteHandlerOptions ::
  "'w env \<Rightarrow> 'w eth_ext \<Rightarrow> crypto \<Rightarrow> (bytes \<Rightarrow> account) \<Rightarrow> 'w ext_decorators \<Rightarrow> 'w HandlerOptions" where
  "NewAnteHandlerOptions E X K proto D = \<lparr>ho_env = E, ho_eth = X, ho_crypto = K, AccountProtoFn = proto, ho_ext = D,
     DisabledAuthzMsgs = [''/ethermint.evm.v1.MsgEthereumTx'', ''/cosmos.vesting.v1beta1.MsgCreateVestingAccount''],
     DisabledGroupMsgs = [''/ethermint.evm.v1.MsgEthereumTx'', ''/cosmos.authz.v1beta1.MsgExec'']\<rparr>"

definition setAnteHandler :: "'w ante_chain \<Rightarrow> 'w HandlerOptions \<Rightarrow> 'w ante_handler" where
  "setAnteHandler chain options =
     (let ah = NewAnteHandler chain options in NewWrappedLockupAnteHandler chain (libs (ho_env options)) ah)"

section \<open>Lemmas\<close>

text \<open>
  What every decorator of the chains does when it accepts: it calls the next handler with the same
  transaction, and has not changed parameters of modules. For the external ones it is a hypothesis.
\<close>

definition passes :: "'w ante_decorator \<Rightarrow> bool" where
  "passes d \<longleftrightarrow> (\<forall>tx sim next c u c'. d tx sim next c = (Ok u, c') \<longrightarrow> (\<exists>c1. prm c1 = prm c \<and> next tx sim c1 = (Ok u, c')))"

definition enforces :: "'w ante_decorator \<Rightarrow> (tx \<Rightarrow> bool) \<Rightarrow> bool" where
  "enforces d P \<longleftrightarrow> (\<forall>tx sim next c u c'. d tx sim next c = (Ok u, c') \<longrightarrow> P tx)"

context ante_guard
begin

lemma guard_passes:
  assumes "\<And>tx sim. keeps (writes_only X) (check tx sim)"
  shows "passes dec"
  unfolding passes_def accepts_iff using assms by (metis keepsD writes_only_def)

lemma guard_enforces:
  assumes "\<And>tx sim c c'. check tx sim c = (Ok (), c') \<Longrightarrow> P tx"
  shows "enforces dec P"
  unfolding enforces_def accepts_iff using assms by blast

end

lemma chain_passes:
  assumes "list_all passes ds" and "run_chain ds tx sim c = (Ok u, c')"
  shows "prm c' = prm c"
  using assms
proof (induction ds arbitrary: c)
  case (Cons d ds)
  then obtain c1 where "prm c1 = prm c" "run_chain ds tx sim c1 = (Ok u, c')" by (fastforce simp: passes_def)
  with Cons show ?case by simp
qed simp

lemma chain_enforces:
  assumes "list_all passes ds" and "run_chain ds tx sim c = (Ok u, c')" and "d \<in> set ds" and "enforces d P"
  shows "P tx"
  using assms(1-3)
proof (induction ds arbitrary: c)
  case (Cons d' ds)
  show ?case
  proof (cases "d = d'")
    case True
    with Cons.prems(2) assms(4) show ?thesis by (simp add: enforces_def) blast
  next
    case False
    from Cons.prems(1,2) obtain c1 where "run_chain ds tx sim c1 = (Ok u, c')" by (fastforce simp: passes_def)
    with Cons False show ?thesis by simp
  qed
qed simp

lemma passes_bypass:
  assumes "passes d"
  shows "passes (SelectiveBypass_AnteHandle d)"
  using assms by (auto simp: passes_def SelectiveBypass_AnteHandle_def bind_def split: result.splits if_splits)

lemma passes_filters:
  "passes (GroupLimiter_AnteHandle dis)" "passes ValidatorCommission_AnteHandle"
  by (rule group_filter.guard_passes commission_filter.guard_passes, rule writes.keeps_lift)+

lemma passes_fees: "passes (ChargeGasfreeFees_AnteHandle E)"
proof (rule gasfree_fees.guard_passes)
  have "keeps (writes_only {''erc20''}) (microtx_fee_of E m)" for m
    by (cases m) (auto simp: DeductMsgMicrotxFee_def DeductMicrotxFee_def intro!: writes_rules frame_fee)
  then show "keeps (writes_only {''erc20''}) (DeductAnyMicrotxFees E tx)" for tx
    unfolding DeductAnyMicrotxFees_def by (intro writes_rules)
qed

lemma passes_account_type: "passes (SetAccountType_AnteHandle E p)"
proof (rule account_type.guard_passes)
  have "keeps (writes_only {}) (account_type_loop E p signers)" for signers
    by (induction signers) (simp only: account_type_loop.simps, intro writes_rules, assumption?)+
  then show "keeps (writes_only {}) (case GetSigners tx of None \<Rightarrow> fail ErrTxDecode | Some signers \<Rightarrow> account_type_loop E p signers)" for tx
    by (intro writes_rules)
qed

lemma passes_eth: "passes (EthAccountVerification_AnteHandle E X)" "passes (EthSetPubkey_AnteHandle E X K)"
proof -
  have "keeps (writes_only {}) (eth_verify_msg E X m)" for m
    by (cases m) (auto simp: Let_def intro!: writes_rules)
  then show "passes (EthAccountVerification_AnteHandle E X)"
    by (intro eth_verify.guard_passes) (auto simp: eth_verify_check_def intro!: writes_rules)
  have "keeps (writes_only {}) (eth_set_pubkey_msg E X K cfg m)" for cfg m
    by (cases m) (auto simp: Let_def intro!: writes_rules)
  then show "passes (EthSetPubkey_AnteHandle E X K)"
    by (intro eth_pubkey.guard_passes) (auto simp: eth_pubkey_check_def intro!: writes_rules)
qed


lemmas passes_own = passes_bypass passes_filters passes_fees passes_account_type passes_eth

definition exts_pass :: "'w HandlerOptions \<Rightarrow> bool" where
  "exts_pass options \<longleftrightarrow> (let X = ho_ext options in list_all passes [RejectMessagesDecorator X,
     AuthzLimiterDecorator X (DisabledAuthzMsgs options), SetUpContextDecorator X, ExtensionOptionsDecorator X,
     ValidateBasicDecorator X, TxTimeoutHeightDecorator X, MinGasPriceDecorator X, ValidateMemoDecorator X,
     ConsumeGasForTxSizeDecorator X, DeductFeeDecorator X, SetPubKeyDecorator X, ValidateSigCountDecorator X,
     SigGasConsumeDecorator X, SigVerificationDecorator X, LegacyEip712SigVerificationDecorator X,
     IncrementSequenceDecorator X, RedundantRelayDecorator X, GasWantedDecorator X, EthSetUpContextDecorator X,
     EthMempoolFeeDecorator X, EthMinGasPriceDecorator X, EthValidateBasicDecorator X, EthSigVerificationDecorator X,
     CanTransferDecorator X, EthGasConsumeDecorator X, EthIncrementSenderSequenceDecorator X, EthEmitEventDecorator X])"

fun is_eth_msg :: "msg \<Rightarrow> bool" where
  "is_eth_msg (MsgEthereumTx from etx) = True"
| "is_eth_msg _ = False"

lemma enforces_group: "enforces (GroupLimiter_AnteHandle (NewGroupLimiterDecorator urls)) (\<lambda>tx. group_admits (set urls) (GetMsgs tx))"
proof (rule group_filter.guard_enforces)
  have "NewGroupLimiterDecorator urls = set urls"
    by (simp add: NewGroupLimiterDecorator_def union_set_fold [symmetric])
  then show "group_admits (set urls) (GetMsgs tx)"
    if "lift (err_as ErrUnauthorized (checkDisabledMsgs (NewGroupLimiterDecorator urls) (GetMsgs tx) False 0)) c = (Ok (), c')"
    for tx and c c' :: "'a ctx"
    using that group_check_iff [of "set urls" "GetMsgs tx"] by (simp del: checkDisabledMsgs.simps)
qed

lemma enforces_commission: "enforces ValidatorCommission_AnteHandle commission_admits"
  by (rule commission_filter.guard_enforces) (simp add: commission_loop_Ok)

lemma enforces_eth: "enforces (EthSetPubkey_AnteHandle E X K) (\<lambda>tx. list_all is_eth_msg (GetMsgs tx))"
proof (rule eth_pubkey.guard_enforces)
  have "list_all is_eth_msg ms" if "for_each ms (eth_set_pubkey_msg E X K cfg) c = (Ok (), c')" for ms cfg c c'
    using that
  proof (induction ms arbitrary: c)
    case (Cons m ms)
    then obtain c1 where "eth_set_pubkey_msg E X K cfg m c = (Ok (), c1)" "for_each ms (eth_set_pubkey_msg E X K cfg) c1 = (Ok (), c')" by auto
    with Cons.IH show ?case by (cases m) (auto simp del: eth_set_pubkey_msg.simps(1))
  qed simp
  then show "list_all is_eth_msg (GetMsgs tx)" if "eth_pubkey_check E X K tx sim c = (Ok (), c')" for tx sim c c'
    using that by (auto simp: eth_pubkey_check_def bind_def)
qed

text \<open>What the chain for a transaction guarantees, by its first extension option.\<close>

definition cosmos_rules :: "'w HandlerOptions \<Rightarrow> tx \<Rightarrow> bool" where
  "cosmos_rules options tx \<longleftrightarrow> group_admits (set (DisabledGroupMsgs options)) (GetMsgs tx) \<and> commission_admits tx"

definition routed_rules :: "'w HandlerOptions \<Rightarrow> tx \<Rightarrow> bool" where
  "routed_rules options tx = (case GetExtensionOptions tx of
     [] \<Rightarrow> cosmos_rules options tx
   | url # urls \<Rightarrow>
       if url = ''/ethermint.evm.v1.ExtensionOptionsEthereumTx'' then list_all is_eth_msg (GetMsgs tx)
       else url = ''/ethermint.types.v1.ExtensionOptionsWeb3Tx'' \<and> cosmos_rules options tx)"

lemma chains_sound:
  assumes chain: "chain_ok chain" and exts: "exts_pass options"
  shows "newCosmosAnteHandler chain options tx sim c = (Ok u, c') \<Longrightarrow> cosmos_rules options tx \<and> prm c' = prm c"
    and "newCosmosAnteHandlerEip712 chain options tx sim c = (Ok u, c') \<Longrightarrow> cosmos_rules options tx \<and> prm c' = prm c"
    and "newEthAnteHandler chain options tx sim c = (Ok u, c') \<Longrightarrow> list_all is_eth_msg (GetMsgs tx) \<and> prm c' = prm c"
proof -
  have sound: "cosmos_rules options tx \<and> prm c' = prm c" if "chain ds tx sim c = (Ok u, c')" "list_all passes ds"
    "GroupLimiter_AnteHandle (NewGroupLimiterDecorator (DisabledGroupMsgs options)) \<in> set ds" "ValidatorCommission_AnteHandle \<in> set ds" for ds
    using that chain_enforces [OF that(2) _ that(3) enforces_group] chain_enforces [OF that(2) _ that(4) enforces_commission]
      chain_passes [OF that(2)] unfolding chain_ok_eq [OF chain] cosmos_rules_def by blast
  show "newCosmosAnteHandler chain options tx sim c = (Ok u, c') \<Longrightarrow> cosmos_rules options tx \<and> prm c' = prm c"
    unfolding newCosmosAnteHandler_def Let_def using exts
    by (erule_tac sound) (simp_all add: exts_pass_def Let_def passes_own)
  show "newCosmosAnteHandlerEip712 chain options tx sim c = (Ok u, c') \<Longrightarrow> cosmos_rules options tx \<and> prm c' = prm c"
    unfolding newCosmosAnteHandlerEip712_def Let_def using exts
    by (erule_tac sound) (simp_all add: exts_pass_def Let_def passes_own)
  let ?d = "EthSetPubkey_AnteHandle (ho_env options) (ho_eth options) (ho_crypto options)"
  have eth: "list_all is_eth_msg (GetMsgs tx) \<and> prm c' = prm c" if "chain ds tx sim c = (Ok u, c')" "list_all passes ds" "?d \<in> set ds" for ds
    using that chain_enforces [OF that(2) _ that(3) enforces_eth] chain_passes [OF that(2)] unfolding chain_ok_eq [OF chain] by blast
  show "newEthAnteHandler chain options tx sim c = (Ok u, c') \<Longrightarrow> list_all is_eth_msg (GetMsgs tx) \<and> prm c' = prm c"
    unfolding newEthAnteHandler_def Let_def using exts
    by (erule_tac eth) (simp_all add: exts_pass_def Let_def passes_own)
qed

lemma recover_panics_Ok [simp]: "recover_panics m s = (Ok x, s') \<longleftrightarrow> m s = (Ok x, s')"
  by (auto simp: recover_panics_def split: prod.splits result.splits)

lemma NewAnteHandler_sound:
  assumes "chain_ok chain" and "exts_pass options" and "NewAnteHandler chain options tx sim c = (Ok u, c')"
  shows "routed_rules options tx \<and> prm c' = prm c"
  using assms(3) chains_sound [OF assms(1,2)]
  by (auto simp: NewAnteHandler_def routed_rules_def split: list.splits if_splits)

lemma lockup_cong: "prm c' = prm c \<Longrightarrow> lockup_typed c' = lockup_typed c" "prm c' = prm c \<Longrightarrow> lockup_view c' = lockup_view c"
  by (simp_all add: lockup_typed_def lockup_view_def)

section \<open>Properties\<close>

text \<open>
  C3: A transaction that the ante handler of the application accepts satisfies the rules of the
  application, whichever way it is routed: while the chain is locked it is admissible for the lockup
  module; a transaction with the Ethereum extension option consists of Ethereum messages; one
  without an option or with the Web3 option satisfies the limits on group proposals and on the
  commission of validators; and one with any other option is rejected.
\<close>

theorem setAnteHandler_sound:
  assumes chain: "chain_ok chain" and exts: "exts_pass options" and ty: "lockup_typed c"
    and run: "setAnteHandler chain options tx sim c = (Ok u, c')"
  shows "lockup_admits (libs (ho_env options)) (lockup_view c) tx \<and> routed_rules options tx"
proof -
  let ?L = "libs (ho_env options)"
  from run obtain c1 where 1: "NewAnteHandler chain options tx sim c = (Ok (), c1)"
    and 2: "run_chain [lockup_AnteHandle ?L] tx sim c1 = (Ok u, c')"
    unfolding setAnteHandler_def Let_def NewWrappedLockupAnteHandler_def chain_ok_eq [OF chain] lockup_wrapped.run_chain_Cons by blast
  from NewAnteHandler_sound [OF chain exts 1] have rules: "routed_rules options tx" and p: "prm c1 = prm c" by auto
  from 2 have "is_ok (fst (lockup_check ?L tx sim c1))" by (auto simp: lockup_filter.filter_accepts_iff)
  with lockup_check_is_ok [of c1] lockup_cong [OF p] ty rules show ?thesis by simp
qed

section \<open>Witnesses\<close>

definition c_pass :: "'w ante_decorator" where
  "c_pass tx sim next = next tx sim"

definition c_ext :: "'w ext_decorators" where
  "c_ext = \<lparr>RejectMessagesDecorator = c_pass, AuthzLimiterDecorator = (\<lambda>urls. c_pass), SetUpContextDecorator = c_pass,
     ExtensionOptionsDecorator = c_pass, ValidateBasicDecorator = c_pass, TxTimeoutHeightDecorator = c_pass,
     MinGasPriceDecorator = c_pass, ValidateMemoDecorator = c_pass, ConsumeGasForTxSizeDecorator = c_pass,
     DeductFeeDecorator = c_pass, SetPubKeyDecorator = c_pass, ValidateSigCountDecorator = c_pass,
     SigGasConsumeDecorator = c_pass, SigVerificationDecorator = c_pass, LegacyEip712SigVerificationDecorator = c_pass,
     IncrementSequenceDecorator = c_pass, RedundantRelayDecorator = c_pass, GasWantedDecorator = c_pass,
     EthSetUpContextDecorator = c_pass, EthMempoolFeeDecorator = c_pass, EthMinGasPriceDecorator = c_pass,
     EthValidateBasicDecorator = c_pass, EthSigVerificationDecorator = c_pass, CanTransferDecorator = c_pass,
     EthGasConsumeDecorator = c_pass, EthIncrementSenderSequenceDecorator = c_pass, EthEmitEventDecorator = c_pass\<rparr>"

definition c_options :: "(bytes \<rightharpoonup> account) HandlerOptions" where
  "c_options = NewAnteHandlerOptions a_env c_eth c_crypto (a_account EthAccount) c_ext"

lemma c_exts_pass: "exts_pass c_options"
proof -
  have "passes c_pass" by (auto simp: passes_def c_pass_def)
  then show ?thesis by (simp add: exts_pass_def c_options_def NewAnteHandlerOptions_def c_ext_def)
qed

definition c_vtx :: tx where
  "c_vtx = (c_tx [MsgCreateValidator (10 ^ 17)])\<lparr>GetSigners := Some [''alice'']\<rparr>"

lemma c_vtx_sel: "GetMsgs c_vtx = [MsgCreateValidator (10 ^ 17)]" "GetSigners c_vtx = Some [''alice'']" "GetExtensionOptions c_vtx = []"
  by (simp_all add: c_vtx_def c_tx_def)

lemma c_options_sel:
  "ho_ext c_options = c_ext" "ho_env c_options = a_env" "AccountProtoFn c_options = a_account EthAccount"
  by (simp_all add: c_options_def NewAnteHandlerOptions_def)

lemma c_Cosmos: "\<exists>c1. newCosmosAnteHandler run_chain c_options c_vtx False (c_ctx a_world) = (Ok (), c1)"
proof -
  have gf: "IsGasFreeTx c_vtx (c_ctx a_world) = Ok False" "IsGasFreeMsgType microtxMsgType (c_ctx a_world) = Ok True"
    by (simp_all add: c_vtx_sel IsGasFreeTx_def GetGasFreeMessageTypesSet_def IsGasFreeMsgType_def GetGasFreeMessageTypes_def GetIfExists_def
        gasfree_DefaultParams_def microtxMsgType_def)
  have acc: "GetSignerAcc a_env ''alice'' (c_ctx a_world) = Ok (a_account BaseAccount ''alice'')"
    by (simp add: GetSignerAcc_def a_env_def a_acct_def a_account_def a_world_def)
  show ?thesis
    by (simp add: newCosmosAnteHandler_def Let_def c_options_sel c_ext_def c_pass_def SelectiveBypass_AnteHandle_def bind_def gf
        ChargeGasfreeFees_AnteHandle_def DeductAnyMicrotxFees_def GroupLimiter_AnteHandle_def ValidatorCommission_AnteHandle_def
        SetAccountType_AnteHandle_def c_vtx_sel acc minCommission_def maxNestedMsgs_def a_account_def)
qed

theorem setAnteHandler_sound_witness: "routed_rules c_options c_vtx"
proof -
  let ?c = "c_ctx a_world"
  have ty: "lockup_typed ?c" by (simp add: lockup_typed_def)
  obtain c1 where 1: "NewAnteHandler run_chain c_options c_vtx False ?c = (Ok (), c1)"
    using c_Cosmos by (auto simp: NewAnteHandler_def c_vtx_sel(3))
  have p: "prm c1 = prm ?c" using NewAnteHandler_sound [OF chain_ok_run_chain c_exts_pass 1] by blast
  have "lockup_admits L (lockup_view ?c) c_vtx" for L
    by (simp add: lockup_admits_def effective_msgs_def lockup_view_def lockup_DefaultParams_def c_vtx_sel)
  then have "lockup_check L c_vtx False c1 = (Ok (), c1)" for L
    using lockup_check_Ok [of c1 L c_vtx False] lockup_cong [OF p] ty by simp
  then have "setAnteHandler run_chain c_options c_vtx False ?c = (Ok (), c1)"
    using 1 unfolding setAnteHandler_def Let_def NewWrappedLockupAnteHandler_def lockup_wrapped.run_chain_Cons lockup_filter.run_chain_Cons
    by auto
  from setAnteHandler_sound [OF chain_ok_run_chain c_exts_pass ty this] show ?thesis by blast
qed

end
