(* ===== verification/SigGas.thy ===== *)
theory SigGas
  imports Frame
begin

text \<open>
  The gas of signature verification (\<open>app/sigverify.go\<close>). The gas meter is external: an argument
  that consumes an amount of gas in a state of its own, and may panic when the limit is reached.
\<close>

section \<open>Keys and signatures\<close>

datatype sig_pubkey = Secp256k1Key bytes | EthSecp256k1Key bytes | Ed25519Key bytes
  | MultisigKey nat "sig_pubkey list" | OtherKey bytes

text \<open>A multisignature has a bit array, one bit for each key, and the signatures of the set bits.\<close>

datatype sig_data = SingleSignatureData bytes | MultiSignatureData "bool list" "sig_data list"

definition secp256k1VerifyCost :: u64 where "secp256k1VerifyCost = 21000"

lemma size_nth_key: "i < length ks \<Longrightarrow> size (ks ! i) < Suc (size_list size ks)"
  using size_list_estimation' [of "ks ! i" ks "size (ks ! i)" size] by (simp add: less_Suc_eq_le)

section \<open>Gas\<close>

text \<open>The loop over the bits, from bit \<open>i\<close> and signature \<open>sigIndex\<close>; an index out of range panics.\<close>

function (sequential) SigVerificationGasConsumer :: "(u64 \<Rightarrow> ('g, unit) go) \<Rightarrow> u64 \<Rightarrow> sig_pubkey \<Rightarrow> sig_data \<Rightarrow> ('g, unit) go"
  and CantoSigVerificationGasConsumer :: "(u64 \<Rightarrow> ('g, unit) go) \<Rightarrow> u64 \<Rightarrow> sig_pubkey \<Rightarrow> sig_data \<Rightarrow> ('g, unit) go"
  and ConsumeMultisignatureVerificationGas ::
    "(u64 \<Rightarrow> ('g, unit) go) \<Rightarrow> u64 \<Rightarrow> bool list \<Rightarrow> sig_data list \<Rightarrow> sig_pubkey list \<Rightarrow> nat \<Rightarrow> nat \<Rightarrow> ('g, unit) go" where
  "SigVerificationGasConsumer meter ed (Secp256k1Key k) data = meter secp256k1VerifyCost"
| "SigVerificationGasConsumer meter ed pubkey data = CantoSigVerificationGasConsumer meter ed pubkey data"
| "CantoSigVerificationGasConsumer meter ed (EthSecp256k1Key k) data = meter secp256k1VerifyCost"
| "CantoSigVerificationGasConsumer meter ed (Ed25519Key k) data = seq (meter ed) (fail ErrInvalidPubKey)"
| "CantoSigVerificationGasConsumer meter ed (MultisigKey t ks) (MultiSignatureData bits sigs) =
     ConsumeMultisignatureVerificationGas meter ed bits sigs ks 0 0"
| "CantoSigVerificationGasConsumer meter ed (MultisigKey t ks) (SingleSignatureData b) =
     fail (Errorf ''expected MultiSignatureData'')"
| "CantoSigVerificationGasConsumer meter ed pubkey data = fail ErrInvalidPubKey"
| "ConsumeMultisignatureVerificationGas meter ed bits sigs ks i sigIndex =
     (if length bits \<le> i then ret ()
      else if \<not> bits ! i then ConsumeMultisignatureVerificationGas meter ed bits sigs ks (i + 1) sigIndex
      else if length ks \<le> i then panic ''index out of range''
      else if length sigs \<le> sigIndex then panic ''index out of range''
      else seq (SigVerificationGasConsumer meter ed (ks ! i) (sigs ! sigIndex))
             (ConsumeMultisignatureVerificationGas meter ed bits sigs ks (i + 1) (sigIndex + 1)))"
  by pat_completeness auto
termination
  by (relation "inv_image (less_than <*lex*> less_than <*lex*> less_than) (\<lambda>x. case x of
        Inl (m, ed, k, d) \<Rightarrow> (size k, 2, 0 :: nat)
      | Inr (Inl (m, ed, k, d)) \<Rightarrow> (size k, 1, 0)
      | Inr (Inr (m, ed, bits, sigs, ks, i, j)) \<Rightarrow> (Suc (size_list size ks), 0, length bits - i))")
    (auto simp: size_nth_key)

declare ConsumeMultisignatureVerificationGas.simps [simp del]

section \<open>Lemmas\<close>

text \<open>
  The signatures that a key and its signature data stand for: the data have the shape of the key,
  every key that signs is of a supported type, and \<open>n\<close> of them are single keys.
\<close>

inductive sig_count :: "sig_pubkey \<Rightarrow> sig_data \<Rightarrow> nat \<Rightarrow> bool"
  and sigs_count :: "sig_pubkey list \<Rightarrow> bool list \<Rightarrow> sig_data list \<Rightarrow> nat \<Rightarrow> bool" where
  signed_secp: "sig_count (Secp256k1Key k) d 1"
| signed_eth: "sig_count (EthSecp256k1Key k) d 1"
| signed_multi: "sigs_count ks bits sigs n \<Longrightarrow> sig_count (MultisigKey t ks) (MultiSignatureData bits sigs) n"
| signed_nil: "sigs_count ks [] sigs 0"
| signed_skip: "sigs_count (tl ks) bits sigs n \<Longrightarrow> sigs_count ks (False # bits) sigs n"
| signed_bit: "sig_count k s m \<Longrightarrow> sigs_count ks bits sigs n \<Longrightarrow> sigs_count (k # ks) (True # bits) (s # sigs) (m + n)"

inductive_simps sig_count_key [simp]:
  "sig_count (Secp256k1Key k) d n" "sig_count (EthSecp256k1Key k) d n" "sig_count (Ed25519Key k) d n" "sig_count (OtherKey k) d n"
  "sig_count (MultisigKey t ks) d n"

inductive_simps sigs_count_bits: "sigs_count ks [] sigs n" "sigs_count ks (False # bits) sigs n" "sigs_count ks (True # bits) sigs n"

text \<open>A gas meter with a limit: it counts, and panics when the limit is exceeded.\<close>

definition limited_meter :: "nat \<Rightarrow> (u64 \<Rightarrow> (nat, unit) go) \<Rightarrow> bool" where
  "limited_meter limit meter \<longleftrightarrow> (\<forall>g s. meter g s =
     (if s + unat g \<le> limit then Ok () else Panic ''out of gas'', s + unat g))"

definition charged :: "nat \<Rightarrow> nat \<Rightarrow> nat \<Rightarrow> nat \<Rightarrow> bool" where
  "charged limit n s s' \<longleftrightarrow> s' = s + 21000 * n \<and> (n = 0 \<or> s' \<le> limit)"

lemma charged_add: "(\<exists>s1. charged limit m s s1 \<and> charged limit n s1 s') \<longleftrightarrow> charged limit (m + n) s s'"
  by (auto simp: charged_def algebra_simps)

lemma charged_split:
  "(\<exists>s1. (\<exists>a. S a \<and> charged limit a s s1) \<and> (\<exists>b. T b \<and> charged limit b s1 s')) \<longleftrightarrow>
   (\<exists>n. (\<exists>a b. n = a + b \<and> S a \<and> T b) \<and> charged limit n s s')"
proof -
  have "(\<exists>n. (\<exists>a b. n = a + b \<and> S a \<and> T b) \<and> charged limit n s s') \<longleftrightarrow> (\<exists>a b. S a \<and> T b \<and> charged limit (a + b) s s')" by blast
  also have "\<dots> \<longleftrightarrow> (\<exists>a b. S a \<and> T b \<and> (\<exists>s1. charged limit a s s1 \<and> charged limit b s1 s'))" by (simp only: charged_add)
  finally show ?thesis by blast
qed

lemma meter_secp: "limited_meter limit meter \<Longrightarrow> meter secp256k1VerifyCost s = (Ok (), s') \<longleftrightarrow> charged limit 1 s s'"
  by (auto simp: limited_meter_def charged_def secp256k1VerifyCost_def)

lemma gas_exact:
  fixes meter :: "u64 \<Rightarrow> (nat, unit) go"
  assumes m: "limited_meter limit meter"
  shows "\<And>s s'. SigVerificationGasConsumer meter ed key data s = (Ok (), s') \<longleftrightarrow> (\<exists>n. sig_count key data n \<and> charged limit n s s')"
    and "\<And>s s'. (\<nexists>k. key = Secp256k1Key k) \<Longrightarrow>
       CantoSigVerificationGasConsumer meter ed key data s = (Ok (), s') \<longleftrightarrow> (\<exists>n. sig_count key data n \<and> charged limit n s s')"
    and "\<And>s s'. ConsumeMultisignatureVerificationGas meter ed bits sigs ks i j s = (Ok (), s') \<longleftrightarrow>
       (\<exists>n. sigs_count (drop i ks) (drop i bits) (drop j sigs) n \<and> charged limit n s s')"
  using m
proof (induction meter ed key data and meter ed key data and meter ed bits sigs ks i j
    rule: SigVerificationGasConsumer_CantoSigVerificationGasConsumer_ConsumeMultisignatureVerificationGas.induct)
  case (8 meter ed bits sigs ks i j)
  show ?case
  proof (cases "i < length bits")
    case False
    then show ?thesis by (auto simp: ConsumeMultisignatureVerificationGas.simps sigs_count_bits charged_def)
  next
    case True
    then have bits: "drop i bits = bits ! i # drop (Suc i) bits" by (simp add: Cons_nth_drop_Suc)
    show ?thesis
    proof (cases "bits ! i")
      case skip: False
      with True 8 show ?thesis
        by (subst ConsumeMultisignatureVerificationGas.simps) (simp add: bits sigs_count_bits tl_drop drop_Suc)
    next
      case sign: True
      show ?thesis
      proof (cases "i < length ks \<and> j < length sigs")
        case False
        then have "\<not> sigs_count (drop i ks) (drop i bits) (drop j sigs) n" for n
          unfolding bits using sign by (auto simp: sigs_count_bits)
        with False True sign show ?thesis by (subst ConsumeMultisignatureVerificationGas.simps) auto
      next
        case ok: True
        then have d: "drop i ks = ks ! i # drop (Suc i) ks" "drop j sigs = sigs ! j # drop (Suc j) sigs"
          by (simp_all add: Cons_nth_drop_Suc)
        have "sigs_count (drop i ks) (drop i bits) (drop j sigs) n \<longleftrightarrow> (\<exists>a b. n = a + b \<and> sig_count (ks ! i) (sigs ! j) a \<and>
            sigs_count (drop (Suc i) ks) (drop (Suc i) bits) (drop (Suc j) sigs) b)" for n
          unfolding bits d using sign by (auto simp: sigs_count_bits)
        moreover have "ConsumeMultisignatureVerificationGas meter ed bits sigs ks i j s = (Ok (), s') \<longleftrightarrow>
            (\<exists>s1. SigVerificationGasConsumer meter ed (ks ! i) (sigs ! j) s = (Ok (), s1) \<and>
               ConsumeMultisignatureVerificationGas meter ed bits sigs ks (Suc i) (Suc j) s1 = (Ok (), s'))"
          using True sign ok by (subst ConsumeMultisignatureVerificationGas.simps) (auto simp: bind_def split: prod.splits result.splits)
        moreover have "SigVerificationGasConsumer meter ed (ks ! i) (sigs ! j) s = (Ok (), s1) \<longleftrightarrow>
            (\<exists>a. sig_count (ks ! i) (sigs ! j) a \<and> charged limit a s s1)" for s1
          using "8.IH"(2) True sign ok "8.prems" by simp
        moreover have "ConsumeMultisignatureVerificationGas meter ed bits sigs ks (Suc i) (Suc j) s1 = (Ok (), s') \<longleftrightarrow>
            (\<exists>b. sigs_count (drop (Suc i) ks) (drop (Suc i) bits) (drop (Suc j) sigs) b \<and> charged limit b s1 s')" for s1
          using "8.IH"(3) True sign ok "8.prems" by simp
        ultimately show ?thesis
          by (simp only: charged_split)
      qed
    qed
  qed
qed (auto simp: meter_secp bind_def split: prod.splits result.splits)

section \<open>Properties\<close>


definition c_meter :: "nat \<Rightarrow> u64 \<Rightarrow> (nat, unit) go" where
  "c_meter limit g = (\<lambda>s. (if s + unat g \<le> limit then Ok () else Panic ''out of gas'', s + unat g))"

definition c_multi :: sig_pubkey where
  "c_multi = MultisigKey 2 [Secp256k1Key ''a'', Ed25519Key ''v'', MultisigKey 1 [EthSecp256k1Key ''b'', Secp256k1Key ''c'']]"

definition c_multi_data :: sig_data where
  "c_multi_data = MultiSignatureData [True, False, True]
     [SingleSignatureData ''s'', MultiSignatureData [True, False] [SingleSignatureData ''t'']]"


end
