(* ===== verification/Onboarding.thy ===== *)
theory Onboarding
  imports Erc20_Frame
begin

text \<open>
  The onboarding module (\<open>x/onboarding\<close>), a middleware of the IBC transfer application: coins that
  arrive over a listed channel are converted to tokens of the recipient. With it, the helpers on
  transfer packets of \<open>ibcutils\<close>. Logging is left out.
\<close>

section \<open>Packets\<close>

text \<open>A packet, as far as the code looks at it, and an acknowledgement.\<close>

record packet =
  pk_SourcePort :: string
  pk_SourceChannel :: string
  pk_DestinationPort :: string
  pk_DestinationChannel :: string
  pk_Data :: bytes

datatype ack = AckResult bytes | AckError go_error

fun ack_Success :: "ack \<Rightarrow> bool" where
  "ack_Success (AckResult b) = True"
| "ack_Success (AckError e) = False"

definition GetAltheaAddressFromBech32 :: "'w env \<Rightarrow> string \<Rightarrow> bytes result" where
  "GetAltheaAddressFromBech32 E address =
     (let bech32Prefix = hd (SplitN2 (CHR ''1'') address) in
      if bech32Prefix = address then Err ErrInvalidAddress
      else andThen (err_as ErrInvalidAddress (GetFromBech32 (ibc E) address bech32Prefix)) (\<lambda>addressBz.
        andThen (VerifyAddressFormat (libs E) addressBz) (\<lambda>_. Ok addressBz)))"

definition GetTransferSenderRecipient :: "'w env \<Rightarrow> packet \<Rightarrow> (bytes \<times> bytes \<times> string \<times> string) result" where
  "GetTransferSenderRecipient E packet =
     andThen (err_as ErrUnknownRequest (UnmarshalPacketData (ibc E) (pk_Data packet))) (\<lambda>data.
     andThen (GetAltheaAddressFromBech32 E (pd_Sender data)) (\<lambda>sender.
     andThen (GetAltheaAddressFromBech32 E (pd_Receiver data)) (\<lambda>recipient.
     Ok (sender, recipient, pd_Sender data, pd_Receiver data))))"

definition GetTransferAmount :: "'w env \<Rightarrow> packet \<Rightarrow> string result" where
  "GetTransferAmount E packet =
     andThen (err_as ErrUnknownRequest (UnmarshalPacketData (ibc E) (pk_Data packet))) (\<lambda>data.
     if pd_Amount data = [] then Err ErrInvalidCoins
     else case NewIntFromString (ibc E) (pd_Amount data) of
       None \<Rightarrow> Err ErrInvalidCoins
     | Some n \<Rightarrow> Ok (pd_Amount data))"

text \<open>
  The amount of the coin is \<open>None\<close> when the text is no number: the zero value of \<open>sdk.Int\<close>, which
  holds no number either.
\<close>

definition GetReceivedCoin ::
  "'w env \<Rightarrow> string \<Rightarrow> string \<Rightarrow> string \<Rightarrow> string \<Rightarrow> string \<Rightarrow> string \<Rightarrow> (string \<times> int option) result" where
  "GetReceivedCoin E srcPort srcChannel dstPort dstChannel rawDenom rawAmt =
     (let amount = NewIntFromString (ibc E) rawAmt in
      if ReceiverChainIsSource (ibc E) srcPort srcChannel rawDenom then
        andThen (slice_from (length (GetDenomPrefix (ibc E) srcPort srcChannel)) rawDenom) (\<lambda>unprefixedDenom.
        Ok (if DenomTrace_Path (ibc E) unprefixedDenom \<noteq> [] then DenomTrace_IBCDenom (ibc E) unprefixedDenom
            else unprefixedDenom, amount))
      else
        let prefixedDenom = GetDenomPrefix (ibc E) dstPort dstChannel @ rawDenom in
        Ok (DenomTrace_IBCDenom (ibc E) prefixedDenom, amount))"

section \<open>Parameters and genesis\<close>

record onboarding_params =
  EnableOnboarding :: bool
  WhitelistedChannels :: "string list"

definition ParamStoreKeyEnableOnboarding :: string where
  "ParamStoreKeyEnableOnboarding = ''EnableOnboarding''"

definition ParamsStoreKeyWhitelistedChannels :: string where
  "ParamsStoreKeyWhitelistedChannels = ''WhitelistedChannels''"

definition DefaultWhitelistedChannels :: "string list" where
  "DefaultWhitelistedChannels = [[]]"

definition onboarding_NewParams :: "bool \<Rightarrow> string list \<Rightarrow> onboarding_params" where
  "onboarding_NewParams enableOnboarding whitelistedChannels =
     \<lparr>EnableOnboarding = enableOnboarding, WhitelistedChannels = whitelistedChannels\<rparr>"

definition onboarding_DefaultParams :: onboarding_params where
  "onboarding_DefaultParams = \<lparr>EnableOnboarding = True, WhitelistedChannels = DefaultWhitelistedChannels\<rparr>"

fun validateWhitelistedChannels :: "param \<Rightarrow> unit result" where
  "validateWhitelistedChannels (PStrs xs) = Ok ()"
| "validateWhitelistedChannels _ = Err (Errorf ''invalid parameter type'')"

fun onboarding_validateBool :: "param \<Rightarrow> unit result" where
  "onboarding_validateBool (PBool b) = Ok ()"
| "onboarding_validateBool _ = Err (Errorf ''invalid parameter type'')"

definition onboarding_ParamSetPairs :: "onboarding_params \<Rightarrow> param_pair list" where
  "onboarding_ParamSetPairs p =
     [(ParamStoreKeyEnableOnboarding, PBool (EnableOnboarding p), onboarding_validateBool),
      (ParamsStoreKeyWhitelistedChannels, PStrs (WhitelistedChannels p), validateWhitelistedChannels)]"

definition onboarding_Params_Validate :: "onboarding_params \<Rightarrow> unit result" where
  "onboarding_Params_Validate p = onboarding_validateBool (PBool (EnableOnboarding p))"

definition onboarding_NewGenesisState :: "onboarding_params \<Rightarrow> onboarding_params" where
  "onboarding_NewGenesisState p = p"

definition onboarding_DefaultGenesisState :: onboarding_params where
  "onboarding_DefaultGenesisState = onboarding_DefaultParams"

definition onboarding_Genesis_Validate :: "onboarding_params \<Rightarrow> unit result" where
  "onboarding_Genesis_Validate gs = onboarding_Params_Validate gs"

definition onboarding_GetParams :: "'w ctx \<Rightarrow> onboarding_params result" where
  "onboarding_GetParams c = (case prm c ''onboarding'' ParamStoreKeyEnableOnboarding of
     None \<Rightarrow> Panic ''parameter not set''
   | Some p1 \<Rightarrow> andThen (as_bool p1) (\<lambda>b.
       case prm c ''onboarding'' ParamsStoreKeyWhitelistedChannels of
         None \<Rightarrow> Panic ''parameter not set''
       | Some p2 \<Rightarrow> andThen (as_strs p2) (\<lambda>xs. Ok \<lparr>EnableOnboarding = b, WhitelistedChannels = xs\<rparr>)))"

definition onboarding_SetParams :: "onboarding_params \<Rightarrow> ('w ctx, unit) go" where
  "onboarding_SetParams p = param_SetParamSet ''onboarding'' (onboarding_ParamSetPairs p)"

definition onboarding_InitGenesis :: "onboarding_params \<Rightarrow> ('w ctx, unit) go" where
  "onboarding_InitGenesis data = onboarding_SetParams data"

definition onboarding_ExportGenesis :: "'w ctx \<Rightarrow> onboarding_params result" where
  "onboarding_ExportGenesis c = onboarding_GetParams c"

definition onboarding_Query_Params :: "'w ctx \<Rightarrow> onboarding_params result" where
  "onboarding_Query_Params c = onboarding_GetParams c"

section \<open>The callback\<close>

definition onboarding_ErrInvalidType :: go_error where
  "onboarding_ErrInvalidType = Registered ''onboarding'' 3"

fun channel_loop :: "string \<Rightarrow> string list \<Rightarrow> bool \<Rightarrow> bool" where
  "channel_loop channel [] found = found"
| "channel_loop channel (s # rest) found = channel_loop channel rest (if s = channel then True else found)"

definition is_module_account :: "account option \<Rightarrow> bool" where
  "is_module_account acc = (case acc of None \<Rightarrow> False | Some a \<Rightarrow> acc_kind a = ModuleAccount)"

definition NewEventOnboarding :: "packet \<Rightarrow> string \<Rightarrow> string \<Rightarrow> int \<Rightarrow> event" where
  "NewEventOnboarding packet senderBech32 recipientBech32 amt =
     Event ''onboarding'' [(''sender'', AStr senderBech32), (''receiver'', AStr recipientBech32),
       (''packet_src_channel'', AStr (pk_SourceChannel packet)), (''packet_src_port'', AStr (pk_SourcePort packet)),
       (''packet_dst_port'', AStr (pk_DestinationPort packet)), (''packet_dst_channel'', AStr (pk_DestinationChannel packet)),
       (''convert_amount'', AInt amt)]"

text \<open>
  The conversion from the recipient to itself. An error of it is logged and the packet's own
  acknowledgement returned; what the conversion did up to the error is not undone. A coin
  without a number panics where the number is first used.
\<close>

definition onboarding_convert :: "'w env \<Rightarrow> packet \<Rightarrow> ack \<Rightarrow> bytes \<Rightarrow> string \<Rightarrow> string \<Rightarrow> string \<Rightarrow> int option \<Rightarrow> ('w ctx, ack) go" where
  "onboarding_convert E packet ack recipient senderBech32 recipientBech32 denom amt = (case amt of
     None \<Rightarrow> panic ''nil pointer dereference''
   | Some n \<Rightarrow> (\<lambda>c.
       case ConvertCoin E \<lparr>coin_denom = denom, coin_amount = n\<rparr> (Address_Hex (libs E) (BytesToAddress (libs E) recipient))
              (AccAddress_String (libs E) recipient) c of
         (Err e, c') \<Rightarrow> (Ok ack, c')
       | (Panic p, c') \<Rightarrow> (Panic p, c')
       | (Ok r, c') \<Rightarrow> seq (EmitEvent (NewEventOnboarding packet senderBech32 recipientBech32 n)) (ret ack) c'))"

definition keeper_OnRecvPacket :: "'w env \<Rightarrow> packet \<Rightarrow> ack \<Rightarrow> ('w ctx, ack) go" where
  "keeper_OnRecvPacket E packet ack =
     bind (reads onboarding_GetParams) (\<lambda>params.
     if \<not> EnableOnboarding params then ret ack
     else if \<not> channel_loop (pk_DestinationChannel packet) (WhitelistedChannels params) False then ret ack
     else case GetTransferSenderRecipient E packet of
       Err e \<Rightarrow> ret (AckError e)
     | Panic p \<Rightarrow> panic p
     | Ok (sender, recipient, senderBech32, recipientBech32) \<Rightarrow>
         bind (gets (\<lambda>c. GetAccount (acct E) recipient (world c))) (\<lambda>account.
         if is_module_account account then ret ack
         else case UnmarshalPacketData (ibc E) (pk_Data packet) of
           Err e \<Rightarrow> ret (AckError onboarding_ErrInvalidType)
         | Panic p \<Rightarrow> panic p
         | Ok data \<Rightarrow>
             bind (lift (GetReceivedCoin E (pk_SourcePort packet) (pk_SourceChannel packet) (pk_DestinationPort packet)
                (pk_DestinationChannel packet) (pd_Denom data) (pd_Amount data))) (\<lambda>(denom, amt).
             bind (gets (GetTokenPairID (libs E) denom)) (\<lambda>pairID.
             if (case pairID of None \<Rightarrow> True | Some k \<Rightarrow> length k = 0) then ret ack
             else bind (reads (GetTokenPair pairID)) (\<lambda>found. case found of
               None \<Rightarrow> ret ack
             | Some pair \<Rightarrow>
                 if \<not> Enabled pair then ret ack
                 else onboarding_convert E packet ack recipient senderBech32 recipientBech32 denom amt)))))"

text \<open>The middleware asks the application below it first; an error acknowledgement is passed on.\<close>

definition middleware_OnRecvPacket ::
  "'w env \<Rightarrow> (packet \<Rightarrow> bytes \<Rightarrow> ('w ctx, ack) go) \<Rightarrow> packet \<Rightarrow> bytes \<Rightarrow> ('w ctx, ack) go" where
  "middleware_OnRecvPacket E app packet relayer =
     bind (app packet relayer) (\<lambda>ack.
     if \<not> ack_Success ack then ret ack else keeper_OnRecvPacket E packet ack)"

section \<open>Lemmas\<close>

lemma channel_loop_iff [simp]: "channel_loop channel xs found \<longleftrightarrow> found \<or> channel \<in> set xs"
  by (induction channel xs found rule: channel_loop.induct) auto

lemma GetTransferSenderRecipient_valid:
  assumes "GetTransferSenderRecipient E packet = Ok (sender, recipient, sb, rb)"
  shows "VerifyAddressFormat (libs E) recipient = Ok ()" "\<exists>data. UnmarshalPacketData (ibc E) (pk_Data packet) = Ok data"
  using assms by (auto simp: GetTransferSenderRecipient_def GetAltheaAddressFromBech32_def Let_def split: if_splits)

lemma find_pair_key:
  assumes "reg_ok L c"
  shows "find_pair L token c = Some pair \<longleftrightarrow>
     (\<exists>k. GetTokenPairID L token c = Some k \<and> k \<noteq> [] \<and> GetTokenPair (Some k) c = Ok (Some pair))"
proof -
  have "k \<noteq> []" if "GetTokenPairID L token c = Some k" and "r_pairs (reg c) k = Some tp" for k tp
    using that assms reg_invD(1,2) [of L "reg c" k tp] by (auto simp: reg_ok_def pair_wf_def)
  then show ?thesis
    using lookup_token [OF assms, of token] by (auto simp: find_pair_def split: bind_split_asm)
qed

text \<open>The packets that are due for a conversion, with the coins that have arrived.\<close>

definition onboarding_due :: "'w env \<Rightarrow> packet \<Rightarrow> 'w ctx \<Rightarrow> bytes \<Rightarrow> string \<Rightarrow> int option \<Rightarrow> TokenPair \<Rightarrow> bool" where
  "onboarding_due E packet c recipient denom amt pair \<longleftrightarrow>
     (\<exists>params sender sb rb data. onboarding_GetParams c = Ok params \<and> EnableOnboarding params \<and>
        pk_DestinationChannel packet \<in> set (WhitelistedChannels params) \<and>
        GetTransferSenderRecipient E packet = Ok (sender, recipient, sb, rb) \<and>
        \<not> is_module_account (GetAccount (acct E) recipient (world c)) \<and>
        UnmarshalPacketData (ibc E) (pk_Data packet) = Ok data \<and>
        GetReceivedCoin E (pk_SourcePort packet) (pk_SourceChannel packet) (pk_DestinationPort packet)
          (pk_DestinationChannel packet) (pd_Denom data) (pd_Amount data) = Ok (denom, amt) \<and>
        find_pair (libs E) denom c = Some pair \<and> Enabled pair)"

lemma onboarding_due_det:
  assumes "onboarding_due E packet c recipient denom amt pair" and "onboarding_due E packet c recipient' denom' amt' pair'"
  shows "recipient' = recipient \<and> denom' = denom \<and> amt' = amt \<and> pair' = pair"
  using assms by (auto simp: onboarding_due_def)

text \<open>The conversion that a due packet asks for.\<close>

abbreviation self_convert :: "'w env \<Rightarrow> bytes \<Rightarrow> string \<Rightarrow> int \<Rightarrow> ('w ctx, bool) go" where
  "self_convert E recipient denom n \<equiv> ConvertCoin E \<lparr>coin_denom = denom, coin_amount = n\<rparr>
     (Address_Hex (libs E) (BytesToAddress (libs E) recipient)) (AccAddress_String (libs E) recipient)"

lemma keeper_OnRecvPacket_due:
  assumes reg: "reg_ok (libs E) c" and due: "onboarding_due E packet c recipient denom amt pair"
  shows "\<exists>sb rb. keeper_OnRecvPacket E packet ack c = onboarding_convert E packet ack recipient sb rb denom amt c"
proof -
  from due obtain params sender sb rb data where d: "onboarding_GetParams c = Ok params" "EnableOnboarding params"
    "pk_DestinationChannel packet \<in> set (WhitelistedChannels params)" "GetTransferSenderRecipient E packet = Ok (sender, recipient, sb, rb)"
    "\<not> is_module_account (GetAccount (acct E) recipient (world c))" "UnmarshalPacketData (ibc E) (pk_Data packet) = Ok data"
    "GetReceivedCoin E (pk_SourcePort packet) (pk_SourceChannel packet) (pk_DestinationPort packet)
       (pk_DestinationChannel packet) (pd_Denom data) (pd_Amount data) = Ok (denom, amt)"
    "find_pair (libs E) denom c = Some pair" "Enabled pair"
    unfolding onboarding_due_def by blast
  from d(8) obtain k where "GetTokenPairID (libs E) denom c = Some k" "k \<noteq> []" "GetTokenPair (Some k) c = Ok (Some pair)"
    using find_pair_key [OF reg] by blast
  with d show ?thesis by (auto simp: keeper_OnRecvPacket_def bind_def)
qed

lemma keeper_OnRecvPacket_idle:
  assumes reg: "reg_ok (libs E) c" and idle: "\<nexists>recipient denom amt pair. onboarding_due E packet c recipient denom amt pair"
    and run: "keeper_OnRecvPacket E packet ack c = (Ok ack', c')"
  shows "c' = c \<and> (ack' = ack \<or> (\<exists>e. ack' = AckError e \<and> GetTransferSenderRecipient E packet = Err e))"
proof -
  from run obtain params where p: "onboarding_GetParams c = Ok params" by (auto simp: keeper_OnRecvPacket_def)
  show ?thesis
  proof (cases "EnableOnboarding params \<and> pk_DestinationChannel packet \<in> set (WhitelistedChannels params)")
    case False
    with run p show ?thesis by (auto simp: keeper_OnRecvPacket_def bind_def split: if_splits)
  next
    case True
    show ?thesis
    proof (cases "GetTransferSenderRecipient E packet")
      case (Ok t)
      obtain sender recipient sb rb where t: "t = (sender, recipient, sb, rb)" by (cases t) auto
      with Ok GetTransferSenderRecipient_valid(2) obtain data where data: "UnmarshalPacketData (ibc E) (pk_Data packet) = Ok data"
        by blast
      let ?coin = "GetReceivedCoin E (pk_SourcePort packet) (pk_SourceChannel packet) (pk_DestinationPort packet)
          (pk_DestinationChannel packet) (pd_Denom data) (pd_Amount data)"
      have no: "\<not> Enabled pair" if "\<not> is_module_account (GetAccount (acct E) recipient (world c))"
        "?coin = Ok (denom, amt)" "GetTokenPairID (libs E) denom c = Some k" "k \<noteq> []" "GetTokenPair (Some k) c = Ok (Some pair)"
        for denom amt k pair
        using idle p True Ok t data that find_pair_key [OF reg] unfolding onboarding_due_def by blast
      show ?thesis
        using run p True Ok t data
        by (auto simp: keeper_OnRecvPacket_def bind_def no split: if_splits result.splits option.splits)
    qed (use run p True in \<open>auto simp: keeper_OnRecvPacket_def bind_def\<close>)
  qed
qed

lemma onboarding_convert_Ok:
  assumes laws: "erc20_laws E ed" and reg: "reg_ok (libs E) c" and acc: "VerifyAddressFormat (libs E) recipient = Ok ()"
    and denom: "denom \<noteq> ed" and pair: "find_pair (libs E) denom c = Some pair"
    and run: "onboarding_convert E packet ack recipient sb rb denom amt c = (Ok ack', c')"
  shows "ack' = ack \<and> (\<exists>n. amt = Some n \<and> ((\<exists>e. self_convert E recipient denom n c = (Err e, c')) \<or>
     (\<exists>r c1. coin_converted E ed \<lparr>coin_denom = denom, coin_amount = n\<rparr> (BytesToAddress (libs E) recipient) recipient pair r c c1 \<and>
        world c' = world c1 \<and> kv c' = kv c1)))"
proof -
  from run obtain n where n: "amt = Some n" by (auto simp: onboarding_convert_def split: option.splits)
  have l: "bank_ok E" "evm_query_ok E" "evm_frame_ok E ed" "bank_evm_ok E ed" "bech32_ok (libs E)" "addr_ok (libs E)"
    using laws by (auto simp: erc20_laws_def)
  let ?x = "\<lparr>coin_denom = denom, coin_amount = n\<rparr>"
  obtain r c1 where r: "self_convert E recipient denom n c = (r, c1)" by fastforce
  show ?thesis
  proof (cases r)
    case (Ok b)
    have "coin_denom ?x \<noteq> ed" using denom by simp
    from ConvertCoin_Ok [OF l(1-4) reg this r [unfolded Ok]] obtain p where
      cc: "coin_converted E ed ?x (BytesToAddress (libs E) recipient) recipient p b c c1"
      using bech32_okD [OF l(5) acc] by (auto simp: addr_okD(1) [OF l(6)])
    then have "p = pair" using pair by (simp add: coin_converted_def)
    moreover have "ack' = ack" "world c' = world c1" "kv c' = kv c1"
      using run n r Ok by (auto simp: onboarding_convert_def bind_def)
    ultimately show ?thesis using cc n by blast
  qed (use run n r in \<open>auto simp: onboarding_convert_def\<close>)
qed

section \<open>Properties\<close>


section \<open>Witnesses\<close>

definition c_packet :: packet where
  "c_packet = \<lparr>pk_SourcePort = ''transfer'', pk_SourceChannel = ''channel-7'', pk_DestinationPort = ''transfer'',
     pk_DestinationChannel = ''channel-0'', pk_Data = ''transfer/channel-7/acoin:cosmos1bob:althea1alice''\<rparr>"

definition c_onb_ctx :: "ledger ctx" where
  "c_onb_ctx = (c_conv_ctx c_tp c_world)\<lparr>prm := (prm (c_conv_ctx c_tp c_world))(''onboarding'' :=
     [ParamStoreKeyEnableOnboarding \<mapsto> PBool True, ParamsStoreKeyWhitelistedChannels \<mapsto> PStrs [''channel-0'']])\<rparr>"

lemma c_onb_sel [simp]: "kv c_onb_ctx = kv (c_conv_ctx c_tp c_world)" "world c_onb_ctx = c_world"
  "prm c_onb_ctx ''erc20'' = prm (c_conv_ctx c_tp c_world) ''erc20''"
  by (simp_all add: c_onb_ctx_def)

lemma c_onb_params: "onboarding_GetParams c_onb_ctx = Ok \<lparr>EnableOnboarding = True, WhitelistedChannels = [''channel-0'']\<rparr>"
  by (simp add: onboarding_GetParams_def c_onb_ctx_def ParamStoreKeyEnableOnboarding_def ParamsStoreKeyWhitelistedChannels_def)

lemma c_packet_parts:
  "GetTransferSenderRecipient c_env c_packet = Ok (''bob'', ''alice'', ''cosmos1bob'', ''althea1alice'')"
  "UnmarshalPacketData c_ibc (pk_Data c_packet) = Ok \<lparr>pd_Denom = ''transfer/channel-7/acoin'', pd_Amount = ''7'',
     pd_Sender = ''cosmos1bob'', pd_Receiver = ''althea1alice''\<rparr>"
  "GetReceivedCoin c_env (pk_SourcePort c_packet) (pk_SourceChannel c_packet) (pk_DestinationPort c_packet)
     (pk_DestinationChannel c_packet) ''transfer/channel-7/acoin'' ''7'' = Ok (''acoin'', Some 7)"
  by code_simp+

lemma c_onb_find: "find_pair c_lib ''acoin'' c_onb_ctx = Some c_tp" "reg_ok c_lib c_onb_ctx"
  using find_pair_cong [of c_onb_ctx "c_conv_ctx c_tp c_world" c_lib "''acoin''"] reg_ok_cong [of c_onb_ctx "c_conv_ctx c_tp c_world" c_lib]
  by (simp_all add: find_c_conv_ctx reg_ok_c_conv_ctx)

lemma c_onb_due: "onboarding_due c_env c_packet c_onb_ctx ''alice'' ''acoin'' (Some 7) c_tp"
proof -
  have "Enabled c_tp" "pk_DestinationChannel c_packet = ''channel-0''" by code_simp+
  then show ?thesis
    using c_packet_parts by (auto simp: onboarding_due_def c_onb_params c_onb_find c_acct_def is_module_account_def)
qed

lemma c_onb_convert: "\<exists>c'. self_convert c_env ''alice'' ''acoin'' 7 c_onb_ctx = (Ok True, c')"
proof -
  have pays: "l_bal c_world ''alice'' ''acoin'' = 1000" by (simp add: c_world_def)
  have a: "BytesToAddress c_lib ''alice'' = Addr ''alice''" "AccAddress_String c_lib ''alice'' = ''alice''" by (simp_all add: c_lib_def)
  have t: "token_balance c_env con (Addr ''alice'') w = Ok (Some (l_tok w con (Addr ''alice'')))"
    if "0 \<le> l_tok w con (Addr ''alice'')" for con w
    using that by (intro c_token_balance) simp_all
  have m: "CallEVM c_env abi fr con True ''mint'' [VAddr (Addr ''alice''), VUint 7] c =
     (Ok (c_reply False []), c\<lparr>world := t_add con (Addr ''alice'') 7 (world c)\<rparr>)" for abi fr con c
    by (rule c_mint) simp_all
  have tok: "l_tok c_world con a = 0" for con a by (simp add: c_world_def)
  show ?thesis
    by (simp add: ConvertCoin_def Let_def bind_def c_addresses a c_Minting [of _ c_world] addr_okD(1) [OF c_addr_ok] c_alive
        convertCoinNativeCoin_def read_balance_def BalanceOf_eq [OF c_evm_query_ok] t m pays c_bank_ops ext_def tok)
qed


section \<open>Shortcomings\<close>

text \<open>
  When the conversion fails after the coins are in escrow, the packet is acknowledged as a success
  and the escrow is kept: the recipient has neither the coins nor the tokens.
\<close>

definition c_stuck_env :: "ledger env" where
  "c_stuck_env = c_env\<lparr>evm := c_evm\<lparr>EstimateGas := (\<lambda>_ _ _ w. (Err (ExtErr ''execution reverted''), w))\<rparr>\<rparr>"

lemma c_stuck_sel: "libs c_stuck_env = c_lib" "math c_stuck_env = c_math" "bank c_stuck_env = c_bank" "acct c_stuck_env = c_acct"
  "ibc c_stuck_env = c_ibc" "abi_Unpack (evm c_stuck_env) = abi_Unpack c_evm"
  by (simp_all add: c_stuck_env_def)

lemma c_stuck_BalanceOf: "BalanceOf c_stuck_env con a c = BalanceOf c_env con a c"
proof -
  have "CallEVM c_stuck_env ab fr con False meth args c = CallEVM c_env ab fr con False meth args c" for ab fr meth args
    unfolding CallEVM_def CallEVMWithData_def c_stuck_sel c_env_sel by (simp add: c_stuck_env_def)
  then show ?thesis
    unfolding BalanceOf_def c_stuck_sel c_env_sel by simp
qed

lemma c_stuck_mint: "CallEVM c_stuck_env ab fr con True meth args c = (Err (ExtErr ''execution reverted''), c)"
  unfolding CallEVM_def CallEVMWithData_def c_stuck_sel
  by (simp add: c_stuck_env_def bind_def wrap_as_def ext_def) (simp add: c_evm_def c_acct_def)

lemma onboarding_keeps_half_conversion:
  "\<exists>c'. keeper_OnRecvPacket c_stuck_env c_packet (AckResult ''ok'') c_onb_ctx = (Ok (AckResult ''ok''), c') \<and>
     l_bal (world c') ''alice'' ''acoin'' = l_bal c_world ''alice'' ''acoin'' - 7 \<and> l_tok (world c') = l_tok c_world"
proof -
  have same: "MintingEnabled c_stuck_env = MintingEnabled c_env" "is_selfdestructed c_stuck_env = is_selfdestructed c_env"
    "GetTransferSenderRecipient c_stuck_env = GetTransferSenderRecipient c_env" "GetReceivedCoin c_stuck_env = GetReceivedCoin c_env"
    unfolding fun_eq_iff MintingEnabled_def is_selfdestructed_def GetTransferSenderRecipient_def GetReceivedCoin_def
      GetAltheaAddressFromBech32_def c_stuck_sel c_env_sel by (simp_all add: c_stuck_env_def)
  have pays: "l_bal c_world ''alice'' ''acoin'' = 1000" "l_tok c_world con a = 0" for con a by (simp_all add: c_world_def)
  have a: "BytesToAddress c_lib ''alice'' = Addr ''alice''" "AccAddress_String c_lib ''alice'' = ''alice''" by (simp_all add: c_lib_def)
  have t: "token_balance c_env con (Addr ''alice'') c_world = Ok (Some 0)" for con
    using c_token_balance [of "''alice''" c_world con] by (simp add: pays)
  have conv: "self_convert c_stuck_env ''alice'' ''acoin'' 7 c_onb_ctx = (Err (ExtErr ''execution reverted''),
      c_onb_ctx\<lparr>world := l_add ''module:erc20'' ''acoin'' 7 (l_add ''alice'' ''acoin'' (- 7) c_world)\<rparr>)"
    by (simp add: ConvertCoin_def Let_def bind_def c_addresses a c_stuck_sel same c_Minting [of _ c_world] addr_okD(1) [OF c_addr_ok] c_alive
        convertCoinNativeCoin_def read_balance_def c_stuck_BalanceOf c_stuck_mint BalanceOf_eq [OF c_evm_query_ok] t pays c_bank_ops ext_def)
  have "onboarding_due c_stuck_env c_packet c_onb_ctx ''alice'' ''acoin'' (Some 7) c_tp"
    using c_onb_due unfolding onboarding_due_def same c_stuck_sel c_env_sel .
  with keeper_OnRecvPacket_due [of c_stuck_env c_onb_ctx c_packet "''alice''" "''acoin''" "Some 7" c_tp "AckResult ''ok''"] conv show ?thesis
    by (auto simp: c_stuck_sel c_onb_find onboarding_convert_def)
qed

end
