(* ===== verification/Nativedex.thy ===== *)
theory Nativedex
  imports Erc20_Frame
begin

text \<open>
  The nativedex module (\<open>x/nativedex\<close>): governance of the DEX contracts. Every proposal is one call
  of the verified \<open>CrocPolicy\<close> contract, or of a whitelisted contract, from the module's own
  account. With it, the encoder of ABI arguments (\<open>contracts/abi_coder.go\<close>). Logging is left out.
\<close>

section \<open>Encoding of arguments\<close>

text \<open>A type of the ABI is represented by its name.\<close>

definition typeMap :: "string list" where
  "typeMap = [''bool'', ''uint8'', ''uint16'', ''uint32'', ''uint64'', ''uint128'', ''uint256'', ''address'']"

definition GetType :: "string \<Rightarrow> string result" where
  "GetType name = (if name \<in> set typeMap then Ok name else Err (Errorf ''unknown type''))"

fun GetTypeArguments :: "string list \<Rightarrow> string list result" where
  "GetTypeArguments [] = Ok []"
| "GetTypeArguments (name # rest) =
     andThen (GetType name) (\<lambda>t. andThen (GetTypeArguments rest) (\<lambda>args. Ok (t # args)))"

definition EncodeArguments :: "'w env \<Rightarrow> string list \<Rightarrow> abi_value list \<Rightarrow> bytes result" where
  "EncodeArguments E args values = abi_Arguments_Pack (evm E) args values"

definition EncodeTypes :: "'w env \<Rightarrow> string list \<Rightarrow> abi_value list \<Rightarrow> bytes result" where
  "EncodeTypes E tys values = andThen (GetTypeArguments tys) (\<lambda>args. EncodeArguments E args values)"

section \<open>Parameters and genesis\<close>

definition ErrInvalidEvmAddress :: go_error where "ErrInvalidEvmAddress = Registered ''nativedex'' 2"
definition ErrInvalidCallpath :: go_error where "ErrInvalidCallpath = Registered ''nativedex'' 3"

text \<open>\<open>govtypes.ErrInvalidProposalContent\<close>.\<close>

definition ErrInvalidProposalContent :: go_error where "ErrInvalidProposalContent = Registered ''gov'' 5"

definition nativedex_ModuleAddress :: "lib \<Rightarrow> bytes" where
  "nativedex_ModuleAddress L = NewModuleAddress L ''nativedex''"

definition nativedex_ModuleEVMAddress :: "lib \<Rightarrow> address" where
  "nativedex_ModuleEVMAddress L = BytesToAddress L (nativedex_ModuleAddress L)"

record nativedex_params =
  VerifiedNativeDexAddress :: string
  VerifiedCrocPolicyAddress :: string
  WhitelistedContractAddresses :: "string list"

definition ParamsStoreKeyVerifiedNativeDexAddress :: string where
  "ParamsStoreKeyVerifiedNativeDexAddress = ''VerifiedNativeDexAddress''"
definition ParamsStoreKeyVerifiedCrocPolicyAddress :: string where
  "ParamsStoreKeyVerifiedCrocPolicyAddress = ''VerifiedCrocPolicyAddress''"
definition ParamsStoreKeyWhitelistedContractAddresses :: string where
  "ParamsStoreKeyWhitelistedContractAddresses = ''WhitelistedContractAddresses''"

definition nativedex_DefaultParams :: "lib \<Rightarrow> nativedex_params" where
  "nativedex_DefaultParams L =
     \<lparr>VerifiedNativeDexAddress = Address_Hex L (BytesToAddress L [CHR 0x00]),
      VerifiedCrocPolicyAddress = Address_Hex L (BytesToAddress L [CHR 0x00]), WhitelistedContractAddresses = []\<rparr>"

definition nativedex_DefaultGenesis :: "lib \<Rightarrow> nativedex_params" where
  "nativedex_DefaultGenesis L = nativedex_DefaultParams L"

fun validateVerifiedNativeDexAddress :: "lib \<Rightarrow> param \<Rightarrow> unit result" where
  "validateVerifiedNativeDexAddress L (PStr v) = guard (IsHexAddress L v) ErrInvalidEvmAddress"
| "validateVerifiedNativeDexAddress L _ = Err (Errorf ''invalid parameter type'')"

fun validateVerifiedCrocPolicyAddress :: "lib \<Rightarrow> param \<Rightarrow> unit result" where
  "validateVerifiedCrocPolicyAddress L (PStr v) = guard (IsHexAddress L v) ErrInvalidEvmAddress"
| "validateVerifiedCrocPolicyAddress L _ = Err (Errorf ''invalid parameter type'')"

fun whitelist_loop :: "lib \<Rightarrow> string list \<Rightarrow> unit result" where
  "whitelist_loop L [] = Ok ()"
| "whitelist_loop L (addr # rest) = (if \<not> IsHexAddress L addr then Err ErrInvalidEvmAddress else whitelist_loop L rest)"

fun validateWhitelistedContractAddresses :: "lib \<Rightarrow> param \<Rightarrow> unit result" where
  "validateWhitelistedContractAddresses L (PStrs v) = whitelist_loop L v"
| "validateWhitelistedContractAddresses L _ = Err (Errorf ''invalid parameter type'')"

definition nativedex_Params_ValidateBasic :: "lib \<Rightarrow> nativedex_params \<Rightarrow> unit result" where
  "nativedex_Params_ValidateBasic L p =
     andThen (validateVerifiedNativeDexAddress L (PStr (VerifiedNativeDexAddress p))) (\<lambda>_.
     andThen (validateVerifiedCrocPolicyAddress L (PStr (VerifiedCrocPolicyAddress p))) (\<lambda>_.
     validateWhitelistedContractAddresses L (PStrs (WhitelistedContractAddresses p))))"

definition nativedex_Genesis_ValidateBasic :: "lib \<Rightarrow> nativedex_params \<Rightarrow> unit result" where
  "nativedex_Genesis_ValidateBasic L s = nativedex_Params_ValidateBasic L s"

definition nativedex_ParamSetPairs :: "lib \<Rightarrow> nativedex_params \<Rightarrow> param_pair list" where
  "nativedex_ParamSetPairs L p =
     [(ParamsStoreKeyVerifiedNativeDexAddress, PStr (VerifiedNativeDexAddress p), validateVerifiedNativeDexAddress L),
      (ParamsStoreKeyVerifiedCrocPolicyAddress, PStr (VerifiedCrocPolicyAddress p), validateVerifiedCrocPolicyAddress L),
      (ParamsStoreKeyWhitelistedContractAddresses, PStrs (WhitelistedContractAddresses p), validateWhitelistedContractAddresses L)]"

fun as_str :: "param \<Rightarrow> string result" where
  "as_str (PStr s) = Ok s"
| "as_str _ = Panic ''type mismatch''"

text \<open>\<open>GetParamSet\<close> panics on a parameter that is not set.\<close>

definition get_param :: "string \<Rightarrow> (param \<Rightarrow> 'a result) \<Rightarrow> 'w ctx \<Rightarrow> 'a result" where
  "get_param k decode c = (case prm c ''nativedex'' k of None \<Rightarrow> Panic ''parameter not set'' | Some p \<Rightarrow> decode p)"

definition nativedex_GetParams :: "'w ctx \<Rightarrow> nativedex_params result" where
  "nativedex_GetParams c =
     andThen (get_param ParamsStoreKeyVerifiedNativeDexAddress as_str c) (\<lambda>d.
     andThen (get_param ParamsStoreKeyVerifiedCrocPolicyAddress as_str c) (\<lambda>p.
     andThen (get_param ParamsStoreKeyWhitelistedContractAddresses as_strs c) (\<lambda>w.
     Ok \<lparr>VerifiedNativeDexAddress = d, VerifiedCrocPolicyAddress = p, WhitelistedContractAddresses = w\<rparr>)))"

fun keys_set :: "param_pair list \<Rightarrow> subspace \<Rightarrow> unit result" where
  "keys_set [] ss = Ok ()"
| "keys_set ((k, v, validate) # ps) ss =
     (if ss k = None then Err (Errorf ''the param key has not been set'') else keys_set ps ss)"

definition nativedex_GetParamsIfSet :: "lib \<Rightarrow> 'w ctx \<Rightarrow> nativedex_params result" where
  "nativedex_GetParamsIfSet L c =
     andThen (keys_set (nativedex_ParamSetPairs L \<lparr>VerifiedNativeDexAddress = [], VerifiedCrocPolicyAddress = [],
        WhitelistedContractAddresses = []\<rparr>) (prm c ''nativedex'')) (\<lambda>_. nativedex_GetParams c)"

definition nativedex_SetParams :: "lib \<Rightarrow> nativedex_params \<Rightarrow> ('w ctx, unit) go" where
  "nativedex_SetParams L p = param_SetParamSet ''nativedex'' (nativedex_ParamSetPairs L p)"

definition GetNativeDexAddress :: "lib \<Rightarrow> 'w ctx \<Rightarrow> address result" where
  "GetNativeDexAddress L c = andThen (nativedex_GetParams c) (\<lambda>p. Ok (HexToAddress L (VerifiedNativeDexAddress p)))"

definition GetVerifiedCrocPolicyAddress :: "lib \<Rightarrow> 'w ctx \<Rightarrow> address result" where
  "GetVerifiedCrocPolicyAddress L c = andThen (nativedex_GetParams c) (\<lambda>p. Ok (HexToAddress L (VerifiedCrocPolicyAddress p)))"

definition GetWhitelistedContractAddresses :: "'w ctx \<Rightarrow> string list result" where
  "GetWhitelistedContractAddresses c = andThen (nativedex_GetParams c) (\<lambda>p. Ok (WhitelistedContractAddresses p))"

definition nativedex_InitGenesis :: "'w env \<Rightarrow> nativedex_params \<Rightarrow> ('w ctx, unit) go" where
  "nativedex_InitGenesis E genState =
     seq (nativedex_SetParams (libs E) genState)
     (bind (ext (GetModuleAccount (acct E) ''nativedex'')) (\<lambda>acc.
      if acc = None then panic ''the nativedex module account has not been set'' else ret ()))"

definition nativedex_ExportGenesis :: "'w ctx \<Rightarrow> nativedex_params result" where
  "nativedex_ExportGenesis c = nativedex_GetParams c"

text \<open>The request is \<open>None\<close> when it is \<open>nil\<close>.\<close>

definition nativedex_Query_Params :: "unit option \<Rightarrow> 'w ctx \<Rightarrow> nativedex_params result" where
  "nativedex_Query_Params req c = (case req of
     None \<Rightarrow> Err (Errorf ''invalid request'') | Some _ \<Rightarrow> nativedex_GetParams c)"

section \<open>Proposals\<close>

text \<open>
  The contents the module handles, with title and description first; and any other content. The
  flag at the end is \<open>InSafeMode\<close>.
\<close>

datatype dex_content =
    UpgradeProxyProposal string string string u64
  | CollectTreasuryProposal string string string bool
  | SetTreasuryProposal string string string bool
  | AuthorityTransferProposal string string string bool
  | HotPathOpenProposal string string bool bool
  | SetSafeModeProposal string string bool bool
  | TransferGovernanceProposal string string string string
  | OpsProposal string string u64 bytes
  | ExecuteContractProposal string string string string
  | OtherDexContent

definition NewUpgradeProxyProposal :: "string \<Rightarrow> string \<Rightarrow> string \<Rightarrow> u64 \<Rightarrow> dex_content" where
  "NewUpgradeProxyProposal title description addr idx = UpgradeProxyProposal title description addr idx"
definition NewCollectTreasuryProposal :: "string \<Rightarrow> string \<Rightarrow> string \<Rightarrow> bool \<Rightarrow> dex_content" where
  "NewCollectTreasuryProposal title description token inSafeMode = CollectTreasuryProposal title description token inSafeMode"
definition NewSetTreasuryProposal :: "string \<Rightarrow> string \<Rightarrow> string \<Rightarrow> bool \<Rightarrow> dex_content" where
  "NewSetTreasuryProposal title description treasury inSafeMode = SetTreasuryProposal title description treasury inSafeMode"
definition NewAuthorityTransferProposal :: "string \<Rightarrow> string \<Rightarrow> string \<Rightarrow> bool \<Rightarrow> dex_content" where
  "NewAuthorityTransferProposal title description auth inSafeMode = AuthorityTransferProposal title description auth inSafeMode"
definition NewHotPathOpenProposal :: "string \<Rightarrow> string \<Rightarrow> bool \<Rightarrow> bool \<Rightarrow> dex_content" where
  "NewHotPathOpenProposal title description opn inSafeMode = HotPathOpenProposal title description opn inSafeMode"
definition NewSetSafeModeProposal :: "string \<Rightarrow> string \<Rightarrow> bool \<Rightarrow> bool \<Rightarrow> dex_content" where
  "NewSetSafeModeProposal title description lock inSafeMode = SetSafeModeProposal title description lock inSafeMode"
definition NewTransferGovernanceProposal :: "string \<Rightarrow> string \<Rightarrow> string \<Rightarrow> string \<Rightarrow> dex_content" where
  "NewTransferGovernanceProposal title description ops emergency = TransferGovernanceProposal title description ops emergency"
definition NewOpsProposal :: "string \<Rightarrow> string \<Rightarrow> u64 \<Rightarrow> bytes \<Rightarrow> dex_content" where
  "NewOpsProposal title description callpath cmdArgs = OpsProposal title description callpath cmdArgs"
definition NewExecuteContractProposal :: "string \<Rightarrow> string \<Rightarrow> string \<Rightarrow> string \<Rightarrow> dex_content" where
  "NewExecuteContractProposal title description contract data = ExecuteContractProposal title description contract data"

fun dex_ProposalType :: "dex_content \<Rightarrow> string" where
  "dex_ProposalType (UpgradeProxyProposal _ _ _ _) = ''UpgradeProxy''"
| "dex_ProposalType (CollectTreasuryProposal _ _ _ _) = ''CollectTreasury''"
| "dex_ProposalType (SetTreasuryProposal _ _ _ _) = ''SetTreasury''"
| "dex_ProposalType (AuthorityTransferProposal _ _ _ _) = ''AuthorityTransfer''"
| "dex_ProposalType (HotPathOpenProposal _ _ _ _) = ''HotPathOpen''"
| "dex_ProposalType (SetSafeModeProposal _ _ _ _) = ''SetSafeMode''"
| "dex_ProposalType (TransferGovernanceProposal _ _ _ _) = ''TransferGovernance''"
| "dex_ProposalType (OpsProposal _ _ _ _) = ''Ops''"
| "dex_ProposalType (ExecuteContractProposal _ _ _ _) = ''ExecuteContract''"
| "dex_ProposalType OtherDexContent = []"

definition UpgradeProxy_ValidateBasic :: "'w env \<Rightarrow> string \<Rightarrow> string \<Rightarrow> string \<Rightarrow> u64 \<Rightarrow> unit result" where
  "UpgradeProxy_ValidateBasic E t d addr idx =
     andThen (ValidateAbstract (ibc E) t d) (\<lambda>_.
     andThen (guard (IsHexAddress (libs E) addr) ErrInvalidEvmAddress) (\<lambda>_.
     guard (idx \<noteq> 0) ErrInvalidCallpath))"

definition CollectTreasury_ValidateBasic :: "'w env \<Rightarrow> string \<Rightarrow> string \<Rightarrow> string \<Rightarrow> unit result" where
  "CollectTreasury_ValidateBasic E t d token =
     andThen (ValidateAbstract (ibc E) t d) (\<lambda>_. guard (IsHexAddress (libs E) token) ErrInvalidEvmAddress)"

definition SetTreasury_ValidateBasic :: "'w env \<Rightarrow> string \<Rightarrow> string \<Rightarrow> string \<Rightarrow> unit result" where
  "SetTreasury_ValidateBasic E t d treasury =
     andThen (ValidateAbstract (ibc E) t d) (\<lambda>_. guard (IsHexAddress (libs E) treasury) ErrInvalidEvmAddress)"

definition AuthorityTransfer_ValidateBasic :: "'w env \<Rightarrow> string \<Rightarrow> string \<Rightarrow> string \<Rightarrow> unit result" where
  "AuthorityTransfer_ValidateBasic E t d auth =
     andThen (ValidateAbstract (ibc E) t d) (\<lambda>_. guard (IsHexAddress (libs E) auth) ErrInvalidEvmAddress)"

definition HotPathOpen_ValidateBasic :: "'w env \<Rightarrow> string \<Rightarrow> string \<Rightarrow> unit result" where
  "HotPathOpen_ValidateBasic E t d = ValidateAbstract (ibc E) t d"

definition SetSafeMode_ValidateBasic :: "'w env \<Rightarrow> string \<Rightarrow> string \<Rightarrow> unit result" where
  "SetSafeMode_ValidateBasic E t d = ValidateAbstract (ibc E) t d"

definition TransferGovernance_ValidateBasic :: "'w env \<Rightarrow> string \<Rightarrow> string \<Rightarrow> string \<Rightarrow> string \<Rightarrow> unit result" where
  "TransferGovernance_ValidateBasic E t d ops emergency =
     andThen (ValidateAbstract (ibc E) t d) (\<lambda>_.
     andThen (guard (IsHexAddress (libs E) ops) ErrInvalidEvmAddress) (\<lambda>_.
     guard (IsHexAddress (libs E) emergency) ErrInvalidEvmAddress))"

definition Ops_ValidateBasic :: "'w env \<Rightarrow> string \<Rightarrow> string \<Rightarrow> u64 \<Rightarrow> bytes \<Rightarrow> unit result" where
  "Ops_ValidateBasic E t d callpath cmdArgs =
     andThen (ValidateAbstract (ibc E) t d) (\<lambda>_.
     andThen (guard (callpath \<noteq> 0) ErrInvalidCallpath) (\<lambda>_.
     guard (length cmdArgs \<noteq> 0) ErrInvalidProposalContent))"

definition ExecuteContract_ValidateBasic :: "'w env \<Rightarrow> string \<Rightarrow> string \<Rightarrow> string \<Rightarrow> string \<Rightarrow> unit result" where
  "ExecuteContract_ValidateBasic E t d contract data =
     andThen (ValidateAbstract (ibc E) t d) (\<lambda>_.
     andThen (guard (IsHexAddress (libs E) contract) ErrInvalidEvmAddress) (\<lambda>_.
     andThen (guard (length data \<noteq> 0) ErrInvalidProposalContent) (\<lambda>_.
     guard (\<not> (length data < 2 \<or> take 2 data \<noteq> ''0x'')) ErrInvalidProposalContent)))"

section \<open>Handlers\<close>

definition BOOT_PATH :: u16 where "BOOT_PATH = 0"
definition COLD_PATH :: u16 where "COLD_PATH = 3"
definition SAFEMODE_PATH :: u16 where "SAFEMODE_PATH = 9999"

definition UPGRADE_PROXY_CMD :: u8 where "UPGRADE_PROXY_CMD = 21"
definition COLLECT_TREASURY_CMD :: u8 where "COLLECT_TREASURY_CMD = 40"
definition SET_TREASURY_CMD :: u8 where "SET_TREASURY_CMD = 41"
definition AUTHORITY_TRANSFER_CMD :: u8 where "AUTHORITY_TRANSFER_CMD = 20"
definition HOT_PATH_OPEN_CMD :: u8 where "HOT_PATH_OPEN_CMD = 22"
definition SET_SAFE_MODE_CMD :: u8 where "SET_SAFE_MODE_CMD = 23"

text \<open>The call of the policy contract, with the addresses of both contracts read from the parameters.\<close>

definition call_policy :: "'w env \<Rightarrow> string \<Rightarrow> (address \<Rightarrow> abi_value list) \<Rightarrow> ('w ctx, unit) go" where
  "call_policy E meth args =
     bind (reads (GetVerifiedCrocPolicyAddress (libs E))) (\<lambda>policy.
     bind (reads (GetNativeDexAddress (libs E))) (\<lambda>dex.
     bind (CallEVM E CrocPolicy (nativedex_ModuleEVMAddress (libs E)) policy True meth (args dex)) (\<lambda>_. ret ())))"

definition handleUpgradeProxyProposal :: "'w env \<Rightarrow> string \<Rightarrow> string \<Rightarrow> string \<Rightarrow> u64 \<Rightarrow> ('w ctx, unit) go" where
  "handleUpgradeProxyProposal E t d addr idx =
     seq (lift (UpgradeProxy_ValidateBasic E t d addr idx))
     (bind (lift (EncodeTypes E [''uint8'', ''address'', ''uint16'']
        [VUint8 UPGRADE_PROXY_CMD, VAddr (HexToAddress (libs E) addr), VUint16 (ucast idx)])) (\<lambda>encodedProtocolCmd.
      call_policy E ''treasuryResolution'' (\<lambda>dex. [VAddr dex, VUint16 BOOT_PATH, VBytes encodedProtocolCmd, VBool True])))"

definition handleCollectTreasuryProposal :: "'w env \<Rightarrow> string \<Rightarrow> string \<Rightarrow> string \<Rightarrow> bool \<Rightarrow> ('w ctx, unit) go" where
  "handleCollectTreasuryProposal E t d token inSafeMode =
     seq (lift (CollectTreasury_ValidateBasic E t d token))
     (let callpath = (if inSafeMode then SAFEMODE_PATH else COLD_PATH) in
      bind (lift (EncodeTypes E [''uint8'', ''address'']
        [VUint8 COLLECT_TREASURY_CMD, VAddr (HexToAddress (libs E) token)])) (\<lambda>encodedProtocolCmd.
      call_policy E ''treasuryResolution'' (\<lambda>dex. [VAddr dex, VUint16 callpath, VBytes encodedProtocolCmd, VBool True])))"

definition handleSetTreasuryProposal :: "'w env \<Rightarrow> string \<Rightarrow> string \<Rightarrow> string \<Rightarrow> bool \<Rightarrow> ('w ctx, unit) go" where
  "handleSetTreasuryProposal E t d treasury inSafeMode =
     seq (lift (SetTreasury_ValidateBasic E t d treasury))
     (let callpath = (if inSafeMode then SAFEMODE_PATH else COLD_PATH) in
      bind (lift (EncodeTypes E [''uint8'', ''address'']
        [VUint8 SET_TREASURY_CMD, VAddr (HexToAddress (libs E) treasury)])) (\<lambda>encodedProtocolCmd.
      call_policy E ''treasuryResolution'' (\<lambda>dex. [VAddr dex, VUint16 callpath, VBytes encodedProtocolCmd, VBool True])))"

definition handleAuthorityTransferProposal :: "'w env \<Rightarrow> string \<Rightarrow> string \<Rightarrow> string \<Rightarrow> bool \<Rightarrow> ('w ctx, unit) go" where
  "handleAuthorityTransferProposal E t d auth inSafeMode =
     seq (lift (AuthorityTransfer_ValidateBasic E t d auth))
     (let callpath = (if inSafeMode then SAFEMODE_PATH else COLD_PATH) in
      bind (lift (EncodeTypes E [''uint8'', ''address'']
        [VUint8 AUTHORITY_TRANSFER_CMD, VAddr (HexToAddress (libs E) auth)])) (\<lambda>encodedProtocolCmd.
      call_policy E ''treasuryResolution'' (\<lambda>dex. [VAddr dex, VUint16 callpath, VBytes encodedProtocolCmd, VBool True])))"

definition handleHotPathOpenProposal :: "'w env \<Rightarrow> string \<Rightarrow> string \<Rightarrow> bool \<Rightarrow> bool \<Rightarrow> ('w ctx, unit) go" where
  "handleHotPathOpenProposal E t d opn inSafeMode =
     seq (lift (HotPathOpen_ValidateBasic E t d))
     (let callpath = (if inSafeMode then SAFEMODE_PATH else COLD_PATH) in
      bind (lift (EncodeTypes E [''uint8'', ''bool''] [VUint8 HOT_PATH_OPEN_CMD, VBool opn])) (\<lambda>encodedProtocolCmd.
      call_policy E ''treasuryResolution'' (\<lambda>dex. [VAddr dex, VUint16 callpath, VBytes encodedProtocolCmd, VBool True])))"

definition handleSetSafeModeProposal :: "'w env \<Rightarrow> string \<Rightarrow> string \<Rightarrow> bool \<Rightarrow> bool \<Rightarrow> ('w ctx, unit) go" where
  "handleSetSafeModeProposal E t d lock inSafeMode =
     seq (lift (SetSafeMode_ValidateBasic E t d))
     (let callpath = (if inSafeMode then SAFEMODE_PATH else COLD_PATH) in
      bind (lift (EncodeTypes E [''uint8'', ''bool''] [VUint8 SET_SAFE_MODE_CMD, VBool lock])) (\<lambda>encodedProtocolCmd.
      call_policy E ''treasuryResolution'' (\<lambda>dex. [VAddr dex, VUint16 callpath, VBytes encodedProtocolCmd, VBool True])))"

definition handleTransferGovernanceProposal :: "'w env \<Rightarrow> string \<Rightarrow> string \<Rightarrow> string \<Rightarrow> string \<Rightarrow> ('w ctx, unit) go" where
  "handleTransferGovernanceProposal E t d ops emergency =
     seq (lift (TransferGovernance_ValidateBasic E t d ops emergency))
     (bind (reads (GetVerifiedCrocPolicyAddress (libs E))) (\<lambda>policy.
      bind (CallEVM E CrocPolicy (nativedex_ModuleEVMAddress (libs E)) policy True ''transferGovernance''
         [VAddr (HexToAddress (libs E) ops), VAddr (nativedex_ModuleEVMAddress (libs E)), VAddr (HexToAddress (libs E) emergency)]) (\<lambda>_.
      ret ())))"

definition handleOpsProposal :: "'w env \<Rightarrow> string \<Rightarrow> string \<Rightarrow> u64 \<Rightarrow> bytes \<Rightarrow> ('w ctx, unit) go" where
  "handleOpsProposal E t d callpath cmdArgs =
     seq (lift (Ops_ValidateBasic E t d callpath cmdArgs))
     (call_policy E ''opsResolution'' (\<lambda>dex. [VAddr dex, VUint16 (ucast callpath), VBytes cmdArgs]))"

fun whitelisted :: "string \<Rightarrow> string list \<Rightarrow> bool" where
  "whitelisted contract [] = False"
| "whitelisted contract (addr # rest) = (if addr = contract then True else whitelisted contract rest)"

definition handleExecuteContractProposal :: "'w env \<Rightarrow> string \<Rightarrow> string \<Rightarrow> string \<Rightarrow> string \<Rightarrow> ('w ctx, unit) go" where
  "handleExecuteContractProposal E t d contract data =
     seq (lift (ExecuteContract_ValidateBasic E t d contract data))
     (let contractAddress = HexToAddress (libs E) contract in
      bind (reads GetWhitelistedContractAddresses) (\<lambda>whitelistedAddresses.
      if \<not> whitelisted contract whitelistedAddresses then fail ErrUnauthorized
      else bind (CallEVMWithData E (nativedex_ModuleEVMAddress (libs E)) (Some contractAddress) (FromHex (libs E) data) True) (\<lambda>_. ret ())))"

fun NewNativeDexProposalHandler :: "'w env \<Rightarrow> dex_content \<Rightarrow> ('w ctx, unit) go" where
  "NewNativeDexProposalHandler E (UpgradeProxyProposal t d addr idx) = handleUpgradeProxyProposal E t d addr idx"
| "NewNativeDexProposalHandler E (CollectTreasuryProposal t d token s) = handleCollectTreasuryProposal E t d token s"
| "NewNativeDexProposalHandler E (SetTreasuryProposal t d treasury s) = handleSetTreasuryProposal E t d treasury s"
| "NewNativeDexProposalHandler E (AuthorityTransferProposal t d auth s) = handleAuthorityTransferProposal E t d auth s"
| "NewNativeDexProposalHandler E (HotPathOpenProposal t d opn s) = handleHotPathOpenProposal E t d opn s"
| "NewNativeDexProposalHandler E (SetSafeModeProposal t d lock s) = handleSetSafeModeProposal E t d lock s"
| "NewNativeDexProposalHandler E (TransferGovernanceProposal t d ops em) = handleTransferGovernanceProposal E t d ops em"
| "NewNativeDexProposalHandler E (OpsProposal t d callpath cmdArgs) = handleOpsProposal E t d callpath cmdArgs"
| "NewNativeDexProposalHandler E (ExecuteContractProposal t d contract data) = handleExecuteContractProposal E t d contract data"
| "NewNativeDexProposalHandler E OtherDexContent = fail ErrUnknownRequest"

section \<open>Lemmas\<close>

lemma whitelisted_iff [simp]: "whitelisted contract xs \<longleftrightarrow> contract \<in> set xs"
  by (induction contract xs rule: whitelisted.induct) auto

lemma EncodeTypes_known: "set tys \<subseteq> set typeMap \<Longrightarrow> EncodeTypes E tys vs = abi_Arguments_Pack (evm E) tys vs"
proof -
  assume "set tys \<subseteq> set typeMap"
  then have "GetTypeArguments tys = Ok tys" by (induction tys) (auto simp: GetType_def)
  then show ?thesis by (simp add: EncodeTypes_def EncodeArguments_def)
qed

lemma command_types:
  "EncodeTypes E [''uint8'', ''address'', ''uint16''] vs = abi_Arguments_Pack (evm E) [''uint8'', ''address'', ''uint16''] vs"
  "EncodeTypes E [''uint8'', ''address''] vs = abi_Arguments_Pack (evm E) [''uint8'', ''address''] vs"
  "EncodeTypes E [''uint8'', ''bool''] vs = abi_Arguments_Pack (evm E) [''uint8'', ''bool''] vs"
  by (rule EncodeTypes_known, simp add: typeMap_def)+

subsection \<open>Calls allowed\<close>

text \<open>An EVM that panics on every message, and every gas estimate, that is not allowed.\<close>

definition restrict_evm :: "(address \<Rightarrow> address option \<Rightarrow> int \<Rightarrow> bool) \<Rightarrow> 'w env \<Rightarrow> 'w env" where
  "restrict_evm P E = E\<lparr>evm := (evm E)\<lparr>
     EstimateGas := (\<lambda>from to data w. if P from to 0 then EstimateGas (evm E) from to data w else (Panic ''not allowed'', w)),
     ApplyMessage := (\<lambda>m commit w. if P (em_From m) (em_To m) (em_Amount m) then ApplyMessage (evm E) m commit w
       else (Panic ''not allowed'', w))\<rparr>\<rparr>"

lemma restrict_sel [simp]:
  "libs (restrict_evm P E) = libs E" "math (restrict_evm P E) = math E" "bank (restrict_evm P E) = bank E"
  "acct (restrict_evm P E) = acct E" "ibc (restrict_evm P E) = ibc E"
  "abi_Pack (evm (restrict_evm P E)) = abi_Pack (evm E)"
  "abi_Arguments_Pack (evm (restrict_evm P E)) = abi_Arguments_Pack (evm E)"
  by (simp_all add: restrict_evm_def)

lemma CallEVMWithData_restrict:
  assumes "P from to 0"
  shows "CallEVMWithData (restrict_evm P E) from to dat b = CallEVMWithData E from to dat b"
proof -
  have "EstimateGas (evm (restrict_evm P E)) from to dat = EstimateGas (evm E) from to dat"
    "ApplyMessage (evm (restrict_evm P E)) \<lparr>em_From = from, em_To = to, em_Nonce = n, em_Amount = 0, em_GasLimit = g, em_Data = dat, em_IsFake = (\<not> b)\<rparr> b =
     ApplyMessage (evm E) \<lparr>em_From = from, em_To = to, em_Nonce = n, em_Amount = 0, em_GasLimit = g, em_Data = dat, em_IsFake = (\<not> b)\<rparr> b"
    "DefaultGasCap (evm (restrict_evm P E)) = DefaultGasCap (evm E)" for n g
    using assms by (auto simp: restrict_evm_def)
  then show ?thesis by (simp add: CallEVMWithData_def cong: if_cong)
qed

lemma CallEVM_restrict:
  "P from (Some to) 0 \<Longrightarrow> CallEVM (restrict_evm P E) ab from to b meth args = CallEVM E ab from to b meth args"
  by (simp add: CallEVM_def CallEVMWithData_restrict)

text \<open>The contracts under the module's governance.\<close>

definition governed :: "lib \<Rightarrow> 'w ctx \<Rightarrow> address set" where
  "governed L c = {a. GetVerifiedCrocPolicyAddress L c = Ok a} \<union>
     {HexToAddress L s | s ws. GetWhitelistedContractAddresses c = Ok ws \<and> s \<in> set ws}"

definition dex_allows :: "lib \<Rightarrow> 'w ctx \<Rightarrow> address \<Rightarrow> address option \<Rightarrow> int \<Rightarrow> bool" where
  "dex_allows L c from to amt \<longleftrightarrow>
     from = nativedex_ModuleEVMAddress L \<and> amt = 0 \<and> (\<exists>con. to = Some con \<and> con \<in> governed L c)"

lemma call_policy_restrict:
  "call_policy (restrict_evm (dex_allows (libs E) c) E) meth args c = call_policy E meth args c"
proof (cases "GetVerifiedCrocPolicyAddress (libs E) c")
  case (Ok policy)
  then have "dex_allows (libs E) c (nativedex_ModuleEVMAddress (libs E)) (Some policy) 0"
    by (simp add: dex_allows_def governed_def)
  from CallEVM_restrict [where P = "dex_allows (libs E) c" and E = E, OF this] Ok show ?thesis
    by (simp add: call_policy_def bind_def split: result.splits)
qed (simp_all add: call_policy_def bind_def)

lemma bind_lift_cong: "(\<And>x. r = Ok x \<Longrightarrow> f x c = g x c) \<Longrightarrow> bind (lift r) f c = bind (lift r) g c"
  by (cases r) (auto simp: bind_def)

lemma transferGovernance_restrict:
  "handleTransferGovernanceProposal (restrict_evm (dex_allows (libs E) c) E) t d ops em c = handleTransferGovernanceProposal E t d ops em c"
proof (cases "GetVerifiedCrocPolicyAddress (libs E) c")
  case (Ok policy)
  then have "dex_allows (libs E) c (nativedex_ModuleEVMAddress (libs E)) (Some policy) 0"
    by (simp add: dex_allows_def governed_def)
  from CallEVM_restrict [where P = "dex_allows (libs E) c" and E = E, OF this] Ok show ?thesis
    by (simp add: handleTransferGovernanceProposal_def TransferGovernance_ValidateBasic_def bind_def split: result.splits)
qed (simp_all add: handleTransferGovernanceProposal_def TransferGovernance_ValidateBasic_def bind_def split: result.splits)

lemma executeContract_restrict:
  "handleExecuteContractProposal (restrict_evm (dex_allows (libs E) c) E) t d contract data c = handleExecuteContractProposal E t d contract data c"
proof (cases "\<exists>ws. GetWhitelistedContractAddresses c = Ok ws \<and> contract \<in> set ws")
  case True
  then have "dex_allows (libs E) c (nativedex_ModuleEVMAddress (libs E)) (Some (HexToAddress (libs E) contract)) 0"
    by (auto simp: dex_allows_def governed_def)
  from CallEVMWithData_restrict [where P = "dex_allows (libs E) c" and E = E, OF this] show ?thesis
    by (simp add: handleExecuteContractProposal_def ExecuteContract_ValidateBasic_def Let_def bind_def split: result.splits)
next
  case False
  then show ?thesis
    by (auto simp: handleExecuteContractProposal_def ExecuteContract_ValidateBasic_def Let_def bind_def split: result.splits)
qed

lemmas policy_handlers = handleUpgradeProxyProposal_def handleCollectTreasuryProposal_def handleSetTreasuryProposal_def
  handleAuthorityTransferProposal_def handleHotPathOpenProposal_def handleSetSafeModeProposal_def handleOpsProposal_def

lemmas dex_checks = UpgradeProxy_ValidateBasic_def CollectTreasury_ValidateBasic_def SetTreasury_ValidateBasic_def
  AuthorityTransfer_ValidateBasic_def HotPathOpen_ValidateBasic_def SetSafeMode_ValidateBasic_def Ops_ValidateBasic_def

section \<open>Properties\<close>

text \<open>
  C31: A governance proposal of the module reaches the verified policy contract and the whitelisted
  contracts only, and only from the module's own account and without value: with an EVM that
  panics on every other message, and on every other gas estimate, each handler does exactly what
  it does with the real one.
\<close>

theorem dex_only_governed_contracts:
  "NewNativeDexProposalHandler (restrict_evm (dex_allows (libs E) c) E) content c = NewNativeDexProposalHandler E content c"
proof (cases content)
  case (TransferGovernanceProposal t d ops em)
  then show ?thesis by (simp add: transferGovernance_restrict)
next
  case (ExecuteContractProposal t d contract data)
  then show ?thesis by (simp add: executeContract_restrict)
qed (auto simp: policy_handlers dex_checks command_types Let_def intro!: bind_lift_cong call_policy_restrict)

text \<open>
  The rule book of the treasury commands: the call path, the types and the values of each
  command, and when a proposal is valid.
\<close>

definition dex_path :: "bool \<Rightarrow> u16" where
  "dex_path inSafeMode = (if inSafeMode then 9999 else 3)"

fun dex_command :: "lib \<Rightarrow> dex_content \<Rightarrow> (u16 \<times> string list \<times> abi_value list) option" where
  "dex_command L (UpgradeProxyProposal _ _ addr idx) =
     Some (0, [''uint8'', ''address'', ''uint16''], [VUint8 21, VAddr (HexToAddress L addr), VUint16 (ucast idx)])"
| "dex_command L (CollectTreasuryProposal _ _ a s) = Some (dex_path s, [''uint8'', ''address''], [VUint8 40, VAddr (HexToAddress L a)])"
| "dex_command L (SetTreasuryProposal _ _ a s) = Some (dex_path s, [''uint8'', ''address''], [VUint8 41, VAddr (HexToAddress L a)])"
| "dex_command L (AuthorityTransferProposal _ _ a s) = Some (dex_path s, [''uint8'', ''address''], [VUint8 20, VAddr (HexToAddress L a)])"
| "dex_command L (HotPathOpenProposal _ _ b s) = Some (dex_path s, [''uint8'', ''bool''], [VUint8 22, VBool b])"
| "dex_command L (SetSafeModeProposal _ _ b s) = Some (dex_path s, [''uint8'', ''bool''], [VUint8 23, VBool b])"
| "dex_command L _ = None"

fun dex_valid :: "'w env \<Rightarrow> dex_content \<Rightarrow> bool" where
  "dex_valid E (UpgradeProxyProposal t d addr idx) \<longleftrightarrow> is_ok (ValidateAbstract (ibc E) t d) \<and> IsHexAddress (libs E) addr \<and> idx \<noteq> 0"
| "dex_valid E (CollectTreasuryProposal t d a s) \<longleftrightarrow> is_ok (ValidateAbstract (ibc E) t d) \<and> IsHexAddress (libs E) a"
| "dex_valid E (SetTreasuryProposal t d a s) \<longleftrightarrow> is_ok (ValidateAbstract (ibc E) t d) \<and> IsHexAddress (libs E) a"
| "dex_valid E (AuthorityTransferProposal t d a s) \<longleftrightarrow> is_ok (ValidateAbstract (ibc E) t d) \<and> IsHexAddress (libs E) a"
| "dex_valid E (HotPathOpenProposal t d b s) \<longleftrightarrow> is_ok (ValidateAbstract (ibc E) t d)"
| "dex_valid E (SetSafeModeProposal t d b s) \<longleftrightarrow> is_ok (ValidateAbstract (ibc E) t d)"
| "dex_valid E _ \<longleftrightarrow> False"

lemma bind_lift_Ok: "bind (lift r) f c = (Ok y, c') \<longleftrightarrow> (\<exists>x. r = Ok x \<and> f x c = (Ok y, c'))"
  by (cases r) (auto simp: bind_def)

lemma call_policy_Ok:
  assumes "nativedex_GetParams c = Ok p"
  shows "call_policy E meth args c = (Ok (), c') \<longleftrightarrow>
     (\<exists>res. CallEVM E CrocPolicy (nativedex_ModuleEVMAddress (libs E)) (HexToAddress (libs E) (VerifiedCrocPolicyAddress p)) True meth
        (args (HexToAddress (libs E) (VerifiedNativeDexAddress p))) c = (Ok res, c'))"
  using assms by (auto simp: call_policy_def GetVerifiedCrocPolicyAddress_def GetNativeDexAddress_def bind_def split: prod.splits result.splits)


definition c_dex_ctx :: "ledger ctx" where
  "c_dex_ctx = (c_ctx c_world)\<lparr>prm := (\<lambda>m. if m = ''nativedex'' then
     [ParamsStoreKeyVerifiedNativeDexAddress \<mapsto> PStr ''0x64'', ParamsStoreKeyVerifiedCrocPolicyAddress \<mapsto> PStr ''0x70'',
      ParamsStoreKeyWhitelistedContractAddresses \<mapsto> PStrs [''0x6a'']] else Map.empty)\<rparr>"

lemma c_dex_params: "nativedex_GetParams c_dex_ctx =
   Ok \<lparr>VerifiedNativeDexAddress = ''0x64'', VerifiedCrocPolicyAddress = ''0x70'', WhitelistedContractAddresses = [''0x6a'']\<rparr>"
  by (simp add: nativedex_GetParams_def get_param_def c_dex_ctx_def ParamsStoreKeyVerifiedNativeDexAddress_def
      ParamsStoreKeyVerifiedCrocPolicyAddress_def ParamsStoreKeyWhitelistedContractAddresses_def)


section \<open>Shortcomings\<close>

text \<open>
  A call path is checked as a number of 64 bits and then cut to 16: the call path 65536 passes the
  check against zero and reaches the contract as zero, the boot path.
\<close>

lemma ops_callpath_truncated:
  assumes "is_ok (ValidateAbstract (ibc E) t d)" and "args \<noteq> []"
  shows "handleOpsProposal E t d 65536 args = call_policy E ''opsResolution'' (\<lambda>dex. [VAddr dex, VUint16 BOOT_PATH, VBytes args])"
proof -
  have z: "(65536 :: u16) = 0" unfolding word_uint_eq_iff by simp
  from assms show ?thesis
    by (cases "ValidateAbstract (ibc E) t d")
      (simp_all add: handleOpsProposal_def Ops_ValidateBasic_def BOOT_PATH_def fun_eq_iff bind_def z)
qed

text \<open>
  The whitelist compares the texts of the addresses: another spelling of a whitelisted address is
  refused, although it is the same contract.
\<close>

lemma whitelist_by_text:
  "HexToAddress c_lib ''0x6a'' = HexToAddress c_lib ''0x6A'' \<and>
   handleExecuteContractProposal c_env ''t'' ''d'' ''0x6A'' ''0x00'' c_dex_ctx = (Err ErrUnauthorized, c_dex_ctx)"
proof -
  have "HexToAddress c_lib ''0x6a'' = HexToAddress c_lib ''0x6A''" "ExecuteContract_ValidateBasic c_env ''t'' ''d'' ''0x6A'' ''0x00'' = Ok ()"
    by code_simp+
  then show ?thesis
    by (simp add: handleExecuteContractProposal_def bind_def GetWhitelistedContractAddresses_def c_dex_params)
qed

end
