(* ===== verification/Reach.thy ===== *)
theory Reach
  imports AnteChain SigGas Onboarding Nativedex
begin

text \<open>
  The token pair registry over the life of the chain. Every operation of the modules that can touch
  it keeps the registry invariant, whatever its outcome; the steps of the chain are an inductive
  relation between contexts, and the invariant holds in every context that is reached.
\<close>

section \<open>Operations that keep the registry\<close>

definition reg_kept :: "lib \<Rightarrow> 'w ctx \<Rightarrow> 'w ctx \<Rightarrow> bool" where
  "reg_kept L c c' \<longleftrightarrow> (reg_ok L c \<longrightarrow> reg_ok L c')"

interpretation reg_frame: state_frame "reg_kept L" for L
  by unfold_locales (auto simp: reg_kept_def)

lemma reg_of_writes: "keeps (writes_only X) m \<Longrightarrow> ''erc20'' \<notin> X \<Longrightarrow> keeps (reg_kept L) m"
  unfolding keeps_def writes_only_def reg_kept_def using reg_ok_cong by blast

lemma reg_basic:
  "keeps (reg_kept L) (ext m)" "keeps (reg_kept L) (EmitEvent e)" "keeps (reg_kept L) (DeductBasisPointFee E bp x a)"
  "keeps (reg_kept L) (DeductGasfreeErc20Fee E a x)"
  by (rule reg_of_writes [where X = "{}"], rule writes_ext writes_EmitEvent frame_fee, simp)+

lemmas reg_rules = reg_frame.keeps_rules reg_basic

text \<open>The pair of a dead contract is removed right after it has been found.\<close>

lemma reg_minting:
  assumes "\<And>pair. keeps (writes_only {}) (f pair)"
  shows "keeps (reg_kept (libs E)) (bind (reads (MintingEnabled E s r token)) (\<lambda>pair.
     bind (gets (is_selfdestructed E (HexToAddress (libs E) (Erc20Address pair)))) (\<lambda>gone.
     if gone then seq (DeleteTokenPair (libs E) pair) (ret False) else f pair)))"
proof (rule keepsI, unfold reg_kept_def, rule impI)
  fix c q c' assume ok: "reg_ok (libs E) c" and run: "bind (reads (MintingEnabled E s r token)) (\<lambda>pair.
     bind (gets (is_selfdestructed E (HexToAddress (libs E) (Erc20Address pair)))) (\<lambda>gone.
     if gone then seq (DeleteTokenPair (libs E) pair) (ret False) else f pair)) c = (q, c')"
  show "reg_ok (libs E) c'"
  proof (cases "MintingEnabled E s r token c")
    case (Ok pair)
    show ?thesis
    proof (cases "is_selfdestructed E (HexToAddress (libs E) (Erc20Address pair)) c")
      case True
      with run Ok have "c' = snd (DeleteTokenPair (libs E) pair c)" by (auto simp: bind_def DeleteTokenPair_run)
      then show ?thesis using erc20_registry.inv_unregister [OF ok MintingEnabled_Ok(1) [OF ok Ok]] by simp
    next
      case False
      with run Ok have "f pair c = (q, c')" by (simp add: bind_def)
      then have "writes_only {} c c'" by (rule keepsD [OF assms])
      then show ?thesis using ok reg_ok_cong [of c' c] by (simp add: writes_only_def)
    qed
  qed (use run ok in \<open>auto simp: bind_def\<close>)
qed

lemma reg_conversions: "keeps (reg_kept (libs E)) (ConvertCoin E x mr ms)" "keeps (reg_kept (libs E)) (ConvertERC20 E con amt mr ms)"
  unfolding ConvertCoin_def ConvertERC20_def Let_def
  by (rule reg_frame.keeps_bind [OF reg_frame.keeps_lift], rule reg_minting, intro writes_rules frame_conversions)+

lemma reg_gasfree:
  "keeps (reg_kept (libs E)) (SendCoinToEVM E x ms)" "keeps (reg_kept (libs E)) (SendERC20ToCosmos E con amt ms)"
  "keeps (reg_kept (libs E)) (SendERC20ToCosmosAndIBCTransfer E con amt ms port channel receiver)"
  unfolding SendCoinToEVM_def SendERC20ToCosmos_def SendERC20ToCosmosAndIBCTransfer_def convert_with_fee_def fee_of_token_def
    initiateIBCTransfer_def
  by (intro reg_rules reg_conversions)+

lemma reg_serve: "keeps (reg_kept (libs E)) (erc20_serve E m)"
  by (cases m; simp) (intro reg_rules reg_conversions reg_gasfree)+

lemma reg_hook: "keeps (reg_kept L) (PostTxProcessing E logs)"
  by (rule reg_of_writes [OF frame_hook [where X = "{}"]]) simp

lemma reg_Microtx: "keeps (reg_kept (libs E)) (msgServer_Microtx E s r x)"
proof -
  have q: "keeps (reg_kept (libs E)) (queryLiquidInfrastructureThresholds E a)" for a
    by (rule reg_of_writes [OF frame_queries(3) [where X = "{}"]]) simp
  have "keeps (reg_kept (libs E)) (RedirectBalanceToToken E a con b n)" for a con b n
    unfolding RedirectBalanceToToken_def by (intro reg_rules reg_conversions)
  then show ?thesis
    unfolding msgServer_Microtx_def keeper_Microtx_def DeductMicrotxFee_def RedirectLiquidAccountExcessBalance_def
    by (intro reg_rules q)
qed


lemma reg_Liquify: "keeps (reg_kept L) (msgServer_Liquify E s)"
proof (rule reg_of_writes)
  have "keeps (writes_only {''microtx''}) (addLiquidInfrastructureEntry E a nft)" for a nft
    unfolding addLiquidInfrastructureEntry_def by (intro writes_rules writes_store) simp
  then have "keeps (writes_only {''microtx''}) (DoLiquify E a)" for a
    unfolding DoLiquify_def by (intro writes_rules frame_queries)
  then show "keeps (writes_only {''microtx''}) (msgServer_Liquify E s)"
    unfolding msgServer_Liquify_def by (intro writes_rules)
qed simp

lemma reg_onboarding: "keeps (reg_kept (libs E)) (keeper_OnRecvPacket E packet ack)"
proof -
  have "keeps (reg_kept (libs E)) (onboarding_convert E packet ack recipient s r denom amt)" for recipient s r denom amt
  proof (cases amt)
    case (Some n)
    show ?thesis
    proof (rule keepsI)
      fix c q c' assume run: "onboarding_convert E packet ack recipient s r denom amt c = (q, c')"
      obtain q1 c1 where conv: "ConvertCoin E \<lparr>coin_denom = denom, coin_amount = n\<rparr> (Address_Hex (libs E) (BytesToAddress (libs E) recipient))
          (AccAddress_String (libs E) recipient) c = (q1, c1)" by fastforce
      have "reg_kept (libs E) c c1" by (rule keepsD [OF reg_conversions(1) conv])
      moreover have "kv c' = kv c1" using run conv Some by (cases q1) (auto simp: onboarding_convert_def bind_def)
      ultimately show "reg_kept (libs E) c c'" using reg_ok_cong [of c' c1] by (simp add: reg_kept_def)
    qed
  qed (simp add: onboarding_convert_def reg_frame.keeps_panic)
  then show ?thesis
    unfolding keeper_OnRecvPacket_def by (intro reg_rules)
qed

lemma reg_Toggle: "keeps (reg_kept (libs E)) (ToggleConversion E token)"
proof (rule keepsI, unfold reg_kept_def, rule impI)
  fix c r c' assume ok: "reg_ok (libs E) c" and run: "ToggleConversion E token c = (r, c')"
  show "reg_ok (libs E) c'"
    using run erc20_registry.inv_enable [OF ok] ok by (auto simp: ToggleConversion_run [OF ok] split: option.splits)
qed

section \<open>Steps of the chain\<close>

text \<open>
  A message of the erc20 or the microtx module, an Ethereum transaction with its hook, a packet, a
  governance proposal of the erc20 module, or anything else that does not write the erc20 store.
  Registering a coin has what the code does not check as conditions: that the base denomination and
  the new contract have no pair, and that the identifier collides with none.
\<close>

inductive app_step :: "'w env \<Rightarrow> 'w ctx \<Rightarrow> 'w ctx \<Rightarrow> bool" for E where
  step_erc20: "erc20_serve E m c = (r, c') \<Longrightarrow> app_step E c c'"
| step_hook: "PostTxProcessing E logs c = (r, c') \<Longrightarrow> app_step E c c'"
| step_microtx: "msgServer_Microtx E s t x c = (r, c') \<Longrightarrow> app_step E c c'"
| step_liquify: "msgServer_Liquify E s c = (r, c') \<Longrightarrow> app_step E c c'"
| step_packet: "keeper_OnRecvPacket E packet ack c = (r, c') \<Longrightarrow> app_step E c c'"
| step_toggle: "ToggleConversion E token c = (r, c') \<Longrightarrow> app_step E c c'"
| step_register_erc20: "RegisterERC20 E con c = (Ok pair, c') \<Longrightarrow> length (addr_bytes con) = 20 \<Longrightarrow>
    collision_free (libs E) (NewTokenPair (libs E) con (CreateDenom (Address_Hex (libs E) con)) True OWNER_EXTERNAL) c \<Longrightarrow>
    app_step E c c'"
| step_register_coin: "RegisterCoin E md c = (Ok pair, c') \<Longrightarrow> length (md_Base md) < 2 ^ 61 \<Longrightarrow> \<not> IsDenomRegistered (md_Base md) c \<Longrightarrow>
    length (addr_bytes (GetERC20Contract (libs E) pair)) = 20 \<Longrightarrow> \<not> IsERC20Registered (GetERC20Contract (libs E) pair) c \<Longrightarrow>
    collision_free (libs E) pair c \<Longrightarrow> app_step E c c'"
| step_other: "kv c' ''erc20'' = kv c ''erc20'' \<Longrightarrow> app_step E c c'"

lemma app_step_reg:
  assumes "addr_ok (libs E)" "valid_ok (libs E) (math E)" and "app_step E c c'" and "reg_ok (libs E) c"
  shows "reg_ok (libs E) c'"
  using assms(3,4)
proof (cases rule: app_step.cases)
  case (step_register_erc20 con pair)
  from RegisterERC20_registers [OF assms(1,2,4) step_register_erc20(2,3,1)] show ?thesis by (simp add: registered_def)
next
  case (step_register_coin md pair)
  from RegisterCoin_registers [OF assms(1,2,4) step_register_coin(2-6,1)] show ?thesis by (simp add: registered_def)
next
  case step_other
  with assms(4) reg_ok_cong show ?thesis by metis
qed (drule keepsD [OF reg_serve] keepsD [OF reg_hook [where L = "libs E"]] keepsD [OF reg_Microtx] keepsD [OF reg_Liquify [where L = "libs E"]]
    keepsD [OF reg_onboarding] keepsD [OF reg_Toggle]; simp add: reg_kept_def)+

lemma reachable_reg:
  assumes laws: "addr_ok (libs E)" "valid_ok (libs E) (math E)" and run: "(app_step E)\<^sup>*\<^sup>* c c'" and ok: "reg_ok (libs E) c"
  shows "reg_ok (libs E) c'"
  using run ok by (induction rule: rtranclp_induct) (auto intro: app_step_reg [OF laws])


text \<open>Under the invariant a denomination or a contract has one pair.\<close>

lemma pair_unique:
  assumes ok: "reg_ok L c" and "find_pair L t c = Some p" and "find_pair L u c = Some q"
    and same: "Denom p = Denom q \<or> GetERC20Contract L p = GetERC20Contract L q"
  shows "p = q"
proof -
  have inv: "reg_inv L (reg c)" using ok by (simp add: reg_ok_def)
  have p: "r_pairs (reg c) (GetID L p) = Some p" and q: "r_pairs (reg c) (GetID L q) = Some q"
    using find_pair_iff [OF ok] assms(2,3) by blast+
  from reg_inv_unique(2) [OF inv p q] same show ?thesis by blast
qed

end
