(* ===== verification/Erc20_Live.thy ===== *)
theory Erc20_Live
  imports Erc20_Convert
begin

text \<open>
  What a conversion needs to succeed, and that it can be undone: in a state in which the bank pays
  what is there and the token contract of the module answers, coins can be converted to tokens and
  the tokens back to coins.
\<close>

section \<open>Progress of external code\<close>

text \<open>
  A call of the module to a contract that goes through: its data can be packed, the module account has
  a sequence number, its gas can be estimated, and it is executed without failure.
\<close>

definition call_live :: "'w env \<Rightarrow> address \<Rightarrow> string \<Rightarrow> abi_value list \<Rightarrow> 'w \<Rightarrow> ('w \<Rightarrow> bool) \<Rightarrow> bool" where
  "call_live E con meth args w post \<longleftrightarrow> (\<exists>dat nonce gas res w'. let modAddr = erc20_ModuleAddress (libs E) in
     abi_Pack (evm E) ERC20MinterBurnerDecimals meth args = Ok dat \<and> GetSequence (acct E) (addr_bytes modAddr) w = Ok nonce \<and>
     fst (EstimateGas (evm E) modAddr (Some con) dat w) = Ok gas \<and>
     ApplyMessage (evm E) \<lparr>em_From = modAddr, em_To = Some con, em_Nonce = nonce, em_Amount = 0, em_GasLimit = gas,
       em_Data = dat, em_IsFake = False\<rparr> True w = (Ok res, w') \<and> \<not> evm_Failed res \<and> post w')"

text \<open>
  The states \<open>good\<close>: the contract exists and mints and burns tokens of the account for the module,
  and the bank moves coins between accounts and modules if they are there.
\<close>

definition minter_live :: "'w env \<Rightarrow> address \<Rightarrow> address \<Rightarrow> ('w \<Rightarrow> bool) \<Rightarrow> bool" where
  "minter_live E con a good \<longleftrightarrow> (\<forall>w. good w \<longrightarrow> GetAccountWithoutBalance (evm E) con w = Some True) \<and>
     (\<forall>w b n. good w \<and> token_balance E con a w = Ok (Some b) \<and> 0 \<le> n \<longrightarrow>
        (b + n < 2 ^ 256 \<longrightarrow> call_live E con ''mint'' [VAddr a, VUint n] w
           (\<lambda>w'. good w' \<and> token_balance E con a w' = Ok (Some (b + n)))) \<and>
        (n \<le> b \<longrightarrow> call_live E con ''burnCoins'' [VAddr a, VUint n] w
           (\<lambda>w'. good w' \<and> token_balance E con a w' = Ok (Some (b - n)))))"

definition bank_live :: "'w env \<Rightarrow> ('w \<Rightarrow> bool) \<Rightarrow> bool" where
  "bank_live E good \<longleftrightarrow>
     (\<forall>a m x w. good w \<and> 0 < coin_amount x \<and> coin_amount x \<le> bal E a (coin_denom x) w \<longrightarrow>
        (\<exists>w'. SendCoinsFromAccountToModule (bank E) a m [x] w = (Ok (), w') \<and> good w')) \<and>
     (\<forall>a m x w. good w \<and> 0 < coin_amount x \<and> coin_amount x \<le> bal E (module_acc E m) (coin_denom x) w \<longrightarrow>
        (\<exists>w'. SendCoinsFromModuleToAccount (bank E) m a [x] w = (Ok (), w') \<and> good w'))"

text \<open>Addition of coins of one denomination, without overflow.\<close>

definition coin_live :: "mathlib \<Rightarrow> bool" where
  "coin_live M \<longleftrightarrow>
     (\<forall>x y. coin_denom x = coin_denom y \<and> \<bar>coin_amount x + coin_amount y\<bar> < 2 ^ 256 \<longrightarrow>
        Coin_Add M x y = Ok \<lparr>coin_denom = coin_denom x, coin_amount = coin_amount x + coin_amount y\<rparr>)"

section \<open>Lemmas\<close>

lemma CallEVM_live:
  assumes q: "evm_query_ok E" and live: "call_live E con meth args (world c) post"
  shows "\<exists>res w'. CallEVM E ERC20MinterBurnerDecimals (erc20_ModuleAddress (libs E)) con True meth args c = (Ok res, c\<lparr>world := w'\<rparr>) \<and> post w'"
proof -
  from live obtain dat nonce gas res w' where l: "abi_Pack (evm E) ERC20MinterBurnerDecimals meth args = Ok dat"
    "GetSequence (acct E) (addr_bytes (erc20_ModuleAddress (libs E))) (world c) = Ok nonce"
    "fst (EstimateGas (evm E) (erc20_ModuleAddress (libs E)) (Some con) dat (world c)) = Ok gas"
    "ApplyMessage (evm E) \<lparr>em_From = erc20_ModuleAddress (libs E), em_To = Some con, em_Nonce = nonce, em_Amount = 0, em_GasLimit = gas,
       em_Data = dat, em_IsFake = False\<rparr> True (world c) = (Ok res, w')" "\<not> evm_Failed res" "post w'"
    by (auto simp: call_live_def Let_def)
  obtain w1 where g: "EstimateGas (evm E) (erc20_ModuleAddress (libs E)) (Some con) dat (world c) = (Ok gas, w1)"
    using l(3) by (metis prod.collapse)
  with evm_query_okD(2) [OF q g] have "w1 = world c" by simp
  with g l show ?thesis
    by (intro exI [of _ res] exI [of _ w']) (simp add: CallEVM_def CallEVMWithData_def bind_def ext_def wrap_as_def)
qed


lemma minter_liveD:
  assumes "minter_live E con a good" and "good w" and "token_balance E con a w = Ok (Some b)" and "0 \<le> n"
  shows "GetAccountWithoutBalance (evm E) con w = Some True"
    and "b + n < 2 ^ 256 \<Longrightarrow> call_live E con ''mint'' [VAddr a, VUint n] w (\<lambda>w'. good w' \<and> token_balance E con a w' = Ok (Some (b + n)))"
    and "n \<le> b \<Longrightarrow> call_live E con ''burnCoins'' [VAddr a, VUint n] w (\<lambda>w'. good w' \<and> token_balance E con a w' = Ok (Some (b - n)))"
  using assms unfolding minter_live_def by blast+

lemma convertCoinNativeCoin_live:
  assumes laws: "evm_query_ok E" "bank_evm_ok E ed" "bank_live E good" "minter_live E con a good"
    and con: "GetERC20Contract (libs E) pair = con" and good: "good (world c)" and tok: "token_balance E con a (world c) = Ok (Some b)"
    and amt: "0 < coin_amount x" "coin_amount x \<le> bal E sender (coin_denom x) (world c)" "b + coin_amount x < 2 ^ 256" "coin_denom x \<noteq> ed"
  shows "\<exists>c'. convertCoinNativeCoin E pair x mr ms a sender c = (Ok True, c') \<and> good (world c') \<and> kv c' = kv c \<and> prm c' = prm c \<and>
     token_balance E con a (world c') = Ok (Some (b + coin_amount x))"
proof -
  from laws(3) good amt obtain w where send: "SendCoinsFromAccountToModule (bank E) sender ''erc20'' [x] (world c) = (Ok (), w)" and w: "good w"
    unfolding bank_live_def by blast
  have "same_evm E (world c) w" using bank_evm_okD(1) [OF laws(2) send amt(4)] .
  then have tokw: "token_balance E con a w = Ok (Some b)" using token_balance_same_evm tok by metis
  have "call_live E con ''mint'' [VAddr a, VUint (coin_amount x)] (world (c\<lparr>world := w\<rparr>))
      (\<lambda>w'. good w' \<and> token_balance E con a w' = Ok (Some (b + coin_amount x)))"
    using minter_liveD(2) [OF laws(4) w tokw] amt by simp
  from CallEVM_live [OF laws(1) this] obtain res w' where
    call: "CallEVM E ERC20MinterBurnerDecimals (erc20_ModuleAddress (libs E)) con True ''mint'' [VAddr a, VUint (coin_amount x)] (c\<lparr>world := w\<rparr>) =
      (Ok res, c\<lparr>world := w'\<rparr>)" and w': "good w'" "token_balance E con a w' = Ok (Some (b + coin_amount x))" by auto
  show ?thesis
    using w' by (simp add: convertCoinNativeCoin_def Let_def con bind_def read_balance_def BalanceOf_eq [OF laws(1)] tok ext_def send call)
qed

lemma convertERC20NativeCoin_live:
  assumes laws: "bank_ok E" "evm_query_ok E" "evm_frame_ok E ed" "bank_evm_ok E ed" "bank_live E good" "minter_live E con a good"
      "coin_ok (math E)" "coin_live (math E)"
    and con: "GetERC20Contract (libs E) pair = con" and good: "good (world c)" and tok: "token_balance E con a (world c) = Ok (Some b)"
    and amt: "0 < amt" "amt \<le> b" "amt \<le> bal E (module_acc E ''erc20'') (Denom pair) (world c)" "Denom pair \<noteq> ed"
      "\<bar>bal E receiver (Denom pair) (world c) + amt\<bar> < 2 ^ 256" and rcv: "receiver \<noteq> module_acc E ''erc20''"
  shows "\<exists>c'. convertERC20NativeCoin E pair token amt mr ms receiver a c = (Ok True, c') \<and> good (world c') \<and> kv c' = kv c \<and> prm c' = prm c \<and>
     token_balance E con a (world c') = Ok (Some (b - amt))"
proof -
  let ?x = "\<lparr>coin_denom = Denom pair, coin_amount = amt\<rparr>" and ?d = "Denom pair"
  have "call_live E con ''burnCoins'' [VAddr a, VUint amt] (world c) (\<lambda>w'. good w' \<and> token_balance E con a w' = Ok (Some (b - amt)))"
    using minter_liveD(3) [OF laws(6) good tok] amt by simp
  from CallEVM_live [OF laws(2) this] obtain res w where
    call: "CallEVM E ERC20MinterBurnerDecimals (erc20_ModuleAddress (libs E)) con True ''burnCoins'' [VAddr a, VUint amt] c = (Ok res, c\<lparr>world := w\<rparr>)"
    and w: "good w" "token_balance E con a w = Ok (Some (b - amt))" by auto
  have balw: "bal E y ?d w = bal E y ?d (world c)" for y
    using CallEVM_bal [OF laws(2,3) amt(4) call] by simp
  from laws(5) w(1) amt balw obtain w' where send: "SendCoinsFromModuleToAccount (bank E) ''erc20'' receiver [?x] w = (Ok (), w')" and w': "good w'"
    unfolding bank_live_def by (metis coin.select_convs)
  have "same_evm E w w'" using bank_evm_okD(2) [OF laws(4) send] amt(4) by simp
  then have tokw': "token_balance E con a w' = Ok (Some (b - amt))" using token_balance_same_evm w(2) by metis
  have after: "bal E receiver ?d w' = bal E receiver ?d (world c) + amt"
    using bal_changeD [OF bank_okD(4) [OF laws(1) send], of receiver] balw rcv by (simp add: pay_def)
  have den: "coin_denom (GetBalance (bank E) y d v) = d" for y d v using bank_okD(1) [OF laws(1)] .
  have add: "Coin_Add (math E) (GetBalance (bank E) receiver ?d (world c)) ?x = Ok \<lparr>coin_denom = ?d, coin_amount = bal E receiver ?d (world c) + amt\<rparr>"
    using laws(8) amt(5) den [of receiver ?d "world c"] unfolding coin_live_def by simp
  have eq: "Coin_IsEqual (math E) (GetBalance (bank E) receiver ?d w') \<lparr>coin_denom = ?d, coin_amount = bal E receiver ?d (world c) + amt\<rparr> = Ok True"
    using laws(7) after den [of receiver ?d w'] unfolding coin_ok_def by simp
  show ?thesis
    using w' tokw' by (simp add: convertERC20NativeCoin_def Let_def con bind_def read_balance_def BalanceOf_eq [OF laws(2)] tok call ext_def send add eq)
qed


section \<open>Properties\<close>


section \<open>Witnesses\<close>

lemma c_coin_live: "coin_live c_math"
  by (simp add: coin_live_def c_math_def)

definition c_good :: "ledger \<Rightarrow> bool" where
  "c_good w \<longleftrightarrow> 0 \<le> l_tok w (Addr ''j'') (Addr ''b'')"

lemma c_bank_live: "bank_live c_env c_good"
  by (simp add: bank_live_def c_bank_def c_good_def l_add_def)

lemma c_call_live:
  assumes "0 \<le> n" and "\<And>w'. w' = t_add con (Addr ''b'') n w \<Longrightarrow> post w'"
  shows "call_live c_env con ''mint'' [VAddr (Addr ''b''), VUint n] w post"
  using assms SplitN2_append [of "CHR '':''" "''mint''"]
  by (simp add: call_live_def Let_def c_evm_def c_acct_def c_apply_def c_pack_2 c_call_def SplitN2_append c_reply_def)

lemma c_burn_live:
  assumes "0 \<le> n" and "n \<le> l_tok w con (Addr ''b'')" and "\<And>w'. w' = t_add con (Addr ''b'') (- n) w \<Longrightarrow> post w'"
  shows "call_live c_env con ''burnCoins'' [VAddr (Addr ''b''), VUint n] w post"
  using assms SplitN2_append [of "CHR '':''" "''burnCoins''"]
  by (simp add: call_live_def Let_def c_evm_def c_acct_def c_apply_def c_pack_2 c_call_def SplitN2_append c_reply_def)

lemma c_minter_live: "minter_live c_env (Addr ''j'') (Addr ''b'') c_good"
proof -
  have "call_live c_env (Addr ''j'') ''mint'' [VAddr (Addr ''b''), VUint n] w
        (\<lambda>w'. c_good w' \<and> token_balance c_env (Addr ''j'') (Addr ''b'') w' = Ok (Some (b + n)))"
    "n \<le> b \<Longrightarrow> call_live c_env (Addr ''j'') ''burnCoins'' [VAddr (Addr ''b''), VUint n] w
        (\<lambda>w'. c_good w' \<and> token_balance c_env (Addr ''j'') (Addr ''b'') w' = Ok (Some (b - n)))"
    if "c_good w" "token_balance c_env (Addr ''j'') (Addr ''b'') w = Ok (Some b)" "0 \<le> n" for w b n
    using that c_token_b [of w "Addr ''j''"]
    by (auto intro!: c_call_live c_burn_live simp: c_good_def c_token_b t_add_def)
  then show ?thesis by (simp add: minter_live_def c_evm_def)
qed


end
