(* ===== verification/Upgrades.thy ===== *)
theory Upgrades
  imports Nativedex Gasfree Erc20_Frame
begin

text \<open>
  The handlers of the chain upgrades (\<open>app/upgrades\<close>): Tethys, which sets the proposer rewards, and
  Cardinal, which prepares the nativedex module, repairs the pools of the DEX through its policy
  contract, and makes the erc20 messages free of gas. The migrations of the module manager, the
  invariants of the crisis keeper, the distribution keeper and the names of module accounts are
  outside the repository.
\<close>

section \<open>What the handlers call\<close>

text \<open>\<open>distrtypes.Params\<close>, as far as it is changed; a decimal is the integer it is scaled to.\<close>

record distr_params =
  BaseProposerReward :: int
  BonusProposerReward :: int
  distr_other :: bytes

text \<open>\<open>RunMigrations\<close> returns the version map together with an error, and the handlers go on either way.\<close>

record ('w, 'v) upgrade_ext =
  RunMigrations :: "'v \<Rightarrow> ('w ctx, 'v \<times> go_error option) go"
  AssertInvariants :: "('w ctx, unit) go"
  ModuleAccount_GetName :: "bytes \<Rightarrow> 'w \<Rightarrow> string"
  Distr_GetParams :: "'w \<Rightarrow> distr_params"
  Distr_SetParams :: "distr_params \<Rightarrow> ('w, unit) go"
  NewDecWithPrec :: "int \<Rightarrow> int \<Rightarrow> int"

section \<open>Tethys\<close>

definition updateDistributionParams :: "('w, 'v) upgrade_ext \<Rightarrow> ('w ctx, unit) go" where
  "updateDistributionParams U =
     bind (gets (\<lambda>c. Distr_GetParams U (world c))) (\<lambda>distrParams.
     let updatedBaseReward = NewDecWithPrec U 50 2; updatedBonusReward = NewDecWithPrec U 4 2 in
     ext (Distr_SetParams U (distrParams\<lparr>BaseProposerReward := updatedBaseReward, BonusProposerReward := updatedBonusReward\<rparr>)))"

text \<open>The module manager is \<open>None\<close> when it is \<open>nil\<close>.\<close>

definition GetTethysUpgradeHandler :: "unit option \<Rightarrow> ('w, 'v) upgrade_ext \<Rightarrow> ('v \<Rightarrow> ('w ctx, 'v \<times> go_error option) go) result" where
  "GetTethysUpgradeHandler mm U =
     (if mm = None then Panic ''Nil argument to GetTethysUpgradeHandler''
      else Ok (\<lambda>vmap. bind (RunMigrations U vmap) (\<lambda>out.
        seq (updateDistributionParams U) (seq (AssertInvariants U) (ret out)))))"

section \<open>Cardinal\<close>

definition initModuleAccount :: "'w env \<Rightarrow> ('w, 'v) upgrade_ext \<Rightarrow> ('w ctx, unit) go" where
  "initModuleAccount E U =
     bind (ext (GetModuleAccount (acct E) ''nativedex'')) (\<lambda>modAcc. case modAcc of
       None \<Rightarrow> panic ''nil pointer dereference''
     | Some a \<Rightarrow> bind (gets (\<lambda>c. ModuleAccount_GetName U a (world c))) (\<lambda>name.
         if name \<noteq> ''nativedex'' then panic ''Created account for nativedex module does not have the right module name!''
         else ret ()))"

text \<open>The parameters that are set, or else the validated and stored defaults.\<close>

definition params_or_defaults :: "lib \<Rightarrow> ('w ctx, nativedex_params) go" where
  "params_or_defaults L = (\<lambda>c. case nativedex_GetParamsIfSet L c of
     Ok params \<Rightarrow> (Ok params, c)
   | Panic p \<Rightarrow> (Panic p, c)
   | Err e \<Rightarrow> (let defaults = nativedex_DefaultParams L in
       seq (panic_on_err ''default nativedex params are invalid'' (lift (nativedex_Params_ValidateBasic L defaults)))
         (seq (nativedex_SetParams L defaults) (ret defaults)) c))"

definition ensureNativedexParams :: "lib \<Rightarrow> ('w ctx, unit) go" where
  "ensureNativedexParams L =
     bind (params_or_defaults L) (\<lambda>params.
     let nativeDexAddr = HexToAddress L (VerifiedNativeDexAddress params);
         crocPolicyAddr = HexToAddress L (VerifiedCrocPolicyAddress params);
         params1 = (if nativeDexAddr = zero_address
           then params\<lparr>VerifiedNativeDexAddress := ''0xd263DC98dEc57828e26F69bA8687281BA5D052E0''\<rparr> else params);
         params2 = (if crocPolicyAddr = zero_address
           then params1\<lparr>VerifiedCrocPolicyAddress := ''0x14Ae279edb4D569BAFb98ff08299A0135Da6867a''\<rparr> else params1);
         needsUpdate = (nativeDexAddr = zero_address \<or> crocPolicyAddr = zero_address) in
     if needsUpdate then nativedex_SetParams L params2 else ret ())"

definition fixDexTemplate :: "'w env \<Rightarrow> ('w ctx, unit) go" where
  "fixDexTemplate E =
     (let callpath = 3; setTemplateCode = 110; templateIndex = 36000; feeRate = 5000; tickSize = 1;
          jitThresh = 6; knockout = 182; oracleFlags = 0;
          argumentTypeNames = [''uint8'', ''uint256'', ''uint16'', ''uint16'', ''uint8'', ''uint8'', ''uint8''];
          argumentValues = [VUint8 setTemplateCode, VUint templateIndex, VUint16 feeRate, VUint16 tickSize,
            VUint8 jitThresh, VUint8 knockout, VUint8 oracleFlags] in
      bind (panic_on_err ''Could not encode cmd args for fixing dex template'' (lift (EncodeTypes E argumentTypeNames argumentValues))) (\<lambda>cmdArgs.
      panic_on_err ''Could not call opsResolution to fix dex template''
        (call_policy E ''opsResolution'' (\<lambda>dex. [VAddr dex, VUint16 callpath, VBytes cmdArgs]))))"

definition fixDexPool :: "'w env \<Rightarrow> address \<Rightarrow> address \<Rightarrow> u64 \<Rightarrow> ('w ctx, unit) go" where
  "fixDexPool E base quot poolIdx =
     (let callpath = 3; revisePoolCode = 111; feeRate = 5000; tickSize = 1; jitThresh = 6; knockout = 182;
          poolIdxBig = uint poolIdx;
          argTypes = [''uint8'', ''address'', ''address'', ''uint256'', ''uint16'', ''uint16'', ''uint8'', ''uint8''];
          argValues = [VUint8 revisePoolCode, VAddr base, VAddr quot, VUint poolIdxBig, VUint16 feeRate, VUint16 tickSize,
            VUint8 jitThresh, VUint8 knockout] in
      bind (panic_on_err ''Could not encode cmd args for fixing dex pool'' (lift (EncodeTypes E argTypes argValues))) (\<lambda>cmdArgs.
      panic_on_err ''Could not call opsResolution to revise pool''
        (call_policy E ''opsResolution'' (\<lambda>dex. [VAddr dex, VUint16 callpath, VBytes cmdArgs]))))"

text \<open>The type URLs are those of messages without content.\<close>

definition updateGasfreeParams :: "lib \<Rightarrow> address list \<Rightarrow> ('w ctx, unit) go" where
  "updateGasfreeParams L gasfreeErc20InteropTokens =
     (let gasfreeFeeBasisPoints = 100 in
      seq (modify (SetGasfreeErc20InteropFeeBasisPoints gasfreeFeeBasisPoints))
      (bind (reads GetGasFreeMessageTypes) (\<lambda>gasfreeMessages.
       seq (modify (SetGasFreeMessageTypes (gasfreeMessages @ [
          MsgTypeURL (MsgSendCoinToEVM \<lparr>coin_denom = [], coin_amount = 0\<rparr> []),
          MsgTypeURL (MsgSendERC20ToCosmos [] 0 []),
          MsgTypeURL (MsgSendERC20ToCosmosAndIBCTransfer [] 0 [] [] [] [])])))
       (modify (SetGasfreeErc20InteropTokens (map (Address_Hex L) gasfreeErc20InteropTokens))))))"

definition GetCardinalUpgradeHandler ::
  "unit option \<Rightarrow> 'w env \<Rightarrow> ('w, 'v) upgrade_ext \<Rightarrow> ('v \<Rightarrow> ('w ctx, 'v \<times> go_error option) go) result" where
  "GetCardinalUpgradeHandler mm E U =
     (if mm = None then Panic ''Nil argument to GetCardinalUpgradeHandler''
      else Ok (\<lambda>vmap. bind (RunMigrations U vmap) (\<lambda>out.
        seq (initModuleAccount E U)
        (seq (ensureNativedexParams (libs E))
        (seq (fixDexTemplate E)
        (let usdc = HexToAddress (libs E) ''0x80b5a32E4F032B2a058b4F29EC95EEfEEB87aDcd'';
             sUsds = HexToAddress (libs E) ''0x5FD55A1B9FC24967C4dB09C513C3BA0DFa7FF687'';
             usds = HexToAddress (libs E) ''0xd567B3d7B8FE3C79a1AD8dA978812cfC4Fa05e75'';
             usdt = HexToAddress (libs E) ''0xecEEEfCEE421D8062EF8d6b4D814efe4dc898265'' in
         seq (fixDexPool E usdc usds 36000)
         (seq (fixDexPool E sUsds usds 36000)
         (seq (fixDexPool E usds usdt 36000)
         (seq (updateGasfreeParams (libs E) [usdc, usds, sUsds, usdt])
         (seq (AssertInvariants U) (ret out)))))))))))"


section \<open>The migration of the erc20 parameters\<close>

definition erc20_UpdateParams :: "('w ctx, unit) go" where
  "erc20_UpdateParams =
     seq (modify (param_set ''erc20'' ParamStoreKeyEnableErc20 (PBool True)))
         (modify (param_set ''erc20'' ParamStoreKeyEnableEVMHook (PBool True)))"

definition Migrate1to2 :: "('w ctx, unit) go" where
  "Migrate1to2 = erc20_UpdateParams"

lemma Migrate1to2_params:
  "\<exists>c'. Migrate1to2 c = (Ok (), c') \<and> erc20_GetParams c' = Ok \<lparr>EnableErc20 = True, EnableEVMHook = True\<rparr> \<and> kv c' = kv c \<and> world c' = world c"
  by (auto simp: Migrate1to2_def erc20_UpdateParams_def bind_def erc20_GetParams_def ParamStoreKeyEnableErc20_def ParamStoreKeyEnableEVMHook_def)

section \<open>Lemmas\<close>

text \<open>The addresses of the DEX of proposal 16 where an address is zero.\<close>

definition adopted :: "lib \<Rightarrow> nativedex_params \<Rightarrow> nativedex_params" where
  "adopted L p = \<lparr>
     VerifiedNativeDexAddress = (if HexToAddress L (VerifiedNativeDexAddress p) = zero_address
       then ''0xd263DC98dEc57828e26F69bA8687281BA5D052E0'' else VerifiedNativeDexAddress p),
     VerifiedCrocPolicyAddress = (if HexToAddress L (VerifiedCrocPolicyAddress p) = zero_address
       then ''0x14Ae279edb4D569BAFb98ff08299A0135Da6867a'' else VerifiedCrocPolicyAddress p),
     WhitelistedContractAddresses = WhitelistedContractAddresses p\<rparr>"

definition stored_or_default :: "lib \<Rightarrow> 'w ctx \<Rightarrow> nativedex_params" where
  "stored_or_default L c = (case nativedex_GetParamsIfSet L c of Ok p \<Rightarrow> p | _ \<Rightarrow> nativedex_DefaultParams L)"

text \<open>Only the parameters of one module differ.\<close>

definition only_params :: "string \<Rightarrow> 'w ctx \<Rightarrow> 'w ctx \<Rightarrow> bool" where
  "only_params m c c' \<longleftrightarrow> c' = c\<lparr>prm := (prm c)(m := prm c' m)\<rparr>"

lemma only_params_refl [simp]: "only_params m c c"
  by (simp add: only_params_def)

lemma only_params_trans: "only_params m a b \<Longrightarrow> only_params m b c \<Longrightarrow> only_params m a c"
  by (simp add: only_params_def) (metis ctx.update_convs(2) fun_upd_same fun_upd_upd ctx.select_convs(2) ctx.surjective)

lemma only_paramsD:
  assumes "only_params m c c'"
  shows "kv c' = kv c" "world c' = world c" "x \<noteq> m \<Longrightarrow> prm c' x = prm c x"
  using assms unfolding only_params_def by (metis ctx.simps ctx.update_convs fun_upd_other ctx.surjective)+

lemmas dex_keys = ParamsStoreKeyVerifiedNativeDexAddress_def ParamsStoreKeyVerifiedCrocPolicyAddress_def
  ParamsStoreKeyWhitelistedContractAddresses_def

lemma nativedex_SetParams_Ok:
  "nativedex_SetParams L p c = (Ok u, c') \<Longrightarrow> nativedex_GetParams c' = Ok p \<and> only_params ''nativedex'' c c'"
  by (auto simp: nativedex_SetParams_def param_SetParamSet_def nativedex_ParamSetPairs_def nativedex_GetParams_def get_param_def
      dex_keys only_params_def SetParamSet_Cons_Ok simp del: SetParamSet.simps(2) split: prod.splits)

lemma params_or_defaults_Ok:
  "params_or_defaults L c = (Ok p, c') \<Longrightarrow>
     p = stored_or_default L c \<and> nativedex_GetParams c' = Ok p \<and> only_params ''nativedex'' c c'"
  by (auto simp: params_or_defaults_def stored_or_default_def nativedex_GetParamsIfSet_def bind_def Let_def
      dest!: nativedex_SetParams_Ok split: result.splits prod.splits)

lemma ensureNativedexParams_eq:
  "ensureNativedexParams L = bind (params_or_defaults L) (\<lambda>p.
     if HexToAddress L (VerifiedNativeDexAddress p) = zero_address \<or> HexToAddress L (VerifiedCrocPolicyAddress p) = zero_address
     then nativedex_SetParams L (adopted L p) else ret ())"
  unfolding ensureNativedexParams_def Let_def
  apply (intro arg_cong [where f = "bind (params_or_defaults L)"] ext)
  subgoal for p by (cases p) (auto simp: adopted_def)
  done

lemma adopted_same:
  "HexToAddress L (VerifiedNativeDexAddress p) \<noteq> zero_address \<Longrightarrow> HexToAddress L (VerifiedCrocPolicyAddress p) \<noteq> zero_address \<Longrightarrow> adopted L p = p"
  by (simp add: adopted_def)

lemma ensureNativedexParams_Ok:
  assumes "ensureNativedexParams L c = (Ok u, c')"
  shows "nativedex_GetParams c' = Ok (adopted L (stored_or_default L c)) \<and> only_params ''nativedex'' c c'"
  using assms unfolding ensureNativedexParams_eq
  by (auto simp: adopted_same dest!: params_or_defaults_Ok nativedex_SetParams_Ok dest: only_params_trans split: if_splits)

text \<open>A command that the policy contract has executed, and several in a row.\<close>

definition ops_done :: "'w env \<Rightarrow> nativedex_params \<Rightarrow> string list \<times> abi_value list \<Rightarrow> 'w ctx \<Rightarrow> 'w ctx \<Rightarrow> bool" where
  "ops_done E p cmd c c' \<longleftrightarrow> (\<exists>enc res. abi_Arguments_Pack (evm E) (fst cmd) (snd cmd) = Ok enc \<and>
     CallEVM E CrocPolicy (nativedex_ModuleEVMAddress (libs E)) (HexToAddress (libs E) (VerifiedCrocPolicyAddress p)) True
       ''opsResolution'' [VAddr (HexToAddress (libs E) (VerifiedNativeDexAddress p)), VUint16 3, VBytes enc] c = (Ok res, c'))"

fun all_done :: "'w env \<Rightarrow> nativedex_params \<Rightarrow> (string list \<times> abi_value list) list \<Rightarrow> 'w ctx \<Rightarrow> 'w ctx \<Rightarrow> bool" where
  "all_done E p [] c c' \<longleftrightarrow> c' = c"
| "all_done E p (cmd # cmds) c c' \<longleftrightarrow> (\<exists>c1. ops_done E p cmd c c1 \<and> all_done E p cmds c1 c')"

definition template_command :: "string list \<times> abi_value list" where
  "template_command = ([''uint8'', ''uint256'', ''uint16'', ''uint16'', ''uint8'', ''uint8'', ''uint8''],
     [VUint8 110, VUint 36000, VUint16 5000, VUint16 1, VUint8 6, VUint8 182, VUint8 0])"

definition pool_command :: "address \<Rightarrow> address \<Rightarrow> string list \<times> abi_value list" where
  "pool_command base quot = ([''uint8'', ''address'', ''address'', ''uint256'', ''uint16'', ''uint16'', ''uint8'', ''uint8''],
     [VUint8 111, VAddr base, VAddr quot, VUint 36000, VUint16 5000, VUint16 1, VUint8 6, VUint8 182])"

lemma bind_lift_iff: "bind (panic_on_err m (lift r)) f c = (Ok x, c') \<longleftrightarrow> (\<exists>y. r = Ok y \<and> f y c = (Ok x, c'))"
  by (cases r) (auto simp: bind_def panic_on_err_def)

lemma template_types: "EncodeTypes E (fst template_command) vs = abi_Arguments_Pack (evm E) (fst template_command) vs"
  "EncodeTypes E (fst (pool_command a b)) vs = abi_Arguments_Pack (evm E) (fst (pool_command a b)) vs"
  by (rule EncodeTypes_known, simp add: typeMap_def template_command_def pool_command_def)+

lemma fixDexTemplate_Ok:
  assumes "nativedex_GetParams c = Ok p"
  shows "fixDexTemplate E c = (Ok u, c') \<longleftrightarrow> ops_done E p template_command c c'"
  using template_types(1) [of E "snd template_command"]
  by (simp add: fixDexTemplate_def Let_def bind_lift_iff call_policy_Ok [OF assms] ops_done_def template_command_def)

lemma fixDexPool_Ok:
  assumes "nativedex_GetParams c = Ok p"
  shows "fixDexPool E base quot 36000 c = (Ok u, c') \<longleftrightarrow> ops_done E p (pool_command base quot) c c'"
  using template_types(2) [of E base quot "snd (pool_command base quot)"]
  by (simp add: fixDexPool_def Let_def bind_lift_iff call_policy_Ok [OF assms] ops_done_def pool_command_def)

lemma ops_done_frame:
  assumes "ops_done E p cmd c c'"
  shows "c' = c\<lparr>world := world c'\<rparr>"
  using assms unfolding ops_done_def by (auto simp: CallEVM_def CallEVMWithData_def ext_Ok split: if_splits)

lemma updateGasfreeParams_Ok:
  "updateGasfreeParams L tokens c = (Ok u, c') \<Longrightarrow> \<exists>ts. GetGasFreeMessageTypes c = Ok ts \<and> only_params ''gasfree'' c c' \<and>
     gasfree_GetParamsIfSet c' = Ok \<lparr>
       GasFreeMessageTypes = ts @ [''/althea.erc20.v1.MsgSendCoinToEVM'', ''/althea.erc20.v1.MsgSendERC20ToCosmos'',
         ''/althea.erc20.v1.MsgSendERC20ToCosmosAndIBCTransfer''],
       GasFreeErc20InteropTokens = map (Address_Hex L) tokens, GasFreeErc20InteropFeeBasisPoints = 100\<rparr>"
  by (auto simp: updateGasfreeParams_def GetGasFreeMessageTypes_def GetIfExists_def SetGasFreeMessageTypes_def SetGasfreeErc20InteropTokens_def
      SetGasfreeErc20InteropFeeBasisPoints_def gasfree_GetParamsIfSet_def gasfree_keys only_params_def param_set_def Let_def)

lemma dex_params_cong:
  assumes "prm c' ''nativedex'' = prm c ''nativedex''"
  shows "nativedex_GetParams c' = nativedex_GetParams c" "stored_or_default L c' = stored_or_default L c"
  using assms by (simp_all add: nativedex_GetParams_def get_param_def stored_or_default_def nativedex_GetParamsIfSet_def)

lemma gasfree_types_cong: "prm c' ''gasfree'' = prm c ''gasfree'' \<Longrightarrow> GetGasFreeMessageTypes c' = GetGasFreeMessageTypes c"
  by (simp add: GetGasFreeMessageTypes_def GetIfExists_def)

lemma initModuleAccount_Ok:
  "initModuleAccount E U c = (Ok u, c') \<Longrightarrow> \<exists>a w. GetModuleAccount (acct E) ''nativedex'' (world c) = (Ok (Some a), w) \<and>
     ModuleAccount_GetName U a w = ''nativedex'' \<and> c' = c\<lparr>world := w\<rparr>"
  by (auto simp: initModuleAccount_def bind_def ext_def split: prod.splits result.splits option.splits if_splits)

lemma ops_done_params:
  assumes "ops_done E p cmd c c'"
  shows "kv c' = kv c" "prm c' = prm c"
  using arg_cong [where f = kv, OF ops_done_frame [OF assms]] arg_cong [where f = prm, OF ops_done_frame [OF assms]] by simp_all

lemma ops_done_step:
  assumes m: "\<And>c'. m c = (Ok (), c') \<longleftrightarrow> ops_done E p cmd c c'" and p: "nativedex_GetParams c = Ok p"
    and run: "bind m n c = (Ok x, c')"
  shows "\<exists>c1. ops_done E p cmd c c1 \<and> nativedex_GetParams c1 = Ok p \<and> n () c1 = (Ok x, c')"
proof -
  from run obtain c1 where 1: "m c = (Ok (), c1)" and 2: "n () c1 = (Ok x, c')" by auto
  from 1 m have 3: "ops_done E p cmd c c1" by simp
  with p have "nativedex_GetParams c1 = Ok p" by (simp add: dex_params_cong(1) [of c1 c] ops_done_params(2) [OF 3])
  with 2 3 show ?thesis by blast
qed

lemma template_step:
  assumes p: "nativedex_GetParams c = Ok p"
  shows "bind (fixDexTemplate E) n c = (Ok x, c') \<Longrightarrow>
     \<exists>c1. ops_done E p template_command c c1 \<and> nativedex_GetParams c1 = Ok p \<and> n () c1 = (Ok x, c')"
  by (rule ops_done_step [where m = "fixDexTemplate E"]) (rule fixDexTemplate_Ok [OF p] p | assumption)+

lemma pool_step:
  assumes p: "nativedex_GetParams c = Ok p"
  shows "bind (fixDexPool E a b 36000) n c = (Ok x, c') \<Longrightarrow>
     \<exists>c1. ops_done E p (pool_command a b) c c1 \<and> nativedex_GetParams c1 = Ok p \<and> n () c1 = (Ok x, c')"
  by (rule ops_done_step [where m = "fixDexPool E a b 36000"]) (rule fixDexPool_Ok [OF p] p | assumption)+

lemma repairs_step:
  assumes p: "nativedex_GetParams c = Ok p"
    and run: "seq (fixDexTemplate E) (seq (fixDexPool E a b 36000) (seq (fixDexPool E a' b' 36000) (seq (fixDexPool E a'' b'' 36000) n))) c = (Ok x, c')"
  shows "\<exists>c1. all_done E p [template_command, pool_command a b, pool_command a' b', pool_command a'' b''] c c1 \<and> n c1 = (Ok x, c')"
proof -
  from template_step [OF p run] obtain c1 where 1: "ops_done E p template_command c c1" and p1: "nativedex_GetParams c1 = Ok p"
    and r1: "seq (fixDexPool E a b 36000) (seq (fixDexPool E a' b' 36000) (seq (fixDexPool E a'' b'' 36000) n)) c1 = (Ok x, c')" by (elim exE conjE) (rule that)
  from pool_step [OF p1 r1] obtain c2 where 2: "ops_done E p (pool_command a b) c1 c2" and p2: "nativedex_GetParams c2 = Ok p"
    and r2: "seq (fixDexPool E a' b' 36000) (seq (fixDexPool E a'' b'' 36000) n) c2 = (Ok x, c')" by (elim exE conjE) (rule that)
  from pool_step [OF p2 r2] obtain c3 where 3: "ops_done E p (pool_command a' b') c2 c3" and p3: "nativedex_GetParams c3 = Ok p"
    and r3: "seq (fixDexPool E a'' b'' 36000) n c3 = (Ok x, c')" by (elim exE conjE) (rule that)
  from pool_step [OF p3 r3] obtain c4 where 4: "ops_done E p (pool_command a'' b'') c3 c4" and p4: "nativedex_GetParams c4 = Ok p" and r4: "n c4 = (Ok x, c')" by (elim exE conjE) (rule that)
  from 1 2 3 4 r4 show ?thesis by auto
qed

text \<open>The repair of the template and of the pools.\<close>

definition upgrade_commands :: "lib \<Rightarrow> (string list \<times> abi_value list) list" where
  "upgrade_commands L = (let a = HexToAddress L in [template_command,
     pool_command (a ''0x80b5a32E4F032B2a058b4F29EC95EEfEEB87aDcd'') (a ''0xd567B3d7B8FE3C79a1AD8dA978812cfC4Fa05e75''),
     pool_command (a ''0x5FD55A1B9FC24967C4dB09C513C3BA0DFa7FF687'') (a ''0xd567B3d7B8FE3C79a1AD8dA978812cfC4Fa05e75''),
     pool_command (a ''0xd567B3d7B8FE3C79a1AD8dA978812cfC4Fa05e75'') (a ''0xecEEEfCEE421D8062EF8d6b4D814efe4dc898265'')])"

definition upgrade_tokens :: "lib \<Rightarrow> address list" where
  "upgrade_tokens L = map (HexToAddress L) [''0x80b5a32E4F032B2a058b4F29EC95EEfEEB87aDcd'', ''0xd567B3d7B8FE3C79a1AD8dA978812cfC4Fa05e75'',
     ''0x5FD55A1B9FC24967C4dB09C513C3BA0DFa7FF687'', ''0xecEEEfCEE421D8062EF8d6b4D814efe4dc898265'']"

lemma all_done_params: "all_done E p cmds c c' \<Longrightarrow> kv c' = kv c \<and> prm c' = prm c"
  by (induction cmds arbitrary: c) (auto dest: ops_done_params)

text \<open>The handler after the repair of the template.\<close>

definition cardinal_tail :: "'w env \<Rightarrow> ('w, 'v) upgrade_ext \<Rightarrow> 'r \<Rightarrow> ('w ctx, 'r) go" where
  "cardinal_tail E U out =
     (let usdc = HexToAddress (libs E) ''0x80b5a32E4F032B2a058b4F29EC95EEfEEB87aDcd'';
          sUsds = HexToAddress (libs E) ''0x5FD55A1B9FC24967C4dB09C513C3BA0DFa7FF687'';
          usds = HexToAddress (libs E) ''0xd567B3d7B8FE3C79a1AD8dA978812cfC4Fa05e75'';
          usdt = HexToAddress (libs E) ''0xecEEEfCEE421D8062EF8d6b4D814efe4dc898265'' in
      seq (fixDexPool E usdc usds 36000) (seq (fixDexPool E sUsds usds 36000) (seq (fixDexPool E usds usdt 36000)
        (seq (updateGasfreeParams (libs E) [usdc, usds, sUsds, usdt]) (seq (AssertInvariants U) (ret out))))))"

lemma bind_OkD: "bind m f s = (Ok y, s') \<Longrightarrow> \<exists>x s1. m s = (Ok x, s1) \<and> f x s1 = (Ok y, s')"
  by blast

lemma cardinal_run:
  assumes "GetCardinalUpgradeHandler (Some ()) E U = Ok h" "h vmap c = (Ok out, c')"
  shows "\<exists>out1 c1 c2 c3. RunMigrations U vmap c = (Ok out1, c1) \<and> initModuleAccount E U c1 = (Ok (), c2) \<and>
     ensureNativedexParams (libs E) c2 = (Ok (), c3) \<and> seq (fixDexTemplate E) (cardinal_tail E U out1) c3 = (Ok out, c')"
proof -
  have h: "h vmap = bind (RunMigrations U vmap) (\<lambda>out. seq (initModuleAccount E U) (seq (ensureNativedexParams (libs E))
      (seq (fixDexTemplate E) (cardinal_tail E U out))))"
    using assms(1) unfolding GetCardinalUpgradeHandler_def cardinal_tail_def by auto
  note r = assms(2) [unfolded h]
  from bind_OkD [OF r] obtain out1 c1 where 1: "RunMigrations U vmap c = (Ok out1, c1)" and r1: "seq (initModuleAccount E U)
      (seq (ensureNativedexParams (libs E)) (seq (fixDexTemplate E) (cardinal_tail E U out1))) c1 = (Ok out, c')"
    by (elim exE conjE) (rule that)
  from bind_OkD [OF r1] obtain u c2 where 2: "initModuleAccount E U c1 = (Ok u, c2)" and r2: "seq (ensureNativedexParams (libs E))
      (seq (fixDexTemplate E) (cardinal_tail E U out1)) c2 = (Ok out, c')" by (elim exE conjE) (rule that)
  from bind_OkD [OF r2] obtain v c3 where 3: "ensureNativedexParams (libs E) c2 = (Ok v, c3)"
    and r3: "seq (fixDexTemplate E) (cardinal_tail E U out1) c3 = (Ok out, c')" by (elim exE conjE) (rule that)
  have "u = ()" "v = ()" by simp_all
  with 1 2 3 r3 show ?thesis by metis
qed

text \<open>The invariants of the modules only read the state; a broken one panics.\<close>

definition invariants_read :: "('w, 'v) upgrade_ext \<Rightarrow> bool" where
  "invariants_read U \<longleftrightarrow> (\<forall>d r d'. AssertInvariants U d = (r, d') \<longrightarrow> d' = d)"

section \<open>Properties\<close>

text \<open>
  C38: A successful Cardinal upgrade has run the migrations first; then the module account of nativedex
  exists under its name; both addresses of the DEX are set, to those of proposal 16 where they were
  zero; the policy contract has executed exactly the command for the pool template and those for
  the three pools, in this order; the three erc20 messages are free of gas in addition to the earlier
  ones, at a fee of 100 basis points, for exactly the four stablecoins; and no store and no
  parameter of another module has changed since the migrations.
\<close>

theorem cardinal_upgrade_exact:
  assumes inv: "invariants_read U"
    and known: "HexToAddress (libs E) ''0xd263DC98dEc57828e26F69bA8687281BA5D052E0'' \<noteq> zero_address"
      "HexToAddress (libs E) ''0x14Ae279edb4D569BAFb98ff08299A0135Da6867a'' \<noteq> zero_address"
    and run: "GetCardinalUpgradeHandler (Some ()) E U = Ok h" "h vmap c = (Ok out, c')"
  shows "\<exists>c1 c2 c3 a ts p. RunMigrations U vmap c = (Ok out, c1) \<and>
     GetModuleAccount (acct E) ''nativedex'' (world c1) = (Ok (Some a), world c2) \<and> ModuleAccount_GetName U a (world c2) = ''nativedex'' \<and>
     p = adopted (libs E) (stored_or_default (libs E) c1) \<and> nativedex_GetParams c' = Ok p \<and>
     HexToAddress (libs E) (VerifiedNativeDexAddress p) \<noteq> zero_address \<and> HexToAddress (libs E) (VerifiedCrocPolicyAddress p) \<noteq> zero_address \<and>
     all_done E p (upgrade_commands (libs E)) c2 c3 \<and> world c' = world c3 \<and>
     GetGasFreeMessageTypes c1 = Ok ts \<and> gasfree_GetParamsIfSet c' = Ok \<lparr>
       GasFreeMessageTypes = ts @ [''/althea.erc20.v1.MsgSendCoinToEVM'', ''/althea.erc20.v1.MsgSendERC20ToCosmos'',
         ''/althea.erc20.v1.MsgSendERC20ToCosmosAndIBCTransfer''],
       GasFreeErc20InteropTokens = map (Address_Hex (libs E)) (upgrade_tokens (libs E)), GasFreeErc20InteropFeeBasisPoints = 100\<rparr> \<and>
     kv c' = kv c1 \<and> (\<forall>m. m \<notin> {''nativedex'', ''gasfree''} \<longrightarrow> prm c' m = prm c1 m)"
proof -
  let ?L = "libs E"
  from cardinal_run [OF run] obtain out1 c1 c1' c2 where 1: "RunMigrations U vmap c = (Ok out1, c1)"
    and 2: "initModuleAccount E U c1 = (Ok (), c1')" and 3: "ensureNativedexParams ?L c1' = (Ok (), c2)"
    and rest: "seq (fixDexTemplate E) (cardinal_tail E U out1) c2 = (Ok out, c')" by (elim exE conjE) rule
  let ?p = "adopted ?L (stored_or_default ?L c1)"
  from initModuleAccount_Ok [OF 2] obtain a w where a: "GetModuleAccount (acct E) ''nativedex'' (world c1) = (Ok (Some a), w)"
      "ModuleAccount_GetName U a w = ''nativedex''" and c1': "c1' = c1\<lparr>world := w\<rparr>" by blast
  have f1: "kv c1' = kv c1" "prm c1' = prm c1" "world c1' = w" by (simp_all add: c1')
  from ensureNativedexParams_Ok [OF 3] dex_params_cong(2) [of c1' c1] f1
  have p: "nativedex_GetParams c2 = Ok ?p" and f2: "only_params ''nativedex'' c1' c2" by simp_all
  have "\<exists>c3. all_done E ?p (upgrade_commands ?L) c2 c3 \<and>
      seq (updateGasfreeParams ?L (upgrade_tokens ?L)) (seq (AssertInvariants U) (ret out1)) c3 = (Ok out, c')"
    unfolding upgrade_commands_def upgrade_tokens_def Let_def list.map by (rule repairs_step [OF p rest [unfolded cardinal_tail_def Let_def]])
  then obtain c3 where 4: "all_done E ?p (upgrade_commands ?L) c2 c3"
    and r4: "seq (updateGasfreeParams ?L (upgrade_tokens ?L)) (seq (AssertInvariants U) (ret out1)) c3 = (Ok out, c')"
    by (elim exE conjE) (rule that)
  from r4 obtain d d' where "updateGasfreeParams ?L (upgrade_tokens ?L) c3 = (Ok (), d)" "AssertInvariants U d = (Ok (), d')"
    "(Ok out1, d') = (Ok out, c')" by (elim bind_OkE) (rule that, simp_all)
  with inv [unfolded invariants_read_def] have 5: "updateGasfreeParams ?L (upgrade_tokens ?L) c3 = (Ok (), c')" and out: "out1 = out" by auto
  note f3 = all_done_params [OF 4]
  from updateGasfreeParams_Ok [OF 5] obtain ts where 6: "GetGasFreeMessageTypes c3 = Ok ts" and f4: "only_params ''gasfree'' c3 c'"
    and 7: "gasfree_GetParamsIfSet c' = Ok \<lparr>
       GasFreeMessageTypes = ts @ [''/althea.erc20.v1.MsgSendCoinToEVM'', ''/althea.erc20.v1.MsgSendERC20ToCosmos'',
         ''/althea.erc20.v1.MsgSendERC20ToCosmosAndIBCTransfer''],
       GasFreeErc20InteropTokens = map (Address_Hex ?L) (upgrade_tokens ?L), GasFreeErc20InteropFeeBasisPoints = 100\<rparr>" by blast
  note fr = f1 only_paramsD [OF f2] f3 only_paramsD [OF f4]
  have "GetGasFreeMessageTypes c1 = Ok ts" using 6 gasfree_types_cong [of c3 c1] fr by simp
  moreover have "nativedex_GetParams c' = Ok ?p" using p dex_params_cong(1) [of c' c2] fr by simp
  moreover have "HexToAddress ?L (VerifiedNativeDexAddress ?p) \<noteq> zero_address" "HexToAddress ?L (VerifiedCrocPolicyAddress ?p) \<noteq> zero_address"
    using known by (auto simp: adopted_def)
  moreover have "kv c' = kv c1" "world c' = world c3" "\<forall>m. m \<notin> {''nativedex'', ''gasfree''} \<longrightarrow> prm c' m = prm c1 m" "world c2 = w"
    using fr by simp_all
  ultimately show ?thesis using 1 [unfolded out] a 4 7 by metis
qed

section \<open>Witnesses\<close>

definition u_lib :: lib where
  "u_lib = c_lib\<lparr>BytesToAddress := (\<lambda>b. Addr (replicate (20 - length b) (CHR 0x00) @ b))\<rparr>"

definition u_env :: "ledger env" where
  "u_env = c_env\<lparr>libs := u_lib, evm := c_evm\<lparr>ApplyMessage := (\<lambda>m commit w. (Ok (c_reply False []), w)),
       abi_Pack := (\<lambda>con meth args. Ok meth), abi_Arguments_Pack := (\<lambda>ts vs. Ok (concat ts))\<rparr>,
     acct := c_acct\<lparr>GetModuleAccount := (\<lambda>n w. (Ok (Some n), w))\<rparr>\<rparr>"

definition u_ext :: "(ledger, nat) upgrade_ext" where
  "u_ext = \<lparr>RunMigrations = (\<lambda>v. ret (v + 1, None)), AssertInvariants = ret (), ModuleAccount_GetName = (\<lambda>a w. a),
     Distr_GetParams = (\<lambda>w. \<lparr>BaseProposerReward = 0, BonusProposerReward = 0, distr_other = []\<rparr>), Distr_SetParams = (\<lambda>p. ret ()),
     NewDecWithPrec = (\<lambda>n k. n * 10 ^ (18 - nat k))\<rparr>"

lemma u_known:
  "HexToAddress u_lib ''0xd263DC98dEc57828e26F69bA8687281BA5D052E0'' \<noteq> zero_address"
  "HexToAddress u_lib ''0x14Ae279edb4D569BAFb98ff08299A0135Da6867a'' \<noteq> zero_address"
  by code_simp+

definition u_handler :: "nat \<Rightarrow> (ledger ctx, nat \<times> go_error option) go" where
  "u_handler = (case GetCardinalUpgradeHandler (Some ()) u_env u_ext of Ok h \<Rightarrow> h | _ \<Rightarrow> (\<lambda>v. panic []))"

lemma u_handler_ok: "GetCardinalUpgradeHandler (Some ()) u_env u_ext = Ok u_handler"
  by (simp add: u_handler_def GetCardinalUpgradeHandler_def)

lemma u_defaults: "HexToAddress u_lib (Address_Hex u_lib (BytesToAddress u_lib [CHR 0x00])) = zero_address"
  by code_simp

lemma u_hex: "IsHexAddress u_lib (CHR ''0'' # CHR ''x'' # s)" "IsHexAddress u_lib (Address_Hex u_lib a)"
  by (simp_all add: u_lib_def c_lib_def HasPrefix_def)

lemma u_set: "is_ok (nativedex_Params_ValidateBasic u_lib p) \<Longrightarrow> \<exists>c'. nativedex_SetParams u_lib p c = (Ok (), c')"
  by (auto simp: nativedex_Params_ValidateBasic_def nativedex_SetParams_def param_SetParamSet_def nativedex_ParamSetPairs_def is_ok_iff)

lemma u_ensure: "\<exists>c'. ensureNativedexParams u_lib (c_ctx w) = (Ok (), c')"
proof -
  let ?d = "nativedex_DefaultParams u_lib"
  have d: "nativedex_Params_ValidateBasic u_lib ?d = Ok ()" "is_ok (nativedex_Params_ValidateBasic u_lib (adopted u_lib ?d))"
    by (simp_all add: nativedex_Params_ValidateBasic_def nativedex_DefaultParams_def adopted_def u_hex)
  from u_set [of ?d "c_ctx w"] d obtain c1 where 1: "nativedex_SetParams u_lib ?d (c_ctx w) = (Ok (), c1)" by auto
  from u_set [OF d(2), of c1] obtain c2 where 2: "nativedex_SetParams u_lib (adopted u_lib ?d) c1 = (Ok (), c2)" by blast
  have "HexToAddress u_lib (VerifiedNativeDexAddress ?d) = zero_address" by (simp add: nativedex_DefaultParams_def u_defaults)
  with 1 2 d show ?thesis
    by (simp add: ensureNativedexParams_eq params_or_defaults_def nativedex_GetParamsIfSet_def nativedex_ParamSetPairs_def bind_def Let_def panic_on_err_def)
qed

lemma u_ops: "ops_done u_env p cmd c c"
  by (simp add: ops_done_def CallEVM_def CallEVMWithData_def u_env_def c_env_def c_evm_def c_acct_def c_reply_def bind_def ext_def wrap_as_def)

lemma u_run: "\<exists>c'. u_handler 1 (c_ctx c_world) = (Ok (2, None), c')"
proof -
  let ?c = "c_ctx c_world :: ledger ctx"
  from u_ensure [of c_world] obtain c1 where 1: "ensureNativedexParams u_lib ?c = (Ok (), c1)" by blast
  from ensureNativedexParams_Ok [OF 1] obtain p where p: "nativedex_GetParams c1 = Ok p" and f: "prm c1 ''gasfree'' = Map.empty"
    using only_paramsD(3) [of "''nativedex''" ?c c1 "''gasfree''"] by auto
  have repair: "fixDexTemplate u_env c1 = (Ok (), c1)" "fixDexPool u_env a b 36000 c1 = (Ok (), c1)" for a b
    by (simp_all add: fixDexTemplate_Ok [OF p] fixDexPool_Ok [OF p] u_ops)
  have "initModuleAccount u_env u_ext ?c = (Ok (), ?c)"
    by (simp add: initModuleAccount_def u_env_def u_ext_def bind_def ext_def c_ctx_def)
  moreover have "libs u_env = u_lib" by (simp add: u_env_def)
  moreover have "\<exists>c'. updateGasfreeParams u_lib xs c1 = (Ok (), c')" for xs
    using f by (simp add: updateGasfreeParams_def GetGasFreeMessageTypes_def GetIfExists_def bind_def Let_def
        SetGasfreeErc20InteropFeeBasisPoints_def gasfree_keys)
  then obtain c2 where "updateGasfreeParams u_lib (upgrade_tokens u_lib) c1 = (Ok (), c2)" by blast
  ultimately show ?thesis
    using 1 repair by (simp add: u_handler_def GetCardinalUpgradeHandler_def bind_def Let_def upgrade_tokens_def) (simp add: u_ext_def)
qed

theorem cardinal_upgrade_exact_witness:
  "\<exists>c' p. u_handler 1 (c_ctx c_world) = (Ok (2, None), c') \<and> nativedex_GetParams c' = Ok p \<and>
     HexToAddress u_lib (VerifiedCrocPolicyAddress p) \<noteq> zero_address"
proof -
  have inv: "invariants_read u_ext" by (simp add: invariants_read_def u_ext_def)
  have L: "libs u_env = u_lib" by (simp add: u_env_def)
  from u_run obtain c' where "u_handler 1 (c_ctx c_world) = (Ok (2, None), c')" by blast
  with cardinal_upgrade_exact [OF inv u_known [folded L] u_handler_ok this] L show ?thesis by auto
qed

end
