(* ===== verification/GenesisCheck.thy ===== *)
theory GenesisCheck
  imports Lockup "HOL-Library.AList"
begin

text \<open>
  The checks of a genesis file that \<open>cmd/althea/validate_genesis.go\<close> adds to those of the SDK: the
  denomination of the mint module, the declarations of coins, the denomination of the EVM, and the
  signatures of the genesis transactions. Decoding JSON, the accounts and the verification of a
  signature are outside the repository. Also the check of the mint denomination when the chain
  starts (\<open>app/assert.go\<close>).
\<close>

section \<open>What is decoded\<close>

record bank_genesis =
  bg_DenomMetadata :: "metadata list"
  bg_Supply :: "coin list"

record signer_data =
  sd_ChainID :: string
  sd_AccountNumber :: u64
  sd_Sequence :: u64

text \<open>A genesis transaction: its fee, its signers, and its signatures, which may fail to be decoded.\<close>

record gentx =
  gt_Fee :: "coin list"
  gt_Signers :: "bytes list"
  gt_Signatures :: "(pubkey \<times> bytes) list result"
  gt_Body :: bytes

text \<open>
  The codec over raw JSON values \<open>'j\<close>, and the functions on accounts, keys and signatures. The text of
  the address of a key is the one of Tendermint, in hexadecimal.
\<close>

record 'j genesis_codec =
  unmarshal_mint_denom :: "'j \<Rightarrow> string result"
  unmarshal_bank :: "'j \<Rightarrow> bank_genesis result"
  unmarshal_evm_denom :: "'j \<Rightarrow> string result"
  unmarshal_auth :: "'j \<Rightarrow> 'j list result"
  UnpackAccounts :: "'j list \<Rightarrow> account list result"
  unmarshal_gentxs :: "'j \<Rightarrow> 'j list result"
  TxJSONDecoder :: "'j \<Rightarrow> gentx result"
  PubKey_Address_String :: "pubkey \<Rightarrow> string"
  VerifySignature :: "pubkey \<Rightarrow> signer_data \<Rightarrow> bytes \<Rightarrow> gentx \<Rightarrow> unit result"

section \<open>Checks\<close>

definition ValidateMintGenesis :: "'j genesis_codec \<Rightarrow> 'j \<Rightarrow> unit result" where
  "ValidateMintGenesis K genesis =
     andThen (err_as (Errorf ''failed to unmarshal'') (unmarshal_mint_denom K genesis)) (\<lambda>mintDenom.
     guard (mintDenom = BaseDenom) (Errorf ''the BaseDenom is not the MintDenom of the mint module''))"

text \<open>
  The loop over the units of a coin. It returns the smallest exponent with its unit, starting
  from the largest 32-bit number, and the largest with its unit, starting from zero.
\<close>

fun units_loop :: "denom_unit list \<Rightarrow> u32 \<Rightarrow> string \<Rightarrow> int \<Rightarrow> string \<Rightarrow> u32 \<times> string \<times> int \<times> string" where
  "units_loop [] minDecimals minDenom maxDecimals maxDenom = (minDecimals, minDenom, maxDecimals, maxDenom)"
| "units_loop (unit # units) minDecimals minDenom maxDecimals maxDenom =
     (let (maxDecimals', maxDenom') = (if word_of_int maxDecimals < du_Exponent unit then (uint (du_Exponent unit), du_Denom unit)
            else (maxDecimals, maxDenom));
          (minDecimals', minDenom') = (if du_Exponent unit < minDecimals then (du_Exponent unit, du_Denom unit)
            else (minDecimals, minDenom)) in
      units_loop units minDecimals' minDenom' maxDecimals' maxDenom')"

definition expectedMinDenomPrefix :: "int \<Rightarrow> string" where
  "expectedMinDenomPrefix maxDecimals =
     (if maxDecimals = 6 then ''u'' else if maxDecimals = 9 then ''n'' else if maxDecimals = 18 then ''a'' else [])"

definition check_metadata :: "metadata \<Rightarrow> unit result" where
  "check_metadata md =
     (let (minDecimals, minDenom, maxDecimals, maxDenom) = units_loop (md_DenomUnits md) (- 1) [] 0 [] in
      if md_Base md \<noteq> minDenom then Err (Errorf ''Invalid base denom'')
      else if minDenom \<noteq> expectedMinDenomPrefix maxDecimals @ maxDenom then Err (Errorf ''Invalid DenomUnits'')
      else if minDenom \<noteq> md_Base md then Err (Errorf ''Invalid DenomUnits'')
      else Ok ())"

fun check_all :: "('a \<Rightarrow> unit result) \<Rightarrow> 'a list \<Rightarrow> unit result" where
  "check_all f [] = Ok ()"
| "check_all f (x # xs) = andThen (f x) (\<lambda>_. check_all f xs)"

definition ValidateCoinDeclarations :: "'j genesis_codec \<Rightarrow> 'j \<Rightarrow> unit result" where
  "ValidateCoinDeclarations K genesis =
     andThen (err_as (Errorf ''failed to unmarshal'') (unmarshal_bank K genesis)) (\<lambda>data.
     check_all check_metadata (bg_DenomMetadata data))"

text \<open>The maps are association lists without duplicate keys.\<close>

definition CoinsToMap :: "coin list \<Rightarrow> (string \<times> coin) list" where
  "CoinsToMap coins = fold (\<lambda>c ret. AList.update (coin_denom c) c ret) coins []"

definition MetadatasToMap :: "metadata list \<Rightarrow> (string \<times> metadata) list" where
  "MetadatasToMap mds = fold (\<lambda>c ret. AList.update (md_Base c) c ret) mds []"

fun supplies_loop :: "(string \<times> coin) list \<Rightarrow> string \<Rightarrow> metadata list \<Rightarrow> bool \<Rightarrow> bool result" where
  "supplies_loop supplies evmDenom [] foundEvmDenom = Ok foundEvmDenom"
| "supplies_loop supplies evmDenom (md # mds) foundEvmDenom = (case map_of supplies (md_Base md) of
     None \<Rightarrow> Err (Errorf ''Could not find supply for token'')
   | Some supply \<Rightarrow> if \<not> 0 < coin_amount supply then Err (Errorf ''Found invalid supply for token'')
       else supplies_loop supplies evmDenom mds (if md_Base md = evmDenom then True else foundEvmDenom))"

definition ValidateEVMDenom :: "'j genesis_codec \<Rightarrow> 'j \<Rightarrow> 'j \<Rightarrow> unit result" where
  "ValidateEVMDenom K bankGenesis evmGenesis =
     andThen (err_as (Errorf ''failed to unmarshal'') (unmarshal_bank K bankGenesis)) (\<lambda>bankData.
     andThen (err_as (Errorf ''failed to unmarshal'') (unmarshal_evm_denom K evmGenesis)) (\<lambda>evmDenom.
     let bankMetadataMap = MetadatasToMap (bg_DenomMetadata bankData); bankSupplyMap = CoinsToMap (bg_Supply bankData) in
     andThen (supplies_loop bankSupplyMap evmDenom (bg_DenomMetadata bankData) False) (\<lambda>foundEvmDenom.
     andThen (check_all (\<lambda>k. guard (map_of bankMetadataMap k \<noteq> None) (Errorf ''Did not find metadata for token'')) (map fst bankSupplyMap)) (\<lambda>_.
     guard foundEvmDenom (Errorf ''The EVM denom was not found in the bank module genesis'')))))"

text \<open>A key that is not in the map of accounts has the zero values.\<close>

definition account_map :: "lib \<Rightarrow> account list \<Rightarrow> (string \<times> u64 \<times> u64) list" where
  "account_map L accounts = fold (\<lambda>acc m. AList.update (AccAddress_String L (acc_address acc)) (acc_number acc, acc_sequence acc) m) accounts []"

definition account_data :: "(string \<times> u64 \<times> u64) list \<Rightarrow> string \<Rightarrow> u64 \<times> u64" where
  "account_data accMap a = (case map_of accMap a of None \<Rightarrow> (0, 0) | Some d \<Rightarrow> d)"

definition check_gentx :: "'j genesis_codec \<Rightarrow> (string \<times> u64 \<times> u64) list \<Rightarrow> string \<Rightarrow> 'j \<Rightarrow> unit result" where
  "check_gentx K accMap chainId jsonRawTx =
     andThen (TxJSONDecoder K jsonRawTx) (\<lambda>genTx.
     if list_all (\<lambda>c. coin_amount c = 0) (gt_Fee genTx) then Err (Errorf ''fee is zero in genesis transaction'')
     else andThen (gt_Signatures genTx) (\<lambda>sigs.
     if length sigs \<noteq> length (gt_Signers genTx) then Err (Errorf ''wrong number of signatures'')
     else case sigs of
       [] \<Rightarrow> Panic ''index out of range''
     | (key, data) # rest \<Rightarrow>
         let (accountNumber, sequence) = account_data accMap (PubKey_Address_String K key) in
         VerifySignature K key \<lparr>sd_ChainID = chainId, sd_AccountNumber = accountNumber, sd_Sequence = sequence\<rparr> data genTx))"

definition ValidateGenesisTx :: "'j genesis_codec \<Rightarrow> lib \<Rightarrow> 'j \<Rightarrow> 'j \<Rightarrow> string \<Rightarrow> unit result" where
  "ValidateGenesisTx K L authGenesis genTx chainId =
     andThen (err_as (Errorf ''failed to unmarshal'') (unmarshal_auth K authGenesis)) (\<lambda>authData.
     andThen (err_as (Errorf ''failed to unmarshal'') (unmarshal_gentxs K genTx)) (\<lambda>genTxs.
     andThen (UnpackAccounts K authData) (\<lambda>accounts.
     check_all (check_gentx K (account_map L accounts) chainId) genTxs)))"

definition altheaValidateGenesis :: "'j genesis_codec \<Rightarrow> lib \<Rightarrow> (string \<Rightarrow> 'j) \<Rightarrow> string \<Rightarrow> unit result" where
  "altheaValidateGenesis K L genesis chainId =
     andThen (ValidateMintGenesis K (genesis ''mint'')) (\<lambda>_.
     let bankGenDoc = genesis ''bank''; authGenDoc = genesis ''auth''; evmGenDoc = genesis ''evm''; gentxGenDoc = genesis ''genutil'' in
     andThen (ValidateCoinDeclarations K bankGenDoc) (\<lambda>_.
     andThen (ValidateEVMDenom K bankGenDoc evmGenDoc) (\<lambda>_.
     ValidateGenesisTx K L authGenDoc gentxGenDoc chainId)))"

text \<open>
  The check at the first block: the application and the mint keeper, with the denomination of its
  parameters, are \<open>None\<close> when they are \<open>nil\<close>.
\<close>

definition assertBaseDenomMatchesConfig :: "string option option \<Rightarrow> unit result" where
  "assertBaseDenomMatchesConfig app = (case app of
     Some (Some mintDenom) \<Rightarrow>
       if BaseDenom = [] then Panic ''Unable to assert first BeginBlock configuration''
       else if mintDenom = [] then Panic ''The mint keeper does not have a valid MintDenom set!''
       else if BaseDenom \<noteq> mintDenom then Panic ''Mismatched mint module native token''
       else Ok ()
   | _ \<Rightarrow> Panic ''Unable to assert first BeginBlock configuration'')"

section \<open>Lemmas\<close>

lemma check_all_Ok [simp]: "check_all f xs = Ok () \<longleftrightarrow> list_all (\<lambda>x. f x = Ok ()) xs"
  by (induction xs) auto

text \<open>What the bank module demands of metadata: units in ascending order from exponent zero, with different names.\<close>

definition bank_valid :: "metadata \<Rightarrow> bool" where
  "bank_valid md \<longleftrightarrow> md_Base md \<noteq> [] \<and> distinct (map du_Denom (md_DenomUnits md)) \<and>
     (\<exists>u us. md_DenomUnits md = u # us \<and> du_Exponent u = 0 \<and> sorted_wrt (<) (map du_Exponent (u # us)))"

text \<open>The naming convention: the smallest unit is the biggest one with a prefix for 6, 9 or 18 decimals.\<close>

definition conventional :: "metadata \<Rightarrow> bool" where
  "conventional md \<longleftrightarrow> (\<exists>u us v. md_DenomUnits md = u # us @ [v] \<and> md_Base md = du_Denom u \<and>
     (du_Exponent v = 6 \<and> md_Base md = CHR ''u'' # du_Denom v \<or> du_Exponent v = 9 \<and> md_Base md = CHR ''n'' # du_Denom v \<or>
      du_Exponent v = 18 \<and> md_Base md = CHR ''a'' # du_Denom v))"

lemma units_loop_ascending:
  "sorted_wrt (<) (map du_Exponent us) \<Longrightarrow> list_all (\<lambda>u. m \<le> du_Exponent u \<and> e < du_Exponent u) us \<Longrightarrow>
     units_loop us m d (uint e) x = (m, d, if us = [] then (uint e, x) else (uint (du_Exponent (last us)), du_Denom (last us)))"
proof (induction us arbitrary: e x)
  case (Cons u us)
  have "list_all (\<lambda>v. m \<le> du_Exponent v \<and> du_Exponent u < du_Exponent v) us"
    using Cons.prems by (auto simp: list_all_iff)
  with Cons.IH [of "du_Exponent u" "du_Denom u"] Cons.prems show ?case by (auto simp: Let_def not_less)
qed simp

lemma uint32_cases: "(uint (e :: u32) = 6) = (e = 6)" "(uint e = 9) = (e = 9)" "(uint e = 18) = (e = 18)"
  by (auto simp: word_uint_eq_iff)

lemma check_metadata_iff:
  assumes "bank_valid md"
  shows "check_metadata md = Ok () \<longleftrightarrow> conventional md"
proof -
  from assms obtain u us where us: "md_DenomUnits md = u # us" "du_Exponent u = 0" "sorted_wrt (<) (map du_Exponent us)"
      "\<forall>v\<in>set us. 0 < du_Exponent v" and base: "md_Base md \<noteq> []" and dist: "du_Denom u \<notin> du_Denom ` set us"
    by (auto simp: bank_valid_def)
  have "units_loop (md_DenomUnits md) (- 1) [] 0 [] = units_loop us 0 (du_Denom u) (uint (0 :: u32)) []"
    using us by (simp add: word_gt_0)
  also have "\<dots> = (0, du_Denom u, if us = [] then (0, []) else (uint (du_Exponent (last us)), du_Denom (last us)))"
    using us units_loop_ascending [of us 0 0 "du_Denom u" "[]"] by (simp add: list_all_iff)
  finally have run: "units_loop (md_DenomUnits md) (- 1) [] 0 [] = \<dots>" .
  show ?thesis
  proof (cases us rule: rev_cases)
    case Nil
    with run base us show ?thesis by (auto simp: check_metadata_def conventional_def expectedMinDenomPrefix_def)
  next
    case (snoc ws v)
    with run base us dist show ?thesis
      by (auto simp: check_metadata_def conventional_def expectedMinDenomPrefix_def uint32_cases)
  qed
qed

lemma map_of_fold_update:
  "map_of (fold (\<lambda>x r. AList.update (f x) (g x) r) xs r) = fold (\<lambda>x m. m(f x \<mapsto> g x)) xs (map_of r)"
  by (induction xs arbitrary: r) (auto simp: update_conv')

lemma dom_fold_upd: "dom (fold (\<lambda>x m. m(f x \<mapsto> g x)) xs m) = dom m \<union> f ` set xs"
  by (induction xs arbitrary: m) auto

lemma fold_upd_other: "k \<notin> f ` set xs \<Longrightarrow> fold (\<lambda>x m. m(f x \<mapsto> g x)) xs m k = m k"
  by (induction xs arbitrary: m) auto

lemma fold_upd_lookup:
  "distinct (map f xs) \<Longrightarrow> x \<in> set xs \<Longrightarrow> fold (\<lambda>x m. m(f x \<mapsto> g x)) xs m (f x) = Some (g x)"
  by (induction xs arbitrary: m) (auto simp: fold_upd_other)

lemma CoinsToMap_keys: "fst ` set (CoinsToMap coins) = coin_denom ` set coins"
  using dom_map_of_conv_image_fst [of "CoinsToMap coins"] by (simp add: CoinsToMap_def map_of_fold_update dom_fold_upd)

lemma CoinsToMap_lookup:
  "distinct (map coin_denom coins) \<Longrightarrow> c \<in> set coins \<Longrightarrow> map_of (CoinsToMap coins) (coin_denom c) = Some c"
  using fold_upd_lookup [of coin_denom coins c "\<lambda>c. c"] by (simp add: CoinsToMap_def map_of_fold_update)

lemma CoinsToMap_none: "map_of (CoinsToMap coins) d = None \<longleftrightarrow> d \<notin> coin_denom ` set coins"
  by (simp add: map_of_eq_None_iff CoinsToMap_keys)

lemma MetadatasToMap_none: "map_of (MetadatasToMap mds) d = None \<longleftrightarrow> d \<notin> md_Base ` set mds"
proof -
  have "dom (map_of (MetadatasToMap mds)) = md_Base ` set mds"
    by (simp add: MetadatasToMap_def map_of_fold_update dom_fold_upd)
  then show ?thesis by blast
qed

lemma supplies_loop_Ok:
  "supplies_loop supplies evmDenom mds b = Ok b' \<longleftrightarrow>
     (\<forall>md\<in>set mds. \<exists>c. map_of supplies (md_Base md) = Some c \<and> 0 < coin_amount c) \<and> b' = (b \<or> evmDenom \<in> md_Base ` set mds)"
  by (induction mds arbitrary: b) (auto split: option.splits)

lemma CoinsToMap_Some:
  assumes "distinct (map coin_denom coins)"
  shows "map_of (CoinsToMap coins) d = Some c \<longleftrightarrow> c \<in> set coins \<and> coin_denom c = d"
proof
  assume some: "map_of (CoinsToMap coins) d = Some c"
  then have "d \<in> coin_denom ` set coins" using CoinsToMap_none [of coins d] by simp
  then obtain c' where c': "c' \<in> set coins" "d = coin_denom c'" by (rule imageE)
  from CoinsToMap_lookup [OF assms c'(1)] some c' show "c \<in> set coins \<and> coin_denom c = d" by simp
next
  assume "c \<in> set coins \<and> coin_denom c = d"
  with CoinsToMap_lookup [OF assms, of c] show "map_of (CoinsToMap coins) d = Some c" by simp
qed

lemma evm_denom_iff:
  assumes "distinct (map coin_denom coins)"
  shows "(\<forall>md\<in>set mds. \<exists>c. map_of (CoinsToMap coins) (md_Base md) = Some c \<and> 0 < coin_amount c) \<and>
      list_all (\<lambda>k. map_of (MetadatasToMap mds) k \<noteq> None) (map fst (CoinsToMap coins)) \<longleftrightarrow>
     md_Base ` set mds = coin_denom ` set coins \<and> (\<forall>c\<in>set coins. 0 < coin_amount c)" (is "?A \<and> ?B \<longleftrightarrow> _")
proof -
  have B: "?B \<longleftrightarrow> coin_denom ` set coins \<subseteq> md_Base ` set mds"
    by (simp add: list_all_iff MetadatasToMap_none CoinsToMap_keys image_subset_iff del: not_None_eq)
  have A: "?A \<longleftrightarrow> (\<forall>md\<in>set mds. \<exists>c\<in>set coins. coin_denom c = md_Base md \<and> 0 < coin_amount c)"
    unfolding CoinsToMap_Some [OF assms] by blast
  have inj: "inj_on coin_denom (set coins)" using assms by (simp add: distinct_map)
  show ?thesis
  proof
    assume "?A \<and> ?B"
    then have AB: "\<forall>md\<in>set mds. \<exists>c\<in>set coins. coin_denom c = md_Base md \<and> 0 < coin_amount c"
      "coin_denom ` set coins \<subseteq> md_Base ` set mds" unfolding A B by blast+
    have "md_Base ` set mds \<subseteq> coin_denom ` set coins" using AB(1) by force
    with AB(2) have sub: "md_Base ` set mds = coin_denom ` set coins" by blast
    have "0 < coin_amount c" if c: "c \<in> set coins" for c
    proof -
      from c sub have "coin_denom c \<in> md_Base ` set mds" by blast
      then obtain md where "md \<in> set mds" "md_Base md = coin_denom c" by auto
      with AB(1) obtain c' where "c' \<in> set coins" "coin_denom c' = coin_denom c" "0 < coin_amount c'" by force
      with inj_onD [OF inj, of c' c] c show ?thesis by simp
    qed
    with sub show "md_Base ` set mds = coin_denom ` set coins \<and> (\<forall>c\<in>set coins. 0 < coin_amount c)" by blast
  next
    assume "md_Base ` set mds = coin_denom ` set coins \<and> (\<forall>c\<in>set coins. 0 < coin_amount c)"
    then have eq: "md_Base ` set mds = coin_denom ` set coins" and pos: "\<forall>c\<in>set coins. 0 < coin_amount c" by blast+
    have "\<exists>c\<in>set coins. coin_denom c = md_Base md \<and> 0 < coin_amount c" if "md \<in> set mds" for md
    proof -
      from that eq have "md_Base md \<in> coin_denom ` set coins" by blast
      with pos show ?thesis by auto
    qed
    with eq show "?A \<and> ?B" unfolding A B by simp
  qed
qed

text \<open>A genesis transaction with a fee, one signature for each signer, and a first signature that verifies.\<close>

definition gentx_ok :: "'j genesis_codec \<Rightarrow> (string \<Rightarrow> u64 \<times> u64) \<Rightarrow> string \<Rightarrow> 'j \<Rightarrow> bool" where
  "gentx_ok K account_of chainId raw \<longleftrightarrow> (\<exists>t key data rest. TxJSONDecoder K raw = Ok t \<and> (\<exists>c\<in>set (gt_Fee t). coin_amount c \<noteq> 0) \<and>
     gt_Signatures t = Ok ((key, data) # rest) \<and> length (gt_Signers t) = Suc (length rest) \<and>
     VerifySignature K key \<lparr>sd_ChainID = chainId, sd_AccountNumber = fst (account_of (PubKey_Address_String K key)),
       sd_Sequence = snd (account_of (PubKey_Address_String K key))\<rparr> data t = Ok ())"

lemma check_gentx_iff: "check_gentx K m chainId raw = Ok () \<longleftrightarrow> gentx_ok K (account_data m) chainId raw"
proof (cases "TxJSONDecoder K raw")
  case (Ok t)
  then show ?thesis
    by (cases "gt_Signatures t")
      (auto simp: check_gentx_def gentx_ok_def list_all_iff case_prod_unfold Let_def split: list.splits)
qed (simp_all add: check_gentx_def gentx_ok_def)

text \<open>The account of an address among the accounts of the genesis, zero values for an unknown one.\<close>

definition genesis_account :: "lib \<Rightarrow> account list \<Rightarrow> string \<Rightarrow> u64 \<times> u64" where
  "genesis_account L accs a = (case filter (\<lambda>acc. AccAddress_String L (acc_address acc) = a) accs of
     [] \<Rightarrow> (0, 0) | acc # _ \<Rightarrow> (acc_number acc, acc_sequence acc))"

lemma account_data_map:
  assumes "distinct (map (\<lambda>acc. AccAddress_String L (acc_address acc)) accs)"
  shows "account_data (account_map L accs) a = genesis_account L accs a"
proof (cases "filter (\<lambda>acc. AccAddress_String L (acc_address acc) = a) accs")
  case Nil
  then have "a \<notin> (\<lambda>acc. AccAddress_String L (acc_address acc)) ` set accs" by (auto simp: filter_empty_conv)
  from fold_upd_other [OF this, of "\<lambda>acc. (acc_number acc, acc_sequence acc)" Map.empty] Nil show ?thesis by (simp add: account_data_def account_map_def map_of_fold_update genesis_account_def)
next
  case (Cons acc rest)
  then have acc: "acc \<in> set accs" "AccAddress_String L (acc_address acc) = a" by (auto simp: filter_eq_Cons_iff)
  from fold_upd_lookup [OF assms acc(1), of "\<lambda>acc. (acc_number acc, acc_sequence acc)" Map.empty] Cons acc(2) show ?thesis
    by (simp add: account_data_def account_map_def map_of_fold_update genesis_account_def)
qed

section \<open>Properties\<close>

text \<open>
  C39: A genesis whose metadata, supply and accounts are valid for the bank and auth modules passes the
  additional checks of the repository exactly if the mint module mints the base denomination; every
  coin follows the naming convention of units; the supplies are positive and are the supplies of
  the declared coins, neither more nor less; the denomination of the EVM is among them; and every
  genesis transaction pays a fee, has one signature for each signer, and a first signature that
  verifies for the account that the address of its key stands for.
\<close>

theorem altheaValidateGenesis_exact:
  assumes dec: "unmarshal_mint_denom K (g ''mint'') = Ok mint" "unmarshal_bank K (g ''bank'') = Ok bnk" "unmarshal_evm_denom K (g ''evm'') = Ok ed"
      "unmarshal_auth K (g ''auth'') = Ok anys" "UnpackAccounts K anys = Ok accs" "unmarshal_gentxs K (g ''genutil'') = Ok txs"
    and valid: "list_all bank_valid (bg_DenomMetadata bnk)" "distinct (map coin_denom (bg_Supply bnk))"
      "distinct (map (\<lambda>acc. AccAddress_String L (acc_address acc)) accs)"
  shows "altheaValidateGenesis K L g chainId = Ok () \<longleftrightarrow>
     mint = ''aalthea'' \<and> list_all conventional (bg_DenomMetadata bnk) \<and>
     md_Base ` set (bg_DenomMetadata bnk) = coin_denom ` set (bg_Supply bnk) \<and> (\<forall>c\<in>set (bg_Supply bnk). 0 < coin_amount c) \<and>
     ed \<in> coin_denom ` set (bg_Supply bnk) \<and> list_all (gentx_ok K (genesis_account L accs) chainId) txs"
proof -
  have 1: "ValidateMintGenesis K (g ''mint'') = Ok () \<longleftrightarrow> mint = ''aalthea''"
    by (simp add: ValidateMintGenesis_def dec BaseDenom_def)
  have 2: "ValidateCoinDeclarations K (g ''bank'') = Ok () \<longleftrightarrow> list_all conventional (bg_DenomMetadata bnk)"
    using valid(1) by (auto simp: ValidateCoinDeclarations_def dec list_all_iff check_metadata_iff)
  have 3: "ValidateEVMDenom K (g ''bank'') (g ''evm'') = Ok () \<longleftrightarrow> md_Base ` set (bg_DenomMetadata bnk) = coin_denom ` set (bg_Supply bnk) \<and>
      (\<forall>c\<in>set (bg_Supply bnk). 0 < coin_amount c) \<and> ed \<in> coin_denom ` set (bg_Supply bnk)"
  proof -
    have "ValidateEVMDenom K (g ''bank'') (g ''evm'') = Ok () \<longleftrightarrow>
       ((\<forall>md\<in>set (bg_DenomMetadata bnk). \<exists>c. map_of (CoinsToMap (bg_Supply bnk)) (md_Base md) = Some c \<and> 0 < coin_amount c) \<and>
        list_all (\<lambda>k. map_of (MetadatasToMap (bg_DenomMetadata bnk)) k \<noteq> None) (map fst (CoinsToMap (bg_Supply bnk)))) \<and>
       ed \<in> md_Base ` set (bg_DenomMetadata bnk)"
      by (simp add: ValidateEVMDenom_def dec supplies_loop_Ok Let_def)
    then show ?thesis unfolding evm_denom_iff [OF valid(2)] by metis
  qed
  have "account_data (account_map L accs) = genesis_account L accs"
    using account_data_map [OF valid(3)] by blast
  then have 4: "ValidateGenesisTx K L (g ''auth'') (g ''genutil'') chainId = Ok () \<longleftrightarrow> list_all (gentx_ok K (genesis_account L accs) chainId) txs"
    by (simp add: ValidateGenesisTx_def dec check_gentx_iff)
  show ?thesis by (simp add: altheaValidateGenesis_def Let_def 1 2 3 4 conj_assoc)
qed

definition c_althea :: metadata where
  "c_althea = \<lparr>md_Description = [], md_DenomUnits = [\<lparr>du_Denom = ''aalthea'', du_Exponent = 0, du_Aliases = []\<rparr>,
     \<lparr>du_Denom = ''althea'', du_Exponent = 18, du_Aliases = []\<rparr>], md_Base = ''aalthea'', md_Display = ''althea'', md_Name = [], md_Symbol = []\<rparr>"

text \<open>A JSON value is the text of the module's genesis; keys verify everything but account number zero.\<close>

definition c_codec :: "string genesis_codec" where
  "c_codec = \<lparr>unmarshal_mint_denom = Ok, unmarshal_bank = (\<lambda>j. Ok \<lparr>bg_DenomMetadata = [c_althea], bg_Supply = [\<lparr>coin_denom = j, coin_amount = 5\<rparr>]\<rparr>),
     unmarshal_evm_denom = Ok, unmarshal_auth = (\<lambda>j. Ok [j]),
     UnpackAccounts = (\<lambda>js. Ok (map (\<lambda>j. \<lparr>acc_kind = BaseAccount, acc_address = j, acc_pubkey = None, acc_number = 7, acc_sequence = 0\<rparr>) js)),
     unmarshal_gentxs = (\<lambda>j. Ok [j]),
     TxJSONDecoder = (\<lambda>j. Ok \<lparr>gt_Fee = [\<lparr>coin_denom = ''aalthea'', coin_amount = 1\<rparr>], gt_Signers = [j], gt_Signatures = Ok [(PubKey ''eth_secp256k1'' j, ''sig'')], gt_Body = j\<rparr>),
     PubKey_Address_String = (\<lambda>k. pk_bytes k),
     VerifySignature = (\<lambda>k sd b t. if sd_AccountNumber sd = 7 then Ok () else Err ErrUnauthorized)\<rparr>"

definition c_account :: account where
  "c_account = \<lparr>acc_kind = BaseAccount, acc_address = ''alice'', acc_pubkey = None, acc_number = 7, acc_sequence = 0\<rparr>"

definition c_genesis_file :: "string \<Rightarrow> string \<Rightarrow> string" where
  "c_genesis_file signer m = (if m = ''auth'' then ''alice'' else if m = ''genutil'' then signer else ''aalthea'')"

lemma c_gentx: "gentx_ok c_codec (genesis_account c_lib [c_account]) chainId signer \<longleftrightarrow> signer = ''alice''"
  by (auto simp: gentx_ok_def c_codec_def genesis_account_def c_account_def c_lib_def)

theorem altheaValidateGenesis_exact_witness:
  "altheaValidateGenesis c_codec c_lib (c_genesis_file ''alice'') ''althea_7357-1'' = Ok () \<and>
   altheaValidateGenesis c_codec c_lib (c_genesis_file ''bob'') ''althea_7357-1'' \<noteq> Ok ()"
proof -
  let ?b = "\<lparr>bg_DenomMetadata = [c_althea], bg_Supply = [\<lparr>coin_denom = ''aalthea'', coin_amount = 5\<rparr>]\<rparr>"
  have base: "md_Base c_althea = ''aalthea''" and valid: "bank_valid c_althea" and conv: "conventional c_althea"
    by (simp_all add: c_althea_def bank_valid_def conventional_def)
  have "altheaValidateGenesis c_codec c_lib (c_genesis_file s) ''althea_7357-1'' = Ok () \<longleftrightarrow> s = ''alice''" for s
    using altheaValidateGenesis_exact [of c_codec "c_genesis_file s" "''aalthea''" ?b "''aalthea''" "[''alice'']" "[c_account]" "[s]" c_lib "''althea_7357-1''"]
    by (simp add: c_gentx base valid conv) (simp add: c_codec_def c_genesis_file_def c_account_def)
  then show ?thesis by simp
qed

section \<open>Shortcomings\<close>

text \<open>
  The accounts are looked up by the hexadecimal text of a key's address, but are entered under the
  Bech32 text of the account: when the two kinds of text differ, the signature is checked with account
  number and sequence zero, whatever the genesis says.
\<close>

lemma gentx_account_never_found:
  assumes "\<And>b. AccAddress_String L b \<noteq> PubKey_Address_String K key"
  shows "genesis_account L accs (PubKey_Address_String K key) = (0, 0)"
proof -
  have "filter (\<lambda>acc. AccAddress_String L (acc_address acc) = PubKey_Address_String K key) accs = []"
    using assms by (simp add: filter_empty_conv)
  then show ?thesis by (simp add: genesis_account_def)
qed

text \<open>A coin with a single unit never passes.\<close>

lemma single_unit_refused: "md_DenomUnits md = [u] \<Longrightarrow> bank_valid md \<Longrightarrow> check_metadata md \<noteq> Ok ()"
  by (simp add: check_metadata_iff conventional_def)

end
