(* ===== verification/KeyReplacement.thy ===== *)
theory KeyReplacement
  imports Concrete
begin

text \<open>
  The replacement of the consensus keys of validators in an exported genesis
  (\<open>app/pubkey_replacement.go\<close>). Reading and writing JSON is left out: the model starts from the
  decoded list of replacements and the decoded genesis, and gives the changed genesis. Keys,
  addresses and Bech32 are outside the repository. \<open>log.Fatal\<close> ends the program, like a panic.
\<close>

section \<open>The genesis\<close>

record replacementConfig =
  Name :: string
  rc_ValidatorAddress :: string
  rc_ConsensusPubkey :: string

record validator =
  OperatorAddress :: string
  ConsensusPubkey :: pubkey

text \<open>A signing info holds its address twice; the other fields are not touched.\<close>

record signing_info =
  si_Address :: string
  si_InfoAddress :: string

record missed_blocks =
  mb_Address :: string
  mb_Blocks :: bytes

record tm_validator =
  tm_Address :: bytes
  tm_PubKey :: pubkey

record key_genesis =
  Validators :: "validator list"
  SigningInfos :: "signing_info list"
  MissedBlocks :: "missed_blocks list"
  tm_Validators :: "tm_validator list"

record keylib =
  GetConsAddr :: "pubkey \<Rightarrow> bytes result"
  ConsAddress_String :: "bytes \<Rightarrow> string"
  tm_Address_String :: "bytes \<Rightarrow> string"
  ConsPubFromBech32 :: "string \<Rightarrow> bytes result"
  PubKeyFromBytes :: "bytes \<Rightarrow> pubkey result"
  TmConsPublicKey :: "pubkey \<Rightarrow> bytes result"
  PubKeyFromProto :: "bytes \<Rightarrow> pubkey result"

section \<open>Replacement\<close>

fun isReplacedValidator :: "replacementConfig list \<Rightarrow> string \<Rightarrow> replacementConfig option" where
  "isReplacedValidator [] validatorAddress = None"
| "isReplacedValidator (replacement # rest) validatorAddress =
     (if rc_ValidatorAddress replacement = validatorAddress then Some replacement else isReplacedValidator rest validatorAddress)"

definition fatal :: "'a result \<Rightarrow> 'a result" where
  "fatal r = (case r of Err e \<Rightarrow> Panic ''fatal'' | x \<Rightarrow> x)"

definition replace_info :: "string \<Rightarrow> string \<Rightarrow> signing_info \<Rightarrow> signing_info" where
  "replace_info old new signingInfo =
     (if si_Address signingInfo = old then signingInfo\<lparr>si_Address := new, si_InfoAddress := new\<rparr> else signingInfo)"

definition replace_missed :: "string \<Rightarrow> string \<Rightarrow> missed_blocks \<Rightarrow> missed_blocks" where
  "replace_missed old new missedInfo = (if mb_Address missedInfo = old then missedInfo\<lparr>mb_Address := new\<rparr> else missedInfo)"

definition replace_tm :: "keylib \<Rightarrow> bytes \<Rightarrow> pubkey \<Rightarrow> tm_validator \<Rightarrow> tm_validator" where
  "replace_tm K newAddr newKey tmval =
     (if tm_Address_String K (tm_Address tmval) = ConsAddress_String K newAddr
      then tmval\<lparr>tm_Address := newAddr, tm_PubKey := newKey\<rparr> else tmval)"

text \<open>The body of the loop for the validator at an index.\<close>

definition replace_validator :: "keylib \<Rightarrow> replacementConfig list \<Rightarrow> nat \<Rightarrow> validator \<Rightarrow> key_genesis \<Rightarrow> key_genesis result" where
  "replace_validator K replacementKeys i val g = (case isReplacedValidator replacementKeys (OperatorAddress val) of
     None \<Rightarrow> Ok g
   | Some replacement \<Rightarrow>
       andThen (fatal (GetConsAddr K (ConsensusPubkey val))) (\<lambda>toReplaceValConsAddress.
       andThen (fatal (ConsPubFromBech32 K (rc_ConsensusPubkey replacement))) (\<lambda>consPubKeyBz.
       andThen (fatal (PubKeyFromBytes K consPubKeyBz)) (\<lambda>consPubKey.
       let val' = val\<lparr>ConsensusPubkey := consPubKey\<rparr> in
       andThen (fatal (GetConsAddr K (ConsensusPubkey val'))) (\<lambda>replaceValConsAddress.
       andThen (fatal (TmConsPublicKey K (ConsensusPubkey val'))) (\<lambda>protoReplaceValConsPubKey.
       andThen (fatal (PubKeyFromProto K protoReplaceValConsPubKey)) (\<lambda>replaceValConsPubKey.
       let old = ConsAddress_String K toReplaceValConsAddress; new = ConsAddress_String K replaceValConsAddress in
       Ok (g\<lparr>SigningInfos := map (replace_info old new) (SigningInfos g),
             MissedBlocks := map (replace_missed old new) (MissedBlocks g),
             tm_Validators := map (replace_tm K replaceValConsAddress replaceValConsPubKey) (tm_Validators g),
             Validators := (Validators g)[i := val']\<rparr>))))))))"

text \<open>The range over the validators evaluates the slice once; the body changes only the element it is at.\<close>

fun replace_loop :: "keylib \<Rightarrow> replacementConfig list \<Rightarrow> nat \<Rightarrow> validator list \<Rightarrow> key_genesis \<Rightarrow> key_genesis result" where
  "replace_loop K replacementKeys i [] g = Ok g"
| "replace_loop K replacementKeys i (val # vals) g =
     andThen (replace_validator K replacementKeys i val g) (replace_loop K replacementKeys (i + 1) vals)"

definition loadKeydataFromFile :: "keylib \<Rightarrow> replacementConfig list \<Rightarrow> key_genesis \<Rightarrow> key_genesis result" where
  "loadKeydataFromFile K replacementKeys g = replace_loop K replacementKeys 0 (Validators g) g"

section \<open>What it replaces\<close>

text \<open>The new key of a validator, or its own, and the text of the consensus address of a key.\<close>

definition new_key :: "keylib \<Rightarrow> replacementConfig list \<Rightarrow> validator \<Rightarrow> pubkey" where
  "new_key K rs v = (case isReplacedValidator rs (OperatorAddress v) of None \<Rightarrow> ConsensusPubkey v
     | Some r \<Rightarrow> (case ConsPubFromBech32 K (rc_ConsensusPubkey r) of Ok bz \<Rightarrow>
         (case PubKeyFromBytes K bz of Ok k \<Rightarrow> k | _ \<Rightarrow> ConsensusPubkey v) | _ \<Rightarrow> ConsensusPubkey v))"

definition cons_text :: "keylib \<Rightarrow> pubkey \<Rightarrow> string" where
  "cons_text K k = (case GetConsAddr K k of Ok a \<Rightarrow> ConsAddress_String K a | _ \<Rightarrow> [])"

lemma fatal_Ok [simp]: "fatal r = Ok x \<longleftrightarrow> r = Ok x"
  by (cases r) (auto simp: fatal_def)

lemma replace_validator_Ok:
  assumes "replace_validator K rs i v g = Ok g'"
  shows "Validators g' = (if isReplacedValidator rs (OperatorAddress v) = None then Validators g
       else (Validators g)[i := v\<lparr>ConsensusPubkey := new_key K rs v\<rparr>])"
    "isReplacedValidator rs (OperatorAddress v) = None \<Longrightarrow> g' = g"
    "isReplacedValidator rs (OperatorAddress v) \<noteq> None \<Longrightarrow>
       MissedBlocks g' = map (replace_missed (cons_text K (ConsensusPubkey v)) (cons_text K (new_key K rs v))) (MissedBlocks g) \<and>
       SigningInfos g' = map (replace_info (cons_text K (ConsensusPubkey v)) (cons_text K (new_key K rs v))) (SigningInfos g)"
  using assms by (auto simp: replace_validator_def new_key_def cons_text_def Let_def split: option.splits)

text \<open>The text of the address that takes the place of a text, if a replaced validator has that address.\<close>

definition renamed :: "keylib \<Rightarrow> replacementConfig list \<Rightarrow> validator list \<Rightarrow> string \<Rightarrow> string option" where
  "renamed K rs vals t = map_option (\<lambda>v. cons_text K (new_key K rs v))
     (find (\<lambda>v. isReplacedValidator rs (OperatorAddress v) \<noteq> None \<and> cons_text K (ConsensusPubkey v) = t) vals)"

definition info_renamed :: "keylib \<Rightarrow> replacementConfig list \<Rightarrow> validator list \<Rightarrow> signing_info \<Rightarrow> signing_info" where
  "info_renamed K rs vals s = (case renamed K rs vals (si_Address s) of None \<Rightarrow> s | Some t \<Rightarrow> s\<lparr>si_Address := t, si_InfoAddress := t\<rparr>)"

definition missed_renamed :: "keylib \<Rightarrow> replacementConfig list \<Rightarrow> validator list \<Rightarrow> missed_blocks \<Rightarrow> missed_blocks" where
  "missed_renamed K rs vals m = (case renamed K rs vals (mb_Address m) of None \<Rightarrow> m | Some t \<Rightarrow> m\<lparr>mb_Address := t\<rparr>)"

text \<open>No new address is the old address of a validator that is replaced too.\<close>

definition fresh_keys :: "keylib \<Rightarrow> replacementConfig list \<Rightarrow> validator list \<Rightarrow> bool" where
  "fresh_keys K rs vals \<longleftrightarrow> (\<forall>v\<in>set vals. \<forall>w\<in>set vals. isReplacedValidator rs (OperatorAddress v) \<noteq> None \<and>
     isReplacedValidator rs (OperatorAddress w) \<noteq> None \<longrightarrow> cons_text K (new_key K rs v) \<noteq> cons_text K (ConsensusPubkey w))"

lemma renamed_Cons:
  "isReplacedValidator rs (OperatorAddress v) = None \<Longrightarrow> renamed K rs (v # vals) = renamed K rs vals"
  "isReplacedValidator rs (OperatorAddress v) \<noteq> None \<Longrightarrow> renamed K rs (v # vals) t =
     (if t = cons_text K (ConsensusPubkey v) then Some (cons_text K (new_key K rs v)) else renamed K rs vals t)"
  by (auto simp: renamed_def)

lemma renamed_fresh:
  assumes "fresh_keys K rs (v # vals)" "isReplacedValidator rs (OperatorAddress v) \<noteq> None"
  shows "renamed K rs vals (cons_text K (new_key K rs v)) = None"
  using assms by (auto simp: renamed_def fresh_keys_def find_None_iff)

lemma renamed_step:
  assumes "fresh_keys K rs (v # vals)" "isReplacedValidator rs (OperatorAddress v) \<noteq> None"
  shows "missed_renamed K rs vals (replace_missed (cons_text K (ConsensusPubkey v)) (cons_text K (new_key K rs v)) m) = missed_renamed K rs (v # vals) m"
    "info_renamed K rs vals (replace_info (cons_text K (ConsensusPubkey v)) (cons_text K (new_key K rs v)) x) = info_renamed K rs (v # vals) x"
  using renamed_fresh [OF assms]
  by (simp_all add: missed_renamed_def info_renamed_def replace_missed_def replace_info_def renamed_Cons(2) [OF assms(2)])

lemma new_key_same: "isReplacedValidator rs (OperatorAddress v) = None \<Longrightarrow> v\<lparr>ConsensusPubkey := new_key K rs v\<rparr> = v"
  by (simp add: new_key_def)

lemma replace_loop_Ok:
  assumes "replace_loop K rs i vals g = Ok g'" and "fresh_keys K rs vals" and "drop i (Validators g) = vals"
  shows "Validators g' = take i (Validators g) @ map (\<lambda>v. v\<lparr>ConsensusPubkey := new_key K rs v\<rparr>) vals \<and>
     SigningInfos g' = map (info_renamed K rs vals) (SigningInfos g) \<and> MissedBlocks g' = map (missed_renamed K rs vals) (MissedBlocks g)"
  using assms
proof (induction vals arbitrary: i g)
  case Nil
  then show ?case by (auto simp: info_renamed_def [abs_def] missed_renamed_def [abs_def] renamed_def)
next
  case (Cons v vals)
  from Cons.prems(1) obtain g1 where 1: "replace_validator K rs i v g = Ok g1" and 2: "replace_loop K rs (i + 1) vals g1 = Ok g'" by auto
  have fresh: "fresh_keys K rs vals" using Cons.prems(2) by (auto simp: fresh_keys_def)
  have i: "i < length (Validators g)" "Validators g ! i = v" "drop (Suc i) (Validators g) = vals"
    using Cons.prems(3) by (auto simp: nth_via_drop drop_Suc simp flip: drop_tl) (metis drop_all list.distinct(1) not_le, metis drop_Suc list.sel(3) tl_drop)
  note r = replace_validator_Ok [OF 1]
  have v1: "Validators g1 = (Validators g)[i := v\<lparr>ConsensusPubkey := new_key K rs v\<rparr>]"
    using r(1) new_key_same [of rs v K] i by (auto simp: list_update_same_conv)
  then have d1: "drop (i + 1) (Validators g1) = vals" "take (i + 1) (Validators g1) = take i (Validators g) @ [v\<lparr>ConsensusPubkey := new_key K rs v\<rparr>]"
    using i by (simp_all add: take_Suc_conv_app_nth)
  note ih = Cons.IH [OF 2 fresh d1(1), unfolded d1(2)]
  show ?case
  proof (cases "isReplacedValidator rs (OperatorAddress v) = None")
    case True
    with r(2) ih show ?thesis by (simp add: info_renamed_def [abs_def] missed_renamed_def [abs_def] renamed_Cons(1))
  next
    case False
    with r(3) ih renamed_step [OF Cons.prems(2)] show ?thesis by simp
  qed
qed

section \<open>Properties\<close>


definition c_keylib :: keylib where
  "c_keylib = \<lparr>GetConsAddr = (\<lambda>k. Ok (pk_bytes k)), ConsAddress_String = (\<lambda>b. ''cons:'' @ b), tm_Address_String = (\<lambda>b. b),
     ConsPubFromBech32 = Ok, PubKeyFromBytes = (\<lambda>b. if b = [] then Err ErrInvalidPubKey else Ok (PubKey ''ed25519'' b)),
     TmConsPublicKey = (\<lambda>k. Ok (pk_bytes k)), PubKeyFromProto = (\<lambda>b. Ok (PubKey ''tm'' b))\<rparr>"

definition c_key_genesis :: key_genesis where
  "c_key_genesis = \<lparr>Validators = [\<lparr>OperatorAddress = ''v1'', ConsensusPubkey = PubKey ''ed25519'' ''k1''\<rparr>,
       \<lparr>OperatorAddress = ''v2'', ConsensusPubkey = PubKey ''ed25519'' ''k2''\<rparr>],
     SigningInfos = [\<lparr>si_Address = ''cons:k1'', si_InfoAddress = ''cons:k1''\<rparr>, \<lparr>si_Address = ''cons:k2'', si_InfoAddress = ''cons:k2''\<rparr>],
     MissedBlocks = [\<lparr>mb_Address = ''cons:k2'', mb_Blocks = ''x''\<rparr>],
     tm_Validators = [\<lparr>tm_Address = ''k1'', tm_PubKey = PubKey ''tm'' ''k1''\<rparr>, \<lparr>tm_Address = ''k2'', tm_PubKey = PubKey ''tm'' ''k2''\<rparr>]\<rparr>"

definition c_replacements :: "replacementConfig list" where
  "c_replacements = [\<lparr>Name = ''two'', rc_ValidatorAddress = ''v2'', rc_ConsensusPubkey = ''k9''\<rparr>]"


section \<open>Shortcomings\<close>

text \<open>
  The validators of the consensus engine are found by comparing the hexadecimal text of their address
  with the Bech32 text of the new consensus address, instead of the address of the old key: as no
  hexadecimal text is a Bech32 text, none of them is ever replaced.
\<close>

lemma tm_validators_not_replaced:
  assumes "\<And>t. t \<in> set (tm_Validators g) \<Longrightarrow> tm_Address_String K (tm_Address t) \<notin> range (ConsAddress_String K)"
    and "loadKeydataFromFile K rs g = Ok g'"
  shows "tm_Validators g' = tm_Validators g"
proof -
  have same: "replace_tm K a k t = t" if "t \<in> set (tm_Validators g)" for a k t
    using assms(1) [OF that] by (auto simp: replace_tm_def)
  have step: "tm_Validators g1 = tm_Validators g" if "replace_validator K rs i v g0 = Ok g1" "tm_Validators g0 = tm_Validators g" for i v g0 g1
    using that by (auto simp: replace_validator_def Let_def same split: option.splits intro!: map_idI)
  have "replace_loop K rs i vals g0 = Ok g1 \<Longrightarrow> tm_Validators g0 = tm_Validators g \<Longrightarrow> tm_Validators g1 = tm_Validators g" for i vals g0 g1
    by (induction vals arbitrary: i g0) (auto dest: step)
  with assms(2) show ?thesis by (auto simp: loadKeydataFromFile_def)
qed

end
